(* ===== verification/GoErrors.thy ===== *)
theory GoErrors
  imports Prelude
begin

text \<open>
  Go's \<^verbatim>\<open>error\<close> values as the program builds and inspects them
  (\<^verbatim>\<open>errors.New\<close>, \<^verbatim>\<open>fmt.Errorf\<close> with and without \<^verbatim>\<open>%w\<close>, \<^verbatim>\<open>errors.Is\<close>, \<^verbatim>\<open>errors.As\<close>), and the
  readers and writers through which bytes reach the network (\<^verbatim>\<open>io.Reader\<close>, \<^verbatim>\<open>io.Writer\<close>,
  \<^verbatim>\<open>io.ReadFull\<close>).
\<close>

subsection \<open>Error values\<close>

text \<open>
  A sentinel is a package-level error variable, compared by identity. The ones the program
  declares and the ones of the standard library it tests for:
\<close>

datatype sentinel =
    ErrFrameTooLarge            \<comment> \<open>internal/protocol/frame.go\<close>
  | ErrBadRequest | ErrUnauthorized | ErrNotFound | ErrPayloadTooLarge | ErrUnsupportedType
                                \<comment> \<open>internal/service/errors.go\<close>
  | MysqlErrNotFound            \<comment> \<open>internal/store/mysqlstore/store.go\<close>
  | RedisErrMissing             \<comment> \<open>internal/store/redisstore/session.go\<close>
  | EOF | UnexpectedEOF | NetErrClosed | OsErrNotExist | SqlErrNoRows | ContextCanceled

text \<open>
  \<open>Errorf\<close> is a fresh error that matches no sentinel, \<open>Wrapped\<close> an error made with \<^verbatim>\<open>%w\<close>,
  \<open>AppErr\<close> the service's \<^verbatim>\<open>*AppError\<close> (code, message and the wrapped error, which may be nil),
  \<open>RemoteErr\<close> the gateway's \<^verbatim>\<open>*RemoteError\<close>. \<open>Panic\<close> is not an error value of the program but a panic
  on its way up: it takes the place of a result and no code of the program can inspect it.
\<close>

datatype go_error =
    Errorf string
  | Sentinel sentinel
  | Wrapped string go_error
  | AppErr string string "go_error option"
  | RemoteErr string string
  | Panic string

type_synonym 'a result = "go_error + 'a"

text \<open>\<^verbatim>\<open>errors.Is(err, target)\<close> walks the chain of \<^verbatim>\<open>Unwrap\<close>s.\<close>

fun errors_Is :: "go_error \<Rightarrow> sentinel \<Rightarrow> bool" where
  "errors_Is (Errorf m) t = False"
| "errors_Is (Sentinel s) t = (s = t)"
| "errors_Is (Wrapped m e) t = errors_Is e t"
| "errors_Is (AppErr c m None) t = False"
| "errors_Is (AppErr c m (Some e)) t = errors_Is e t"
| "errors_Is (RemoteErr c m) t = False"
| "errors_Is (Panic m) t = False"

subsection \<open>Readers\<close>

text \<open>
  A reader delivers the bytes of its buffer and then fails with \<open>rd_end\<close>: \<^verbatim>\<open>io.EOF\<close> when the
  peer closed the connection in order, another error when a deadline passed or the
  connection broke.
\<close>

record reader =
  rd_buf :: bytes
  rd_end :: go_error

text \<open>
  \<^verbatim>\<open>io.ReadFull(r, buf)\<close> for a buffer of \<open>n\<close> bytes: an \<^verbatim>\<open>EOF\<close> after some but not all of the
  bytes is reported as \<^verbatim>\<open>io.ErrUnexpectedEOF\<close>, and what was read is consumed.
\<close>

definition ReadFull :: "nat \<Rightarrow> reader \<Rightarrow> bytes result \<times> reader" where
  "ReadFull n r =
     (if n \<le> length (rd_buf r)
      then (Inr (take n (rd_buf r)), r\<lparr>rd_buf := drop n (rd_buf r)\<rparr>)
      else (Inl (if rd_buf r \<noteq> [] \<and> rd_end r = Sentinel EOF then Sentinel UnexpectedEOF
                 else rd_end r),
            r\<lparr>rd_buf := []\<rparr>))"

lemma ReadFull_append [simp]:
  "n = length xs \<Longrightarrow> ReadFull n (r\<lparr>rd_buf := xs @ ys\<rparr>) = (Inr xs, r\<lparr>rd_buf := ys\<rparr>)"
  by (simp add: ReadFull_def)

lemma ReadFull_Inr:
  "ReadFull n r = (Inr xs, r') \<longleftrightarrow>
     n \<le> length (rd_buf r) \<and> xs = take n (rd_buf r) \<and> r' = r\<lparr>rd_buf := drop n (rd_buf r)\<rparr>"
  by (auto simp: ReadFull_def)

subsection \<open>Writers\<close>

text \<open>
  A writer keeps what it has delivered. \<open>wr_room\<close> is the number of bytes it will still take
  before it fails with \<open>wr_err\<close>, \<^const>\<open>None\<close> for a writer that never fails.
\<close>

record writer =
  wr_out :: bytes
  wr_room :: "nat option"
  wr_err :: go_error

definition Write :: "bytes \<Rightarrow> writer \<Rightarrow> go_error option \<times> writer" where
  "Write p w =
     (case wr_room w of
        None \<Rightarrow> (None, w\<lparr>wr_out := wr_out w @ p\<rparr>)
      | Some k \<Rightarrow>
          if length p \<le> k
          then (None, w\<lparr>wr_out := wr_out w @ p, wr_room := Some (k - length p)\<rparr>)
          else (Some (wr_err w), w\<lparr>wr_out := wr_out w @ take k p, wr_room := Some 0\<rparr>))"

lemma Write_None: "Write p w = (None, w') \<Longrightarrow> wr_out w' = wr_out w @ p"
  by (auto simp: Write_def split: option.splits if_splits)

lemma Write_prefix: "Write p w = (e, w') \<Longrightarrow> \<exists>q. prefix q p \<and> wr_out w' = wr_out w @ q"
  by (auto simp: Write_def take_is_prefix split: option.splits if_splits)

lemma Write_err: "Write p w = (e, w') \<Longrightarrow> wr_err w' = wr_err w"
  by (auto simp: Write_def split: option.splits if_splits)

lemma Write_unbounded:
  "wr_room w = None \<Longrightarrow> Write p w = (None, w\<lparr>wr_out := wr_out w @ p\<rparr>)"
  by (simp add: Write_def)

end
