(* ===== verification/GoStrings.thy ===== *)
theory GoStrings
  imports GoErrors
begin

text \<open>
  What the program uses of Go's \<^verbatim>\<open>strconv\<close>, \<^verbatim>\<open>strings\<close>, \<^verbatim>\<open>unicode/utf8\<close> and \<^verbatim>\<open>encoding/hex\<close>
  packages, on byte strings. The texts of the errors these packages return are abbreviated:
  the program never inspects them.
\<close>

subsection \<open>Decimal numbers (strconv)\<close>

definition is_digit :: "char \<Rightarrow> bool" where
  "is_digit c \<longleftrightarrow> 48 \<le> byte_of c \<and> byte_of c \<le> 57"

definition digit_val :: "char \<Rightarrow> nat" where
  "digit_val c = byte_of c - 48"

definition digit_chr :: "nat \<Rightarrow> char" where
  "digit_chr n = chr (48 + n)"

text \<open>\<^verbatim>\<open>strconv.FormatUint(n, 10)\<close>, \<^verbatim>\<open>strconv.Itoa\<close> and \<^verbatim>\<open>fmt.Sprintf("%d", n)\<close>.\<close>

fun FormatUint :: "nat \<Rightarrow> string" where
  "FormatUint n =
     (if n < 10 then [digit_chr n] else FormatUint (n div 10) @ [digit_chr (n mod 10)])"

declare FormatUint.simps [simp del]

definition Itoa :: "int \<Rightarrow> string" where
  "Itoa i = (if i < 0 then CHR ''-'' # FormatUint (nat (- i)) else FormatUint (nat i))"

definition digits_val :: "string \<Rightarrow> nat" where
  "digits_val s = foldl (\<lambda>v c. 10 * v + digit_val c) 0 s"

text \<open>
  \<^verbatim>\<open>strconv.ParseUint(s, 10, bits)\<close>: a syntax error for the empty string and for any byte that
  is not a digit, a range error for a value that does not fit.
\<close>

definition err_syntax :: go_error where
  "err_syntax = Errorf ''strconv: invalid syntax''"

definition err_range :: go_error where
  "err_range = Errorf ''strconv: value out of range''"

definition ParseUint :: "string \<Rightarrow> nat \<Rightarrow> nat result" where
  "ParseUint s bits =
     (if s = [] \<or> \<not> list_all is_digit s then Inl err_syntax
      else if digits_val s < 2 ^ bits then Inr (digits_val s) else Inl err_range)"

text \<open>\<^verbatim>\<open>strconv.ParseInt(s, 10, bits)\<close>; \<^verbatim>\<open>strconv.Atoi\<close> is the same at 64 bits.\<close>

definition ParseInt :: "string \<Rightarrow> nat \<Rightarrow> int result" where
  "ParseInt s bits =
     (if s = [] then Inl err_syntax
      else
        let neg = (hd s = CHR ''-'');
            t = (if hd s = CHR ''-'' \<or> hd s = CHR ''+'' then tl s else s)
        in if t = [] \<or> \<not> list_all is_digit t then Inl err_syntax
           else if neg then
             (if digits_val t \<le> 2 ^ (bits - 1) then Inr (- int (digits_val t)) else Inl err_range)
           else
             (if digits_val t < 2 ^ (bits - 1) then Inr (int (digits_val t)) else Inl err_range))"

definition Atoi :: "string \<Rightarrow> int result" where
  "Atoi s = ParseInt s 64"

lemma digit_chr_simps [simp]:
  "n < 10 \<Longrightarrow> is_digit (digit_chr n)"
  "n < 10 \<Longrightarrow> digit_val (digit_chr n) = n"
  by (simp_all add: is_digit_def digit_val_def digit_chr_def)

lemma digits_val_simps [simp]:
  "digits_val [] = 0"
  "digits_val (s @ [c]) = 10 * digits_val s + digit_val c"
  by (simp_all add: digits_val_def)

lemma digits_val_single [simp]: "digits_val [c] = digit_val c"
  by (simp add: digits_val_def)

lemma FormatUint_not_Nil [simp]: "FormatUint n \<noteq> []"
  by (subst FormatUint.simps) simp

lemma FormatUint_digits: "list_all is_digit (FormatUint n)"
proof (induction n rule: FormatUint.induct)
  case (1 n)
  then show ?case by (subst FormatUint.simps) simp
qed

lemma digits_val_FormatUint [simp, codec_simps]: "digits_val (FormatUint n) = n"
proof (induction n rule: FormatUint.induct)
  case (1 n)
  then show ?case by (subst FormatUint.simps) simp
qed

lemma ParseUint_FormatUint [simp, codec_simps]:
  "n < 2 ^ bits \<Longrightarrow> ParseUint (FormatUint n) bits = Inr n"
  by (simp add: ParseUint_def FormatUint_digits)

lemma FormatUint_inject [simp]: "FormatUint m = FormatUint n \<longleftrightarrow> m = n"
  by (metis digits_val_FormatUint)

lemma is_digit_not_special [simp]:
  "\<not> is_digit (CHR ''-'')" "\<not> is_digit (CHR ''+'')" "\<not> is_digit (CHR '':'')"
  "\<not> is_digit (CHR ''.'')" "\<not> is_digit (CHR '','')" "\<not> is_digit (CHR 0x0D)"
  "\<not> is_digit (CHR 0x0A)" "\<not> is_digit (CHR ''}'')" "\<not> is_digit (CHR ''/'')"
  "\<not> is_digit (CHR ''e'')" "\<not> is_digit (CHR ''E'')"
  by (simp_all add: is_digit_def byte_of_def)

lemma FormatUint_set: "c \<in> set (FormatUint n) \<Longrightarrow> is_digit c"
  using FormatUint_digits [of n] by (simp add: list_all_iff)

lemma hd_FormatUint: "is_digit (hd (FormatUint n))"
  by (rule FormatUint_set [OF hd_in_set]) simp

lemma ParseInt_Itoa [simp, codec_simps]:
  assumes "- (2 ^ (bits - 1)) \<le> i" "i < 2 ^ (bits - 1)"
  shows "ParseInt (Itoa i) bits = Inr i"
proof (cases "i < 0")
  case True
  then have "nat (- i) \<le> 2 ^ (bits - 1)" using assms by (simp add: nat_le_iff)
  with True show ?thesis
    by (simp add: ParseInt_def Itoa_def FormatUint_digits)
next
  case False
  then have "nat i < 2 ^ (bits - 1)" using assms by (simp add: nat_less_iff)
  moreover have "hd (FormatUint (nat i)) \<noteq> CHR ''-''" "hd (FormatUint (nat i)) \<noteq> CHR ''+''"
    using hd_FormatUint [of "nat i"] by auto
  ultimately show ?thesis using False
    by (simp add: ParseInt_def Itoa_def FormatUint_digits)
qed

lemma Atoi_Itoa [simp, codec_simps]: "- (2 ^ 63) \<le> i \<Longrightarrow> i < 2 ^ 63 \<Longrightarrow> Atoi (Itoa i) = Inr i"
  using ParseInt_Itoa [of 64 i] by (simp add: Atoi_def)

lemma Itoa_not_Nil [simp]: "Itoa i \<noteq> []"
  by (simp add: Itoa_def)

lemma Itoa_inject [simp]: "Itoa i = Itoa j \<longleftrightarrow> i = j"
proof
  assume eq: "Itoa i = Itoa j"
  obtain b where b: "- (2 ^ (b - 1)) \<le> i" "i < 2 ^ (b - 1)" "- (2 ^ (b - 1)) \<le> j" "j < 2 ^ (b - 1)"
  proof -
    define n where "n = nat \<bar>i\<bar> + nat \<bar>j\<bar>"
    have "int n < 2 ^ n"
      using less_exp [of n] by (metis of_nat_less_iff of_nat_numeral of_nat_power)
    moreover have "\<bar>i\<bar> \<le> int n" "\<bar>j\<bar> \<le> int n" by (simp_all add: n_def)
    ultimately have "\<bar>i\<bar> < 2 ^ n" "\<bar>j\<bar> < 2 ^ n" by linarith+
    then show ?thesis using that [of "Suc n"] by (simp add: abs_less_iff)
  qed
  have "ParseInt (Itoa i) b = Inr i" "ParseInt (Itoa j) b = Inr j"
    by (rule ParseInt_Itoa [OF b(1,2)], rule ParseInt_Itoa [OF b(3,4)])
  with eq show "i = j" by (metis sum.inject(2))
qed simp

end
