(* ===== verification/GoText.thy ===== *)
theory GoText
  imports GoStrings
begin

text \<open>
  Bytes as text: \<^verbatim>\<open>unicode/utf8\<close>, \<^verbatim>\<open>strings.TrimSpace\<close> and its relatives, \<^verbatim>\<open>encoding/hex\<close>, and the
  interface \<open>byte_codec\<close> that every encoder and decoder pair of the program is shown to meet.
\<close>

subsection \<open>The interface of a codec\<close>

text \<open>
  An encoder into bytes with the decoder that undoes it on the values of \<open>dom\<close>. A client
  only needs the round trip: encodings are then as distinct as the values.
\<close>

locale byte_codec =
  fixes enc :: "'a \<Rightarrow> bytes"
    and dec :: "bytes \<Rightarrow> 'a result"
    and good :: "'a \<Rightarrow> bool"
  assumes dec_enc: "good x \<Longrightarrow> dec (enc x) = Inr x"
begin

lemma enc_inject: "good x \<Longrightarrow> good y \<Longrightarrow> enc x = enc y \<longleftrightarrow> x = y"
  by (metis dec_enc sum.inject(2))

lemma dec_enc_bind: "good x \<Longrightarrow> bindE (dec (enc x)) f = f x"
  by (simp add: dec_enc)

end

interpretation dec_uint64: byte_codec FormatUint "\<lambda>s. ParseUint s 64" "\<lambda>n. n < 2 ^ 64"
  by unfold_locales simp

interpretation dec_int: byte_codec Itoa Atoi "\<lambda>i. - (2 ^ 63) \<le> i \<and> i < 2 ^ 63"
  by unfold_locales simp

subsection \<open>UTF-8\<close>

definition in_range :: "nat \<Rightarrow> nat \<Rightarrow> char \<Rightarrow> bool" where
  "in_range lo hi c \<longleftrightarrow> lo \<le> byte_of c \<and> byte_of c \<le> hi"

text \<open>
  The length of the well-formed UTF-8 sequence at the start of a string, 0 if there is none:
  the accept ranges of \<^verbatim>\<open>utf8.DecodeRuneInString\<close>, which exclude overlong forms, surrogates and
  code points above U+10FFFF.
\<close>

definition rune2 :: "char \<Rightarrow> char \<Rightarrow> bool" where
  "rune2 a b \<longleftrightarrow> in_range 0xC2 0xDF a \<and> in_range 0x80 0xBF b"

definition rune3 :: "char \<Rightarrow> char \<Rightarrow> char \<Rightarrow> bool" where
  "rune3 a b c \<longleftrightarrow>
     in_range 0xE0 0xEF a \<and>
     in_range (if byte_of a = 0xE0 then 0xA0 else 0x80) (if byte_of a = 0xED then 0x9F else 0xBF) b \<and>
     in_range 0x80 0xBF c"

definition rune4 :: "char \<Rightarrow> char \<Rightarrow> char \<Rightarrow> char \<Rightarrow> bool" where
  "rune4 a b c d \<longleftrightarrow>
     in_range 0xF0 0xF4 a \<and>
     in_range (if byte_of a = 0xF0 then 0x90 else 0x80) (if byte_of a = 0xF4 then 0x8F else 0xBF) b \<and>
     in_range 0x80 0xBF c \<and> in_range 0x80 0xBF d"

definition rune_len :: "string \<Rightarrow> nat" where
  "rune_len s =
     (case s of [] \<Rightarrow> 0 | a # t \<Rightarrow>
      if byte_of a < 0x80 then 1 else
     (case t of [] \<Rightarrow> 0 | b # u \<Rightarrow>
      if rune2 a b then 2 else
     (case u of [] \<Rightarrow> 0 | c # v \<Rightarrow>
      if rune3 a b c then 3 else
     (case v of [] \<Rightarrow> 0 | d # _ \<Rightarrow>
      if rune4 a b c d then 4 else 0))))"

lemma rune_len_cases:
  obtains (none) "rune_len s = 0"
  | (ascii) a t where "s = a # t" "byte_of a < 0x80" "rune_len s = 1"
  | (two) a b t where "s = a # b # t" "\<not> byte_of a < 0x80" "rune2 a b" "rune_len s = 2"
  | (three) a b c t where "s = a # b # c # t" "\<not> byte_of a < 0x80" "\<not> rune2 a b" "rune3 a b c"
      "rune_len s = 3"
  | (four) a b c d t where "s = a # b # c # d # t" "\<not> byte_of a < 0x80" "\<not> rune2 a b"
      "\<not> rune3 a b c" "rune4 a b c d" "rune_len s = 4"
proof -
  have "rune_len s = 0
    \<or> (\<exists>a t. s = a # t \<and> byte_of a < 0x80 \<and> rune_len s = 1)
    \<or> (\<exists>a b t. s = a # b # t \<and> \<not> byte_of a < 0x80 \<and> rune2 a b \<and> rune_len s = 2)
    \<or> (\<exists>a b c t. s = a # b # c # t \<and> \<not> byte_of a < 0x80 \<and> \<not> rune2 a b \<and> rune3 a b c
         \<and> rune_len s = 3)
    \<or> (\<exists>a b c d t. s = a # b # c # d # t \<and> \<not> byte_of a < 0x80 \<and> \<not> rune2 a b
         \<and> \<not> rune3 a b c \<and> rune4 a b c d \<and> rune_len s = 4)"
    unfolding rune_len_def by (simp split: list.split)
  then show thesis
    by (elim disjE exE conjE)
      (erule that(1), erule (2) that(2), erule (3) that(3), erule (4) that(4), erule (5) that(5))
qed

lemma rune_len_simps [simp]:
  "rune_len [] = 0"
  "byte_of a < 0x80 \<Longrightarrow> rune_len (a # s) = 1"
  by (simp_all add: rune_len_def)

lemma rune_len_le: "rune_len s \<le> length s"
  by (cases s rule: rune_len_cases) auto

lemma rune_len_append: "0 < rune_len s \<Longrightarrow> rune_len (s @ t) = rune_len s"
  by (cases s rule: rune_len_cases) (auto simp: rune_len_def)

lemma rune_len_take: "0 < rune_len s \<Longrightarrow> rune_len (take (rune_len s) s @ t) = rune_len s"
  by (cases s rule: rune_len_cases) (auto simp: rune_len_def)

lemma rune_len_1: "rune_len (a # s) = Suc 0 \<longleftrightarrow> byte_of a < 0x80"
  by (cases "a # s" rule: rune_len_cases) auto

text \<open>The bytes of a multi-byte sequence are all at least 0x80.\<close>

lemma rune_len_multi:
  "1 < rune_len s \<Longrightarrow> c \<in> set (take (rune_len s) s) \<Longrightarrow> 0x80 \<le> byte_of c"
  by (cases s rule: rune_len_cases)
    (auto simp: rune2_def rune3_def rune4_def in_range_def split: if_splits)

text \<open>\<^verbatim>\<open>utf8.ValidString\<close>\<close>

function ValidString :: "string \<Rightarrow> bool" where
  "ValidString s =
     (if s = [] then True
      else if rune_len s = 0 then False
      else ValidString (drop (rune_len s) s))"
  by pat_completeness auto
termination
  by (relation "measure length") auto

declare ValidString.simps [simp del]

lemma ValidString_Nil [simp]: "ValidString []"
  by (simp add: ValidString.simps)

lemma ValidString_rune:
  "0 < rune_len s \<Longrightarrow> ValidString s \<longleftrightarrow> ValidString (drop (rune_len s) s)"
  by (subst ValidString.simps) auto

lemma ValidString_ascii [simp]:
  "byte_of a < 0x80 \<Longrightarrow> ValidString (a # s) \<longleftrightarrow> ValidString s"
  using ValidString_rune [of "a # s"] by simp

definition is_ascii :: "string \<Rightarrow> bool" where
  "is_ascii s \<longleftrightarrow> (\<forall>c \<in> set s. byte_of c < 0x80)"

lemma is_ascii_simps [simp]:
  "is_ascii []" "is_ascii (c # s) \<longleftrightarrow> byte_of c < 0x80 \<and> is_ascii s"
  "is_ascii (s @ t) \<longleftrightarrow> is_ascii s \<and> is_ascii t"
  by (auto simp: is_ascii_def)

lemma ascii_valid: "is_ascii s \<Longrightarrow> ValidString s"
  by (induction s) auto

lemma ValidString_append: "ValidString s \<Longrightarrow> ValidString (s @ t) \<longleftrightarrow> ValidString t"
proof (induction s rule: ValidString.induct)
  case (1 s)
  show ?case
  proof (cases "s = []")
    case False
    with "1.prems" have r: "0 < rune_len s" "ValidString (drop (rune_len s) s)"
      by (auto simp: ValidString.simps [of s] split: if_splits)
    have "ValidString (s @ t) \<longleftrightarrow> ValidString (drop (rune_len s) (s @ t))"
      using ValidString_rune [of "s @ t"] r(1) by (simp add: rune_len_append)
    also have "drop (rune_len s) (s @ t) = drop (rune_len s) s @ t"
      using rune_len_le [of s] by simp
    finally show ?thesis using "1.IH" False r by simp
  qed simp
qed

subsection \<open>Trimming (strings)\<close>

text \<open>
  The UTF-8 encodings of the runes for which \<^verbatim>\<open>unicode.IsSpace\<close> holds. No encoding is a prefix
  or a suffix of another, so matching bytes is matching runes.
\<close>

definition space_runes :: "string list" where
  "space_runes = map (map chr)
     ([[0x09], [0x0A], [0x0B], [0x0C], [0x0D], [0x20], [0xC2, 0x85], [0xC2, 0xA0],
       [0xE1, 0x9A, 0x80]] @ map (\<lambda>n. [0xE2, 0x80, 0x80 + n]) [0..<11] @
      [[0xE2, 0x80, 0xA8], [0xE2, 0x80, 0xA9], [0xE2, 0x80, 0xAF], [0xE2, 0x81, 0x9F],
       [0xE3, 0x80, 0x80]])"

fun strip_one :: "string list \<Rightarrow> string \<Rightarrow> string" where
  "strip_one [] s = s"
| "strip_one (w # ws) s =
     (if w \<noteq> [] \<and> take (length w) s = w then drop (length w) s else strip_one ws s)"

lemma strip_one_le: "length (strip_one ws s) \<le> length s"
  by (induction ws) auto

lemma strip_one_less: "strip_one ws s \<noteq> s \<Longrightarrow> length (strip_one ws s) < length s"
proof (induction ws)
  case (Cons w ws)
  show ?case
  proof (cases "w \<noteq> [] \<and> take (length w) s = w")
    case True
    then have "s \<noteq> []" by auto
    with True show ?thesis by simp
  next
    case False
    with Cons show ?thesis by (auto split: if_splits)
  qed
qed simp

function strip_all :: "string list \<Rightarrow> string \<Rightarrow> string" where
  "strip_all ws s = (if strip_one ws s = s then s else strip_all ws (strip_one ws s))"
  by pat_completeness auto
termination
  by (relation "measure (\<lambda>(ws, s). length s)") (auto intro: strip_one_less)

declare strip_all.simps [simp del]

definition TrimSpace :: "string \<Rightarrow> string" where
  "TrimSpace s = rev (strip_all (map rev space_runes) (rev (strip_all space_runes s)))"

definition TrimSuffix :: "string \<Rightarrow> string \<Rightarrow> string" where
  "TrimSuffix s suf = (if suffix suf s then take (length s - length suf) s else s)"

text \<open>\<^verbatim>\<open>strings.TrimRight(s, "c")\<close> for a cutset of one byte.\<close>

definition TrimRight :: "string \<Rightarrow> char \<Rightarrow> string" where
  "TrimRight s c = rev (dropWhile (\<lambda>x. x = c) (rev s))"

lemma strip_all_stable: "strip_one ws (strip_all ws s) = strip_all ws s"
proof (induction ws s rule: strip_all.induct)
  case (1 ws s)
  then show ?case by (cases "strip_one ws s = s") (simp_all add: strip_all.simps [of ws s])
qed

lemma strip_all_fix: "strip_one ws s = s \<Longrightarrow> strip_all ws s = s"
  by (simp add: strip_all.simps)

lemma suffix_strip_one: "suffix (strip_one ws s) s"
  by (induction ws) (auto simp: suffix_drop)

lemma suffix_strip_all: "suffix (strip_all ws s) s"
proof (induction ws s rule: strip_all.induct)
  case (1 ws s)
  then show ?case
    by (cases "strip_one ws s = s")
      (auto simp: strip_all.simps [of ws s] intro: suffix_order.trans suffix_strip_one)
qed

lemma TrimSpace_sublist: "\<exists>p q. s = p @ TrimSpace s @ q"
proof -
  let ?t = "strip_all space_runes s"
  have "suffix ?t s" by (rule suffix_strip_all)
  then obtain p where p: "s = p @ ?t" by (auto simp: suffix_def)
  have "suffix (strip_all (map rev space_runes) (rev ?t)) (rev ?t)" by (rule suffix_strip_all)
  then obtain q where "rev ?t = q @ strip_all (map rev space_runes) (rev ?t)"
    by (auto simp: suffix_def)
  then have "?t = TrimSpace s @ rev q" unfolding TrimSpace_def by (metis rev_append rev_rev_ident)
  with p show ?thesis by metis
qed

text \<open>Text without white space at its ends is left alone.\<close>

definition plain_char :: "char \<Rightarrow> bool" where
  "plain_char c \<longleftrightarrow> 0x20 < byte_of c \<and> byte_of c < 0x80"

lemma strip_one_other:
  "(\<And>w. w \<in> set ws \<Longrightarrow> w \<noteq> [] \<Longrightarrow> take (length w) s \<noteq> w) \<Longrightarrow> strip_one ws s = s"
  by (induction ws) auto

lemma space_runes_ends:
  "w \<in> set space_runes \<Longrightarrow> w \<noteq> [] \<and> \<not> plain_char (hd w) \<and> \<not> plain_char (last w)"
  by (auto simp: space_runes_def plain_char_def upt_rec)

lemma TrimSpace_plain [simp]:
  assumes "s = [] \<or> plain_char (hd s) \<and> plain_char (last s)"
  shows "TrimSpace s = s"
proof (cases "s = []")
  case True
  have "strip_one ws [] = []" for ws by (induction ws) auto
  with True show ?thesis by (simp add: TrimSpace_def strip_all_fix)
next
  case False
  have "strip_one space_runes s = s"
  proof (rule strip_one_other)
    fix w assume w: "w \<in> set space_runes" "w \<noteq> []"
    then show "take (length w) s \<noteq> w"
      using False assms space_runes_ends [OF w(1)] by (metis hd_take length_greater_0_conv)
  qed
  moreover have "strip_one (map rev space_runes) (rev s) = rev s"
  proof (rule strip_one_other)
    fix w assume "w \<in> set (map rev space_runes)" "w \<noteq> []"
    then obtain v where v: "v \<in> set space_runes" "w = rev v" by auto
    then show "take (length w) (rev s) \<noteq> w"
      using False assms space_runes_ends [OF v(1)] \<open>w \<noteq> []\<close>
      by (metis hd_rev hd_take length_greater_0_conv rev_is_Nil_conv)
  qed
  ultimately show ?thesis by (simp add: TrimSpace_def strip_all_fix)
qed

subsection \<open>Hexadecimal (encoding/hex)\<close>

definition hex_digit :: "nat \<Rightarrow> char" where
  "hex_digit n = (if n < 10 then chr (48 + n) else chr (87 + n))"

definition hex_val :: "char \<Rightarrow> nat option" where
  "hex_val c =
     (let b = byte_of c in
      if 48 \<le> b \<and> b \<le> 57 then Some (b - 48)
      else if 97 \<le> b \<and> b \<le> 102 then Some (b - 87)
      else if 65 \<le> b \<and> b \<le> 70 then Some (b - 55)
      else None)"

definition hex_EncodeToString :: "bytes \<Rightarrow> string" where
  "hex_EncodeToString s =
     concat (map (\<lambda>c. [hex_digit (byte_of c div 16), hex_digit (byte_of c mod 16)]) s)"

fun hex_DecodeString :: "string \<Rightarrow> bytes result" where
  "hex_DecodeString [] = Inr []"
| "hex_DecodeString [c] =
     (case hex_val c of None \<Rightarrow> Inl (Errorf ''encoding/hex: invalid byte'')
                      | Some _ \<Rightarrow> Inl (Errorf ''encoding/hex: odd length hex string''))"
| "hex_DecodeString (c # d # s) =
     (case (hex_val c, hex_val d) of
        (Some h, Some l) \<Rightarrow> bindE (hex_DecodeString s) (\<lambda>t. Inr (chr (16 * h + l) # t))
      | _ \<Rightarrow> Inl (Errorf ''encoding/hex: invalid byte''))"

lemma hex_val_digit [simp]: "n < 16 \<Longrightarrow> hex_val (hex_digit n) = Some n"
  by (auto simp: hex_val_def hex_digit_def Let_def)

lemma hex_round_trip [simp, codec_simps]: "hex_DecodeString (hex_EncodeToString s) = Inr s"
proof (induction s)
  case (Cons c s)
  have "byte_of c div 16 < 16" using byte_of_lt [of c] by linarith
  with Cons show ?case by (simp add: hex_EncodeToString_def)
qed (simp add: hex_EncodeToString_def)

lemma length_hex [simp]: "length (hex_EncodeToString s) = 2 * length s"
  by (induction s) (auto simp: hex_EncodeToString_def)

lemma hex_not_Nil [simp]: "hex_EncodeToString s = [] \<longleftrightarrow> s = []"
  by (cases s) (auto simp: hex_EncodeToString_def)

interpretation hex: byte_codec hex_EncodeToString hex_DecodeString "\<lambda>_. True"
  by unfold_locales simp

end
