(* ===== verification/JsonText.thy ===== *)
theory JsonText
  imports GoText
begin

text \<open>
  JSON strings as Go's \<^verbatim>\<open>encoding/json\<close> writes and reads them: \<^verbatim>\<open>json.Marshal\<close> escapes quotes,
  backslashes, control characters, the HTML-sensitive characters and U+2028/U+2029, and
  writes invalid UTF-8 as \<^verbatim>\<open>\ufffd\<close>; the reader undoes all escapes, combines surrogate pairs
  and replaces what is not UTF-8 by U+FFFD.
\<close>

subsection \<open>Code points\<close>

definition utf8_encode :: "nat \<Rightarrow> string" where
  "utf8_encode r =
     (if r < 0x80 then [chr r]
      else if r < 0x800 then [chr (0xC0 + r div 64), chr (0x80 + r mod 64)]
      else if r < 0x10000 then
        [chr (0xE0 + r div 4096), chr (0x80 + r div 64 mod 64), chr (0x80 + r mod 64)]
      else
        [chr (0xF0 + r div 262144), chr (0x80 + r div 4096 mod 64), chr (0x80 + r div 64 mod 64),
         chr (0x80 + r mod 64)])"

text \<open>The UTF-8 form of U+FFFD, of U+2028 and of U+2029.\<close>

definition rune_error :: string where
  "rune_error = map chr [0xEF, 0xBF, 0xBD]"

definition line_sep :: string where
  "line_sep = map chr [0xE2, 0x80, 0xA8]"

definition para_sep :: string where
  "para_sep = map chr [0xE2, 0x80, 0xA9]"

text \<open>Text with every byte that is not part of a well-formed sequence replaced by U+FFFD.\<close>

function coerce_utf8 :: "string \<Rightarrow> string" where
  "coerce_utf8 s =
     (if s = [] then []
      else if rune_len s = 0 then rune_error @ coerce_utf8 (tl s)
      else take (rune_len s) s @ coerce_utf8 (drop (rune_len s) s))"
  by pat_completeness auto
termination
  by (relation "measure length") auto

declare coerce_utf8.simps [simp del]

lemma coerce_valid [simp]: "ValidString s \<Longrightarrow> coerce_utf8 s = s"
proof (induction s rule: coerce_utf8.induct)
  case (1 s)
  show ?case
  proof (cases "s = []")
    case False
    with "1.prems" have "rune_len s \<noteq> 0" "ValidString (drop (rune_len s) s)"
      by (auto simp: ValidString.simps [of s] split: if_splits)
    with "1.IH"(2) False show ?thesis by (simp add: coerce_utf8.simps [of s])
  qed (simp add: coerce_utf8.simps)
qed

subsection \<open>Writing a string\<close>

definition esc_u :: "nat \<Rightarrow> string" where
  "esc_u n = [CHR 0x5C, CHR ''u''] @ map hex_digit [n div 4096 mod 16, n div 256 mod 16, n div 16 mod 16, n mod 16]"

definition esc_ascii :: "char \<Rightarrow> string" where
  "esc_ascii c =
     (let b = byte_of c in
      if b = 0x22 \<or> b = 0x5C then [CHR 0x5C, c]
      else if b = 0x08 then [CHR 0x5C, CHR ''b'']
      else if b = 0x0C then [CHR 0x5C, CHR ''f'']
      else if b = 0x0A then [CHR 0x5C, CHR ''n'']
      else if b = 0x0D then [CHR 0x5C, CHR ''r'']
      else if b = 0x09 then [CHR 0x5C, CHR ''t'']
      else if b < 0x20 \<or> b = 0x3C \<or> b = 0x3E \<or> b = 0x26 then esc_u b
      else [c])"

definition esc_rune :: "string \<Rightarrow> string" where
  "esc_rune r =
     (if r = line_sep then esc_u 0x2028 else if r = para_sep then esc_u 0x2029 else r)"

function json_escape :: "string \<Rightarrow> string" where
  "json_escape s =
     (if s = [] then []
      else if rune_len s = 0 then esc_u 0xFFFD @ json_escape (tl s)
      else if rune_len s = 1 then esc_ascii (hd s) @ json_escape (tl s)
      else esc_rune (take (rune_len s) s) @ json_escape (drop (rune_len s) s))"
  by pat_completeness auto
termination
  by (relation "measure length") auto

declare json_escape.simps [simp del]

abbreviation quote :: char where
  "quote \<equiv> CHR 0x22"

definition json_string :: "string \<Rightarrow> string" where
  "json_string s = quote # json_escape s @ [quote]"

subsection \<open>Reading a string\<close>

definition simple_escape :: "char \<Rightarrow> char option" where
  "simple_escape c =
     (let b = byte_of c in
      if b = 0x22 \<or> b = 0x5C \<or> b = 0x2F then Some c
      else if b = 0x62 then Some (chr 0x08)
      else if b = 0x66 then Some (chr 0x0C)
      else if b = 0x6E then Some (chr 0x0A)
      else if b = 0x72 then Some (chr 0x0D)
      else if b = 0x74 then Some (chr 0x09)
      else None)"

fun hex4 :: "string \<Rightarrow> nat option" where
  "hex4 (a # b # c # d # _) =
     (case (hex_val a, hex_val b, hex_val c, hex_val d) of
        (Some w, Some x, Some y, Some z) \<Rightarrow> Some (((w * 16 + x) * 16 + y) * 16 + z)
      | _ \<Rightarrow> None)"
| "hex4 _ = None"

definition is_surrogate :: "nat \<Rightarrow> bool" where
  "is_surrogate r \<longleftrightarrow> 0xD800 \<le> r \<and> r < 0xE000"

text \<open>\<^verbatim>\<open>utf16.DecodeRune(r1, r2)\<close>, with the second half read from the escape that follows.\<close>

definition low_surrogate :: "nat \<Rightarrow> string \<Rightarrow> nat option" where
  "low_surrogate r s =
     (if take 2 s = [CHR 0x5C, CHR ''u''] then
        (case hex4 (drop 2 s) of
           Some r2 \<Rightarrow>
             if r < 0xDC00 \<and> 0xDC00 \<le> r2 \<and> r2 < 0xE000
             then Some ((r - 0xD800) * 1024 + (r2 - 0xDC00) + 0x10000) else None
         | None \<Rightarrow> None)
      else None)"

definition prepend :: "string \<Rightarrow> (string \<times> string) option \<Rightarrow> (string \<times> string) option" where
  "prepend x r = map_option (\<lambda>(y, rest). (x @ y, rest)) r"

text \<open>
  \<open>json_unquote s\<close> reads the rest of a string literal after its opening quote: the text it
  denotes and what follows the closing quote, \<^const>\<open>None\<close> if it is malformed.
\<close>

function json_unquote :: "string \<Rightarrow> (string \<times> string) option" where
  "json_unquote s =
     (case s of [] \<Rightarrow> None
      | c # t \<Rightarrow>
          if c = quote then Some ([], t)
          else if c = CHR 0x5C then
            (case t of [] \<Rightarrow> None
             | d # u \<Rightarrow>
                 (case simple_escape d of
                    Some x \<Rightarrow> prepend [x] (json_unquote u)
                  | None \<Rightarrow>
                      if d = CHR ''u'' then
                        (case hex4 u of None \<Rightarrow> None
                         | Some r \<Rightarrow>
                             if is_surrogate r then
                               (case low_surrogate r (drop 4 u) of
                                  Some p \<Rightarrow> prepend (utf8_encode p) (json_unquote (drop 10 u))
                                | None \<Rightarrow> prepend rune_error (json_unquote (drop 4 u)))
                             else prepend (utf8_encode r) (json_unquote (drop 4 u)))
                      else None))
          else if byte_of c < 0x20 then None
          else if rune_len s = 0 then prepend rune_error (json_unquote t)
          else prepend (take (rune_len s) s) (json_unquote (drop (rune_len s) s)))"
  by pat_completeness auto
termination
  by (relation "measure length") (auto)

declare json_unquote.simps [simp del]

lemma prepend_simps [simp]:
  "prepend x None = None"
  "prepend x (Some (y, r)) = Some (x @ y, r)"
  by (simp_all add: prepend_def)

lemma prepend_Some: "prepend x r = Some (y, t) \<longleftrightarrow> (\<exists>z. r = Some (z, t) \<and> y = x @ z)"
  by (auto simp: prepend_def)

text \<open>Reading consumes: the rest is shorter than the input.\<close>

lemma json_unquote_step:
  assumes "json_unquote s = Some (x, t)"
  obtains c where "s = c # t"
  | k z where "0 < k" "s \<noteq> []" "json_unquote (drop k s) = Some (z, t)"
proof -
  obtain c s' where s: "s = c # s'" using assms by (cases s) (auto simp: json_unquote.simps)
  consider (stop) "t = s'" | k where "0 < k" "\<exists>z. json_unquote (drop k s) = Some (z, t)"
  proof (cases "c = CHR 0x5C")
    case True
    then obtain d u where s': "s' = d # u"
      using assms s by (cases s') (auto simp: json_unquote.simps [of "[CHR 0x5C]"])
    have "\<exists>z. json_unquote (drop 2 s) = Some (z, t) \<or> json_unquote (drop 6 s) = Some (z, t)
        \<or> json_unquote (drop 12 s) = Some (z, t)"
      using assms s s' True
      by (auto simp: json_unquote.simps [of "CHR 0x5C # d # u"] prepend_Some
          split: option.splits if_splits)
    then show ?thesis using that(2) [of 2] that(2) [of 6] that(2) [of 12] by auto
  next
    case False
    then have "t = s' \<or> (\<exists>z. json_unquote (drop 1 s) = Some (z, t)
        \<or> 0 < rune_len s \<and> json_unquote (drop (rune_len s) s) = Some (z, t))"
      using assms s by (auto simp: json_unquote.simps [of "c # s'"] prepend_Some split: if_splits)
    then show ?thesis using that(1) that(2) [of 1] that(2) [of "rune_len s"] by auto
  qed
  then show thesis using that s by cases auto
qed

lemma json_unquote_shorter: "json_unquote s = Some (x, t) \<Longrightarrow> length t < length s"
proof (induction s arbitrary: x t rule: length_induct)
  case (1 s)
  from "1.prems" show ?case
  proof (cases rule: json_unquote_step)
    case (2 k z)
    then have "length (drop k s) < length s" by simp
    with "1.IH" 2 have "length t < length (drop k s)" by blast
    with \<open>length (drop k s) < length s\<close> show ?thesis by linarith
  qed simp
qed

subsection \<open>Round trip\<close>

lemma json_unquote_quote [simp]: "json_unquote (quote # t) = Some ([], t)"
  by (simp add: json_unquote.simps)

lemma hex4_map [simp]:
  "a < 16 \<Longrightarrow> b < 16 \<Longrightarrow> c < 16 \<Longrightarrow> d < 16 \<Longrightarrow>
   hex4 (hex_digit a # hex_digit b # hex_digit c # hex_digit d # s) =
     Some (((a * 16 + b) * 16 + c) * 16 + d)"
  by simp

lemma json_unquote_hex4:
  assumes "hex4 (h @ t) = Some n" "length h = 4" "\<not> is_surrogate n"
  shows "json_unquote (CHR 0x5C # CHR ''u'' # h @ t) = prepend (utf8_encode n) (json_unquote t)"
proof -
  have "simple_escape (CHR ''u'') = None" by (simp add: simple_escape_def byte_of_def)
  with assms show ?thesis by (simp add: json_unquote.simps [of "CHR 0x5C # _"])
qed

lemma json_unquote_esc_u:
  assumes "n < 65536" "\<not> is_surrogate n"
  shows "json_unquote (esc_u n @ t) = prepend (utf8_encode n) (json_unquote t)"
proof -
  let ?h = "map hex_digit [n div 4096 mod 16, n div 256 mod 16, n div 16 mod 16, n mod 16]"
  have split: "m div 16 * 16 + m mod 16 = m" for m :: nat by simp
  have "n div 4096 mod 16 = n div 4096" using assms(1) by simp
  then have "((n div 4096 mod 16 * 16 + n div 256 mod 16) * 16 + n div 16 mod 16) * 16 + n mod 16 = n"
    using split [of "n div 256"] split [of "n div 16"] split [of n]
    by (simp add: div_mult2_eq [symmetric])
  moreover have "hex4 (?h @ t) = Some (((n div 4096 mod 16 * 16 + n div 256 mod 16) * 16
      + n div 16 mod 16) * 16 + n mod 16)"
    by (simp only: list.map append.simps) (rule hex4_map; simp)
  ultimately have "hex4 (?h @ t) = Some n" by metis
  from json_unquote_hex4 [OF this _ assms(2)] show ?thesis by (simp add: esc_u_def)
qed

lemma json_unquote_esc_ascii:
  assumes "byte_of c < 0x80"
  shows "json_unquote (esc_ascii c @ t) = prepend [c] (json_unquote t)"
proof -
  have *: "simple_escape (chr 34) = Some (chr 34)" "simple_escape (chr 92) = Some (chr 92)"
    "simple_escape (CHR ''b'') = Some (chr 8)" "simple_escape (CHR ''f'') = Some (chr 12)"
    "simple_escape (CHR ''n'') = Some (chr 10)" "simple_escape (CHR ''r'') = Some (chr 13)"
    "simple_escape (CHR ''t'') = Some (chr 9)"
    by (simp add: simple_escape_def, simp add: simple_escape_def,
        simp_all add: simple_escape_def byte_of_def)
  have c: "c = chr n" if "byte_of c = n" for n using that by auto
  have esc: "json_unquote (CHR 0x5C # d # t) = prepend [x] (json_unquote t)"
    if "simple_escape d = Some x" for d x
    using that by (simp add: json_unquote.simps [of "CHR 0x5C # _"])
  show ?thesis
  proof (cases "byte_of c < 0x20 \<or> byte_of c \<in> {0x22, 0x26, 0x3C, 0x3E, 0x5C}")
    case True
    have "json_unquote (esc_u (byte_of c) @ t) = prepend [c] (json_unquote t)"
      using json_unquote_esc_u [of "byte_of c" t] assms by (simp add: is_surrogate_def utf8_encode_def)
    then show ?thesis using True
      by (auto simp: esc_ascii_def Let_def esc * dest!: c)
  next
    case False
    then have "c \<noteq> quote" "c \<noteq> CHR 0x5C" by (auto simp: byte_of_def)
    with False assms show ?thesis
      by (simp add: esc_ascii_def Let_def json_unquote.simps [of "c # t"])
  qed
qed

lemma json_unquote_esc_rune:
  assumes "1 < rune_len s"
  shows "json_unquote (esc_rune (take (rune_len s) s) @ t)
    = prepend (take (rune_len s) s) (json_unquote t)"
proof -
  let ?r = "take (rune_len s) s"
  have r: "?r \<noteq> []" "rune_len (?r @ t) = rune_len s" "length ?r = rune_len s"
    using assms rune_len_take [of s t] rune_len_le [of s] by auto
  have hd: "0x80 \<le> byte_of (hd ?r)"
    by (rule rune_len_multi [OF assms hd_in_set [OF r(1)]])
  obtain a l where al: "?r = a # l" using r(1) by (cases ?r) auto
  with hd have a: "0x80 \<le> byte_of a" by simp
  then have "a \<noteq> quote" "a \<noteq> CHR 0x5C" by (auto simp: byte_of_def)
  moreover have "rune_len s = Suc (length l)" using r(3) al by simp
  ultimately have plain: "json_unquote (?r @ t) = prepend ?r (json_unquote t)"
    using r(2) a al by (simp add: json_unquote.simps [of "a # l @ t"])
  have "utf8_encode 0x2028 = line_sep" "utf8_encode 0x2029 = para_sep"
    by (simp_all add: utf8_encode_def line_sep_def para_sep_def)
  with plain show ?thesis
    by (auto simp: esc_rune_def json_unquote_esc_u is_surrogate_def)
qed

text \<open>
  What is read back is what was written, with invalid UTF-8 replaced: the one change Go's
  encoder makes to a string.
\<close>

lemma json_unquote_escape:
  "json_unquote (json_escape s @ quote # t) = Some (coerce_utf8 s, t)"
proof (induction s rule: json_escape.induct)
  case (1 s)
  show ?case
  proof (cases "s = []")
    case True
    then show ?thesis by (simp add: json_escape.simps coerce_utf8.simps)
  next
    case False
    have eq: "json_escape s = (if rune_len s = 0 then esc_u 0xFFFD @ json_escape (tl s)
      else if rune_len s = 1 then esc_ascii (hd s) @ json_escape (tl s)
      else esc_rune (take (rune_len s) s) @ json_escape (drop (rune_len s) s))"
      using False by (simp add: json_escape.simps [of s])
    have "utf8_encode 0xFFFD = rune_error" by (simp add: utf8_encode_def rune_error_def)
    moreover have "rune_len s = 1 \<Longrightarrow> byte_of (hd s) < 0x80 \<and> take (rune_len s) s = [hd s]
        \<and> drop (rune_len s) s = tl s"
      using False by (cases s) (auto simp: rune_len_1)
    ultimately show ?thesis
      using 1 False
      by (simp add: eq coerce_utf8.simps [of s] json_unquote_esc_u json_unquote_esc_ascii
          json_unquote_esc_rune is_surrogate_def)
  qed
qed

end
