(* ===== verification/JsonScan.thy ===== *)
theory JsonScan
  imports JsonText
begin

text \<open>
  JSON texts as \<^verbatim>\<open>json.Unmarshal\<close> accepts them. The scanner returns what follows a value;
  the members of an object come with the raw text of their values, which the decoders of
  the single fields then read, as Go's decoder does. An object or array may be nested at most
  10000 deep (\<^verbatim>\<open>maxNestingDepth\<close>).
\<close>

subsection \<open>White space, numbers, literals\<close>

definition is_ws :: "char \<Rightarrow> bool" where
  "is_ws c \<longleftrightarrow> c = CHR 0x20 \<or> c = CHR 0x09 \<or> c = CHR 0x0A \<or> c = CHR 0x0D"

definition skip_ws :: "string \<Rightarrow> string" where
  "skip_ws s = dropWhile is_ws s"

definition skip_digits :: "string \<Rightarrow> string" where
  "skip_digits s = dropWhile is_digit s"

text \<open>One or more digits.\<close>

definition scan_digits :: "string \<Rightarrow> string option" where
  "scan_digits s = (if s \<noteq> [] \<and> is_digit (hd s) then Some (skip_digits s) else None)"

definition scan_frac :: "string \<Rightarrow> string option" where
  "scan_frac s = (if s \<noteq> [] \<and> hd s = CHR ''.'' then scan_digits (tl s) else Some s)"

definition scan_exp :: "string \<Rightarrow> string option" where
  "scan_exp s =
     (if s \<noteq> [] \<and> (hd s = CHR ''e'' \<or> hd s = CHR ''E'')
      then (let t = tl s in
            scan_digits (if t \<noteq> [] \<and> (hd t = CHR ''+'' \<or> hd t = CHR ''-'') then tl t else t))
      else Some s)"

definition strip_minus :: "string \<Rightarrow> string" where
  "strip_minus s = (if s \<noteq> [] \<and> hd s = CHR ''-'' then tl s else s)"

definition scan_int :: "string \<Rightarrow> string option" where
  "scan_int s =
     (if s = [] \<or> \<not> is_digit (hd s) then None
      else Some (if hd s = CHR ''0'' then tl s else skip_digits s))"

definition scan_number :: "string \<Rightarrow> string option" where
  "scan_number s =
     Option.bind (Option.bind (scan_int (strip_minus s)) scan_frac) scan_exp"

definition scan_lit :: "string \<Rightarrow> string \<Rightarrow> string option" where
  "scan_lit l s = (if take (length l) s = l then Some (drop (length l) s) else None)"

lemma skip_ws_le: "length (skip_ws s) \<le> length s"
  by (simp add: skip_ws_def length_dropWhile_le)

lemma skip_ws_tl_le: "length (skip_ws (tl s)) \<le> length s"
  by (rule le_trans [OF skip_ws_le]) simp

lemma skip_digits_le: "length (skip_digits s) \<le> length s"
  by (simp add: skip_digits_def length_dropWhile_le)

lemma skip_ws_id: "s = [] \<or> \<not> is_ws (hd s) \<Longrightarrow> skip_ws s = s"
  by (cases s) (auto simp: skip_ws_def)

lemma skip_ws_Cons [simp]: "\<not> is_ws c \<Longrightarrow> skip_ws (c # s) = c # s"
  by (simp add: skip_ws_def)

lemma is_ws_simps [simp]:
  "\<not> is_ws quote" "\<not> is_ws (CHR ''{'')" "\<not> is_ws (CHR ''}'')" "\<not> is_ws (CHR '','')"
  "\<not> is_ws (CHR '':'')" "\<not> is_ws (CHR ''['')" "\<not> is_ws (CHR '']'')"
  "\<not> is_ws (CHR ''t'')" "\<not> is_ws (CHR ''f'')" "\<not> is_ws (CHR ''n'')" "\<not> is_ws (CHR ''-'')"
  by (simp_all add: is_ws_def)

lemma is_digit_not_ws: "is_digit c \<Longrightarrow> \<not> is_ws c"
  by (auto simp: is_ws_def is_digit_def byte_of_def)

subsection \<open>Values\<close>

text \<open>
  The comparisons of lengths guard the recursion after a value has been scanned; they always
  hold (lemmas \<open>scan_shorter\<close> below) and vanish from the equations used in proofs.
\<close>

function scan_value :: "nat \<Rightarrow> string \<Rightarrow> string option"
  and scan_members :: "nat \<Rightarrow> string \<Rightarrow> ((string \<times> string) list \<times> string) option"
  and scan_elems :: "nat \<Rightarrow> string \<Rightarrow> (string list \<times> string) option" where
  "scan_value d s =
     (case s of [] \<Rightarrow> None
      | c # t \<Rightarrow>
          if c = quote then map_option snd (json_unquote t)
          else if c = CHR ''{'' then
            (if d = 0 then None
             else if skip_ws t \<noteq> [] \<and> hd (skip_ws t) = CHR ''}'' then Some (tl (skip_ws t))
             else map_option snd (scan_members (d - 1) (skip_ws t)))
          else if c = CHR ''['' then
            (if d = 0 then None
             else if skip_ws t \<noteq> [] \<and> hd (skip_ws t) = CHR '']'' then Some (tl (skip_ws t))
             else map_option snd (scan_elems (d - 1) (skip_ws t)))
          else if c = CHR ''-'' \<or> is_digit c then scan_number s
          else if c = CHR ''t'' then scan_lit ''true'' s
          else if c = CHR ''f'' then scan_lit ''false'' s
          else scan_lit ''null'' s)"
| "scan_members d s =
     (case s of [] \<Rightarrow> None
      | q # t \<Rightarrow>
          if q \<noteq> quote then None
          else
            (case json_unquote t of None \<Rightarrow> None
             | Some (k, u) \<Rightarrow>
                 if skip_ws u = [] \<or> hd (skip_ws u) \<noteq> CHR '':'' then None
                 else
                   let v = skip_ws (tl (skip_ws u)) in
                   (case scan_value d v of None \<Rightarrow> None
                    | Some w \<Rightarrow>
                        let raw = take (length v - length w) v; x = skip_ws w in
                        if x = [] then None
                        else if hd x = CHR ''}'' then Some ([(k, raw)], tl x)
                        else if hd x = CHR '','' \<and> length x < length s then
                          map_option (\<lambda>(ms, r). ((k, raw) # ms, r)) (scan_members d (skip_ws (tl x)))
                        else None)))"
| "scan_elems d s =
     (case scan_value d s of None \<Rightarrow> None
      | Some w \<Rightarrow>
          let raw = take (length s - length w) s; x = skip_ws w in
          if x = [] then None
          else if hd x = CHR '']'' then Some ([raw], tl x)
          else if hd x = CHR '','' \<and> length x \<le> length s then
            map_option (\<lambda>(es, r). (raw # es, r)) (scan_elems d (skip_ws (tl x)))
          else None)"
  by pat_completeness auto
termination
proof (relation "measures
      [\<lambda>p. case p of Inl (d, s) \<Rightarrow> length s | Inr (Inl (d, s)) \<Rightarrow> length s | Inr (Inr (d, s)) \<Rightarrow> length s,
       \<lambda>p. case p of Inl _ \<Rightarrow> 0 | Inr _ \<Rightarrow> (1::nat)]", goal_cases)
  case 1
  then show ?case by simp
next
  case (2 d s c t)
  then show ?case by (simp add: le_imp_less_Suc skip_ws_le)
next
  case (3 d s c t)
  then show ?case by (simp add: le_imp_less_Suc skip_ws_le)
next
  case (4 d s q t kp k u v)
  then have "length u < length t" by (auto dest: json_unquote_shorter)
  moreover have "length (tl (skip_ws u)) \<le> length u"
    by (metis diff_le_self le_trans length_tl skip_ws_le)
  ultimately have "length v < length s"
    using 4 skip_ws_le [of "tl (skip_ws u)"] by simp
  then show ?case by simp
next
  case (5 d s q t kp k u v w raw x)
  then have x: "x \<noteq> []" "length x \<le> length s" by auto
  have "length (skip_ws (tl x)) \<le> length (tl x)" by (rule skip_ws_le)
  also have "\<dots> < length s" using x by (cases x) auto
  finally show ?case by simp
next
  case (6 d s)
  then show ?case by simp
next
  case (7 d s w raw x)
  then have x: "x \<noteq> []" "length x \<le> length s" by auto
  have "length (skip_ws (tl x)) \<le> length (tl x)" by (rule skip_ws_le)
  also have "\<dots> < length s" using x by (cases x) auto
  finally show ?case by simp
qed

declare scan_value.simps [simp del] scan_members.simps [simp del] scan_elems.simps [simp del]

lemma scan_value_Cons:
  "scan_value d [] = None"
  "scan_value d (quote # t) = map_option snd (json_unquote t)"
  "scan_value d (CHR ''{'' # t) =
     (if d = 0 then None
      else if skip_ws t \<noteq> [] \<and> hd (skip_ws t) = CHR ''}'' then Some (tl (skip_ws t))
      else map_option snd (scan_members (d - 1) (skip_ws t)))"
  "scan_value d (CHR ''['' # t) =
     (if d = 0 then None
      else if skip_ws t \<noteq> [] \<and> hd (skip_ws t) = CHR '']'' then Some (tl (skip_ws t))
      else map_option snd (scan_elems (d - 1) (skip_ws t)))"
  by (simp_all add: scan_value.simps)

lemma scan_value_other:
  "c \<noteq> quote \<Longrightarrow> c \<noteq> CHR ''{'' \<Longrightarrow> c \<noteq> CHR ''['' \<Longrightarrow>
   scan_value d (c # t) =
     (if c = CHR ''-'' \<or> is_digit c then scan_number (c # t)
      else if c = CHR ''t'' then scan_lit ''true'' (c # t)
      else if c = CHR ''f'' then scan_lit ''false'' (c # t)
      else scan_lit ''null'' (c # t))"
  by (simp add: scan_value.simps)

lemma scan_members_unfold:
  assumes "json_unquote u = Some (k, v)" "skip_ws v \<noteq> []" "hd (skip_ws v) = CHR '':''"
    and "y = skip_ws (tl (skip_ws v))" "scan_value d y = Some w"
  shows "scan_members d (quote # u) =
    (let raw = take (length y - length w) y; x = skip_ws w in
     if x = [] then None
     else if hd x = CHR ''}'' then Some ([(k, raw)], tl x)
     else if hd x = CHR '','' \<and> length x < length (quote # u) then
       map_option (\<lambda>(ms, r). ((k, raw) # ms, r)) (scan_members d (skip_ws (tl x)))
     else None)"
  using assms by (simp add: scan_members.simps [of d "quote # u"] Let_def)

subsection \<open>Scanning consumes\<close>

lemma scan_digits_le: "scan_digits s = Some t \<Longrightarrow> length t \<le> length s"
  by (auto simp: scan_digits_def skip_digits_le split: if_splits)

lemma scan_frac_le: "scan_frac s = Some t \<Longrightarrow> length t \<le> length s"
  by (auto simp: scan_frac_def split: if_splits dest!: scan_digits_le)

lemma scan_exp_le: "scan_exp s = Some t \<Longrightarrow> length t \<le> length s"
  by (auto simp: scan_exp_def Let_def split: if_splits dest!: scan_digits_le)

lemma skip_digits_less: "s \<noteq> [] \<Longrightarrow> is_digit (hd s) \<Longrightarrow> length (skip_digits s) < length s"
  by (cases s) (auto simp: skip_digits_def le_imp_less_Suc length_dropWhile_le)

lemma strip_minus_le: "length (strip_minus s) \<le> length s"
  by (simp add: strip_minus_def)

lemma scan_int_less: "scan_int s = Some t \<Longrightarrow> length t < length s"
  using skip_digits_less [of s] by (cases s) (auto simp: scan_int_def split: if_splits)

lemma scan_number_less:
  assumes "scan_number s = Some t"
  shows "length t < length s"
proof -
  from assms obtain u v where "scan_int (strip_minus s) = Some u" "scan_frac u = Some v"
    "scan_exp v = Some t"
    unfolding scan_number_def by (auto simp: bind_eq_Some_conv)
  then show ?thesis
    using strip_minus_le [of s] scan_int_less [of "strip_minus s" u] scan_frac_le [of u v]
      scan_exp_le [of v t] by linarith
qed

lemma scan_lit_less: "l \<noteq> [] \<Longrightarrow> scan_lit l s = Some t \<Longrightarrow> length t < length s"
  by (cases s) (auto simp: scan_lit_def split: if_splits)

lemma scan_shorter:
  "scan_value d s = Some t \<Longrightarrow> length t < length s"
  "scan_members d s = Some (ms, r) \<Longrightarrow> length r < length s"
  "scan_elems d s = Some (es, q) \<Longrightarrow> length q < length s"
proof (induction d s and d s and d s arbitrary: t and ms r and es q
    rule: scan_value_scan_members_scan_elems.induct)
  case (1 d s)
  from "1.prems" obtain c u where s: "s = c # u" by (cases s) (auto simp: scan_value.simps)
  have tl: "length (tl (skip_ws u)) < length s" "length (skip_ws u) < length s"
    using skip_ws_le [of u] by (auto simp: s)
  consider "c = quote" | "c = CHR ''{''" | "c = CHR ''[''"
    | "c \<noteq> quote" "c \<noteq> CHR ''{''" "c \<noteq> CHR ''[''" by blast
  then show ?case
  proof cases
    case 1
    with "1.prems" s show ?thesis by (auto simp: scan_value_Cons dest: json_unquote_shorter)
  next
    case 2
    show ?thesis
    proof (cases "skip_ws u \<noteq> [] \<and> hd (skip_ws u) = CHR ''}''")
      case True
      with 2 "1.prems" s tl show ?thesis by (auto simp: scan_value_Cons split: if_splits)
    next
      case False
      with 2 "1.prems" s obtain ms where d: "d \<noteq> 0" "scan_members (d - 1) (skip_ws u) = Some (ms, t)"
        by (auto simp: scan_value_Cons split: if_splits)
      from "1.IH"(1) [OF s _ 2 d(1) False d(2)] 2 tl show ?thesis by simp
    qed
  next
    case 3
    show ?thesis
    proof (cases "skip_ws u \<noteq> [] \<and> hd (skip_ws u) = CHR '']''")
      case True
      with 3 "1.prems" s tl show ?thesis by (auto simp: scan_value_Cons split: if_splits)
    next
      case False
      with 3 "1.prems" s obtain es where d: "d \<noteq> 0" "scan_elems (d - 1) (skip_ws u) = Some (es, t)"
        by (auto simp: scan_value_Cons split: if_splits)
      from "1.IH"(2) [OF s _ _ 3 d(1) False d(2)] 3 tl show ?thesis by simp
    qed
  next
    case 4
    with "1.prems" s show ?thesis
      by (auto simp: scan_value_other split: if_splits
          dest!: scan_number_less scan_lit_less [rotated])
  qed
next
  case (2 d s)
  from "2.prems" obtain u k v where s: "s = quote # u" and k: "json_unquote u = Some (k, v)"
    and colon: "\<not> (skip_ws v = [] \<or> hd (skip_ws v) \<noteq> CHR '':'')"
    by (cases s) (auto simp: scan_members.simps split: if_splits option.splits)
  let ?y = "skip_ws (tl (skip_ws v))"
  from "2.prems" s k colon obtain w where w: "scan_value d ?y = Some w"
    by (auto simp: scan_members.simps Let_def split: option.splits)
  have "length ?y \<le> length v"
    by (rule le_trans [OF skip_ws_tl_le skip_ws_le])
  then have y: "length ?y < length s" using json_unquote_shorter [OF k] s by simp
  have "length w < length ?y" using "2.IH"(1) [OF s _ k _ colon refl w] by simp
  then have x: "length (skip_ws w) < length s" using y skip_ws_le [of w] by linarith
  have unfold: "scan_members d s =
    (let raw = take (length ?y - length w) ?y; x = skip_ws w in
     if x = [] then None
     else if hd x = CHR ''}'' then Some ([(k, raw)], tl x)
     else if hd x = CHR '','' \<and> length x < length s then
       map_option (\<lambda>(ms, r). ((k, raw) # ms, r)) (scan_members d (skip_ws (tl x)))
     else None)"
    unfolding s using colon by (intro scan_members_unfold [OF k _ _ refl w]) auto
  show ?case
  proof (cases "hd (skip_ws w) = CHR ''}''")
    case True
    with "2.prems" x show ?thesis unfolding unfold by (auto simp: Let_def split: if_splits)
  next
    case False
    with "2.prems" obtain ms' where x': "skip_ws w \<noteq> []" "hd (skip_ws w) = CHR '',''"
      "scan_members d (skip_ws (tl (skip_ws w))) = Some (ms', r)"
      unfolding unfold by (auto simp: Let_def split: if_splits)
    have "length r < length (skip_ws (tl (skip_ws w)))"
      using "2.IH"(2) [OF s _ k _ colon refl w refl refl x'(1) False _ x'(3)] x'(2) x by simp
    also have "\<dots> \<le> length (skip_ws w)"
      by (rule skip_ws_tl_le)
    finally show ?thesis using x by linarith
  qed
next
  case (3 d s)
  from "3.prems" obtain w where w: "scan_value d s = Some w" "skip_ws w \<noteq> []"
    by (auto simp: scan_elems.simps Let_def split: option.splits if_splits)
  have x: "length (skip_ws w) < length s"
    using "3.IH"(1) [OF w(1)] skip_ws_le [of w] by linarith
  show ?case
  proof (cases "hd (skip_ws w) = CHR '']''")
    case True
    with "3.prems" w x show ?thesis by (auto simp: scan_elems.simps [of d s] Let_def)
  next
    case False
    with "3.prems" w obtain es' where x': "hd (skip_ws w) = CHR '',''"
      "scan_elems d (skip_ws (tl (skip_ws w))) = Some (es', q)"
      by (auto simp: scan_elems.simps [of d s] Let_def split: if_splits)
    have "length q < length (skip_ws (tl (skip_ws w)))"
      using "3.IH"(2) [OF w(1) refl refl w(2) False _ x'(2)] x'(1) x by simp
    also have "\<dots> \<le> length (skip_ws w)"
      by (rule skip_ws_tl_le)
    finally show ?thesis using x by linarith
  qed
qed

end
