(* ===== verification/JsonObject.thy ===== *)
theory JsonObject
  imports JsonScan
begin

text \<open>
  JSON objects: how \<^verbatim>\<open>json.Marshal\<close> writes a struct or a map, how \<^verbatim>\<open>json.Unmarshal\<close> fills a
  struct from an object (exact field names first, then names up to case folding; \<^verbatim>\<open>null\<close> leaves
  a field alone; the last of several members wins), and \<^verbatim>\<open>json.RawMessage\<close>.
\<close>

subsection \<open>Writing objects\<close>

definition enc_member :: "string \<times> string \<Rightarrow> string" where
  "enc_member m = json_string (fst m) @ CHR '':'' # snd m"

fun enc_members :: "(string \<times> string) list \<Rightarrow> string" where
  "enc_members [] = []"
| "enc_members [m] = enc_member m"
| "enc_members (m # n # ms) = enc_member m @ CHR '','' # enc_members (n # ms)"

definition enc_object :: "(string \<times> string) list \<Rightarrow> string" where
  "enc_object ms = CHR ''{'' # enc_members ms @ [CHR ''}'']"

definition enc_bool :: "bool \<Rightarrow> string" where
  "enc_bool b = (if b then ''true'' else ''false'')"

text \<open>A member tagged \<^verbatim>\<open>omitempty\<close>.\<close>

definition omitempty :: "string \<Rightarrow> bool \<Rightarrow> string \<Rightarrow> (string \<times> string) list" where
  "omitempty k e v = (if e then [] else [(k, v)])"

subsection \<open>Texts that scan to their end\<close>

definition value_end :: "string \<Rightarrow> bool" where
  "value_end r \<longleftrightarrow> r = [] \<or> hd r = CHR '','' \<or> hd r = CHR ''}'' \<or> hd r = CHR '']''"

definition json_text :: "nat \<Rightarrow> string \<Rightarrow> bool" where
  "json_text d x \<longleftrightarrow>
     x \<noteq> [] \<and> \<not> is_ws (hd x) \<and> (\<forall>r. value_end r \<longrightarrow> scan_value d (x @ r) = Some r)"

lemma value_end_simps [simp]:
  "value_end []" "value_end (CHR '','' # r)" "value_end (CHR ''}'' # r)" "value_end (CHR '']'' # r)"
  by (simp_all add: value_end_def)

lemma json_textD: "json_text d x \<Longrightarrow> value_end r \<Longrightarrow> scan_value d (x @ r) = Some r"
  by (simp add: json_text_def)

lemma json_text_skip_ws: "json_text d x \<Longrightarrow> skip_ws (x @ r) = x @ r"
  by (auto simp: json_text_def intro!: skip_ws_id)

lemma json_text_string [simp]: "json_text d (json_string s)"
  by (simp add: json_text_def json_string_def scan_value_Cons json_unquote_escape)

lemma json_text_bool [simp]: "json_text d (enc_bool b)"
  by (simp add: json_text_def enc_bool_def scan_value_other scan_lit_def is_digit_def byte_of_def)

lemma value_end_number:
  "value_end r \<Longrightarrow> skip_digits r = r" "value_end r \<Longrightarrow> scan_frac r = Some r"
  "value_end r \<Longrightarrow> scan_exp r = Some r"
  by (cases r; auto simp: value_end_def skip_digits_def scan_frac_def scan_exp_def
      is_digit_def byte_of_def)+

lemma skip_digits_append: "list_all is_digit x \<Longrightarrow> skip_digits (x @ r) = skip_digits r"
  by (induction x) (auto simp: skip_digits_def)

lemma FormatUint_hd_0: "hd (FormatUint n) = CHR ''0'' \<longleftrightarrow> n = 0"
proof (induction n rule: FormatUint.induct)
  case (1 n)
  have z: "CHR ''0'' = digit_chr 0" by (simp add: digit_chr_def) (code_simp)
  show ?case
  proof (cases "n < 10")
    case True
    then show ?thesis unfolding z by (subst FormatUint.simps)
      (simp, metis digit_chr_simps(2) zero_less_numeral)
  next
    case False
    with 1 show ?thesis by (subst FormatUint.simps) auto
  qed
qed

lemma scan_int_FormatUint:
  assumes "value_end r"
  shows "scan_int (FormatUint n @ r) = Some r"
proof (cases "n = 0")
  case True
  have "FormatUint 0 = [digit_chr 0]" by (subst FormatUint.simps) simp
  moreover have "digit_chr 0 = CHR ''0''" by code_simp
  ultimately show ?thesis using True by (simp add: scan_int_def is_digit_def byte_of_def)
next
  case False
  have "FormatUint n \<noteq> []" by simp
  with False show ?thesis
    using hd_FormatUint [of n] FormatUint_hd_0 [of n] assms
    by (simp add: scan_int_def skip_digits_append FormatUint_digits value_end_number)
qed

lemma scan_number_Itoa: "value_end r \<Longrightarrow> scan_number (Itoa i @ r) = Some r"
proof -
  assume r: "value_end r"
  have "hd (FormatUint (nat i)) \<noteq> CHR ''-''" using hd_FormatUint [of "nat i"] by auto
  then have "strip_minus (Itoa i @ r) = FormatUint (nat \<bar>i\<bar>) @ r"
    by (auto simp: strip_minus_def Itoa_def)
  with r show ?thesis by (simp add: scan_number_def scan_int_FormatUint value_end_number)
qed

lemma Itoa_hd: "hd (Itoa i) = CHR ''-'' \<or> is_digit (hd (Itoa i))"
  by (simp add: Itoa_def hd_FormatUint)

lemma json_text_int [simp]: "json_text d (Itoa i)"
proof -
  obtain c x where x: "Itoa i = c # x" using Itoa_not_Nil by (cases "Itoa i") auto
  then have c: "c = CHR ''-'' \<or> is_digit c" using Itoa_hd [of i] by simp
  then have "c \<noteq> quote" "c \<noteq> CHR ''{''" "c \<noteq> CHR ''[''" "\<not> is_ws c"
    by (auto simp: is_digit_def byte_of_def is_ws_def)
  with c x scan_number_Itoa [of _ i] show ?thesis
    by (auto simp: json_text_def scan_value_other)
qed

lemma json_text_uint [simp]: "json_text d (FormatUint n)"
  using json_text_int [of d "int n"] by (simp add: Itoa_def)

lemma enc_members_not_Nil: "ms \<noteq> [] \<Longrightarrow> enc_members ms \<noteq> [] \<and> hd (enc_members ms) = quote"
  by (cases ms rule: enc_members.cases) (simp_all add: enc_member_def json_string_def)

text \<open>Scanning written members gives them back, the keys as UTF-8.\<close>

lemma scan_members_enc:
  assumes "ms \<noteq> []" "\<forall>(k, v) \<in> set ms. json_text d v"
  shows "scan_members d (enc_members ms @ CHR ''}'' # r) =
    Some (map (\<lambda>(k, v). (coerce_utf8 k, v)) ms, r)"
  using assms
proof (induction ms rule: enc_members.induct)
  case (2 m)
  obtain k v where m: "m = (k, v)" by (cases m)
  with 2 have v: "json_text d v" by simp
  have "scan_members d (quote # (json_escape k @ quote # CHR '':'' # v @ CHR ''}'' # r)) =
      Some ([(coerce_utf8 k, v)], r)"
    using json_textD [OF v, of "CHR ''}'' # r"]
    by (subst scan_members_unfold [where w = "CHR ''}'' # r", OF json_unquote_escape _ _ refl])
      (simp_all add: json_text_skip_ws [OF v] Let_def)
  then show ?case by (simp add: m enc_member_def json_string_def)
next
  case (3 m n ms)
  obtain k v where m: "m = (k, v)" by (cases m)
  with 3 have v: "json_text d v" by simp
  let ?rest = "enc_members (n # ms) @ CHR ''}'' # r"
  have IH: "scan_members d ?rest = Some (map (\<lambda>(k, v). (coerce_utf8 k, v)) (n # ms), r)"
    using 3 by simp
  have ws: "skip_ws ?rest = ?rest"
    using enc_members_not_Nil [of "n # ms"] by (intro skip_ws_id) auto
  have "scan_members d (quote # (json_escape k @ quote # CHR '':'' # v @ CHR '','' # ?rest)) =
      Some ((coerce_utf8 k, v) # map (\<lambda>(k, v). (coerce_utf8 k, v)) (n # ms), r)"
    using json_textD [OF v, of "CHR '','' # ?rest"]
    by (subst scan_members_unfold [where w = "CHR '','' # ?rest", OF json_unquote_escape _ _ refl])
      (simp_all add: json_text_skip_ws [OF v] ws IH Let_def)
  then show ?case by (simp add: m enc_member_def json_string_def)
qed simp

lemma json_text_object:
  assumes "\<forall>(k, v) \<in> set ms. json_text d v"
  shows "json_text (Suc d) (enc_object ms)"
proof (cases "ms = []")
  case True
  then show ?thesis by (simp add: json_text_def enc_object_def scan_value_Cons)
next
  case False
  have ws: "skip_ws (enc_members ms @ CHR ''}'' # r) = enc_members ms @ CHR ''}'' # r" for r
    using enc_members_not_Nil [OF False] by (intro skip_ws_id) auto
  show ?thesis
    using scan_members_enc [OF False assms] enc_members_not_Nil [OF False]
    by (simp add: json_text_def enc_object_def scan_value_Cons ws)
qed

subsection \<open>Filling a struct\<close>

text \<open>
  Names are compared up to simple case folding. Besides the ASCII letters, U+017F folds to S
  and U+212A to K; no other character folds to an ASCII one, and field names are ASCII.
\<close>

fun fold_name :: "string \<Rightarrow> string" where
  "fold_name [] = []"
| "fold_name (c # s) =
     (if byte_of c = 0xC5 \<and> s \<noteq> [] \<and> byte_of (hd s) = 0xBF then CHR ''S'' # fold_name (tl s)
      else if byte_of c = 0xE2 \<and> map byte_of (take 2 s) = [0x84, 0xAA]
        then CHR ''K'' # fold_name (drop 2 s)
      else if 97 \<le> byte_of c \<and> byte_of c \<le> 122 then chr (byte_of c - 32) # fold_name s
      else c # fold_name s)"

definition find_field :: "string list \<Rightarrow> string \<Rightarrow> string option" where
  "find_field names k =
     (if k \<in> set names then Some k
      else List.find (\<lambda>n. fold_name n = fold_name k) names)"

definition err_json_syntax :: go_error where
  "err_json_syntax = Errorf ''json: syntax error''"

definition err_json_type :: go_error where
  "err_json_type = Errorf ''json: cannot unmarshal''"

definition err_json_field :: go_error where
  "err_json_field = Errorf ''json: unknown field''"

text \<open>
  The decoders of single fields, from the raw text of the member's value. A field that is
  given \<^verbatim>\<open>null\<close> keeps its value.
\<close>

definition dec_string :: "string \<Rightarrow> string \<Rightarrow> string result" where
  "dec_string raw cur =
     (if raw = ''null'' then Inr cur
      else if raw \<noteq> [] \<and> hd raw = quote then
        (case json_unquote (tl raw) of Some (v, _) \<Rightarrow> Inr v | None \<Rightarrow> Inl err_json_syntax)
      else Inl err_json_type)"

definition dec_uint :: "nat \<Rightarrow> string \<Rightarrow> nat \<Rightarrow> nat result" where
  "dec_uint bits raw cur =
     (if raw = ''null'' then Inr cur
      else (case ParseUint raw bits of Inr n \<Rightarrow> Inr n | Inl _ \<Rightarrow> Inl err_json_type))"

definition dec_int :: "nat \<Rightarrow> string \<Rightarrow> int \<Rightarrow> int result" where
  "dec_int bits raw cur =
     (if raw = ''null'' then Inr cur
      else (case ParseInt raw bits of Inr n \<Rightarrow> Inr n | Inl _ \<Rightarrow> Inl err_json_type))"

definition dec_bool :: "string \<Rightarrow> bool \<Rightarrow> bool result" where
  "dec_bool raw cur =
     (if raw = ''null'' then Inr cur
      else if raw = ''true'' then Inr True
      else if raw = ''false'' then Inr False
      else Inl err_json_type)"

fun set_fields :: "bool \<Rightarrow> string list \<Rightarrow> (string \<Rightarrow> string \<Rightarrow> 'r \<Rightarrow> 'r result)
    \<Rightarrow> (string \<times> string) list \<Rightarrow> 'r \<Rightarrow> 'r result" where
  "set_fields strict names upd [] r = Inr r"
| "set_fields strict names upd ((k, raw) # ms) r =
     (case find_field names k of
        None \<Rightarrow> if strict then Inl err_json_field else set_fields strict names upd ms r
      | Some f \<Rightarrow> bindE (upd f raw r) (set_fields strict names upd ms))"

definition maxNestingDepth :: nat where
  "maxNestingDepth = 10000"

text \<open>The value an input holds, and what follows it.\<close>

definition json_value :: "string \<Rightarrow> (string \<times> string) option" where
  "json_value s =
     (let t = skip_ws s in
      map_option (\<lambda>r. (take (length t - length r) t, r)) (scan_value maxNestingDepth t))"

text \<open>Decoding the text of one value into a struct.\<close>

definition dec_struct :: "bool \<Rightarrow> string list \<Rightarrow> (string \<Rightarrow> string \<Rightarrow> 'r \<Rightarrow> 'r result)
    \<Rightarrow> string \<Rightarrow> 'r \<Rightarrow> 'r result" where
  "dec_struct strict names upd raw r =
     (if raw = ''null'' then Inr r
      else if raw \<noteq> [] \<and> hd raw = CHR ''{'' then
        (if skip_ws (tl raw) \<noteq> [] \<and> hd (skip_ws (tl raw)) = CHR ''}'' then Inr r
         else (case scan_members maxNestingDepth (skip_ws (tl raw)) of
                 Some (ms, _) \<Rightarrow> set_fields strict names upd ms r
               | None \<Rightarrow> Inl err_json_syntax))
      else Inl err_json_type)"

text \<open>\<^verbatim>\<open>json.Unmarshal\<close>: the whole input is one value.\<close>

definition Unmarshal :: "(string \<Rightarrow> 'r \<Rightarrow> 'r result) \<Rightarrow> string \<Rightarrow> 'r \<Rightarrow> 'r result" where
  "Unmarshal dec s r =
     (case json_value s of
        Some (raw, rest) \<Rightarrow> if skip_ws rest = [] then dec raw r else Inl err_json_syntax
      | None \<Rightarrow> Inl err_json_syntax)"

text \<open>\<^verbatim>\<open>json.NewDecoder(r).Decode\<close>: the first value of the input; what follows is not read.\<close>

definition Decode :: "(string \<Rightarrow> 'r \<Rightarrow> 'r result) \<Rightarrow> string \<Rightarrow> 'r \<Rightarrow> 'r result" where
  "Decode dec s r =
     (case json_value s of Some (raw, _) \<Rightarrow> dec raw r | None \<Rightarrow> Inl err_json_syntax)"

lemma find_field_exact [simp]: "k \<in> set names \<Longrightarrow> find_field names k = Some k"
  by (simp add: find_field_def)

lemma json_string_neq_null [simp]: "json_string s \<noteq> ''null''"
  by (simp add: json_string_def)

lemma FormatUint_neq_null [simp]: "FormatUint n \<noteq> ''null''"
  using FormatUint_digits [of n] by (auto simp: is_digit_def byte_of_def)

lemma Itoa_neq_null [simp]: "Itoa i \<noteq> ''null''"
  using Itoa_hd [of i] by (auto simp: is_digit_def byte_of_def)

lemma dec_string_enc [simp]: "dec_string (json_string s) cur = Inr (coerce_utf8 s)"
  by (simp add: dec_string_def) (simp add: json_string_def json_unquote_escape)

lemma dec_uint_enc [simp]: "n < 2 ^ bits \<Longrightarrow> dec_uint bits (FormatUint n) cur = Inr n"
  by (simp add: dec_uint_def)

lemma dec_int_enc [simp]:
  "- (2 ^ (bits - 1)) \<le> i \<Longrightarrow> i < 2 ^ (bits - 1) \<Longrightarrow> dec_int bits (Itoa i) cur = Inr i"
  by (simp add: dec_int_def)

lemma dec_bool_enc [simp]: "dec_bool (enc_bool b) cur = Inr b"
  by (simp add: dec_bool_def enc_bool_def)

lemma json_value_text:
  assumes "json_text maxNestingDepth x" "value_end r"
  shows "json_value (x @ r) = Some (x, r)"
  using assms by (simp add: json_value_def json_text_skip_ws json_textD Let_def)

lemma dec_struct_object:
  assumes "\<forall>(k, v) \<in> set ms. json_text maxNestingDepth v"
  shows "dec_struct strict names upd (enc_object ms) r =
    set_fields strict names upd (map (\<lambda>(k, v). (coerce_utf8 k, v)) ms) r"
proof (cases "ms = []")
  case True
  then show ?thesis by (simp add: dec_struct_def enc_object_def)
next
  case False
  have "skip_ws (enc_members ms @ [CHR ''}'']) = enc_members ms @ [CHR ''}'']"
    using enc_members_not_Nil [OF False] by (intro skip_ws_id) auto
  with False show ?thesis
    using scan_members_enc [OF False assms, of "[]"] enc_members_not_Nil [OF False]
    by (simp add: dec_struct_def enc_object_def)
qed

text \<open>Unmarshalling a written object fills the fields from its members, one by one.\<close>

lemma json_text_mono_object:
  assumes "\<forall>(k, v) \<in> set ms. \<forall>d \<ge> n. json_text d v"
  shows "\<forall>d \<ge> Suc n. json_text d (enc_object ms)"
proof (intro allI impI)
  fix d assume "Suc n \<le> d"
  then obtain d' where "d = Suc d'" "n \<le> d'" by (cases d) auto
  with assms show "json_text d (enc_object ms)" by (auto intro!: json_text_object)
qed

lemma Unmarshal_object:
  assumes "\<forall>(k, v) \<in> set ms. \<forall>d \<ge> n. json_text d v" "n < maxNestingDepth"
  shows "Unmarshal (dec_struct strict names upd) (enc_object ms) r =
    set_fields strict names upd (map (\<lambda>(k, v). (coerce_utf8 k, v)) ms) r"
proof -
  have "json_text maxNestingDepth (enc_object ms)"
    using json_text_mono_object [OF assms(1)] assms(2) by simp
  from json_value_text [OF this, of "[]"] show ?thesis
    using dec_struct_object [of ms strict names upd r] assms
    by (auto simp: Unmarshal_def skip_ws_def split_def)
qed

end
