(* ===== verification/GoDuration.thy ===== *)
theory GoDuration
  imports GoStrings
begin

text \<open>
  \<^verbatim>\<open>time.ParseDuration\<close>. A duration is a number of nanoseconds in the range of \<^verbatim>\<open>int64\<close>. The
  fractional digits of an element such as \<^verbatim>\<open>1.5h\<close> go through \<^verbatim>\<open>float64\<close> arithmetic in Go; the
  roundings are written out on fractions of natural numbers.
\<close>

subsection \<open>Rounding to float64\<close>

fun bitlen :: "nat \<Rightarrow> nat" where
  "bitlen n = (if n = 0 then 0 else Suc (bitlen (n div 2)))"

declare bitlen.simps [simp del]

text \<open>The quotient rounded to the nearest integer, ties to even.\<close>

definition round_div :: "nat \<Rightarrow> nat \<Rightarrow> nat" where
  "round_div a b =
     (let q = a div b; r = a mod b in
      if 2 * r < b \<or> 2 * r = b \<and> even q then q else Suc q)"

text \<open>
  The \<^verbatim>\<open>float64\<close> nearest to \<open>a / b\<close>, again as a fraction: the quotient is scaled by a power of two
  to 53 bits and rounded there. Only normal numbers occur.
\<close>

definition scaled :: "nat \<Rightarrow> nat \<Rightarrow> int \<Rightarrow> nat \<times> nat" where
  "scaled a b k = (if 0 \<le> k then (a * 2 ^ nat k, b) else (a, b * 2 ^ nat (- k)))"

definition scale_exp :: "nat \<Rightarrow> nat \<Rightarrow> int" where
  "scale_exp a b =
     (let k = int (53 + bitlen b) - int (bitlen a) in
      case scaled a b k of (x, y) \<Rightarrow> if 2 ^ 53 * y \<le> x then k - 1 else k)"

definition round64 :: "nat \<times> nat \<Rightarrow> nat \<times> nat" where
  "round64 ab =
     (case ab of (a, b) \<Rightarrow>
        if a = 0 then (0, 1)
        else let k = scale_exp a b in
             case scaled a b k of (x, y) \<Rightarrow>
               if 0 \<le> k then (round_div x y, 2 ^ nat k) else (round_div x y * 2 ^ nat (- k), 1))"

lemma bitlen_bounds: "0 < n \<Longrightarrow> 2 ^ (bitlen n - 1) \<le> n \<and> n < 2 ^ bitlen n \<and> 0 < bitlen n"
proof (induction n rule: bitlen.induct)
  case (1 n)
  show ?case
  proof (cases "n div 2 = 0")
    case True
    with 1 have "n = 1" by auto
    then show ?thesis by (simp add: bitlen.simps [of "Suc 0"] bitlen.simps [of 0])
  next
    case False
    with 1 have IH: "2 ^ (bitlen (n div 2) - 1) \<le> n div 2" "n div 2 < 2 ^ bitlen (n div 2)"
      "0 < bitlen (n div 2)" by auto
    have e: "bitlen n = Suc (bitlen (n div 2))" using 1 by (simp add: bitlen.simps [of n])
    obtain b where b: "bitlen (n div 2) = Suc b" using IH(3) by (cases "bitlen (n div 2)") auto
    show ?thesis using IH by (auto simp: e b)
  qed
qed

lemma round_div_ge: "0 < b \<Longrightarrow> n * b \<le> a \<Longrightarrow> n \<le> round_div a b"
proof -
  assume "0 < b" "n * b \<le> a"
  then have "n \<le> a div b" by (simp add: less_eq_div_iff_mult_less_eq)
  then show ?thesis by (simp add: round_div_def Let_def)
qed

lemma round_div_le: "a \<le> n * b \<Longrightarrow> 0 < b \<Longrightarrow> round_div a b \<le> n"
proof -
  assume a: "a \<le> n * b" and b: "0 < b"
  have q: "a div b \<le> n" using a b by (metis div_le_mono nonzero_mult_div_cancel_right not_gr_zero)
  show ?thesis
  proof (cases "a div b = n")
    case True
    then have "a = n * b" using a by (metis div_mult_mod_eq le_add1 le_antisym)
    then show ?thesis using b by (simp add: round_div_def Let_def)
  next
    case False
    with q show ?thesis by (simp add: round_div_def Let_def)
  qed
qed

lemma scale_exp_negative:
  assumes "0 < a" "0 < b" "scale_exp a b < 0"
  shows "b * 2 ^ nat (- scale_exp a b) * 2 ^ 51 \<le> a"
proof -
  define j where "j = nat (- scale_exp a b)"
  have j: "0 < j" "scale_exp a b = - int j" using assms(3) by (auto simp: j_def)
  have ba: "bitlen a \<ge> 52 + bitlen b + j"
    using j unfolding scale_exp_def by (auto simp: Let_def split: prod.splits if_splits)
  have "b * 2 ^ j * 2 ^ 51 \<le> 2 ^ (bitlen b + j + 51)"
    using bitlen_bounds [OF assms(2)] by (simp add: power_add)
  also have "\<dots> \<le> 2 ^ (bitlen a - 1)" using ba by (intro power_increasing) auto
  also have "\<dots> \<le> a" using bitlen_bounds [OF assms(1)] by simp
  finally show ?thesis by (simp add: j_def)
qed

lemma round64_cases:
  assumes "0 < a" "round64 (a, b) = (x, y)"
  obtains (up) k where "x = round_div (a * 2 ^ k) b" "y = 2 ^ k"
  | (down) "scale_exp a b < 0" "x = round_div a (b * 2 ^ nat (- scale_exp a b)) * 2 ^ nat (- scale_exp a b)" "y = 1"
  using assms
  by (cases "0 \<le> scale_exp a b") (auto simp: round64_def Let_def scaled_def split: if_splits)

text \<open>
  Rounding to \<^verbatim>\<open>float64\<close> never crosses an integer below \<open>2^52\<close> (all of which are representable).
\<close>

lemma round64_ge:
  assumes "0 < b" "n * b \<le> a" "n < 2 ^ 52" "round64 (a, b) = (x, y)"
  shows "n \<le> x div y"
proof (cases "a = 0")
  case True
  with assms show ?thesis by (simp add: round64_def)
next
  case False
  then have a: "0 < a" by simp
  from a assms(4) show ?thesis
  proof (cases rule: round64_cases)
    case (up k)
    have "n * 2 ^ k * b \<le> a * 2 ^ k" using assms(2) by (simp add: mult.assoc mult.commute)
    then have "n * 2 ^ k \<le> x" unfolding up by (intro round_div_ge) (use assms in auto)
    then show ?thesis using up(2) by (simp add: less_eq_div_iff_mult_less_eq)
  next
    case down
    let ?j = "nat (- scale_exp a b)"
    have "2 ^ 51 \<le> round_div a (b * 2 ^ ?j)"
      using scale_exp_negative [OF a assms(1) down(1)] assms(1)
      by (intro round_div_ge) (auto simp: mult.commute)
    moreover have "(2::nat) ^ 1 \<le> 2 ^ ?j" using down(1) by (intro power_increasing) auto
    ultimately have "2 ^ 51 * 2 \<le> x" unfolding down by (intro mult_le_mono) simp_all
    then show ?thesis using assms(3) down(3) by simp
  qed
qed

lemma round64_le:
  assumes "0 < b" "a \<le> n * b" "n < 2 ^ 52" "round64 (a, b) = (x, y)"
  shows "x \<le> n * y"
proof (cases "a = 0")
  case True
  with assms show ?thesis by (simp add: round64_def)
next
  case False
  then have a: "0 < a" by simp
  from a assms(4) show ?thesis
  proof (cases rule: round64_cases)
    case (up k)
    have "a * 2 ^ k \<le> n * 2 ^ k * b" using assms(2) by (simp add: mult.assoc mult.commute [of b])
    then show ?thesis unfolding up using assms(1) by (intro round_div_le)
  next
    case down
    have "2 ^ 1 \<le> (2::nat) ^ nat (- scale_exp a b)" using down(1) by (intro power_increasing) auto
    then have "b * 2 * 2 ^ 51 \<le> b * 2 ^ nat (- scale_exp a b) * 2 ^ 51" by simp
    also have "\<dots> \<le> a" by (rule scale_exp_negative [OF a assms(1) down(1)])
    also have "\<dots> \<le> n * b" by (rule assms(2))
    finally have "2 ^ 52 \<le> n" using assms(1) by simp
    then show ?thesis using assms(3) by simp
  qed
qed

text \<open>\<^verbatim>\<open>uint64(float64(f) * (float64(unit) / scale))\<close>\<close>

definition frac_nanos :: "nat \<Rightarrow> nat \<Rightarrow> nat \<Rightarrow> nat" where
  "frac_nanos f unit scale =
     (case round64 (f, 1) of (a, b) \<Rightarrow>
      case round64 (unit, scale) of (c, d) \<Rightarrow>
      case round64 (a * c, b * d) of (x, y) \<Rightarrow> x div y)"

subsection \<open>Parsing\<close>

definition err_duration :: go_error where
  "err_duration = Errorf ''time: invalid duration''"

fun leadingInt :: "nat \<Rightarrow> string \<Rightarrow> (nat \<times> string) option" where
  "leadingInt x [] = Some (x, [])"
| "leadingInt x (c # s) =
     (if \<not> is_digit c then Some (x, c # s)
      else if x > 2 ^ 63 div 10 then None
      else let y = x * 10 + digit_val c in if y > 2 ^ 63 then None else leadingInt y s)"

fun leadingFraction :: "bool \<Rightarrow> nat \<Rightarrow> nat \<Rightarrow> string \<Rightarrow> nat \<times> nat \<times> string" where
  "leadingFraction overflow x scale [] = (x, scale, [])"
| "leadingFraction overflow x scale (c # s) =
     (if \<not> is_digit c then (x, scale, c # s)
      else if overflow \<or> x > (2 ^ 63 - 1) div 10 then leadingFraction True x scale s
      else let y = x * 10 + digit_val c in
           if y > 2 ^ 63 then leadingFraction True x scale s
           else leadingFraction False y (scale * 10) s)"

definition unitMap :: "string \<Rightarrow> nat option" where
  "unitMap u =
     (if u = ''ns'' then Some 1
      else if u = ''us'' \<or> map byte_of u = [0xC2, 0xB5, 0x73] \<or> map byte_of u = [0xCE, 0xBC, 0x73]
        then Some 1000
      else if u = ''ms'' then Some 1000000
      else if u = ''s'' then Some 1000000000
      else if u = ''m'' then Some 60000000000
      else if u = ''h'' then Some 3600000000000
      else None)"

definition unit_stop :: "char \<Rightarrow> bool" where
  "unit_stop c \<longleftrightarrow> c = CHR ''.'' \<or> is_digit c"

text \<open>One element, such as \<^verbatim>\<open>1.5h\<close>: its nanoseconds and what follows.\<close>

definition duration_elem :: "string \<Rightarrow> (nat \<times> string) option" where
  "duration_elem s =
     (if s = [] \<or> \<not> unit_stop (hd s) then None
      else case leadingInt 0 s of None \<Rightarrow> None
      | Some (v, s1) \<Rightarrow>
          let pre = length s1 \<noteq> length s;
              (f, scale, s2) =
                (if s1 \<noteq> [] \<and> hd s1 = CHR ''.'' then leadingFraction False 0 1 (tl s1) else (0, 1, s1));
              post = (s1 \<noteq> [] \<and> hd s1 = CHR ''.'' \<and> length s2 \<noteq> length (tl s1));
              u = takeWhile (\<lambda>c. \<not> unit_stop c) s2
          in if \<not> pre \<and> \<not> post then None
             else if u = [] then None
             else (case unitMap u of None \<Rightarrow> None
                   | Some unit \<Rightarrow>
                       if v > 2 ^ 63 div unit then None
                       else let w = v * unit + (if f > 0 then frac_nanos f unit scale else 0)
                            in if w > 2 ^ 63 then None else Some (w, drop (length u) s2)))"

lemma leadingInt_le: "leadingInt x s = Some (v, t) \<Longrightarrow> length t \<le> length s"
  by (induction x s rule: leadingInt.induct) (auto simp: Let_def split: if_splits)

lemma leadingFraction_le: "leadingFraction ov x sc s = (f, c, t) \<Longrightarrow> length t \<le> length s"
  by (induction ov x sc s rule: leadingFraction.induct) (auto simp: Let_def split: if_splits)

lemma duration_elem_shorter: "duration_elem s = Some (v, t) \<Longrightarrow> length t < length s"
proof -
  assume d: "duration_elem s = Some (v, t)"
  then obtain x s1 s2 f c where s1: "leadingInt 0 s = Some (x, s1)"
    and s2: "(f, c, s2) = (if s1 \<noteq> [] \<and> hd s1 = CHR ''.'' then leadingFraction False 0 1 (tl s1) else (0, 1, s1))"
    and u: "takeWhile (\<lambda>c. \<not> unit_stop c) s2 \<noteq> []"
    and t: "t = drop (length (takeWhile (\<lambda>c. \<not> unit_stop c) s2)) s2"
    unfolding duration_elem_def by (auto simp: Let_def split: if_splits option.splits prod.splits)
  have "length s2 \<le> length s1"
    using s2 [symmetric] by (cases s1) (auto split: if_splits dest!: leadingFraction_le)
  moreover have "length t < length s2" using u t
    by (cases s2) (auto simp: takeWhile_eq_Nil_iff split: if_splits)
  ultimately show ?thesis using leadingInt_le [OF s1] by simp
qed

function sum_elems :: "nat \<Rightarrow> string \<Rightarrow> nat option" where
  "sum_elems d s =
     (if s = [] then Some d
      else case duration_elem s of None \<Rightarrow> None
      | Some (v, t) \<Rightarrow> if d + v > 2 ^ 63 then None else sum_elems (d + v) t)"
  by pat_completeness auto
termination
  by (relation "measure (length \<circ> snd)") (auto dest: duration_elem_shorter)

declare sum_elems.simps [simp del]

definition ParseDuration :: "string \<Rightarrow> int result" where
  "ParseDuration orig =
     (let neg = (orig \<noteq> [] \<and> hd orig = CHR ''-'');
          s = (if orig \<noteq> [] \<and> (hd orig = CHR ''-'' \<or> hd orig = CHR ''+'') then tl orig else orig)
      in if s = ''0'' then Inr 0
         else if s = [] then Inl err_duration
         else case sum_elems 0 s of
                None \<Rightarrow> Inl err_duration
              | Some d \<Rightarrow>
                  if neg then Inr (- int d)
                  else if d > 2 ^ 63 - 1 then Inl err_duration
                  else Inr (int d))"

text \<open>What is parsed fits a 64-bit \<^verbatim>\<open>time.Duration\<close>.\<close>

lemma sum_elems_bound: "sum_elems d s = Some v \<Longrightarrow> d \<le> 2 ^ 63 \<Longrightarrow> v \<le> 2 ^ 63"
proof (induction d s rule: sum_elems.induct)
  case (1 d s)
  then show ?case
    using sum_elems.simps [of d s] by (auto split: if_splits option.splits prod.splits)
qed

lemma ParseDuration_range:
  assumes "ParseDuration s = Inr d"
  shows "- (2 ^ 63) \<le> d \<and> d < 2 ^ 63"
  using assms by (auto simp: ParseDuration_def Let_def split: if_splits option.splits
      dest!: sum_elems_bound)

lemma sum_elems_step:
  "s \<noteq> [] \<Longrightarrow> duration_elem s = Some (v, t) \<Longrightarrow> d + v \<le> 2 ^ 63 \<Longrightarrow>
   sum_elems d s = sum_elems (d + v) t"
  by (subst sum_elems.simps) simp

lemma sum_elems_Nil [simp]: "sum_elems d [] = Some d"
  by (simp add: sum_elems.simps)

lemma ParseDuration_24h: "ParseDuration ''24h'' = Inr 86400000000000"
  by (simp add: ParseDuration_def sum_elems_step duration_elem_def unit_stop_def is_digit_def byte_of_def
      digit_val_def unitMap_def)

end
