(* ===== verification/GoPath.thy ===== *)
theory GoPath
  imports GoText
begin

text \<open>
  The parts of \<^verbatim>\<open>path/filepath\<close> the program calls, for Unix paths: \<^verbatim>\<open>Clean\<close>, \<^verbatim>\<open>Join\<close>, \<^verbatim>\<open>IsAbs\<close>, \<^verbatim>\<open>Dir\<close>
  and \<^verbatim>\<open>Ext\<close>, and \<^verbatim>\<open>strings.ToLower\<close> as far as comparisons with ASCII names can tell.
\<close>

abbreviation slash :: char where
  "slash \<equiv> CHR ''/''"

definition IsAbs :: "string \<Rightarrow> bool" where
  "IsAbs p \<longleftrightarrow> p \<noteq> [] \<and> hd p = slash"

text \<open>The elements kept so far are in reverse order.\<close>

fun clean_elems :: "bool \<Rightarrow> string list \<Rightarrow> string list \<Rightarrow> string list" where
  "clean_elems rooted acc [] = rev acc"
| "clean_elems rooted acc (e # es) =
     (if e = [] \<or> e = ''.'' then clean_elems rooted acc es
      else if e = ''..'' then
        (if acc \<noteq> [] \<and> hd acc \<noteq> ''..'' then clean_elems rooted (tl acc) es
         else if rooted then clean_elems rooted acc es
         else clean_elems rooted (e # acc) es)
      else clean_elems rooted (e # acc) es)"

definition render_path :: "bool \<Rightarrow> string list \<Rightarrow> string" where
  "render_path rooted es =
     (if rooted then slash # join_with slash es
      else if es = [] then ''.'' else join_with slash es)"

definition Clean :: "string \<Rightarrow> string" where
  "Clean p = render_path (IsAbs p) (clean_elems (IsAbs p) [] (split_on slash p))"

definition Join :: "string list \<Rightarrow> string" where
  "Join es =
     (let rest = dropWhile (\<lambda>e. e = []) es in
      if rest = [] then [] else Clean (join_with slash rest))"

definition Dir :: "string \<Rightarrow> string" where
  "Dir p = Clean (rev (dropWhile (\<lambda>c. c \<noteq> slash) (rev p)))"

definition Ext :: "string \<Rightarrow> string" where
  "Ext p =
     (let r = rev p; e = takeWhile (\<lambda>c. c \<noteq> CHR ''.'' \<and> c \<noteq> slash) r; rest = drop (length e) r in
      if rest \<noteq> [] \<and> hd rest = CHR ''.'' then CHR ''.'' # rev e else [])"

text \<open>
  U+0130 lowers to i and U+212A to k; no other character beyond ASCII lowers to an ASCII one,
  so leaving the others alone decides every comparison with an ASCII name correctly.
\<close>

fun ToLower :: "string \<Rightarrow> string" where
  "ToLower [] = []"
| "ToLower (c # s) =
     (if byte_of c = 0xC4 \<and> s \<noteq> [] \<and> byte_of (hd s) = 0xB0 then CHR ''i'' # ToLower (tl s)
      else if byte_of c = 0xE2 \<and> map byte_of (take 2 s) = [0x84, 0xAA]
        then CHR ''k'' # ToLower (drop 2 s)
      else if 65 \<le> byte_of c \<and> byte_of c \<le> 90 then chr (byte_of c + 32) # ToLower s
      else c # ToLower s)"

subsection \<open>Paths of plain elements\<close>

definition plain_elem :: "string \<Rightarrow> bool" where
  "plain_elem e \<longleftrightarrow> e \<noteq> [] \<and> e \<noteq> ''.'' \<and> e \<noteq> ''..'' \<and> slash \<notin> set e"

lemma clean_elems_plain [simp]:
  "list_all plain_elem es \<Longrightarrow> clean_elems rooted acc es = rev acc @ es"
  by (induction es arbitrary: acc) (auto simp: plain_elem_def)

lemma clean_elems_append_plain:
  "list_all plain_elem es \<Longrightarrow> clean_elems rooted acc (es @ fs) = clean_elems rooted (rev es @ acc) fs"
  by (induction es arbitrary: acc) (auto simp: plain_elem_def)

lemma split_join:
  "es \<noteq> [] \<Longrightarrow> \<forall>e \<in> set es. c \<notin> set e \<Longrightarrow> split_on c (join_with c es) = es"
  by (induction c es rule: join_with.induct) auto

lemma plain_no_slash: "list_all plain_elem es \<Longrightarrow> \<forall>e \<in> set es. slash \<notin> set e"
  by (auto simp: list_all_iff plain_elem_def)

lemma join_with_append:
  "es \<noteq> [] \<Longrightarrow> fs \<noteq> [] \<Longrightarrow> join_with c (es @ fs) = join_with c es @ c # join_with c fs"
  by (induction c es rule: join_with.induct) (auto simp: join_with_Cons)

text \<open>An absolute path in clean form: the one \<^const>\<open>Clean\<close> makes of its elements.\<close>

definition abs_path :: "string list \<Rightarrow> string" where
  "abs_path es = slash # join_with slash es"

lemma Clean_abs_path: "list_all plain_elem es \<Longrightarrow> Clean (abs_path es) = abs_path es"
proof (cases "es = []")
  case True
  then show ?thesis by (simp add: Clean_def abs_path_def IsAbs_def render_path_def)
next
  case False
  assume "list_all plain_elem es"
  then show ?thesis using False
    by (simp add: Clean_def abs_path_def IsAbs_def render_path_def split_join plain_no_slash)
qed

lemma Join_abs_path:
  assumes "list_all plain_elem ds" "list_all plain_elem es" "es \<noteq> []"
  shows "Join [abs_path ds, join_with slash es] = abs_path (ds @ es)"
proof (cases "ds = []")
  case True
  then show ?thesis using assms
    by (simp add: Join_def Clean_def abs_path_def IsAbs_def render_path_def split_join plain_no_slash)
next
  case False
  have eq: "abs_path ds @ slash # join_with slash es = abs_path (ds @ es)"
    using False assms(3) by (simp add: abs_path_def join_with_append)
  have "Join [abs_path ds, join_with slash es] = Clean (abs_path ds @ slash # join_with slash es)"
    by (simp add: Join_def abs_path_def)
  also have "\<dots> = abs_path (ds @ es)" unfolding eq using assms by (simp add: Clean_abs_path)
  finally show ?thesis .
qed

lemma Clean_relative:
  assumes "list_all plain_elem es" "es \<noteq> []"
  shows "Clean (join_with slash es) = join_with slash es"
proof -
  have "\<not> IsAbs (join_with slash es)"
    using assms by (cases es; cases "tl es") (auto simp: IsAbs_def plain_elem_def join_with_Cons dest: hd_in_set)
  then show ?thesis using assms
    by (simp add: Clean_def render_path_def split_join plain_no_slash)
qed

lemma Dir_abs_path:
  assumes "list_all plain_elem ds" "plain_elem e" "ds \<noteq> []"
  shows "Dir (abs_path (ds @ [e])) = abs_path ds"
proof -
  have "dropWhile (\<lambda>c. c \<noteq> slash) (rev (abs_path (ds @ [e]))) = rev (abs_path ds @ [slash])"
    using assms by (auto simp: abs_path_def join_with_append plain_elem_def intro: dropWhile_append2 [THEN trans])
  then have "Dir (abs_path (ds @ [e])) = Clean (abs_path ds @ [slash])" by (simp add: Dir_def)
  also have "split_on slash (abs_path ds @ [slash]) = [] # ds @ [[]]"
    using split_join [of "[] # ds @ [[]]" slash] assms plain_no_slash [OF assms(1)]
    by (auto simp: abs_path_def join_with_append join_with_Cons)
  then have "Clean (abs_path ds @ [slash]) = abs_path ds"
    using assms(1)
    by (simp add: Clean_def IsAbs_def abs_path_def render_path_def clean_elems_append_plain)
  finally show ?thesis .
qed

lemma IsAbs_abs_path [simp]: "IsAbs (abs_path es)"
  by (simp add: IsAbs_def abs_path_def)

end
