(* ===== verification/Config.thy ===== *)
theory Config
  imports JsonObject GoDuration GoPath
begin

text \<open>
  \<^verbatim>\<open>internal/config/config.go\<close>: the configuration, its defaults, the JSON file, the environment and
  the checks. The environment is a function from names to values (\<^verbatim>\<open>os.Getenv\<close>, empty when unset),
  the file system the outcome of \<^verbatim>\<open>os.ReadFile\<close>. Durations are nanoseconds.
\<close>

subsection \<open>Records\<close>

record DBCPConfig =
  TargetDB :: string
  TargetRedis :: string
  ServiceExportPort :: int

record TCPConfig =
  tcp_Addr :: string
  ReadTimeout :: int
  WriteTimeout :: int
  MaxFrameBytes :: u32
  WorkerCount :: int
  QueueSize :: int

record HTTPConfig =
  http_Addr :: string
  TCPAddr :: string
  RequestTimeout :: int
  MaxBodyBytes :: int
  CookieName :: string
  ProfilePictureBaseURL :: string

record DatabaseConfig =
  DSN :: string
  MaxOpenConns :: int
  MaxIdleConns :: int
  ConnMaxLifetime :: int

record RedisConfig =
  redis_Addr :: string
  redis_Password :: string
  redis_DB :: int
  KeyPrefix :: string
  DialTimeout :: int
  IOTimeout :: int

record SecurityConfig =
  TokenSecret :: string
  PasswordIterations :: int
  SessionTTL :: int

record UploadConfig =
  ProfilePictureDir :: string
  MaxBytes :: int
  AllowedMIMETypes :: "string list"

record SeedConfig =
  seed_Count :: int
  BatchSize :: int
  Concurrency :: int
  DefaultPassword :: string

record Config =
  DBCP :: DBCPConfig
  TCP :: TCPConfig
  HTTP :: HTTPConfig
  Database :: DatabaseConfig
  Redis :: RedisConfig
  Security :: SecurityConfig
  Upload :: UploadConfig
  Seed :: SeedConfig

definition Second :: int where "Second = 1000000000"

definition Default :: Config where
  "Default = \<lparr>
     DBCP = \<lparr>TargetDB = [], TargetRedis = [], ServiceExportPort = 0\<rparr>,
     TCP = \<lparr>tcp_Addr = ''127.0.0.1:9000'', ReadTimeout = 5 * Second, WriteTimeout = 5 * Second,
       MaxFrameBytes = 8 * 2 ^ 20, WorkerCount = 64, QueueSize = 2048\<rparr>,
     HTTP = \<lparr>http_Addr = ''127.0.0.1:8081'', TCPAddr = ''127.0.0.1:9000'', RequestTimeout = 5 * Second,
       MaxBodyBytes = 4 * 2 ^ 20, CookieName = ''session_token'',
       ProfilePictureBaseURL = ''/profile-pictures/''\<rparr>,
     Database = \<lparr>DSN = [], MaxOpenConns = 128, MaxIdleConns = 32, ConnMaxLifetime = 300 * Second\<rparr>,
     Redis = \<lparr>redis_Addr = [], redis_Password = [], redis_DB = 0, KeyPrefix = ''go-entry-task'',
       DialTimeout = 2 * Second, IOTimeout = 2 * Second\<rparr>,
     Security = \<lparr>TokenSecret = [], PasswordIterations = 210000, SessionTTL = 86400 * Second\<rparr>,
     Upload = \<lparr>ProfilePictureDir = ''runtime/profile-pictures'', MaxBytes = 2 * 2 ^ 20,
       AllowedMIMETypes = [''image/jpeg'', ''image/png'', ''image/webp'', ''image/gif'']\<rparr>,
     Seed = \<lparr>seed_Count = 10000000, BatchSize = 1000, Concurrency = 4,
       DefaultPassword = ''Password123!''\<rparr>\<rparr>"

subsection \<open>The file\<close>

text \<open>\<^verbatim>\<open>(*Duration).UnmarshalJSON\<close>: a JSON string; \<^verbatim>\<open>null\<close> reaches it as the empty string.\<close>

definition dec_duration :: "string \<Rightarrow> int \<Rightarrow> int result" where
  "dec_duration raw cur = bindE (dec_string raw []) ParseDuration"

text \<open>
  A JSON array into a \<^verbatim>\<open>[]string\<close>: \<^verbatim>\<open>null\<close> gives nil, a \<^verbatim>\<open>null\<close> element keeps what the slice had at
  its index.
\<close>

fun dec_elems :: "string list \<Rightarrow> string list \<Rightarrow> string list result" where
  "dec_elems cur [] = Inr []"
| "dec_elems cur (raw # raws) =
     bindE (dec_string raw (if cur = [] then [] else hd cur)) (\<lambda>v.
     bindE (dec_elems (tl cur) raws) (\<lambda>vs. Inr (v # vs)))"

definition dec_strings :: "string \<Rightarrow> string list \<Rightarrow> string list result" where
  "dec_strings raw cur =
     (if raw = ''null'' then Inr []
      else if raw \<noteq> [] \<and> hd raw = CHR ''['' then
        (if skip_ws (tl raw) \<noteq> [] \<and> hd (skip_ws (tl raw)) = CHR '']'' then Inr []
         else (case scan_elems maxNestingDepth (skip_ws (tl raw)) of
                 Some (raws, _) \<Rightarrow> dec_elems cur raws
               | None \<Rightarrow> Inl err_json_syntax))
      else Inl err_json_type)"

definition field_DBCP :: "string \<Rightarrow> string \<Rightarrow> DBCPConfig \<Rightarrow> DBCPConfig result" where
  "field_DBCP f raw c =
     (if f = ''target_db'' then bindE (dec_string raw (TargetDB c)) (\<lambda>v. Inr (c\<lparr>TargetDB := v\<rparr>))
      else if f = ''target_redis''
        then bindE (dec_string raw (TargetRedis c)) (\<lambda>v. Inr (c\<lparr>TargetRedis := v\<rparr>))
      else bindE (dec_int 64 raw (ServiceExportPort c)) (\<lambda>v. Inr (c\<lparr>ServiceExportPort := v\<rparr>)))"

definition field_TCP :: "string \<Rightarrow> string \<Rightarrow> TCPConfig \<Rightarrow> TCPConfig result" where
  "field_TCP f raw c =
     (if f = ''addr'' then bindE (dec_string raw (tcp_Addr c)) (\<lambda>v. Inr (c\<lparr>tcp_Addr := v\<rparr>))
      else if f = ''read_timeout''
        then bindE (dec_duration raw (ReadTimeout c)) (\<lambda>v. Inr (c\<lparr>ReadTimeout := v\<rparr>))
      else if f = ''write_timeout''
        then bindE (dec_duration raw (WriteTimeout c)) (\<lambda>v. Inr (c\<lparr>WriteTimeout := v\<rparr>))
      else if f = ''max_frame_bytes''
        then bindE (dec_uint 32 raw (unat (MaxFrameBytes c))) (\<lambda>v. Inr (c\<lparr>MaxFrameBytes := of_nat v\<rparr>))
      else if f = ''worker_count''
        then bindE (dec_int 64 raw (WorkerCount c)) (\<lambda>v. Inr (c\<lparr>WorkerCount := v\<rparr>))
      else bindE (dec_int 64 raw (QueueSize c)) (\<lambda>v. Inr (c\<lparr>QueueSize := v\<rparr>)))"

definition field_HTTP :: "string \<Rightarrow> string \<Rightarrow> HTTPConfig \<Rightarrow> HTTPConfig result" where
  "field_HTTP f raw c =
     (if f = ''addr'' then bindE (dec_string raw (http_Addr c)) (\<lambda>v. Inr (c\<lparr>http_Addr := v\<rparr>))
      else if f = ''tcp_addr'' then bindE (dec_string raw (TCPAddr c)) (\<lambda>v. Inr (c\<lparr>TCPAddr := v\<rparr>))
      else if f = ''request_timeout''
        then bindE (dec_duration raw (RequestTimeout c)) (\<lambda>v. Inr (c\<lparr>RequestTimeout := v\<rparr>))
      else if f = ''max_body_bytes''
        then bindE (dec_int 64 raw (MaxBodyBytes c)) (\<lambda>v. Inr (c\<lparr>MaxBodyBytes := v\<rparr>))
      else if f = ''cookie_name''
        then bindE (dec_string raw (CookieName c)) (\<lambda>v. Inr (c\<lparr>CookieName := v\<rparr>))
      else bindE (dec_string raw (ProfilePictureBaseURL c)) (\<lambda>v. Inr (c\<lparr>ProfilePictureBaseURL := v\<rparr>)))"

definition field_Database :: "string \<Rightarrow> string \<Rightarrow> DatabaseConfig \<Rightarrow> DatabaseConfig result" where
  "field_Database f raw c =
     (if f = ''dsn'' then bindE (dec_string raw (DSN c)) (\<lambda>v. Inr (c\<lparr>DSN := v\<rparr>))
      else if f = ''max_open_conns''
        then bindE (dec_int 64 raw (MaxOpenConns c)) (\<lambda>v. Inr (c\<lparr>MaxOpenConns := v\<rparr>))
      else if f = ''max_idle_conns''
        then bindE (dec_int 64 raw (MaxIdleConns c)) (\<lambda>v. Inr (c\<lparr>MaxIdleConns := v\<rparr>))
      else bindE (dec_duration raw (ConnMaxLifetime c)) (\<lambda>v. Inr (c\<lparr>ConnMaxLifetime := v\<rparr>)))"

definition field_Redis :: "string \<Rightarrow> string \<Rightarrow> RedisConfig \<Rightarrow> RedisConfig result" where
  "field_Redis f raw c =
     (if f = ''addr'' then bindE (dec_string raw (redis_Addr c)) (\<lambda>v. Inr (c\<lparr>redis_Addr := v\<rparr>))
      else if f = ''password''
        then bindE (dec_string raw (redis_Password c)) (\<lambda>v. Inr (c\<lparr>redis_Password := v\<rparr>))
      else if f = ''db'' then bindE (dec_int 64 raw (redis_DB c)) (\<lambda>v. Inr (c\<lparr>redis_DB := v\<rparr>))
      else if f = ''key_prefix''
        then bindE (dec_string raw (KeyPrefix c)) (\<lambda>v. Inr (c\<lparr>KeyPrefix := v\<rparr>))
      else if f = ''dial_timeout''
        then bindE (dec_duration raw (DialTimeout c)) (\<lambda>v. Inr (c\<lparr>DialTimeout := v\<rparr>))
      else bindE (dec_duration raw (IOTimeout c)) (\<lambda>v. Inr (c\<lparr>IOTimeout := v\<rparr>)))"

definition field_Security :: "string \<Rightarrow> string \<Rightarrow> SecurityConfig \<Rightarrow> SecurityConfig result" where
  "field_Security f raw c =
     (if f = ''token_secret''
        then bindE (dec_string raw (TokenSecret c)) (\<lambda>v. Inr (c\<lparr>TokenSecret := v\<rparr>))
      else if f = ''password_iterations''
        then bindE (dec_int 64 raw (PasswordIterations c)) (\<lambda>v. Inr (c\<lparr>PasswordIterations := v\<rparr>))
      else bindE (dec_duration raw (SessionTTL c)) (\<lambda>v. Inr (c\<lparr>SessionTTL := v\<rparr>)))"

definition field_Upload :: "string \<Rightarrow> string \<Rightarrow> UploadConfig \<Rightarrow> UploadConfig result" where
  "field_Upload f raw c =
     (if f = ''profile_picture_dir''
        then bindE (dec_string raw (ProfilePictureDir c)) (\<lambda>v. Inr (c\<lparr>ProfilePictureDir := v\<rparr>))
      else if f = ''max_bytes'' then bindE (dec_int 64 raw (MaxBytes c)) (\<lambda>v. Inr (c\<lparr>MaxBytes := v\<rparr>))
      else bindE (dec_strings raw (AllowedMIMETypes c)) (\<lambda>v. Inr (c\<lparr>AllowedMIMETypes := v\<rparr>)))"

definition field_Seed :: "string \<Rightarrow> string \<Rightarrow> SeedConfig \<Rightarrow> SeedConfig result" where
  "field_Seed f raw c =
     (if f = ''count'' then bindE (dec_int 64 raw (seed_Count c)) (\<lambda>v. Inr (c\<lparr>seed_Count := v\<rparr>))
      else if f = ''batch_size''
        then bindE (dec_int 64 raw (BatchSize c)) (\<lambda>v. Inr (c\<lparr>BatchSize := v\<rparr>))
      else if f = ''concurrency''
        then bindE (dec_int 64 raw (Concurrency c)) (\<lambda>v. Inr (c\<lparr>Concurrency := v\<rparr>))
      else bindE (dec_string raw (DefaultPassword c)) (\<lambda>v. Inr (c\<lparr>DefaultPassword := v\<rparr>)))"

definition field_Config :: "string \<Rightarrow> string \<Rightarrow> Config \<Rightarrow> Config result" where
  "field_Config f raw c =
     (if f = ''dbcp'' then
        bindE (dec_struct False [''target_db'', ''target_redis'', ''service_export_port''] field_DBCP
          raw (DBCP c)) (\<lambda>v. Inr (c\<lparr>DBCP := v\<rparr>))
      else if f = ''tcp'' then
        bindE (dec_struct False [''addr'', ''read_timeout'', ''write_timeout'', ''max_frame_bytes'',
          ''worker_count'', ''queue_size''] field_TCP raw (TCP c)) (\<lambda>v. Inr (c\<lparr>TCP := v\<rparr>))
      else if f = ''http'' then
        bindE (dec_struct False [''addr'', ''tcp_addr'', ''request_timeout'', ''max_body_bytes'',
          ''cookie_name'', ''profile_picture_base_url''] field_HTTP raw (HTTP c)) (\<lambda>v. Inr (c\<lparr>HTTP := v\<rparr>))
      else if f = ''database'' then
        bindE (dec_struct False [''dsn'', ''max_open_conns'', ''max_idle_conns'', ''conn_max_lifetime'']
          field_Database raw (Database c)) (\<lambda>v. Inr (c\<lparr>Database := v\<rparr>))
      else if f = ''redis'' then
        bindE (dec_struct False [''addr'', ''password'', ''db'', ''key_prefix'', ''dial_timeout'',
          ''io_timeout''] field_Redis raw (Redis c)) (\<lambda>v. Inr (c\<lparr>Redis := v\<rparr>))
      else if f = ''security'' then
        bindE (dec_struct False [''token_secret'', ''password_iterations'', ''session_ttl'']
          field_Security raw (Security c)) (\<lambda>v. Inr (c\<lparr>Security := v\<rparr>))
      else if f = ''upload'' then
        bindE (dec_struct False [''profile_picture_dir'', ''max_bytes'', ''allowed_mime_types'']
          field_Upload raw (Upload c)) (\<lambda>v. Inr (c\<lparr>Upload := v\<rparr>))
      else
        bindE (dec_struct False [''count'', ''batch_size'', ''concurrency'', ''default_password'']
          field_Seed raw (Seed c)) (\<lambda>v. Inr (c\<lparr>Seed := v\<rparr>)))"

definition unmarshal_Config :: "string \<Rightarrow> Config \<Rightarrow> Config result" where
  "unmarshal_Config =
     Unmarshal (dec_struct False [''dbcp'', ''tcp'', ''http'', ''database'', ''redis'', ''security'',
       ''upload'', ''seed''] field_Config)"

subsection \<open>The environment\<close>

type_synonym environ = "string \<Rightarrow> string"

definition setString :: "environ \<Rightarrow> string \<Rightarrow> string \<Rightarrow> string" where
  "setString env key dst = (let v = env key in if v \<noteq> [] then v else dst)"

definition setInt :: "environ \<Rightarrow> string \<Rightarrow> int \<Rightarrow> int" where
  "setInt env key dst =
     (let v = env key in
      if v \<noteq> [] then (case Atoi v of Inr parsed \<Rightarrow> parsed | Inl _ \<Rightarrow> dst) else dst)"

definition setInt64 :: "environ \<Rightarrow> string \<Rightarrow> int \<Rightarrow> int" where
  "setInt64 env key dst =
     (let v = env key in
      if v \<noteq> [] then (case ParseInt v 64 of Inr parsed \<Rightarrow> parsed | Inl _ \<Rightarrow> dst) else dst)"

definition setUint32 :: "environ \<Rightarrow> string \<Rightarrow> u32 \<Rightarrow> u32" where
  "setUint32 env key dst =
     (let v = env key in
      if v \<noteq> [] then (case ParseUint v 32 of Inr parsed \<Rightarrow> of_nat parsed | Inl _ \<Rightarrow> dst) else dst)"

definition setDuration :: "environ \<Rightarrow> string \<Rightarrow> int \<Rightarrow> int" where
  "setDuration env key dst =
     (let v = env key in
      if v \<noteq> [] then (case ParseDuration v of Inr parsed \<Rightarrow> parsed | Inl _ \<Rightarrow> dst) else dst)"

definition applyDBCP :: "Config \<Rightarrow> Config" where
  "applyDBCP c =
     (let c1 = (if TargetDB (DBCP c) \<noteq> [] then c\<lparr>Database := (Database c)\<lparr>DSN := TargetDB (DBCP c)\<rparr>\<rparr> else c)
      in if TargetRedis (DBCP c1) \<noteq> []
         then c1\<lparr>Redis := (Redis c1)\<lparr>redis_Addr := TargetRedis (DBCP c1)\<rparr>\<rparr> else c1)"

text \<open>The assignments touch one field each, so those of one section are collected.\<close>

definition applyEnv :: "environ \<Rightarrow> Config \<Rightarrow> Config" where
  "applyEnv env c =
     (let dbcp = (DBCP c)\<lparr>
            TargetDB := setString env ''DBCP_TARGET_DB'' (TargetDB (DBCP c)),
            TargetRedis := setString env ''DBCP_TARGET_REDIS'' (TargetRedis (DBCP c)),
            ServiceExportPort := setInt env ''DBCP_SERVICE_EXPORT_PORT'' (ServiceExportPort (DBCP c))\<rparr>;
          tcp = (TCP c)\<lparr>
            tcp_Addr := setString env ''APP_TCP_ADDR'' (tcp_Addr (TCP c)),
            WorkerCount := setInt env ''APP_TCP_WORKERS'' (WorkerCount (TCP c)),
            QueueSize := setInt env ''APP_TCP_QUEUE_SIZE'' (QueueSize (TCP c)),
            MaxFrameBytes := setUint32 env ''APP_TCP_MAX_FRAME_BYTES'' (MaxFrameBytes (TCP c)),
            ReadTimeout := setDuration env ''APP_TCP_READ_TIMEOUT'' (ReadTimeout (TCP c)),
            WriteTimeout := setDuration env ''APP_TCP_WRITE_TIMEOUT'' (WriteTimeout (TCP c))\<rparr>;
          http = (HTTP c)\<lparr>
            http_Addr := setString env ''APP_HTTP_ADDR'' (http_Addr (HTTP c)),
            TCPAddr := setString env ''APP_HTTP_TCP_ADDR'' (TCPAddr (HTTP c)),
            CookieName := setString env ''APP_COOKIE_NAME'' (CookieName (HTTP c)),
            ProfilePictureBaseURL :=
              setString env ''APP_PROFILE_PICTURE_BASE_URL'' (ProfilePictureBaseURL (HTTP c)),
            MaxBodyBytes := setInt64 env ''APP_HTTP_MAX_BODY_BYTES'' (MaxBodyBytes (HTTP c)),
            RequestTimeout := setDuration env ''APP_HTTP_REQUEST_TIMEOUT'' (RequestTimeout (HTTP c))\<rparr>;
          db = (Database c)\<lparr>
            DSN := setString env ''APP_DB_DSN'' (DSN (Database c)),
            MaxOpenConns := setInt env ''APP_DB_MAX_OPEN_CONNS'' (MaxOpenConns (Database c)),
            MaxIdleConns := setInt env ''APP_DB_MAX_IDLE_CONNS'' (MaxIdleConns (Database c)),
            ConnMaxLifetime := setDuration env ''APP_DB_CONN_MAX_LIFETIME'' (ConnMaxLifetime (Database c))\<rparr>;
          redis = (Redis c)\<lparr>
            redis_Addr := setString env ''APP_REDIS_ADDR'' (redis_Addr (Redis c)),
            redis_Password := setString env ''APP_REDIS_PASSWORD'' (redis_Password (Redis c)),
            KeyPrefix := setString env ''APP_REDIS_KEY_PREFIX'' (KeyPrefix (Redis c)),
            redis_DB := setInt env ''APP_REDIS_DB'' (redis_DB (Redis c)),
            DialTimeout := setDuration env ''APP_REDIS_DIAL_TIMEOUT'' (DialTimeout (Redis c)),
            IOTimeout := setDuration env ''APP_REDIS_IO_TIMEOUT'' (IOTimeout (Redis c))\<rparr>;
          security = (Security c)\<lparr>
            TokenSecret := setString env ''APP_TOKEN_SECRET'' (TokenSecret (Security c)),
            PasswordIterations := setInt env ''APP_PASSWORD_ITERATIONS'' (PasswordIterations (Security c)),
            SessionTTL := setDuration env ''APP_SESSION_TTL'' (SessionTTL (Security c))\<rparr>;
          upload = (Upload c)\<lparr>
            ProfilePictureDir := setString env ''APP_PROFILE_PICTURE_DIR'' (ProfilePictureDir (Upload c)),
            MaxBytes := setInt64 env ''APP_UPLOAD_MAX_BYTES'' (MaxBytes (Upload c))\<rparr>;
          seed = (Seed c)\<lparr>
            seed_Count := setInt env ''APP_SEED_COUNT'' (seed_Count (Seed c)),
            BatchSize := setInt env ''APP_SEED_BATCH_SIZE'' (BatchSize (Seed c)),
            Concurrency := setInt env ''APP_SEED_CONCURRENCY'' (Concurrency (Seed c)),
            DefaultPassword := setString env ''APP_SEED_DEFAULT_PASSWORD'' (DefaultPassword (Seed c))\<rparr>
      in applyDBCP \<lparr>DBCP = dbcp, TCP = tcp, HTTP = http, Database = db, Redis = redis,
           Security = security, Upload = upload, Seed = seed\<rparr>)"

subsection \<open>Checks and loading\<close>

definition missing_fields :: "Config \<Rightarrow> string list" where
  "missing_fields c =
     (if tcp_Addr (TCP c) = [] then [''tcp.addr''] else [])
     @ (if http_Addr (HTTP c) = [] then [''http.addr''] else [])
     @ (if TCPAddr (HTTP c) = [] then [''http.tcp_addr''] else [])
     @ (if DSN (Database c) = [] then [''database.dsn''] else [])
     @ (if TokenSecret (Security c) = [] then [''security.token_secret''] else [])"

fun join_comma :: "string list \<Rightarrow> string" where
  "join_comma [] = []"
| "join_comma [s] = s"
| "join_comma (s # t # ss) = s @ '', '' @ join_comma (t # ss)"

definition Validate :: "Config \<Rightarrow> unit result" where
  "Validate c =
     (if missing_fields c \<noteq> []
        then Inl (Errorf (''missing required config: '' @ join_comma (missing_fields c)))
      else if MaxFrameBytes (TCP c) = 0
        then Inl (Errorf ''tcp.max_frame_bytes must be greater than zero'')
      else if MaxBytes (Upload c) \<le> 0
        then Inl (Errorf ''upload.max_bytes must be greater than zero'')
      else Inr ())"

definition Load :: "environ \<Rightarrow> (string \<Rightarrow> bytes result) \<Rightarrow> string \<Rightarrow> Config result" where
  "Load env readFile path =
     bindE (if path \<noteq> [] then bindE (readFile path) (\<lambda>data. unmarshal_Config data Default)
            else Inr Default) (\<lambda>cfg.
       let cfg = applyEnv env (applyDBCP cfg) in
       bindE (Validate cfg) (\<lambda>_. Inr cfg))"

definition ProfilePictureDirAbs :: "string result \<Rightarrow> Config \<Rightarrow> string result" where
  "ProfilePictureDirAbs getwd c =
     (if IsAbs (ProfilePictureDir (Upload c)) then Inr (ProfilePictureDir (Upload c))
      else bindE getwd (\<lambda>wd. Inr (Join [wd, ProfilePictureDir (Upload c)])))"

subsection \<open>What a loaded configuration guarantees\<close>

text \<open>\<^const>\<open>applyDBCP\<close> establishes that the DBCP targets are the ones in use.\<close>

definition targets_in_use :: "Config \<Rightarrow> bool" where
  "targets_in_use c \<longleftrightarrow>
     (TargetDB (DBCP c) \<noteq> [] \<longrightarrow> DSN (Database c) = TargetDB (DBCP c)) \<and>
     (TargetRedis (DBCP c) \<noteq> [] \<longrightarrow> redis_Addr (Redis c) = TargetRedis (DBCP c))"

lemma applyDBCP_targets: "targets_in_use (applyDBCP c)"
  by (simp add: targets_in_use_def applyDBCP_def Let_def)

lemma applyDBCP_id: "targets_in_use c \<Longrightarrow> applyDBCP c = c"
  by (simp add: targets_in_use_def applyDBCP_def Let_def)

lemma applyDBCP_other [simp]:
  "DBCP (applyDBCP c) = DBCP c" "TCP (applyDBCP c) = TCP c" "HTTP (applyDBCP c) = HTTP c"
  "Security (applyDBCP c) = Security c" "Upload (applyDBCP c) = Upload c" "Seed (applyDBCP c) = Seed c"
  by (simp_all add: applyDBCP_def Let_def)

lemma applyEnv_targets: "targets_in_use (applyEnv env c)"
  by (simp add: applyEnv_def Let_def applyDBCP_targets)

lemma Validate_Inr:
  "Validate c = Inr u \<longleftrightarrow>
     tcp_Addr (TCP c) \<noteq> [] \<and> http_Addr (HTTP c) \<noteq> [] \<and> TCPAddr (HTTP c) \<noteq> [] \<and> DSN (Database c) \<noteq> []
     \<and> TokenSecret (Security c) \<noteq> [] \<and> MaxFrameBytes (TCP c) \<noteq> 0 \<and> 0 < MaxBytes (Upload c)"
  by (simp add: Validate_def missing_fields_def)

lemma Load_Inr:
  assumes "Load env readFile path = Inr c"
  obtains c0 where "c = applyEnv env c0" "Validate c = Inr ()" "targets_in_use c0"
    "path = [] \<Longrightarrow> c0 = applyDBCP Default"
  using assms by (auto simp: Load_def result_simps Let_def applyDBCP_targets split: if_splits)

text \<open>
  C22: a configuration that loads has every address, the data source name and the token secret
  set, a positive frame limit and a positive upload limit; and when the operator has named a
  target database or a target Redis, exactly those are the ones in use.
\<close>

theorem Load_sound:
  assumes "Load env readFile path = Inr c"
  shows "tcp_Addr (TCP c) \<noteq> [] \<and> http_Addr (HTTP c) \<noteq> [] \<and> TCPAddr (HTTP c) \<noteq> [] \<and>
    DSN (Database c) \<noteq> [] \<and> TokenSecret (Security c) \<noteq> [] \<and> MaxFrameBytes (TCP c) > 0 \<and>
    0 < MaxBytes (Upload c) \<and>
    (TargetDB (DBCP c) \<noteq> [] \<longrightarrow> DSN (Database c) = TargetDB (DBCP c)) \<and>
    (TargetRedis (DBCP c) \<noteq> [] \<longrightarrow> redis_Addr (Redis c) = TargetRedis (DBCP c))"
  using assms
proof (rule Load_Inr)
  fix c0 assume c: "c = applyEnv env c0" "Validate c = Inr ()"
  have "targets_in_use c" unfolding c(1) by (rule applyEnv_targets)
  with c(2) show ?thesis by (simp add: Validate_Inr targets_in_use_def word_gt_0)
qed

lemma setters_empty:
  "env k = [] \<Longrightarrow> setString env k d = d" "env k = [] \<Longrightarrow> setInt env k i = i"
  "env k = [] \<Longrightarrow> setInt64 env k i = i" "env k = [] \<Longrightarrow> setUint32 env k u = u"
  "env k = [] \<Longrightarrow> setDuration env k i = i"
  by (simp_all add: setString_def setInt_def setInt64_def setUint32_def setDuration_def)

theorem Load_sound_witness:
  "\<exists>c. Load (\<lambda>k. if k = ''APP_TOKEN_SECRET'' then ''s'' else if k = ''DBCP_TARGET_DB'' then ''dsn'' else [])
         (\<lambda>_. Inl (Sentinel OsErrNotExist)) [] = Inr c \<and> DSN (Database c) = ''dsn''"
proof -
  let ?env = "\<lambda>k. if k = ''APP_TOKEN_SECRET'' then ''s'' else if k = ''DBCP_TARGET_DB'' then ''dsn'' else []"
  let ?rf = "\<lambda>_. Inl (Sentinel OsErrNotExist) :: bytes result"
  obtain c where c: "Load ?env ?rf [] = Inr c" "TargetDB (DBCP c) = ''dsn''"
    by (simp add: Load_def Let_def result_simps Validate_Inr applyEnv_def applyDBCP_def Default_def
        setters_empty setString_def)
  with Load_sound [OF c(1)] show ?thesis by auto
qed

subsection \<open>Malformed variables\<close>

definition int_keys :: "string list" where
  "int_keys = [''DBCP_SERVICE_EXPORT_PORT'', ''APP_TCP_WORKERS'', ''APP_TCP_QUEUE_SIZE'',
     ''APP_DB_MAX_OPEN_CONNS'', ''APP_DB_MAX_IDLE_CONNS'', ''APP_REDIS_DB'', ''APP_PASSWORD_ITERATIONS'',
     ''APP_SEED_COUNT'', ''APP_SEED_BATCH_SIZE'', ''APP_SEED_CONCURRENCY'',
     ''APP_HTTP_MAX_BODY_BYTES'', ''APP_UPLOAD_MAX_BYTES'']"

definition duration_keys :: "string list" where
  "duration_keys = [''APP_TCP_READ_TIMEOUT'', ''APP_TCP_WRITE_TIMEOUT'', ''APP_HTTP_REQUEST_TIMEOUT'',
     ''APP_DB_CONN_MAX_LIFETIME'', ''APP_REDIS_DIAL_TIMEOUT'', ''APP_REDIS_IO_TIMEOUT'', ''APP_SESSION_TTL'']"

definition is_err :: "'a result \<Rightarrow> bool" where
  "is_err r = (case r of Inl _ \<Rightarrow> True | Inr _ \<Rightarrow> False)"

definition malformed :: "string \<Rightarrow> string \<Rightarrow> bool" where
  "malformed k v \<longleftrightarrow>
     k \<in> set int_keys \<and> is_err (ParseInt v 64) \<or>
     k = ''APP_TCP_MAX_FRAME_BYTES'' \<and> is_err (ParseUint v 32) \<or>
     k \<in> set duration_keys \<and> is_err (ParseDuration v)"

definition well_formed_env :: "environ \<Rightarrow> environ" where
  "well_formed_env env k = (if malformed k (env k) then [] else env k)"

lemma set_well_formed:
  "k \<in> set int_keys \<Longrightarrow> setInt (well_formed_env env) k = setInt env k"
  "k \<in> set int_keys \<Longrightarrow> setInt64 (well_formed_env env) k = setInt64 env k"
  "k \<in> set duration_keys \<Longrightarrow> setDuration (well_formed_env env) k = setDuration env k"
  "setUint32 (well_formed_env env) ''APP_TCP_MAX_FRAME_BYTES'' = setUint32 env ''APP_TCP_MAX_FRAME_BYTES''"
  "k \<notin> set int_keys \<Longrightarrow> k \<notin> set duration_keys \<Longrightarrow> k \<noteq> ''APP_TCP_MAX_FRAME_BYTES'' \<Longrightarrow>
   setString (well_formed_env env) k = setString env k"
proof -
  have disj: "set int_keys \<inter> set duration_keys = {}"
    "''APP_TCP_MAX_FRAME_BYTES'' \<notin> set int_keys \<union> set duration_keys"
    by (simp_all add: int_keys_def duration_keys_def)
  show "k \<in> set int_keys \<Longrightarrow> setInt (well_formed_env env) k = setInt env k"
    "k \<in> set int_keys \<Longrightarrow> setInt64 (well_formed_env env) k = setInt64 env k"
    "k \<in> set duration_keys \<Longrightarrow> setDuration (well_formed_env env) k = setDuration env k"
    "setUint32 (well_formed_env env) ''APP_TCP_MAX_FRAME_BYTES'' = setUint32 env ''APP_TCP_MAX_FRAME_BYTES''"
    "k \<notin> set int_keys \<Longrightarrow> k \<notin> set duration_keys \<Longrightarrow> k \<noteq> ''APP_TCP_MAX_FRAME_BYTES'' \<Longrightarrow>
     setString (well_formed_env env) k = setString env k"
    using disj
    by (auto simp: fun_eq_iff setInt_def setInt64_def setDuration_def setUint32_def setString_def Atoi_def
        well_formed_env_def malformed_def is_err_def Let_def split: sum.splits)
qed

text \<open>
  A numeric or duration variable of the environment that does not parse (or does not fit its
  type) is ignored: loading gives the same result as if it were unset.
\<close>

theorem Load_ignores_malformed: "Load (well_formed_env env) readFile path = Load env readFile path"
proof -
  have "applyEnv (well_formed_env env) c = applyEnv env c" for c
    unfolding applyEnv_def
    by (simp add: set_well_formed int_keys_def duration_keys_def)
  then show ?thesis by (simp add: Load_def)
qed

text \<open>
  The directory pictures are stored in is an absolute path whenever the process has an
  absolute working directory.
\<close>

theorem ProfilePictureDirAbs_abs:
  assumes "ProfilePictureDirAbs getwd c = Inr d" and "\<And>wd. getwd = Inr wd \<Longrightarrow> IsAbs wd"
  shows "IsAbs d"
  using assms
  by (auto simp: ProfilePictureDirAbs_def result_simps Join_def Clean_def render_path_def IsAbs_def
      split: if_splits)

theorem ProfilePictureDirAbs_abs_witness:
  "ProfilePictureDirAbs (Inr ''/srv'') Default = Inr ''/srv/runtime/profile-pictures'' \<and>
   IsAbs ''/srv/runtime/profile-pictures''"
proof -
  have "ProfilePictureDirAbs (Inr ''/srv'') Default = Inr ''/srv/runtime/profile-pictures''"
    by (simp add: ProfilePictureDirAbs_def Default_def IsAbs_def Join_def Clean_def render_path_def)
  moreover from this have "IsAbs ''/srv/runtime/profile-pictures''"
    by (rule ProfilePictureDirAbs_abs) (auto simp: IsAbs_def)
  ultimately show ?thesis by blast
qed

end
