(* ===== verification/GoIO.thy ===== *)
theory GoIO
  imports GoErrors
begin

text \<open>
  Calls with effects. A call that returns \<^verbatim>\<open>(value, error)\<close> and acts on the outside world (the
  clock, the random source, files, connections, a database) is a function from the world to
  its result and the world it leaves behind.
\<close>

type_synonym ('w, 'a) io = "'w \<Rightarrow> 'a result \<times> 'w"

named_theorems io_simps \<open>evaluation of calls with effects\<close>

definition return_io :: "'a \<Rightarrow> ('w, 'a) io" where
  "return_io x = (\<lambda>w. (Inr x, w))"

definition fail_io :: "go_error \<Rightarrow> ('w, 'a) io" where
  "fail_io e = (\<lambda>w. (Inl e, w))"

text \<open>\<^verbatim>\<open>if err != nil { return err }\<close> after a call.\<close>

definition bind_io :: "('w, 'a) io \<Rightarrow> ('a \<Rightarrow> ('w, 'b) io) \<Rightarrow> ('w, 'b) io" where
  "bind_io m f = (\<lambda>w. case m w of (Inl e, w1) \<Rightarrow> (Inl e, w1) | (Inr x, w1) \<Rightarrow> f x w1)"

text \<open>
  A call whose error the code inspects (or drops) itself. A panic is no error value and goes on
  upwards.
\<close>

definition try_io :: "('w, 'a) io \<Rightarrow> ('w, 'a result) io" where
  "try_io m =
     (\<lambda>w. case m w of
        (Inl (Panic p), w1) \<Rightarrow> (Inl (Panic p), w1)
      | (r, w1) \<Rightarrow> (Inr r, w1))"

fun panics :: "go_error \<Rightarrow> bool" where
  "panics (Panic m) = True"
| "panics _ = False"

definition is_panic :: "'a result \<Rightarrow> bool" where
  "is_panic r = (case r of Inl e \<Rightarrow> panics e | Inr _ \<Rightarrow> False)"

definition lift_io :: "'a result \<Rightarrow> ('w, 'a) io" where
  "lift_io r = (\<lambda>w. (r, w))"

text \<open>A call that cannot fail.\<close>

definition get_io :: "('w \<Rightarrow> 'a \<times> 'w) \<Rightarrow> ('w, 'a) io" where
  "get_io f = (\<lambda>w. case f w of (x, w1) \<Rightarrow> (Inr x, w1))"

lemma run_io [simp, io_simps]:
  "return_io x w = (Inr x, w)"
  "fail_io e w = (Inl e, w)"
  "lift_io r w = (r, w)"
  by (simp_all add: return_io_def fail_io_def lift_io_def)

lemma bind_io_Inr [io_simps]: "m w = (Inr x, w1) \<Longrightarrow> bind_io m f w = f x w1"
  by (simp add: bind_io_def)

lemma bind_io_Inl [io_simps]: "m w = (Inl e, w1) \<Longrightarrow> bind_io m f w = (Inl e, w1)"
  by (simp add: bind_io_def)

lemma is_panic_simps [simp]:
  "\<not> is_panic (Inr x)" "is_panic (Inl e) \<longleftrightarrow> panics e"
  by (simp_all add: is_panic_def)

lemma try_io_eq [io_simps]: "m w = (r, w1) \<Longrightarrow> \<not> is_panic r \<Longrightarrow> try_io m w = (Inr r, w1)"
  by (auto simp: try_io_def is_panic_def split: sum.splits go_error.splits)

lemma get_io_eq [io_simps]: "f w = (x, w1) \<Longrightarrow> get_io f w = (Inr x, w1)"
  by (simp add: get_io_def)

lemma bind_io_run [simp]:
  "bind_io (return_io x) f = f x"
  "bind_io (fail_io e) f = fail_io e"
  "bind_io (lift_io (Inr x)) f = f x"
  "bind_io (lift_io (Inl e)) f = fail_io e"
  by (simp_all add: bind_io_def return_io_def fail_io_def lift_io_def)

lemma bind_io_try:
  "bind_io (try_io m) f w =
     (case m w of (Inl (Panic p), w1) \<Rightarrow> (Inl (Panic p), w1) | (r, w1) \<Rightarrow> f r w1)"
  by (auto simp: bind_io_def try_io_def split: prod.split sum.split go_error.split)

lemma bind_io_get: "bind_io (get_io g) f w = (case g w of (x, w1) \<Rightarrow> f x w1)"
  by (simp add: bind_io_def get_io_def split: prod.split)

lemma bind_io_Inr_iff:
  "bind_io m f w = (Inr y, w2) \<longleftrightarrow> (\<exists>x w1. m w = (Inr x, w1) \<and> f x w1 = (Inr y, w2))"
  by (auto simp: bind_io_def split: prod.split sum.split)

lemma bind_io_Inl_iff:
  "bind_io m f w = (Inl e, w2) \<longleftrightarrow>
     m w = (Inl e, w2) \<or> (\<exists>x w1. m w = (Inr x, w1) \<and> f x w1 = (Inl e, w2))"
  by (auto simp: bind_io_def split: prod.split sum.split)

lemma bind_io_if [simp]: "(if b then m else n) w = (if b then m w else n w)"
  by simp

text \<open>
  What a call keeps of the world: every effect of \<open>m\<close> preserves \<open>P\<close>. The rules follow the
  composition, so that a frame property of a handler comes down to those of the calls in it.
\<close>

definition keeps :: "('w \<Rightarrow> 'w \<Rightarrow> bool) \<Rightarrow> ('w, 'a) io \<Rightarrow> bool" where
  "keeps R m \<longleftrightarrow> (\<forall>w. R w (snd (m w)))"

lemma keeps_run [simp]:
  "reflp R \<Longrightarrow> keeps R (return_io x)"
  "reflp R \<Longrightarrow> keeps R (fail_io e)"
  "reflp R \<Longrightarrow> keeps R (lift_io r)"
  by (simp_all add: keeps_def reflp_def)

lemma keeps_bind:
  assumes "transp R" "keeps R m" "\<And>x. keeps R (f x)"
  shows "keeps R (bind_io m f)"
  unfolding keeps_def bind_io_def
proof
  fix w
  show "R w (snd (case m w of (Inl e, w1) \<Rightarrow> (Inl e, w1) | (Inr x, w1) \<Rightarrow> f x w1))"
    using assms by (auto simp: keeps_def split: prod.split sum.split dest: spec [of _ w])
      (metis snd_conv transpD)
qed

lemma keeps_try: "keeps R m \<Longrightarrow> keeps R (try_io m)"
  by (auto simp: keeps_def try_io_def split: prod.split sum.split go_error.split) (metis snd_conv)+

lemma keeps_get: "\<forall>w. R w (snd (g w)) \<Longrightarrow> keeps R (get_io g)"
  by (simp add: keeps_def get_io_def split: prod.split) (metis snd_conv)

lemma keeps_if: "keeps R m \<Longrightarrow> keeps R n \<Longrightarrow> keeps R (if b then m else n)"
  by simp

lemmas keeps_rules = keeps_bind keeps_try keeps_get keeps_if

subsection \<open>Clock and random source\<close>

text \<open>
  The part of the outside world every process has: a clock that moves on by some amount with each
  reading, and a source of random bytes (\<^verbatim>\<open>crypto/rand\<close>, which does not fail).
\<close>

record base_world =
  wd_clock :: int
  wd_tick :: nat
  wd_rand :: "nat \<Rightarrow> char"
  wd_pos :: nat

definition time_Now :: "('a base_world_scheme, int) io" where
  "time_Now = (\<lambda>w. (Inr (wd_clock w), w\<lparr>wd_clock := wd_clock w + int (wd_tick w)\<rparr>))"

definition rand_Read :: "nat \<Rightarrow> ('a base_world_scheme, bytes) io" where
  "rand_Read n =
     (\<lambda>w. (Inr (map (wd_rand w) [wd_pos w ..< wd_pos w + n]), w\<lparr>wd_pos := wd_pos w + n\<rparr>))"

end
