(* ===== verification/GoBinary.thy ===== *)
theory GoBinary
  imports GoStrings
begin

unbundle bit_operations_syntax

text \<open>
  Bytes as machine words, and the big-endian integers of \<^verbatim>\<open>encoding/binary\<close>, which the frames of
  the wire protocol and SHA-256 are made of.
\<close>

definition byte_word :: "u8 \<Rightarrow> char" where
  "byte_word w = chr (unat w)"

definition word_byte :: "char \<Rightarrow> u8" where
  "word_byte c = of_nat (byte_of c)"

lemma word_byte_byte_word [simp]: "word_byte (byte_word w) = w"
proof -
  have "unat w < 2 ^ LENGTH(8)" by (rule unsigned_less)
  then show ?thesis by (simp add: word_byte_def byte_word_def)
qed

lemma byte_word_word_byte [simp]: "byte_word (word_byte c) = c"
  by (simp add: word_byte_def byte_word_def unat_of_nat)

definition PutUint32 :: "u32 \<Rightarrow> bytes" where
  "PutUint32 v =
     [byte_word (ucast (drop_bit 24 v)), byte_word (ucast (drop_bit 16 v)),
      byte_word (ucast (drop_bit 8 v)), byte_word (ucast v)]"

fun Uint32 :: "bytes \<Rightarrow> u32" where
  "Uint32 (b0 # b1 # b2 # b3 # _) =
     ucast (word_byte b3) OR push_bit 8 (ucast (word_byte b2))
     OR push_bit 16 (ucast (word_byte b1)) OR push_bit 24 (ucast (word_byte b0))"
| "Uint32 _ = 0"

lemma length_PutUint32 [simp]: "length (PutUint32 v) = 4"
  by (simp add: PutUint32_def)

lemma Uint32_PutUint32 [simp]: "Uint32 (PutUint32 v) = v"
proof (rule bit_word_eqI)
  fix n assume "n < LENGTH(32)"
  then have "n < 8 \<or> 8 \<le> n \<and> n < 16 \<or> 16 \<le> n \<and> n < 24 \<or> 24 \<le> n \<and> n < 32" by auto
  then show "bit (Uint32 (PutUint32 v)) n = bit v n"
    by (auto simp: PutUint32_def bit_simps)
qed

lemma Uint32_PutUint32_append [simp]: "Uint32 (PutUint32 v @ s) = v"
  using Uint32_PutUint32 [of v] by (simp add: PutUint32_def)

definition PutUint64 :: "u64 \<Rightarrow> bytes" where
  "PutUint64 v = map (\<lambda>k. byte_word (ucast (drop_bit k v))) [56, 48, 40, 32, 24, 16, 8, 0]"

lemma length_PutUint64 [simp]: "length (PutUint64 v) = 8"
  by (simp add: PutUint64_def)

definition xor_byte :: "char \<Rightarrow> char \<Rightarrow> char" where
  "xor_byte a b = byte_word (word_byte a XOR word_byte b)"

definition xor_bytes :: "bytes \<Rightarrow> bytes \<Rightarrow> bytes" where
  "xor_bytes s t = map2 xor_byte s t"

lemma length_xor_bytes [simp]: "length (xor_bytes s t) = min (length s) (length t)"
  by (simp add: xor_bytes_def)

end
