(* ===== verification/Crypto.thy ===== *)
theory Crypto
  imports GoBinary
begin

unbundle bit_operations_syntax

text \<open>
  The cryptographic functions of Go's standard library the program calls: \<^verbatim>\<open>crypto/sha256\<close>,
  \<^verbatim>\<open>crypto/hmac\<close>, \<^verbatim>\<open>crypto/pbkdf2\<close> and \<^verbatim>\<open>crypto/subtle\<close>. They are defined outright, so that no
  property of the program rests on an assumption about them.
\<close>

subsection \<open>SHA-256 (FIPS 180-4)\<close>

record sha_state =
  sa :: u32
  sb :: u32
  sc :: u32
  sd :: u32
  se :: u32
  sf :: u32
  sg :: u32
  sh :: u32

definition sha_init :: sha_state where
  "sha_init = \<lparr>sa = 0x6a09e667, sb = 0xbb67ae85, sc = 0x3c6ef372, sd = 0xa54ff53a,
     se = 0x510e527f, sf = 0x9b05688c, sg = 0x1f83d9ab, sh = 0x5be0cd19\<rparr>"

text \<open>The round constants, two to a 64-bit word.\<close>

definition sha_K :: "u32 list" where
  "sha_K = concat (map (\<lambda>v :: u64. [ucast (drop_bit 32 v), ucast v])
     [0x428a2f9871374491, 0xb5c0fbcfe9b5dba5, 0x3956c25b59f111f1, 0x923f82a4ab1c5ed5,
      0xd807aa9812835b01, 0x243185be550c7dc3, 0x72be5d7480deb1fe, 0x9bdc06a7c19bf174,
      0xe49b69c1efbe4786, 0x0fc19dc6240ca1cc, 0x2de92c6f4a7484aa, 0x5cb0a9dc76f988da,
      0x983e5152a831c66d, 0xb00327c8bf597fc7, 0xc6e00bf3d5a79147, 0x06ca635114292967,
      0x27b70a852e1b2138, 0x4d2c6dfc53380d13, 0x650a7354766a0abb, 0x81c2c92e92722c85,
      0xa2bfe8a1a81a664b, 0xc24b8b70c76c51a3, 0xd192e819d6990624, 0xf40e3585106aa070,
      0x19a4c1161e376c08, 0x2748774c34b0bcb5, 0x391c0cb34ed8aa4a, 0x5b9cca4f682e6ff3,
      0x748f82ee78a5636f, 0x84c878148cc70208, 0x90befffaa4506ceb, 0xbef9a3f7c67178f2])"

definition small_sigma0 :: "u32 \<Rightarrow> u32" where
  "small_sigma0 x = word_rotr 7 x XOR word_rotr 18 x XOR drop_bit 3 x"

definition small_sigma1 :: "u32 \<Rightarrow> u32" where
  "small_sigma1 x = word_rotr 17 x XOR word_rotr 19 x XOR drop_bit 10 x"

definition big_sigma0 :: "u32 \<Rightarrow> u32" where
  "big_sigma0 x = word_rotr 2 x XOR word_rotr 13 x XOR word_rotr 22 x"

definition big_sigma1 :: "u32 \<Rightarrow> u32" where
  "big_sigma1 x = word_rotr 6 x XOR word_rotr 11 x XOR word_rotr 25 x"

text \<open>
  The message schedule, kept with the newest word first: the words \<open>W(t-2)\<close>, \<open>W(t-7)\<close>,
  \<open>W(t-15)\<close> and \<open>W(t-16)\<close> are at positions 1, 6, 14 and 15.
\<close>

fun schedule :: "nat \<Rightarrow> u32 list \<Rightarrow> u32 list" where
  "schedule 0 ws = ws"
| "schedule (Suc n) ws =
     schedule n ((small_sigma1 (ws ! 1) + ws ! 6 + small_sigma0 (ws ! 14) + ws ! 15) # ws)"

definition sha_round :: "sha_state \<Rightarrow> u32 \<times> u32 \<Rightarrow> sha_state" where
  "sha_round s kw =
     (let t1 = sh s + big_sigma1 (se s) + ((se s AND sf s) XOR (NOT (se s) AND sg s))
                + fst kw + snd kw;
          t2 = big_sigma0 (sa s) + ((sa s AND sb s) XOR (sa s AND sc s) XOR (sb s AND sc s))
      in \<lparr>sa = t1 + t2, sb = sa s, sc = sb s, sd = sc s,
          se = sd s + t1, sf = se s, sg = sf s, sh = sg s\<rparr>)"

fun words_of :: "bytes \<Rightarrow> u32 list" where
  "words_of (a # b # c # d # s) = Uint32 [a, b, c, d] # words_of s"
| "words_of _ = []"

definition sha_block :: "sha_state \<Rightarrow> bytes \<Rightarrow> sha_state" where
  "sha_block s block =
     (let t = foldl sha_round s (zip sha_K (rev (schedule 48 (rev (words_of block)))))
      in \<lparr>sa = sa s + sa t, sb = sb s + sb t, sc = sc s + sc t, sd = sd s + sd t,
          se = se s + se t, sf = sf s + sf t, sg = sg s + sg t, sh = sh s + sh t\<rparr>)"

definition sha_pad :: "bytes \<Rightarrow> bytes" where
  "sha_pad m =
     m @ chr 0x80 # replicate ((119 - length m mod 64) mod 64) (chr 0)
       @ PutUint64 (of_nat (8 * length m))"

function sha_blocks :: "sha_state \<Rightarrow> bytes \<Rightarrow> sha_state" where
  "sha_blocks s m =
     (if length m < 64 then s else sha_blocks (sha_block s (take 64 m)) (drop 64 m))"
  by pat_completeness auto
termination
  by (relation "measure (\<lambda>(s, m). length m)") auto

declare sha_blocks.simps [simp del]

definition Sum256 :: "bytes \<Rightarrow> bytes" where
  "Sum256 m =
     (let s = sha_blocks sha_init (sha_pad m)
      in PutUint32 (sa s) @ PutUint32 (sb s) @ PutUint32 (sc s) @ PutUint32 (sd s) @
         PutUint32 (se s) @ PutUint32 (sf s) @ PutUint32 (sg s) @ PutUint32 (sh s))"

lemma length_Sum256 [simp]: "length (Sum256 m) = 32"
  by (simp add: Sum256_def Let_def)

lemma Sum256_not_Nil [simp]: "Sum256 m \<noteq> []"
  by (metis length_Sum256 list.size(3) zero_neq_numeral)

text \<open>Padding always ends on a block boundary, so the last block is never dropped.\<close>

lemma sha_pad_blocks: "length (sha_pad m) mod 64 = 0"
proof -
  have r: "(r + (9 + (119 - r) mod 64)) mod 64 = 0" if "r < 64" for r :: nat
  proof (cases "r < 56")
    case True
    then have "119 - r = 64 + (55 - r)" by simp
    moreover have "(64 + (55 - r)) mod 64 = 55 - r" by simp
    ultimately have "(119 - r) mod 64 = 55 - r" by metis
    with True show ?thesis by simp
  next
    case False
    with that have "(119 - r) mod 64 = 119 - r" by simp
    with False that show ?thesis by simp
  qed
  have "length (sha_pad m) = length m + (9 + (119 - length m mod 64) mod 64)"
    by (simp add: sha_pad_def)
  also have "\<dots> mod 64 = (length m mod 64 + (9 + (119 - length m mod 64) mod 64)) mod 64"
    by (simp add: mod_add_left_eq)
  also have "\<dots> = 0" by (rule r) simp
  finally show ?thesis .
qed

subsection \<open>HMAC and PBKDF2 with SHA-256\<close>

definition hmac_key :: "bytes \<Rightarrow> bytes" where
  "hmac_key k =
     (let k' = (if length k > 64 then Sum256 k else k)
      in k' @ replicate (64 - length k') (chr 0))"

definition hmac_sha256 :: "bytes \<Rightarrow> bytes \<Rightarrow> bytes" where
  "hmac_sha256 key msg =
     Sum256 (map (xor_byte (chr 0x5c)) (hmac_key key) @
       Sum256 (map (xor_byte (chr 0x36)) (hmac_key key) @ msg))"

lemma length_hmac [simp]: "length (hmac_sha256 key msg) = 32"
  by (simp add: hmac_sha256_def)

lemma length_hmac_key: "length (hmac_key k) = 64"
  by (simp add: hmac_key_def Let_def)

text \<open>\<open>pbkdf2_iterate prf n u t\<close>: \<open>n\<close> more applications of the pseudo-random function to \<open>u\<close>,
  each xored into \<open>t\<close>.\<close>

fun pbkdf2_iterate :: "(bytes \<Rightarrow> bytes) \<Rightarrow> nat \<Rightarrow> bytes \<Rightarrow> bytes \<Rightarrow> bytes" where
  "pbkdf2_iterate prf 0 u t = t"
| "pbkdf2_iterate prf (Suc n) u t = pbkdf2_iterate prf n (prf u) (xor_bytes t (prf u))"

definition pbkdf2_block :: "bytes \<Rightarrow> bytes \<Rightarrow> nat \<Rightarrow> nat \<Rightarrow> bytes" where
  "pbkdf2_block password salt iter i =
     (let prf = hmac_sha256 password; u = prf (salt @ PutUint32 (of_nat i))
      in pbkdf2_iterate prf (iter - 1) u u)"

text \<open>\<^verbatim>\<open>pbkdf2.Key(sha256.New, password, salt, iter, keyLength)\<close>\<close>

definition pbkdf2_Key :: "bytes \<Rightarrow> bytes \<Rightarrow> nat \<Rightarrow> nat \<Rightarrow> bytes result" where
  "pbkdf2_Key password salt iter keyLength =
     (if keyLength = 0 then Inl (Errorf ''pkbdf2: keyLength must be larger than 0'')
      else if (keyLength + 31) div 32 > 2 ^ 32 - 1 then Inl (Errorf ''pbkdf2: keyLength too long'')
      else Inr (take keyLength
        (concat (map (\<lambda>i. pbkdf2_block password salt iter (Suc i)) [0..<(keyLength + 31) div 32]))))"

lemma length_pbkdf2_iterate:
  "length t = 32 \<Longrightarrow> (\<And>x. length (prf x) = 32) \<Longrightarrow> length (pbkdf2_iterate prf n u t) = 32"
  by (induction n arbitrary: u t) simp_all

lemma length_pbkdf2_block [simp]: "length (pbkdf2_block p s it i) = 32"
  by (simp add: pbkdf2_block_def Let_def length_pbkdf2_iterate)

lemma length_pbkdf2_Key: "pbkdf2_Key p s it n = Inr k \<Longrightarrow> length k = n"
proof -
  have "length (concat (map (\<lambda>i. pbkdf2_block p s it (Suc i)) [0..<m])) = 32 * m" for m
    by (induction m) auto
  moreover have "n \<le> 32 * ((n + 31) div 32)" by arith
  ultimately show "pbkdf2_Key p s it n = Inr k \<Longrightarrow> length k = n"
    by (auto simp: pbkdf2_Key_def split: if_splits)
qed

lemma pbkdf2_Key_32: "\<exists>k. pbkdf2_Key p s it 32 = Inr k"
  by (simp add: pbkdf2_Key_def)

subsection \<open>Comparison in constant time\<close>

text \<open>\<^verbatim>\<open>subtle.ConstantTimeCompare\<close>, which \<^verbatim>\<open>hmac.Equal\<close> calls: all differences are collected
  before the verdict.\<close>

definition ConstantTimeCompare :: "bytes \<Rightarrow> bytes \<Rightarrow> nat" where
  "ConstantTimeCompare x y =
     (if length x \<noteq> length y then 0
      else if foldl (\<lambda>v (a, b). v OR (word_byte a XOR word_byte b)) 0 (zip x y) = 0 then 1 else 0)"

lemma word_byte_inject: "word_byte a = word_byte b \<longleftrightarrow> a = b"
  by (metis byte_word_word_byte)

lemma or_eq_0: "(v OR w :: 'a::len word) = 0 \<longleftrightarrow> v = 0 \<and> w = 0"
  by (metis or.left_neutral or.right_idem or_eq_0_iff)

lemma xor_eq_0: "(v XOR w :: 'a::len word) = 0 \<longleftrightarrow> v = w"
  by (metis xor.assoc xor.left_neutral xor.right_neutral xor_self_eq)

lemma constant_time_fold:
  "foldl (\<lambda>v (a, b). v OR (word_byte a XOR word_byte b)) v zs = 0 \<longleftrightarrow>
     v = 0 \<and> (\<forall>(a, b) \<in> set zs. a = b)"
proof (induction zs arbitrary: v)
  case (Cons z zs)
  then show ?case by (cases z) (auto simp: or_eq_0 xor_eq_0 word_byte_inject)
qed simp

lemma ConstantTimeCompare_eq [simp]: "ConstantTimeCompare x y = Suc 0 \<longleftrightarrow> x = y"
proof -
  have "length x = length y \<Longrightarrow> (\<forall>(a, b) \<in> set (zip x y). a = b) \<longleftrightarrow> x = y"
    by (induction x y rule: list_induct2) auto
  then show ?thesis by (auto simp: ConstantTimeCompare_def constant_time_fold)
qed

end
