(* ===== verification/Base64.thy ===== *)
theory Base64
  imports GoText
begin

text \<open>
  \<^verbatim>\<open>encoding/base64\<close> in the two variants the program uses: \<^verbatim>\<open>base64.StdEncoding\<close> (pictures on the
  wire and in the cache) and \<^verbatim>\<open>base64.RawURLEncoding\<close> (tokens). The decoder follows
  \<^verbatim>\<open>Encoding.decodeQuantum\<close>: carriage returns and line feeds are skipped anywhere, padding is
  accepted only at the end, and the unused low bits of the last character are not checked.
\<close>

record encoding =
  alphabet :: string
  padChar :: "char option"

definition letters :: string where
  "letters = ''ABCDEFGHIJKLMNOPQRSTUVWXYZabcdefghijklmnopqrstuvwxyz0123456789''"

definition StdEncoding :: encoding where
  "StdEncoding = \<lparr>alphabet = letters @ ''+/'', padChar = Some CHR ''=''\<rparr>"

definition RawURLEncoding :: encoding where
  "RawURLEncoding = \<lparr>alphabet = letters @ ''-_'', padChar = None\<rparr>"

fun index_of :: "'a list \<Rightarrow> 'a \<Rightarrow> nat option" where
  "index_of [] c = None"
| "index_of (x # xs) c = (if x = c then Some 0 else map_option Suc (index_of xs c))"

definition enc6 :: "encoding \<Rightarrow> nat \<Rightarrow> char" where
  "enc6 e n = alphabet e ! n"

definition dec6 :: "encoding \<Rightarrow> char \<Rightarrow> nat option" where
  "dec6 e c = index_of (alphabet e) c"

definition pad :: "encoding \<Rightarrow> nat \<Rightarrow> string" where
  "pad e n = (case padChar e of None \<Rightarrow> [] | Some p \<Rightarrow> replicate n p)"

fun b64_Encode :: "encoding \<Rightarrow> nat list \<Rightarrow> string" where
  "b64_Encode e [] = []"
| "b64_Encode e [a] = [enc6 e (a div 4), enc6 e (a mod 4 * 16)] @ pad e 2"
| "b64_Encode e [a, b] =
     [enc6 e (a div 4), enc6 e (a mod 4 * 16 + b div 16), enc6 e (b mod 16 * 4)] @ pad e 1"
| "b64_Encode e (a # b # c # s) =
     [enc6 e (a div 4), enc6 e (a mod 4 * 16 + b div 16), enc6 e (b mod 16 * 4 + c div 64),
      enc6 e (c mod 64)] @ b64_Encode e s"

definition EncodeToString :: "encoding \<Rightarrow> bytes \<Rightarrow> string" where
  "EncodeToString e s = b64_Encode e (map byte_of s)"

definition err_corrupt :: go_error where
  "err_corrupt = Errorf ''illegal base64 data''"

fun b64_Decode :: "encoding \<Rightarrow> string \<Rightarrow> nat list result" where
  "b64_Decode e [] = Inr []"
| "b64_Decode e [a] = Inl err_corrupt"
| "b64_Decode e [a, b] =
     (case (padChar e, dec6 e a, dec6 e b) of
        (None, Some x, Some y) \<Rightarrow> Inr [x * 4 + y div 16]
      | _ \<Rightarrow> Inl err_corrupt)"
| "b64_Decode e [a, b, c] =
     (case (padChar e, dec6 e a, dec6 e b, dec6 e c) of
        (None, Some x, Some y, Some z) \<Rightarrow> Inr [x * 4 + y div 16, y mod 16 * 16 + z div 4]
      | _ \<Rightarrow> Inl err_corrupt)"
| "b64_Decode e (a # b # c # d # s) =
     (case (dec6 e a, dec6 e b) of
        (Some x, Some y) \<Rightarrow>
          (case (dec6 e c, dec6 e d) of
             (Some z, Some w) \<Rightarrow>
               bindE (b64_Decode e s) (\<lambda>t.
                 Inr ((x * 4 + y div 16) # (y mod 16 * 16 + z div 4) # (z mod 4 * 64 + w) # t))
           | (Some z, None) \<Rightarrow>
               if padChar e = Some d \<and> s = [] then Inr [x * 4 + y div 16, y mod 16 * 16 + z div 4]
               else Inl err_corrupt
           | (None, _) \<Rightarrow>
               if padChar e = Some c \<and> padChar e = Some d \<and> s = [] then Inr [x * 4 + y div 16]
               else Inl err_corrupt)
      | _ \<Rightarrow> Inl err_corrupt)"

definition DecodeString :: "encoding \<Rightarrow> string \<Rightarrow> bytes result" where
  "DecodeString e s =
     bindE (b64_Decode e (filter (\<lambda>c. c \<noteq> CHR 0x0A \<and> c \<noteq> CHR 0x0D) s)) (\<lambda>t. Inr (map chr t))"

subsection \<open>Round trip\<close>

text \<open>What the round trip needs of an encoding; both encodings have it.\<close>

definition proper_encoding :: "encoding \<Rightarrow> bool" where
  "proper_encoding e \<longleftrightarrow>
     length (alphabet e) = 64 \<and> distinct (alphabet e) \<and>
     CHR 0x0A \<notin> set (alphabet e) \<and> CHR 0x0D \<notin> set (alphabet e) \<and>
     (case padChar e of None \<Rightarrow> True
      | Some p \<Rightarrow> p \<notin> set (alphabet e) \<and> p \<noteq> CHR 0x0A \<and> p \<noteq> CHR 0x0D)"

lemma proper_StdEncoding [simp]: "proper_encoding StdEncoding"
  by (simp add: proper_encoding_def StdEncoding_def letters_def)

lemma proper_RawURLEncoding [simp]: "proper_encoding RawURLEncoding"
  by (simp add: proper_encoding_def RawURLEncoding_def letters_def)

lemma index_of_nth: "distinct xs \<Longrightarrow> n < length xs \<Longrightarrow> index_of xs (xs ! n) = Some n"
  by (induction xs arbitrary: n) (auto simp: nth_Cons' less_Suc_eq_0_disj)

lemma index_of_None: "c \<notin> set xs \<Longrightarrow> index_of xs c = None"
  by (induction xs) auto

lemma dec6_enc6: "proper_encoding e \<Longrightarrow> n < 64 \<Longrightarrow> dec6 e (enc6 e n) = Some n"
  by (simp add: proper_encoding_def dec6_def enc6_def index_of_nth)

lemma dec6_pad: "proper_encoding e \<Longrightarrow> padChar e = Some p \<Longrightarrow> dec6 e p = None"
  by (simp add: proper_encoding_def dec6_def index_of_None)

lemma enc6_in: "proper_encoding e \<Longrightarrow> n < 64 \<Longrightarrow> enc6 e n \<in> set (alphabet e)"
  by (simp add: proper_encoding_def enc6_def)

lemma byte_groups:
  fixes a b c :: nat
  assumes "a < 256" "b < 256" "c < 256"
  shows "a div 4 < 64" "a mod 4 * 16 < 64" "a mod 4 * 16 + b div 16 < 64" "b mod 16 * 4 < 64"
    "b mod 16 * 4 + c div 64 < 64"
    "b div 16 < 16" "c div 64 < 4"
proof -
  show d: "b div 16 < 16" "c div 64 < 4" using assms by linarith+
  have m: "a mod 4 < 4" "b mod 16 < 16" by simp_all
  show "a div 4 < 64" "a mod 4 * 16 < 64" "b mod 16 * 4 < 64" using assms m by linarith+
  show "a mod 4 * 16 + b div 16 < 64" "b mod 16 * 4 + c div 64 < 64" using d m by linarith+
qed

lemma b64_round_trip:
  assumes "proper_encoding e" "\<forall>x \<in> set s. x < 256"
  shows "b64_Decode e (b64_Encode e s) = Inr s"
  using assms
proof (induction e s rule: b64_Encode.induct)
  case (2 e a)
  then show ?case using byte_groups [of a 0 0]
    by (cases "padChar e") (simp_all add: pad_def dec6_enc6 dec6_pad numeral_2_eq_2)
next
  case (3 e a b)
  then show ?case using byte_groups [of a b 0]
    by (cases "padChar e") (simp_all add: pad_def dec6_enc6 dec6_pad)
next
  case (4 e a b c s)
  then show ?case using byte_groups [of a b c] by (simp add: dec6_enc6)
qed simp

lemma b64_chars:
  assumes "proper_encoding e" "\<forall>x \<in> set s. x < 256"
  shows "set (b64_Encode e s) \<subseteq> set (alphabet e) \<union> set_option (padChar e)"
  using assms
proof (induction e s rule: b64_Encode.induct)
  case (2 e a)
  then show ?case using byte_groups [of a 0 0] by (auto simp: enc6_in pad_def split: option.splits)
next
  case (3 e a b)
  then show ?case using byte_groups [of a b 0] by (auto simp: enc6_in pad_def split: option.splits)
next
  case (4 e a b c s)
  then show ?case using byte_groups [of a b c] by (auto simp: enc6_in)
qed simp

lemma EncodeToString_chars:
  "proper_encoding e \<Longrightarrow> set (EncodeToString e s) \<subseteq> set (alphabet e) \<union> set_option (padChar e)"
  unfolding EncodeToString_def by (rule b64_chars) auto

lemma base64_round_trip [simp, codec_simps]:
  assumes "proper_encoding e"
  shows "DecodeString e (EncodeToString e s) = Inr s"
proof -
  have "\<forall>c \<in> set (EncodeToString e s). c \<noteq> CHR 0x0A \<and> c \<noteq> CHR 0x0D"
    using EncodeToString_chars [OF assms, of s] assms
    by (auto simp: proper_encoding_def split: option.splits)
  then have "filter (\<lambda>c. c \<noteq> CHR 0x0A \<and> c \<noteq> CHR 0x0D) (EncodeToString e s) = EncodeToString e s"
    by (simp add: filter_id_conv)
  then show ?thesis
    using b64_round_trip [OF assms, of "map byte_of s"]
    by (simp add: DecodeString_def EncodeToString_def comp_def)
qed

interpretation base64: byte_codec "EncodeToString StdEncoding" "DecodeString StdEncoding" "\<lambda>_. True"
  by unfold_locales simp

interpretation base64url: byte_codec "EncodeToString RawURLEncoding" "DecodeString RawURLEncoding"
    "\<lambda>_. True"
  by unfold_locales simp

subsection \<open>Size and alphabet\<close>

lemma length_std: "length (EncodeToString StdEncoding s) = 4 * ((length s + 2) div 3)"
proof -
  have "length (b64_Encode StdEncoding t) = 4 * ((length t + 2) div 3)" for t
  proof (induction StdEncoding t rule: b64_Encode.induct)
    case (4 a b c s)
    moreover have "(5 + length s) div 3 = Suc (Suc (Suc (length s)) div 3)" by arith
    ultimately show ?case by simp
  qed (simp_all add: pad_def StdEncoding_def)
  then show ?thesis by (simp add: EncodeToString_def)
qed

lemma EncodeToString_Nil [simp]: "EncodeToString e s = [] \<longleftrightarrow> s = []"
proof -
  have "b64_Encode e t = [] \<longleftrightarrow> t = []" for t by (cases "(e, t)" rule: b64_Encode.cases) auto
  then show ?thesis by (simp add: EncodeToString_def)
qed

lemma rawurl_plain:
  "c \<in> set (EncodeToString RawURLEncoding s) \<Longrightarrow> plain_char c \<and> c \<noteq> CHR ''.''"
  using EncodeToString_chars [OF proper_RawURLEncoding, of s]
  by (auto simp: RawURLEncoding_def letters_def plain_char_def byte_of_def)

lemma std_ascii: "is_ascii (EncodeToString StdEncoding s)"
  using EncodeToString_chars [OF proper_StdEncoding, of s]
  by (auto simp: is_ascii_def StdEncoding_def letters_def byte_of_def)

lemma rawurl_ascii: "is_ascii (EncodeToString RawURLEncoding s)"
  using rawurl_plain [of _ s] by (auto simp: is_ascii_def plain_char_def)

end
