(* ===== verification/RedisStore.thy ===== *)
theory RedisStore
  imports Config GoIO Crypto Base64
begin

text \<open>
  \<^verbatim>\<open>internal/store/redisstore/session.go\<close>: the Redis client. It keeps no connection: every command
  dials, optionally authenticates and selects a database, sends one command and reads one
  reply. The network is a parameter: \<open>net_recv\<close> gives the bytes the peer will still send if
  nothing more is written to it, and the error that ends them (a deadline, or the end of the
  connection).
\<close>

record 'w net =
  net_dial :: "string \<Rightarrow> ('w, unit) io"
  net_write :: "bytes \<Rightarrow> ('w, unit) io"
  net_recv :: "'w \<Rightarrow> (bytes \<times> go_error) \<times> 'w"

datatype reply = RString string | RInt int

definition nl :: char where "nl = CHR 0x0A"
definition cr :: char where "cr = CHR 0x0D"

abbreviation crlf :: string where
  "crlf \<equiv> [cr, nl]"

subsection \<open>The wire format\<close>

definition bulk :: "string \<Rightarrow> bytes" where
  "bulk arg = CHR ''$'' # Itoa (int (length arg)) @ crlf @ arg @ crlf"

definition array_header :: "nat \<Rightarrow> bytes" where
  "array_header n = CHR ''*'' # Itoa (int n) @ crlf"

fun write_args :: "'w net \<Rightarrow> string list \<Rightarrow> ('w, unit) io" where
  "write_args net [] = return_io ()"
| "write_args net (arg # args) = bind_io (net_write net (bulk arg)) (\<lambda>_. write_args net args)"

definition writeCommand :: "'w net \<Rightarrow> string list \<Rightarrow> ('w, unit) io" where
  "writeCommand net args =
     bind_io (net_write net (array_header (length args))) (\<lambda>_. write_args net args)"

definition readLine :: "reader \<Rightarrow> string result \<times> reader" where
  "readLine r =
     (if nl \<in> set (rd_buf r)
      then let line = takeWhile (\<lambda>c. c \<noteq> nl) (rd_buf r) @ [nl] in
           (Inr (TrimSuffix (TrimSuffix line [nl]) [cr]), r\<lparr>rd_buf := drop (length line) (rd_buf r)\<rparr>)
      else (Inl (rd_end r), r\<lparr>rd_buf := []\<rparr>))"

text \<open>
  \<^verbatim>\<open>make([]byte, n+2)\<close> panics for a negative length and for one no allocation can have; for the
  length -2 the slice is empty and \<^verbatim>\<open>data[:n]\<close> panics instead.
\<close>

definition maxAlloc :: int where
  "maxAlloc = 2 ^ 48"

definition readReply :: "reader \<Rightarrow> reply result \<times> reader" where
  "readReply r =
     (case rd_buf r of
        [] \<Rightarrow> (Inl (rd_end r), r)
      | pfx # rest \<Rightarrow>
          (case readLine (r\<lparr>rd_buf := rest\<rparr>) of
             (Inl e, r1) \<Rightarrow> (Inl e, r1)
           | (Inr line, r1) \<Rightarrow>
               if pfx = CHR ''+'' then (Inr (RString line), r1)
               else if pfx = CHR ''-'' then (Inl (Errorf line), r1)
               else if pfx = CHR '':'' then
                 (bindE (ParseInt line 64) (\<lambda>i. Inr (RInt i)), r1)
               else if pfx = CHR ''$'' then
                 (case Atoi line of
                    Inl e \<Rightarrow> (Inl e, r1)
                  | Inr n \<Rightarrow>
                      if n = -1 then (Inl (Sentinel RedisErrMissing), r1)
                      else if n < -1 then (Inl (Panic ''runtime error: out of range''), r1)
                      else if n + 2 > maxAlloc then (Inl (Panic ''runtime error: makeslice: len out of range''), r1)
                      else
                        (case ReadFull (nat (n + 2)) r1 of
                           (Inl e, r2) \<Rightarrow> (Inl e, r2)
                         | (Inr data, r2) \<Rightarrow> (Inr (RString (take (nat n) data)), r2)))
               else (Inl (Errorf ''unknown redis reply prefix''), r1)))"

subsection \<open>Commands\<close>

text \<open>Reading a reply: what the peer sends is added to the buffer of the \<^verbatim>\<open>bufio.Reader\<close>.\<close>

definition await_reply :: "'w net \<Rightarrow> reader \<Rightarrow> ('w, reply \<times> reader) io" where
  "await_reply net r =
     (\<lambda>w. case net_recv net w of
        ((b, e), w1) \<Rightarrow>
          (case readReply (r\<lparr>rd_buf := rd_buf r @ b, rd_end := e\<rparr>) of
             (Inl err, _) \<Rightarrow> (Inl err, w1)
           | (Inr v, r1) \<Rightarrow> (Inr (v, r1), w1)))"

definition exchange :: "'w net \<Rightarrow> string list \<Rightarrow> reader \<Rightarrow> ('w, reply \<times> reader) io" where
  "exchange net args r = bind_io (writeCommand net args) (\<lambda>_. await_reply net r)"

definition auth_step :: "'w net \<Rightarrow> RedisConfig \<Rightarrow> reader \<Rightarrow> ('w, reader) io" where
  "auth_step net cfg r =
     (if redis_Password cfg \<noteq> []
      then bind_io (exchange net [''AUTH'', redis_Password cfg] r) (\<lambda>(_, r1). return_io r1)
      else return_io r)"

definition select_step :: "'w net \<Rightarrow> RedisConfig \<Rightarrow> reader \<Rightarrow> ('w, reader) io" where
  "select_step net cfg r =
     (if redis_DB cfg > 0
      then bind_io (exchange net [''SELECT'', Itoa (redis_DB cfg)] r) (\<lambda>(_, r1). return_io r1)
      else return_io r)"

definition command :: "'w net \<Rightarrow> RedisConfig \<Rightarrow> string list \<Rightarrow> ('w, reply) io" where
  "command net cfg args =
     (if redis_Addr cfg = [] then fail_io (Errorf ''redis address is empty'')
      else bind_io (net_dial net (redis_Addr cfg)) (\<lambda>_.
        bind_io (auth_step net cfg \<lparr>rd_buf = [], rd_end = Sentinel EOF\<rparr>) (\<lambda>r1.
        bind_io (select_step net cfg r1) (\<lambda>r2.
        bind_io (exchange net args r2) (\<lambda>(v, _). return_io v)))))"

definition Ping :: "'w net \<Rightarrow> RedisConfig \<Rightarrow> ('w, unit) io" where
  "Ping net cfg =
     bind_io (command net cfg [''PING'']) (\<lambda>reply.
       if reply = RString ''PONG'' then return_io ()
       else fail_io (Errorf ''unexpected redis ping reply''))"

subsection \<open>Keys\<close>

definition key_prefix :: "RedisConfig \<Rightarrow> string" where
  "key_prefix cfg = (if KeyPrefix cfg = [] then ''go-entry-task'' else KeyPrefix cfg)"

definition sessionKey :: "RedisConfig \<Rightarrow> string \<Rightarrow> string" where
  "sessionKey cfg token = key_prefix cfg @ '':session:'' @ hex_EncodeToString (Sum256 token)"

definition pictureKey :: "RedisConfig \<Rightarrow> nat \<Rightarrow> nat \<Rightarrow> string" where
  "pictureKey cfg userID version =
     key_prefix cfg @ '':profile-picture:'' @ FormatUint userID @ '':'' @ FormatUint version"

subsection \<open>Sessions\<close>

text \<open>\<^verbatim>\<open>int(ttl.Seconds())\<close>: whole seconds and the rest are added as \<^verbatim>\<open>float64\<close> and truncated.\<close>

definition whole_seconds :: "nat \<Rightarrow> nat" where
  "whole_seconds ns =
     (case round64 (ns mod 1000000000, 1000000000) of (a, b) \<Rightarrow>
      case round64 (ns div 1000000000 * b + a, b) of (x, y) \<Rightarrow> x div y)"

definition int_seconds :: "int \<Rightarrow> int" where
  "int_seconds ttl = (if ttl < 0 then - int (whole_seconds (nat (- ttl))) else int (whole_seconds (nat ttl)))"

definition SaveSession :: "'w net \<Rightarrow> RedisConfig \<Rightarrow> string \<Rightarrow> nat \<Rightarrow> int \<Rightarrow> ('w, unit) io" where
  "SaveSession net cfg token userID ttl =
     (let seconds = int_seconds ttl in
      if seconds \<le> 0 then fail_io (Errorf ''session ttl must be positive'')
      else bind_io (command net cfg
             [''SET'', sessionKey cfg token, FormatUint userID, ''EX'', Itoa seconds]) (\<lambda>_. return_io ()))"

definition GetSession :: "'w net \<Rightarrow> RedisConfig \<Rightarrow> string \<Rightarrow> ('w, nat option) io" where
  "GetSession net cfg token =
     bind_io (try_io (command net cfg [''GET'', sessionKey cfg token])) (\<lambda>res.
       case res of
         Inl err \<Rightarrow> if errors_Is err RedisErrMissing then return_io None else fail_io err
       | Inr (RString value) \<Rightarrow>
           if value = [] then return_io None
           else bind_io (lift_io (ParseUint value 64)) (\<lambda>userID. return_io (Some userID))
       | Inr (RInt _) \<Rightarrow> return_io None)"

definition DeleteSession :: "'w net \<Rightarrow> RedisConfig \<Rightarrow> string \<Rightarrow> ('w, unit) io" where
  "DeleteSession net cfg token =
     bind_io (command net cfg [''DEL'', sessionKey cfg token]) (\<lambda>_. return_io ())"

subsection \<open>Profile pictures\<close>

record pictureValue =
  pv_ContentType :: string
  pv_DataBase64 :: string

definition marshal_pictureValue :: "pictureValue \<Rightarrow> string" where
  "marshal_pictureValue v =
     enc_object [(''content_type'', json_string (pv_ContentType v)),
                 (''data_base64'', json_string (pv_DataBase64 v))]"

definition field_pictureValue :: "string \<Rightarrow> string \<Rightarrow> pictureValue \<Rightarrow> pictureValue result" where
  "field_pictureValue f raw v =
     (if f = ''content_type''
        then bindE (dec_string raw (pv_ContentType v)) (\<lambda>s. Inr (v\<lparr>pv_ContentType := s\<rparr>))
      else bindE (dec_string raw (pv_DataBase64 v)) (\<lambda>s. Inr (v\<lparr>pv_DataBase64 := s\<rparr>)))"

definition unmarshal_pictureValue :: "string \<Rightarrow> pictureValue result" where
  "unmarshal_pictureValue s =
     Unmarshal (dec_struct False [''content_type'', ''data_base64''] field_pictureValue) s
       \<lparr>pv_ContentType = [], pv_DataBase64 = []\<rparr>"

definition SaveProfilePicture ::
    "'w net \<Rightarrow> RedisConfig \<Rightarrow> nat \<Rightarrow> nat \<Rightarrow> string \<Rightarrow> bytes \<Rightarrow> ('w, unit) io" where
  "SaveProfilePicture net cfg userID version mimeType data =
     (let val = marshal_pictureValue
            \<lparr>pv_ContentType = mimeType, pv_DataBase64 = EncodeToString StdEncoding data\<rparr> in
      bind_io (command net cfg [''SET'', pictureKey cfg userID version, val]) (\<lambda>_. return_io ()))"

definition GetProfilePicture ::
    "'w net \<Rightarrow> RedisConfig \<Rightarrow> nat \<Rightarrow> nat \<Rightarrow> ('w, (string \<times> bytes) option) io" where
  "GetProfilePicture net cfg userID version =
     bind_io (try_io (command net cfg [''GET'', pictureKey cfg userID version])) (\<lambda>res.
       case res of
         Inl err \<Rightarrow> if errors_Is err RedisErrMissing then return_io None else fail_io err
       | Inr (RString val) \<Rightarrow>
           if val = [] then return_io None
           else bind_io (lift_io (unmarshal_pictureValue val)) (\<lambda>cached.
                bind_io (lift_io (DecodeString StdEncoding (pv_DataBase64 cached))) (\<lambda>data.
                return_io (Some (pv_ContentType cached, data))))
       | Inr (RInt _) \<Rightarrow> return_io None)"

definition DeleteProfilePicture :: "'w net \<Rightarrow> RedisConfig \<Rightarrow> nat \<Rightarrow> nat \<Rightarrow> ('w, unit) io" where
  "DeleteProfilePicture net cfg userID version =
     bind_io (command net cfg [''DEL'', pictureKey cfg userID version]) (\<lambda>_. return_io ())"

subsection \<open>Commands cannot be forged\<close>

text \<open>All the bytes of one command, and what a RESP server reads them as.\<close>

definition command_bytes :: "string list \<Rightarrow> bytes" where
  "command_bytes args = array_header (length args) @ concat (map bulk args)"

definition parse_line :: "bytes \<Rightarrow> (string \<times> bytes) option" where
  "parse_line s =
     (let l = takeWhile (\<lambda>c. c \<noteq> cr) s; t = drop (length l) s in
      if take 2 t = crlf then Some (l, drop 2 t) else None)"

definition parse_count :: "char \<Rightarrow> bytes \<Rightarrow> (nat \<times> bytes) option" where
  "parse_count mark s =
     (if s \<noteq> [] \<and> hd s = mark then
        (case parse_line (tl s) of
           Some (l, t) \<Rightarrow> if l \<noteq> [] \<and> list_all is_digit l then Some (digits_val l, t) else None
         | None \<Rightarrow> None)
      else None)"

definition parse_bulk :: "bytes \<Rightarrow> (string \<times> bytes) option" where
  "parse_bulk s =
     (case parse_count (CHR ''$'') s of
        Some (n, t) \<Rightarrow>
          if n + 2 \<le> length t \<and> take 2 (drop n t) = crlf then Some (take n t, drop (n + 2) t) else None
      | None \<Rightarrow> None)"

fun parse_bulks :: "nat \<Rightarrow> bytes \<Rightarrow> (string list \<times> bytes) option" where
  "parse_bulks 0 s = Some ([], s)"
| "parse_bulks (Suc n) s =
     (case parse_bulk s of
        Some (a, t) \<Rightarrow> map_option (\<lambda>(as, u). (a # as, u)) (parse_bulks n t)
      | None \<Rightarrow> None)"

definition parse_command :: "bytes \<Rightarrow> (string list \<times> bytes) option" where
  "parse_command s =
     (case parse_count (CHR ''*'') s of Some (n, t) \<Rightarrow> parse_bulks n t | None \<Rightarrow> None)"

lemma parse_line_crlf: "cr \<notin> set l \<Longrightarrow> parse_line (l @ crlf @ t) = Some (l, t)"
  by (simp add: parse_line_def takeWhile_append Let_def)

lemma Itoa_nat: "Itoa (int n) = FormatUint n"
  by (simp add: Itoa_def)

lemma digits_no_crlf: "cr \<notin> set (FormatUint n)" "nl \<notin> set (FormatUint n)"
  by (auto dest!: FormatUint_set simp: cr_def nl_def is_digit_def byte_of_def)

lemma parse_count_Itoa: "parse_count m (m # FormatUint n @ crlf @ t) = Some (n, t)"
  using parse_line_crlf [OF digits_no_crlf(1), of n t] FormatUint_digits [of n]
  by (simp add: parse_count_def)

lemma parse_bulk_bulk: "parse_bulk (bulk a @ t) = Some (a, t)"
  using parse_count_Itoa [of "CHR ''$''" "length a" "a @ crlf @ t"]
  by (simp add: parse_bulk_def bulk_def Itoa_nat)

lemma parse_bulks_concat: "parse_bulks (length args) (concat (map bulk args) @ t) = Some (args, t)"
  by (induction args) (simp_all add: parse_bulk_bulk)

lemma parse_command_bytes: "parse_command (command_bytes args @ t) = Some (args, t)"
  using parse_count_Itoa [of "CHR ''*''" "length args" "concat (map bulk args) @ t"]
  by (simp add: parse_command_def command_bytes_def array_header_def Itoa_nat parse_bulks_concat)

text \<open>What \<^const>\<open>writeCommand\<close> sends over a connection that accumulates what is written to it.\<close>

lemma write_args_out:
  assumes "\<And>b w. net_write net b w = (Inr (), upd (out w @ b) w)"
    and "\<And>x w. out (upd x w) = x" "\<And>x y w. upd x (upd y w) = upd x w" "\<And>w. upd (out w) w = w"
  shows "write_args net args w = (Inr (), upd (out w @ concat (map bulk args)) w)"
  by (induction args arbitrary: w) (simp_all add: assms bind_io_def)

lemma writeCommand_out:
  assumes "\<And>b w. net_write net b w = (Inr (), upd (out w @ b) w)"
    and "\<And>x w. out (upd x w) = x" "\<And>x y w. upd x (upd y w) = upd x w" "\<And>w. upd (out w) w = w"
  shows "writeCommand net args w = (Inr (), upd (out w @ command_bytes args) w)"
  using write_args_out [of net upd out args, OF assms]
  by (simp add: writeCommand_def bind_io_def assms command_bytes_def)

text \<open>
  C26: whatever bytes the arguments contain (line breaks, digits, protocol markers), the bytes
  \<^const>\<open>writeCommand\<close> puts on a connection are read by a RESP server as exactly one command with exactly
  those arguments, and nothing of what follows is consumed: no argument can inject a command.
\<close>

theorem writeCommand_no_injection:
  "\<exists>out. writeCommand \<lparr>net_dial = \<lambda>_. return_io (), net_write = \<lambda>b w. (Inr (), w @ b),
        net_recv = \<lambda>w. (([], Sentinel EOF), w)\<rparr> args before = (Inr (), before @ out) \<and>
     parse_command (out @ rest) = Some (args, rest)"
  using writeCommand_out [of "\<lparr>net_dial = \<lambda>_. return_io (), net_write = \<lambda>b w. (Inr (), w @ b),
        net_recv = \<lambda>w. (([], Sentinel EOF), w)\<rparr>" "\<lambda>x _. x" "\<lambda>w. w" args before]
    parse_command_bytes [of args rest]
  by auto

subsection \<open>Replies\<close>

lemma readLine_line:
  assumes "nl \<notin> set l" "cr \<notin> set l"
  shows "readLine (r\<lparr>rd_buf := l @ crlf @ t\<rparr>) = (Inr l, r\<lparr>rd_buf := t\<rparr>)"
proof -
  have tw: "takeWhile (\<lambda>c. c \<noteq> nl) (l @ cr # nl # t) = l @ [cr]"
    using assms by (subst takeWhile_append2) (auto simp: nl_def cr_def)
  have ts: "TrimSuffix (x @ s) s = x" for x s by (simp add: TrimSuffix_def suffix_def)
  from ts [of "l @ [cr]" "[nl]"] ts [of l "[cr]"] show ?thesis
    by (simp add: readLine_def tw Let_def)
qed

text \<open>
  C35: reading a reply never panics, except for a bulk length below -1 or beyond any allocation:
  such a length, which the protocol does not use, takes the whole process down instead of
  failing the command.
\<close>

theorem readReply_panic_iff:
  assumes "\<not> panics (rd_end r)"
  shows "is_panic (fst (readReply r)) \<longleftrightarrow>
    rd_buf r \<noteq> [] \<and> hd (rd_buf r) = CHR ''$'' \<and>
    (\<exists>line n r1. readLine (r\<lparr>rd_buf := tl (rd_buf r)\<rparr>) = (Inr line, r1) \<and> Atoi line = Inr n \<and>
       (n < -1 \<or> n + 2 > maxAlloc))"
proof -
  have parse: "\<not> panics e" if "ParseInt l b = Inl e" for l b e
    using that by (auto simp: ParseInt_def Let_def err_syntax_def err_range_def split: if_splits)
  have eof: "\<not> panics e" if "ReadFull n r1 = (Inl e, r2)" "rd_end r1 = rd_end r" for n r1 r2 e
    using that assms by (auto simp: ReadFull_def split: if_splits)
  have line: "\<not> panics e" if "readLine (r\<lparr>rd_buf := x\<rparr>) = (Inl e, r1)" for x e r1
    using that assms by (auto simp: readLine_def Let_def split: if_splits)
  have line': "rd_end r1 = rd_end r" if "readLine (r\<lparr>rd_buf := x\<rparr>) = (Inr l, r1)" for x l r1
    using that by (auto simp: readLine_def Let_def split: if_splits)
  show ?thesis
    using assms
    by (auto simp: readReply_def Atoi_def bindE_def maxAlloc_def
        split: list.splits sum.splits prod.splits if_splits
        dest: parse eof line line')
qed

theorem readReply_panic_iff_witness:
  "is_panic (fst (readReply \<lparr>rd_buf = ''$-2'' @ crlf, rd_end = Sentinel EOF\<rparr>))"
proof -
  have l: "readLine \<lparr>rd_buf = ''-2'' @ crlf, rd_end = Sentinel EOF\<rparr>
      = (Inr ''-2'', \<lparr>rd_buf = [], rd_end = Sentinel EOF\<rparr>)"
    using readLine_line [where l = "''-2''" and r = "\<lparr>rd_buf = [], rd_end = Sentinel EOF\<rparr>" and t = "[]"]
    by (simp add: nl_def cr_def)
  have "Atoi ''-2'' = Inr (-2)" by (simp add: Atoi_def ParseInt_def is_digit_def digits_val_def digit_val_def byte_of_def)
  with l readReply_panic_iff [of "\<lparr>rd_buf = ''$-2'' @ crlf, rd_end = Sentinel EOF\<rparr>"]
  show ?thesis by force
qed

subsection \<open>Keys and lifetimes\<close>

lemma pictureKey_inject:
  "pictureKey cfg u v = pictureKey cfg u' v' \<longleftrightarrow> u = u' \<and> v = v'"
proof
  assume "pictureKey cfg u v = pictureKey cfg u' v'"
  then have eq: "FormatUint u @ CHR '':'' # FormatUint v = FormatUint u' @ CHR '':'' # FormatUint v'"
    by (simp add: pictureKey_def)
  have no: "CHR '':'' \<notin> set (FormatUint n)" for n
    by (auto dest!: FormatUint_set simp: is_digit_def byte_of_def)
  from arg_cong [OF eq, of "split_on (CHR '':'')"] show "u = u' \<and> v = v'" by (simp add: no)
qed simp

lemma sessionKey_pictureKey: "sessionKey cfg t \<noteq> pictureKey cfg u v"
  by (simp add: sessionKey_def pictureKey_def)

lemma sessionKey_inject: "sessionKey cfg t = sessionKey cfg t' \<longleftrightarrow> Sum256 t = Sum256 t'"
  by (simp add: sessionKey_def hex.enc_inject)

text \<open>
  The keys the store uses never collide by construction: two picture keys are equal only for
  the same user and version, two session keys only for tokens with the same SHA-256 hash, and a
  session key is never a picture key.
\<close>

theorem redis_keys_distinct:
  "(pictureKey cfg u v = pictureKey cfg u' v' \<longleftrightarrow> u = u' \<and> v = v') \<and>
   (sessionKey cfg t = sessionKey cfg t' \<longleftrightarrow> Sum256 t = Sum256 t') \<and>
   sessionKey cfg t \<noteq> pictureKey cfg u v"
  by (simp add: pictureKey_inject sessionKey_inject sessionKey_pictureKey)

lemma whole_seconds_ge:
  assumes "ns div 1000000000 < 2 ^ 52"
  shows "ns div 1000000000 \<le> whole_seconds ns"
proof -
  obtain a b where ab: "round64 (ns mod 1000000000, 1000000000) = (a, b)" by fastforce
  have b: "0 < b" using ab
    by (auto simp: round64_def Let_def scaled_def split: if_splits prod.splits)
  obtain x y where xy: "round64 (ns div 1000000000 * b + a, b) = (x, y)" by fastforce
  have "ns div 1000000000 \<le> x div y" by (rule round64_ge [OF b _ assms xy]) simp
  then show ?thesis by (simp add: whole_seconds_def ab xy)
qed

lemma int_seconds_ge:
  assumes "0 \<le> ttl" "ttl < 2 ^ 63"
  shows "ttl div 1000000000 \<le> int_seconds ttl"
proof -
  have "nat ttl < 2 ^ 63" using assms by (simp add: nat_less_iff)
  then have "nat ttl div 1000000000 < 2 ^ 52" by (simp add: div_less_iff_less_mult)
  from whole_seconds_ge [OF this] have "int (nat ttl div 1000000000) \<le> int (whole_seconds (nat ttl))" by simp
  then show ?thesis using assms(1) by (simp add: int_seconds_def zdiv_int)
qed

lemma int_seconds_le:
  assumes "0 \<le> ttl" "ttl < 2 ^ 63"
  shows "int_seconds ttl \<le> ttl div 1000000000 + 1"
proof -
  let ?ns = "nat ttl" and ?G = "1000000000 :: nat"
  obtain a b where ab: "round64 (?ns mod ?G, ?G) = (a, b)" by fastforce
  have b: "0 < b" using ab by (auto simp: round64_def Let_def scaled_def split: if_splits prod.splits)
  have "a \<le> 1 * b" by (rule round64_le [OF _ _ _ ab]) (auto intro: less_imp_le)
  then have le: "?ns div ?G * b + a \<le> (?ns div ?G + 1) * b" by simp
  obtain x y where xy: "round64 (?ns div ?G * b + a, b) = (x, y)" by fastforce
  have "?ns < 2 ^ 63" using assms by (simp add: nat_less_iff)
  then have "?ns div ?G + 1 < 2 ^ 52" by (simp add: div_less_iff_less_mult)
  from round64_le [OF b le this xy] have "x div y \<le> (?ns div ?G + 1) * y div y" by (rule div_le_mono)
  then have "x div y \<le> ?ns div ?G + 1" by (cases "y = 0") simp_all
  then have "int (x div y) \<le> int (?ns div ?G) + 1" by linarith
  then show ?thesis using assms(1) by (simp add: int_seconds_def whole_seconds_def ab xy zdiv_int)
qed

lemma pictureValue_round_trip:
  assumes "ValidString (pv_ContentType v)" "ValidString (pv_DataBase64 v)"
  shows "unmarshal_pictureValue (marshal_pictureValue v) = Inr v"
proof -
  have "coerce_utf8 ''content_type'' = ''content_type''" "coerce_utf8 ''data_base64'' = ''data_base64''"
    by (simp_all add: ascii_valid byte_of_def)
  then show ?thesis using assms unfolding unmarshal_pictureValue_def marshal_pictureValue_def
    by (subst Unmarshal_object [where n = 0]) (simp_all add: maxNestingDepth_def field_pictureValue_def)
qed

interpretation cached_picture: byte_codec marshal_pictureValue unmarshal_pictureValue
    "\<lambda>v. ValidString (pv_ContentType v) \<and> ValidString (pv_DataBase64 v)"
  by unfold_locales (simp add: pictureValue_round_trip)

lemma marshal_pictureValue_not_Nil [simp]: "marshal_pictureValue v \<noteq> []"
  by (simp add: marshal_pictureValue_def enc_object_def)

end
