(* ===== verification/Frame.thy ===== *)
theory Frame
  imports GoBinary
begin

text \<open>
  The length-prefixed frames of \<^verbatim>\<open>internal/protocol/frame.go\<close>: a four-byte big-endian length
  and the payload. The length is a \<^verbatim>\<open>uint32\<close> and is kept at its width.
\<close>

subsection \<open>Reading and writing one frame\<close>

definition headerBytes :: nat where
  "headerBytes = 4"

text \<open>\<^verbatim>\<open>fmt.Errorf("%w: %d > %d", ErrFrameTooLarge, n, maxBytes)\<close>\<close>

definition err_frame_too_large :: "nat \<Rightarrow> nat \<Rightarrow> go_error" where
  "err_frame_too_large n m =
     Wrapped (''frame too large: '' @ FormatUint n @ '' > '' @ FormatUint m) (Sentinel ErrFrameTooLarge)"

definition ReadFrame :: "reader \<Rightarrow> u32 \<Rightarrow> bytes result \<times> reader" where
  "ReadFrame r maxBytes =
     (case ReadFull headerBytes r of
        (Inl err, r1) \<Rightarrow> (Inl err, r1)
      | (Inr header, r1) \<Rightarrow>
          let n = Uint32 header in
          if n = 0 then (Inl (Errorf ''empty frame''), r1)
          else if maxBytes > 0 \<and> n > maxBytes
            then (Inl (err_frame_too_large (unat n) (unat maxBytes)), r1)
          else
            (case ReadFull (unat n) r1 of
               (Inl err, r2) \<Rightarrow> (Inl err, r2)
             | (Inr payload, r2) \<Rightarrow> (Inr payload, r2)))"

definition WriteFrame :: "writer \<Rightarrow> bytes \<Rightarrow> u32 \<Rightarrow> go_error option \<times> writer" where
  "WriteFrame w payload maxBytes =
     (if length payload = 0 then (Some (Errorf ''empty frame''), w)
      else if maxBytes > 0 \<and> length payload > unat maxBytes
        then (Some (err_frame_too_large (length payload) (unat maxBytes)), w)
      else if length payload > 2 ^ 32 - 1 then (Some (Sentinel ErrFrameTooLarge), w)
      else
        (case Write (PutUint32 (of_nat (length payload))) w of
           (Some err, w1) \<Rightarrow> (Some err, w1)
         | (None, w1) \<Rightarrow> Write payload w1))"

text \<open>What a frame is on the wire, and when a payload may be framed.\<close>

definition frame_bytes :: "bytes \<Rightarrow> bytes" where
  "frame_bytes p = PutUint32 (of_nat (length p)) @ p"

definition frame_ok :: "u32 \<Rightarrow> bytes \<Rightarrow> bool" where
  "frame_ok maxBytes p \<longleftrightarrow>
     p \<noteq> [] \<and> (maxBytes > 0 \<longrightarrow> length p \<le> unat maxBytes) \<and> length p < 2 ^ 32"

lemma WriteFrame_None:
  assumes "WriteFrame w p m = (None, w')"
  shows "frame_ok m p \<and> wr_out w' = wr_out w @ frame_bytes p"
  using assms unfolding WriteFrame_def frame_ok_def frame_bytes_def
  by (auto split: if_splits prod.splits option.splits dest!: Write_None)

lemma WriteFrame_unbounded:
  "wr_room w = None \<Longrightarrow> frame_ok m p \<Longrightarrow>
   WriteFrame w p m = (None, w\<lparr>wr_out := wr_out w @ frame_bytes p\<rparr>)"
  by (auto simp: WriteFrame_def frame_ok_def frame_bytes_def Write_unbounded)

lemma unat_frame_length:
  "length p < 2 ^ 32 \<Longrightarrow> unat (of_nat (length p) :: u32) = length p"
  by (simp add: unat_of_nat)

lemma ReadFrame_frame_bytes:
  assumes "frame_ok m p" and "rd_buf r = frame_bytes p @ rest"
  shows "ReadFrame r m = (Inr p, r\<lparr>rd_buf := rest\<rparr>)"
proof -
  let ?n = "of_nat (length p) :: u32"
  have n: "unat ?n = length p" using assms(1) by (simp add: frame_ok_def unat_frame_length)
  have "?n \<noteq> 0" using assms(1) n by (metis frame_ok_def length_0_conv unat_0)
  moreover have "\<not> (m > 0 \<and> ?n > m)"
    using assms(1) n by (auto simp: frame_ok_def word_less_nat_alt)
  moreover have "ReadFull headerBytes r = (Inr (PutUint32 ?n), r\<lparr>rd_buf := p @ rest\<rparr>)"
    using assms(2) by (simp add: ReadFull_def headerBytes_def frame_bytes_def)
  moreover have "ReadFull (unat ?n) (r\<lparr>rd_buf := p @ rest\<rparr>) = (Inr p, r\<lparr>rd_buf := rest\<rparr>)"
    by (simp add: n ReadFull_append)
  ultimately show ?thesis by (simp add: ReadFrame_def Let_def)
qed

text \<open>Reading inverts writing: what \<^const>\<open>ReadFrame\<close> accepts is a frame of the payload it returns.\<close>

lemma ReadFrame_Inr:
  assumes "ReadFrame r m = (Inr p, r')"
  shows "p \<noteq> [] \<and> (m > 0 \<longrightarrow> length p \<le> unat m) \<and> length p < 2 ^ 32 \<and>
    (\<exists>h. length h = 4 \<and> unat (Uint32 h) = length p \<and> rd_buf r = h @ p @ rd_buf r')"
proof -
  from assms obtain h r1 where h: "ReadFull headerBytes r = (Inr h, r1)"
    and n: "Uint32 h \<noteq> 0" "\<not> (m > 0 \<and> Uint32 h > m)"
    and p: "ReadFull (unat (Uint32 h)) r1 = (Inr p, r')"
    by (auto simp: ReadFrame_def Let_def split: prod.splits sum.splits if_splits)
  from h have h': "length h = 4" "rd_buf r = h @ rd_buf r1"
    by (auto simp: ReadFull_Inr headerBytes_def)
  from p have p': "length p = unat (Uint32 h)" "rd_buf r1 = p @ rd_buf r'"
    by (auto simp: ReadFull_Inr)
  have "p \<noteq> []" using p'(1) n(1) by (auto simp: unat_eq_0)
  moreover have "m > 0 \<longrightarrow> length p \<le> unat m" using n(2) p'(1) by (auto simp: word_less_nat_alt)
  moreover have "unat (Uint32 h) < 2 ^ LENGTH(32)" by (rule unsigned_less)
  ultimately show ?thesis using h' p' by auto
qed

subsection \<open>Streams of frames\<close>

text \<open>A connection carries one frame after another, in both directions.\<close>

fun write_frames :: "writer \<Rightarrow> bytes list \<Rightarrow> u32 \<Rightarrow> go_error option \<times> writer" where
  "write_frames w [] m = (None, w)"
| "write_frames w (p # ps) m =
     (case WriteFrame w p m of
        (Some e, w1) \<Rightarrow> (Some e, w1)
      | (None, w1) \<Rightarrow> write_frames w1 ps m)"

fun read_frames :: "nat \<Rightarrow> reader \<Rightarrow> u32 \<Rightarrow> bytes list result \<times> reader" where
  "read_frames 0 r m = (Inr [], r)"
| "read_frames (Suc n) r m =
     (case ReadFrame r m of
        (Inl e, r1) \<Rightarrow> (Inl e, r1)
      | (Inr p, r1) \<Rightarrow>
          (case read_frames n r1 m of
             (Inl e, r2) \<Rightarrow> (Inl e, r2)
           | (Inr ps, r2) \<Rightarrow> (Inr (p # ps), r2)))"

lemma write_frames_out:
  "write_frames w ps m = (None, w') \<Longrightarrow>
   list_all (frame_ok m) ps \<and> wr_out w' = wr_out w @ concat (map frame_bytes ps)"
  by (induction ps arbitrary: w) (auto split: prod.splits option.splits dest!: WriteFrame_None)

lemma read_frames_concat:
  "list_all (frame_ok m) ps \<Longrightarrow> rd_buf r = concat (map frame_bytes ps) @ rest \<Longrightarrow>
   read_frames (length ps) r m = (Inr ps, r\<lparr>rd_buf := rest\<rparr>)"
proof (induction ps arbitrary: r)
  case (Cons p ps)
  then have "ReadFrame r m = (Inr p, r\<lparr>rd_buf := concat (map frame_bytes ps) @ rest\<rparr>)"
    by (intro ReadFrame_frame_bytes) auto
  with Cons show ?case by simp
qed simp

text \<open>
  C13: whatever payloads are written to a connection one after another without an error are read
  back by the peer in the same order and unchanged, when both sides use the same frame limit;
  the bytes that follow on the connection are left untouched.
\<close>

theorem frame_stream_round_trip:
  assumes "write_frames w ps m = (None, w')"
    and "rd_buf r = drop (length (wr_out w)) (wr_out w') @ rest"
  shows "read_frames (length ps) r m = (Inr ps, r\<lparr>rd_buf := rest\<rparr>)"
  using assms write_frames_out [OF assms(1)] by (auto intro: read_frames_concat)

theorem frame_stream_round_trip_witness:
  "\<exists>w'. write_frames \<lparr>wr_out = [], wr_room = None, wr_err = Sentinel NetErrClosed\<rparr> [''ab'', ''c''] 8
        = (None, w') \<and>
     read_frames 2 \<lparr>rd_buf = wr_out w' @ ''xyz'', rd_end = Sentinel EOF\<rparr> 8
        = (Inr [''ab'', ''c''], \<lparr>rd_buf = ''xyz'', rd_end = Sentinel EOF\<rparr>)"
proof -
  let ?w = "\<lparr>wr_out = [], wr_room = None, wr_err = Sentinel NetErrClosed\<rparr> :: writer"
  obtain w' where w': "write_frames ?w [''ab'', ''c''] 8 = (None, w')"
    by (simp add: WriteFrame_unbounded frame_ok_def)
  show ?thesis
    using w' frame_stream_round_trip [OF w', of "\<lparr>rd_buf = wr_out w' @ ''xyz'', rd_end = Sentinel EOF\<rparr>" "''xyz''"]
    by (simp add: numeral_2_eq_2)
qed

subsection \<open>Limits\<close>

text \<open>
  A payload that may not be framed (empty, over the configured limit, or longer than a 32-bit
  length can say) is refused before anything is written, and every refusal of a non-empty
  payload is recognisable as \<^const>\<open>ErrFrameTooLarge\<close>.
\<close>

theorem WriteFrame_refuses:
  assumes "\<not> frame_ok m p"
  shows "\<exists>e. WriteFrame w p m = (Some e, w) \<and> (p \<noteq> [] \<longrightarrow> errors_Is e ErrFrameTooLarge)"
  using assms by (auto simp: WriteFrame_def frame_ok_def err_frame_too_large_def)

theorem WriteFrame_refuses_witness:
  "\<exists>e. WriteFrame \<lparr>wr_out = ''x'', wr_room = Some 9, wr_err = Sentinel EOF\<rparr> ''abc'' 2
     = (Some e, \<lparr>wr_out = ''x'', wr_room = Some 9, wr_err = Sentinel EOF\<rparr>)
     \<and> errors_Is e ErrFrameTooLarge"
  using WriteFrame_refuses [of 2 "''abc''"] by (auto simp: frame_ok_def)

lemma ReadFull_consumes:
  "ReadFull n r = (res, r') \<Longrightarrow> \<exists>c. rd_buf r = c @ rd_buf r' \<and> length c \<le> n"
  by (intro exI [of _ "take n (rd_buf r)"]) (auto simp: ReadFull_def split: if_splits)

text \<open>
  C12: whatever a peer sends, and whether or not the call succeeds, reading a frame takes at most
  the header and \<open>maxBytes\<close> bytes off the connection, and a returned payload is never empty and
  never longer than the limit. A length field over the limit is refused before any of the
  payload is read.
\<close>

theorem ReadFrame_bounded:
  assumes "m > 0" and "ReadFrame r m = (res, r')"
  shows "(\<exists>c. rd_buf r = c @ rd_buf r' \<and> length c \<le> headerBytes + unat m) \<and>
    (\<forall>p. res = Inr p \<longrightarrow> p \<noteq> [] \<and> length p \<le> unat m) \<and>
    (headerBytes \<le> length (rd_buf r) \<and> m < Uint32 (rd_buf r) \<longrightarrow>
       (\<exists>e. res = Inl e \<and> errors_Is e ErrFrameTooLarge) \<and> rd_buf r' = drop headerBytes (rd_buf r))"
proof (intro conjI)
  obtain h r1 where h: "ReadFull headerBytes r = (h, r1)" by (cases "ReadFull headerBytes r")
  obtain c where c: "rd_buf r = c @ rd_buf r1" "length c \<le> headerBytes"
    using ReadFull_consumes [OF h] by blast
  show "\<exists>c. rd_buf r = c @ rd_buf r' \<and> length c \<le> headerBytes + unat m"
  proof (cases "r' = r1")
    case True
    with c show ?thesis by (metis trans_le_add1)
  next
    case False
    with assms h obtain hd' where hd: "h = Inr hd'" "\<not> Uint32 hd' > m"
      "ReadFull (unat (Uint32 hd')) r1 = (res, r')"
      by (auto simp: ReadFrame_def Let_def split: sum.splits prod.splits if_splits)
    from ReadFull_consumes [OF hd(3)] obtain d where
      "rd_buf r1 = d @ rd_buf r'" "length d \<le> unat (Uint32 hd')" by blast
    moreover have "unat (Uint32 hd') \<le> unat m" using hd(2) by (simp add: word_less_nat_alt)
    ultimately show ?thesis using c by (intro exI [of _ "c @ d"]) simp
  qed
next
  show "\<forall>p. res = Inr p \<longrightarrow> p \<noteq> [] \<and> length p \<le> unat m"
    using ReadFrame_Inr assms by blast
next
  have "Uint32 (take 4 s) = Uint32 s" if "4 \<le> length s" for s
    using that by (cases s rule: Uint32.cases) (auto simp: numeral_eq_Suc)
  then show "headerBytes \<le> length (rd_buf r) \<and> m < Uint32 (rd_buf r) \<longrightarrow>
       (\<exists>e. res = Inl e \<and> errors_Is e ErrFrameTooLarge) \<and> rd_buf r' = drop headerBytes (rd_buf r)"
    using assms
    by (auto simp: ReadFrame_def ReadFull_def headerBytes_def err_frame_too_large_def Let_def
        split: if_splits)
qed

theorem ReadFrame_bounded_witness:
  "\<exists>e r'. ReadFrame \<lparr>rd_buf = PutUint32 9 @ ''body'', rd_end = Sentinel EOF\<rparr> 5 = (Inl e, r')
     \<and> errors_Is e ErrFrameTooLarge \<and> rd_buf r' = ''body''"
proof -
  obtain res r' where
    r: "ReadFrame \<lparr>rd_buf = PutUint32 9 @ ''body'', rd_end = Sentinel EOF\<rparr> 5 = (res, r')"
    by (cases "ReadFrame \<lparr>rd_buf = PutUint32 9 @ ''body'', rd_end = Sentinel EOF\<rparr> 5")
  have "(5 :: u32) > 0" by simp
  from ReadFrame_bounded [OF this r] r show ?thesis by (auto simp: headerBytes_def)
qed

end
