(* ===== verification/JsonRaw.thy ===== *)
theory JsonRaw
  imports JsonObject
begin

text \<open>
  \<^verbatim>\<open>json.RawMessage\<close>: marshalling one checks that it is a JSON value and compacts it (white
  space between tokens dropped, \<^verbatim>\<open><\<close>, \<^verbatim>\<open>>\<close>, \<^verbatim>\<open>&\<close>, U+2028 and U+2029 escaped); unmarshalling one keeps
  the raw text.
\<close>

fun compact_out :: "bool \<Rightarrow> bool \<Rightarrow> string \<Rightarrow> string" where
  "compact_out inq esc [] = []"
| "compact_out inq esc (c # s) =
     (if \<not> inq \<and> is_ws c then compact_out False False s
      else if c = CHR ''<'' \<or> c = CHR ''>'' \<or> c = CHR ''&''
        then esc_u (byte_of c) @ compact_out inq False s
      else if c # take 2 s = line_sep then esc_u 0x2028 @ compact_out inq False (drop 2 s)
      else if c # take 2 s = para_sep then esc_u 0x2029 @ compact_out inq False (drop 2 s)
      else c # (if \<not> inq then compact_out (c = quote) False s
                else if esc then compact_out True False s
                else if c = CHR 0x5C then compact_out True True s
                else compact_out (c \<noteq> quote) False s))"

definition RawMessage_Marshal :: "string \<Rightarrow> string result" where
  "RawMessage_Marshal m =
     (case json_value m of
        Some (_, rest) \<Rightarrow>
          if skip_ws rest = [] then Inr (compact_out False False m) else Inl err_json_syntax
      | None \<Rightarrow> Inl err_json_syntax)"

subsection \<open>Compact texts stay as they are\<close>

text \<open>A byte that none of the rewritings touches inside a string.\<close>

definition tame :: "char \<Rightarrow> bool" where
  "tame c \<longleftrightarrow> c \<noteq> CHR ''<'' \<and> c \<noteq> CHR ''>'' \<and> c \<noteq> CHR ''&'' \<and> byte_of c \<noteq> 0xE2"

lemma seps_hd: "c # t = line_sep \<Longrightarrow> byte_of c = 0xE2" "c # t = para_sep \<Longrightarrow> byte_of c = 0xE2"
  by (auto simp: line_sep_def para_sep_def)

lemma compact_out_tame:
  "tame c \<Longrightarrow> compact_out True False (c # s) =
     c # (if c = CHR 0x5C then compact_out True True s else compact_out (c \<noteq> quote) False s)"
  "tame c \<Longrightarrow> compact_out True True (c # s) = c # compact_out True False s"
  "tame c \<Longrightarrow> \<not> is_ws c \<Longrightarrow>
     compact_out False False (c # s) = c # compact_out (c = quote) False s"
  using seps_hd by (auto simp: tame_def)

lemma tame_digit: "n < 16 \<Longrightarrow> tame (hex_digit n) \<and> hex_digit n \<noteq> CHR 0x5C \<and> hex_digit n \<noteq> quote"
proof -
  assume n: "n < 16"
  then have b: "byte_of (hex_digit n) = (if n < 10 then 48 + n else 87 + n)"
    by (simp add: hex_digit_def)
  have "hex_digit n \<noteq> c" if "byte_of c \<in> {60, 62, 38, 0x5C, 0x22}" for c
    using b n that by (auto split: if_splits)
  then show ?thesis using b n by (auto simp: tame_def byte_of_def split: if_splits)
qed

lemma compact_esc_u: "compact_out True False (esc_u n @ s) = esc_u n @ compact_out True False s"
proof -
  have bs: "tame (CHR 0x5C)" "tame (CHR ''u'')" by (simp_all add: tame_def byte_of_def)
  show ?thesis unfolding esc_u_def
    by (simp add: compact_out_tame bs tame_digit del: compact_out.simps)
qed

lemma esc_ascii_cases:
  assumes "byte_of c < 0x80"
  obtains "esc_ascii c = esc_u (byte_of c)"
  | x where "esc_ascii c = [CHR 0x5C, x]" "tame x"
  | "esc_ascii c = [c]" "tame c" "c \<noteq> quote" "c \<noteq> CHR 0x5C"
proof (cases "byte_of c \<in> {0x22, 0x5C, 0x08, 0x0C, 0x0A, 0x0D, 0x09}")
  case True
  have t: "tame c" using True by (auto simp: tame_def byte_of_def)
  have bs: "tame (CHR ''b'')" "tame (CHR ''f'')" "tame (CHR ''n'')"
    "tame (CHR ''r'')" "tame (CHR ''t'')" by (simp_all add: tame_def byte_of_def)
  show ?thesis using True that(2) [of c] t that(2) [OF _ bs(1)] that(2) [OF _ bs(2)]
      that(2) [OF _ bs(3)] that(2) [OF _ bs(4)] that(2) [OF _ bs(5)]
    by (auto simp: esc_ascii_def)
next
  case False
  show ?thesis
  proof (cases "byte_of c < 0x20 \<or> byte_of c \<in> {0x3C, 0x3E, 0x26}")
    case True
    with False show ?thesis by (intro that(1)) (auto simp: esc_ascii_def Let_def)
  next
    case False
    with \<open>byte_of c \<notin> _\<close> assms show ?thesis
      by (intro that(3)) (auto simp: esc_ascii_def Let_def tame_def byte_of_def)
  qed
qed

lemma compact_esc_ascii:
  assumes "byte_of c < 0x80"
  shows "compact_out True False (esc_ascii c @ s) = esc_ascii c @ compact_out True False s"
proof -
  have bs: "tame (CHR 0x5C)" by (simp add: tame_def byte_of_def)
  show ?thesis
    by (rule esc_ascii_cases [OF assms])
      (simp_all add: compact_esc_u compact_out_tame bs del: compact_out.simps)
qed

text \<open>The bytes of a multi-byte character other than the two separators.\<close>

lemma compact_high:
  assumes "\<forall>c \<in> set x. 0x80 \<le> byte_of c \<and> byte_of c \<noteq> 0xE2"
  shows "compact_out True False (x @ s) = x @ compact_out True False s"
  using assms
proof (induction x)
  case (Cons c x)
  then have "tame c" "c \<noteq> CHR 0x5C" "c \<noteq> quote" by (auto simp: tame_def byte_of_def)
  with Cons show ?case by (simp add: compact_out_tame del: compact_out.simps)
qed simp

lemma compact_esc_rune:
  assumes "1 < rune_len t"
  shows "compact_out True False (esc_rune (take (rune_len t) t) @ s) =
    esc_rune (take (rune_len t) t) @ compact_out True False s"
proof -
  let ?r = "take (rune_len t) t"
  obtain a x where r: "?r = a # x" using assms rune_len_le [of t] by (cases ?r) auto
  have x: "\<forall>c \<in> set x. 0x80 \<le> byte_of c \<and> byte_of c \<noteq> 0xE2"
    using r assms by (cases t rule: rune_len_cases)
      (auto simp: rune2_def rune3_def rune4_def in_range_def split: if_splits)
  have a: "0x80 \<le> byte_of a" using rune_len_multi [OF assms, of a] r by simp
  have e2: "length x = 2" if "byte_of a = 0xE2"
    using that r assms by (cases t rule: rune_len_cases)
      (auto simp: rune2_def rune3_def rune4_def in_range_def split: if_splits)
  consider "?r = line_sep \<or> ?r = para_sep" | "?r \<noteq> line_sep" "?r \<noteq> para_sep" by blast
  then show ?thesis
  proof cases
    case 1
    then show ?thesis by (auto simp: esc_rune_def compact_esc_u)
  next
    case 2
    have "a \<noteq> CHR ''<''" "a \<noteq> CHR ''>''" "a \<noteq> CHR ''&''" "a \<noteq> CHR 0x5C" "a \<noteq> quote"
      using a by (auto simp: byte_of_def)
    moreover have "a # take 2 (x @ s) \<noteq> line_sep" "a # take 2 (x @ s) \<noteq> para_sep"
      using 2 r e2 seps_hd [of a "take 2 (x @ s)"] by fastforce+
    ultimately show ?thesis using 2 r compact_high [OF x] by (simp add: esc_rune_def)
  qed
qed

definition compact :: "string \<Rightarrow> bool" where
  "compact x \<longleftrightarrow> (\<forall>s. compact_out False False (x @ s) = x @ compact_out False False s)"

lemma compact_escape:
  "compact_out True False (json_escape x @ s) = json_escape x @ compact_out True False s"
proof (induction x rule: json_escape.induct)
  case (1 x)
  show ?case
  proof (cases "x = []")
    case False
    moreover have "rune_len x = 1 \<Longrightarrow> byte_of (hd x) < 0x80"
      using False by (cases x) (auto simp: rune_len_1)
    ultimately show ?thesis using 1
      by (simp add: json_escape.simps [of x] compact_esc_u compact_esc_ascii compact_esc_rune)
  qed (simp add: json_escape.simps)
qed

lemma compact_Nil [simp]: "compact []"
  by (simp add: compact_def)

lemma compact_append [simp]: "compact x \<Longrightarrow> compact y \<Longrightarrow> compact (x @ y)"
  by (simp add: compact_def)

lemma compact_char: "tame c \<Longrightarrow> \<not> is_ws c \<Longrightarrow> c \<noteq> quote \<Longrightarrow> compact x \<Longrightarrow> compact (c # x)"
  by (simp add: compact_def compact_out_tame del: compact_out.simps)

lemma compact_plain: "\<forall>c \<in> set x. tame c \<and> \<not> is_ws c \<and> c \<noteq> quote \<Longrightarrow> compact x"
  by (induction x) (auto intro: compact_char)

lemma compact_string [simp]: "compact (json_string s)"
proof -
  have "tame quote" by (simp add: tame_def byte_of_def)
  then show ?thesis
    by (simp add: compact_def json_string_def compact_out_tame compact_escape del: compact_out.simps)
qed

lemma compact_int [simp]: "compact (Itoa i)"
proof (rule compact_plain, intro ballI)
  fix c assume "c \<in> set (Itoa i)"
  then have "c = CHR ''-'' \<or> is_digit c" by (auto simp: Itoa_def dest: FormatUint_set split: if_splits)
  then show "tame c \<and> \<not> is_ws c \<and> c \<noteq> quote"
    by (auto simp: tame_def is_ws_def is_digit_def byte_of_def)
qed

lemma compact_uint [simp]: "compact (FormatUint n)"
  using compact_int [of "int n"] by (simp add: Itoa_def)

lemma compact_bool [simp]: "compact (enc_bool b)"
  by (rule compact_plain) (auto simp: enc_bool_def tame_def is_ws_def byte_of_def)

lemma compact_object [simp]:
  assumes "\<forall>(k, v) \<in> set ms. compact v"
  shows "compact (enc_object ms)"
proof -
  have t: "tame (CHR ''{'')" "tame (CHR ''}'')" "tame (CHR '','')" "tame (CHR '':'')"
    by (simp_all add: tame_def byte_of_def)
  have "compact (enc_members ms)" using assms
    by (induction ms rule: enc_members.induct)
      (auto simp: enc_member_def t intro!: compact_append compact_char)
  then show ?thesis by (auto simp: enc_object_def t intro!: compact_append compact_char)
qed

lemma RawMessage_compact:
  assumes "compact x" "json_text maxNestingDepth x"
  shows "RawMessage_Marshal x = Inr x"
  using assms(1) json_value_text [OF assms(2), of "[]"]
  by (auto simp: RawMessage_Marshal_def compact_def skip_ws_def dest: spec [of _ "[]"])

end
