(* ===== verification/Protocol.thy ===== *)
theory Protocol
  imports JsonRaw
begin

text \<open>
  \<^verbatim>\<open>internal/protocol/protocol.go\<close>: the messages between the HTTP gateway and the TCP backend, as
  Go structs with JSON tags. For every struct there is the text \<^verbatim>\<open>json.Marshal\<close> makes of it and
  the struct \<^verbatim>\<open>json.Unmarshal\<close> fills from a text. A nil or empty \<^verbatim>\<open>json.RawMessage\<close> is the empty
  string; both are omitted when marshalled.
\<close>

definition Version :: int where
  "Version = 1"

definition OpLogin :: string where "OpLogin = ''Login''"
definition OpGetProfile :: string where "OpGetProfile = ''GetProfile''"
definition OpGetProfilePicture :: string where "OpGetProfilePicture = ''GetProfilePicture''"
definition OpUpdateNickname :: string where "OpUpdateNickname = ''UpdateNickname''"
definition OpUploadProfilePicture :: string where "OpUploadProfilePicture = ''UploadProfilePicture''"
definition OpLogout :: string where "OpLogout = ''Logout''"

lemmas op_defs = OpLogin_def OpGetProfile_def OpGetProfilePicture_def OpUpdateNickname_def
  OpUploadProfilePicture_def OpLogout_def

subsection \<open>The messages\<close>

record Request =
  rq_Version :: int
  rq_RequestID :: string
  rq_Op :: string
  rq_Token :: string
  rq_Body :: string

record Response =
  rs_Version :: int
  rs_RequestID :: string
  rs_OK :: bool
  rs_ErrorCode :: string
  rs_Message :: string
  rs_Body :: string

record LoginBody =
  lb_Username :: string
  lb_Password :: string

record UserProfile =
  up_ID :: nat
  up_Username :: string
  up_Nickname :: string
  up_ProfilePictureURL :: string

record LoginResult =
  lr_Token :: string
  lr_ExpiresAt :: int
  lr_User :: UserProfile

record UpdateNicknameBody =
  nb_Nickname :: string

record UploadProfilePictureBody =
  ub_FileName :: string
  ub_ContentType :: string
  ub_DataBase64 :: string

record ProfilePictureResult =
  pr_ContentType :: string
  pr_DataBase64 :: string

record Error =
  er_Code :: string
  er_Message :: string

record ErrorResponse =
  er_Error :: Error

subsection \<open>Marshalling\<close>

definition raw_member :: "string \<Rightarrow> string \<Rightarrow> (string \<times> string) list result" where
  "raw_member k raw =
     (if raw = [] then Inr [] else bindE (RawMessage_Marshal raw) (\<lambda>t. Inr [(k, t)]))"

definition marshal_Request :: "Request \<Rightarrow> string result" where
  "marshal_Request r =
     bindE (raw_member ''body'' (rq_Body r)) (\<lambda>body.
       Inr (enc_object
         ([(''version'', Itoa (rq_Version r)), (''request_id'', json_string (rq_RequestID r)),
           (''op'', json_string (rq_Op r))]
          @ omitempty ''token'' (rq_Token r = []) (json_string (rq_Token r)) @ body)))"

definition marshal_Response :: "Response \<Rightarrow> string result" where
  "marshal_Response r =
     bindE (raw_member ''body'' (rs_Body r)) (\<lambda>body.
       Inr (enc_object
         ([(''version'', Itoa (rs_Version r)), (''request_id'', json_string (rs_RequestID r)),
           (''ok'', enc_bool (rs_OK r))]
          @ omitempty ''error_code'' (rs_ErrorCode r = []) (json_string (rs_ErrorCode r))
          @ omitempty ''message'' (rs_Message r = []) (json_string (rs_Message r)) @ body)))"

definition marshal_LoginBody :: "LoginBody \<Rightarrow> string" where
  "marshal_LoginBody b =
     enc_object [(''username'', json_string (lb_Username b)),
                 (''password'', json_string (lb_Password b))]"

definition marshal_UserProfile :: "UserProfile \<Rightarrow> string" where
  "marshal_UserProfile u =
     enc_object ([(''id'', FormatUint (up_ID u)), (''username'', json_string (up_Username u)),
                  (''nickname'', json_string (up_Nickname u))]
       @ omitempty ''profile_picture_url'' (up_ProfilePictureURL u = [])
           (json_string (up_ProfilePictureURL u)))"

definition marshal_LoginResult :: "LoginResult \<Rightarrow> string" where
  "marshal_LoginResult r =
     enc_object [(''token'', json_string (lr_Token r)), (''expires_at'', Itoa (lr_ExpiresAt r)),
                 (''user'', marshal_UserProfile (lr_User r))]"

definition marshal_UpdateNicknameBody :: "UpdateNicknameBody \<Rightarrow> string" where
  "marshal_UpdateNicknameBody b = enc_object [(''nickname'', json_string (nb_Nickname b))]"

definition marshal_UploadBody :: "UploadProfilePictureBody \<Rightarrow> string" where
  "marshal_UploadBody b =
     enc_object [(''file_name'', json_string (ub_FileName b)),
                 (''content_type'', json_string (ub_ContentType b)),
                 (''data_base64'', json_string (ub_DataBase64 b))]"

definition marshal_PictureResult :: "ProfilePictureResult \<Rightarrow> string" where
  "marshal_PictureResult r =
     enc_object [(''content_type'', json_string (pr_ContentType r)),
                 (''data_base64'', json_string (pr_DataBase64 r))]"

definition marshal_ErrorResponse :: "ErrorResponse \<Rightarrow> string" where
  "marshal_ErrorResponse r =
     enc_object [(''error'', enc_object [(''code'', json_string (er_Code (er_Error r))),
                                       (''message'', json_string (er_Message (er_Error r)))])]"

text \<open>
  \<^verbatim>\<open>MarshalBody(v)\<close>: nil stays nil. The values the program passes are structs of strings and
  numbers, whose marshalling cannot fail, so its \<^verbatim>\<open>panic\<close> is not reached; the argument is the
  value's marshalled text.
\<close>

definition MarshalBody :: "string option \<Rightarrow> string" where
  "MarshalBody v = (case v of None \<Rightarrow> [] | Some data \<Rightarrow> data)"

subsection \<open>Unmarshalling\<close>

definition field_Request :: "string \<Rightarrow> string \<Rightarrow> Request \<Rightarrow> Request result" where
  "field_Request f raw r =
     (if f = ''version'' then bindE (dec_int 64 raw (rq_Version r)) (\<lambda>v. Inr (r\<lparr>rq_Version := v\<rparr>))
      else if f = ''request_id''
        then bindE (dec_string raw (rq_RequestID r)) (\<lambda>v. Inr (r\<lparr>rq_RequestID := v\<rparr>))
      else if f = ''op'' then bindE (dec_string raw (rq_Op r)) (\<lambda>v. Inr (r\<lparr>rq_Op := v\<rparr>))
      else if f = ''token'' then bindE (dec_string raw (rq_Token r)) (\<lambda>v. Inr (r\<lparr>rq_Token := v\<rparr>))
      else Inr (r\<lparr>rq_Body := raw\<rparr>))"

definition zero_Request :: Request where
  "zero_Request = \<lparr>rq_Version = 0, rq_RequestID = [], rq_Op = [], rq_Token = [], rq_Body = []\<rparr>"

definition unmarshal_Request :: "string \<Rightarrow> Request result" where
  "unmarshal_Request s =
     Unmarshal (dec_struct False [''version'', ''request_id'', ''op'', ''token'', ''body''] field_Request)
       s zero_Request"

definition field_Response :: "string \<Rightarrow> string \<Rightarrow> Response \<Rightarrow> Response result" where
  "field_Response f raw r =
     (if f = ''version'' then bindE (dec_int 64 raw (rs_Version r)) (\<lambda>v. Inr (r\<lparr>rs_Version := v\<rparr>))
      else if f = ''request_id''
        then bindE (dec_string raw (rs_RequestID r)) (\<lambda>v. Inr (r\<lparr>rs_RequestID := v\<rparr>))
      else if f = ''ok'' then bindE (dec_bool raw (rs_OK r)) (\<lambda>v. Inr (r\<lparr>rs_OK := v\<rparr>))
      else if f = ''error_code''
        then bindE (dec_string raw (rs_ErrorCode r)) (\<lambda>v. Inr (r\<lparr>rs_ErrorCode := v\<rparr>))
      else if f = ''message'' then bindE (dec_string raw (rs_Message r)) (\<lambda>v. Inr (r\<lparr>rs_Message := v\<rparr>))
      else Inr (r\<lparr>rs_Body := raw\<rparr>))"

definition zero_Response :: Response where
  "zero_Response =
     \<lparr>rs_Version = 0, rs_RequestID = [], rs_OK = False, rs_ErrorCode = [], rs_Message = [], rs_Body = []\<rparr>"

definition unmarshal_Response :: "string \<Rightarrow> Response result" where
  "unmarshal_Response s =
     Unmarshal (dec_struct False
       [''version'', ''request_id'', ''ok'', ''error_code'', ''message'', ''body''] field_Response)
       s zero_Response"

definition field_LoginBody :: "string \<Rightarrow> string \<Rightarrow> LoginBody \<Rightarrow> LoginBody result" where
  "field_LoginBody f raw b =
     (if f = ''username'' then bindE (dec_string raw (lb_Username b)) (\<lambda>v. Inr (b\<lparr>lb_Username := v\<rparr>))
      else bindE (dec_string raw (lb_Password b)) (\<lambda>v. Inr (b\<lparr>lb_Password := v\<rparr>)))"

definition zero_LoginBody :: LoginBody where
  "zero_LoginBody = \<lparr>lb_Username = [], lb_Password = []\<rparr>"

definition dec_LoginBody :: "bool \<Rightarrow> string \<Rightarrow> LoginBody \<Rightarrow> LoginBody result" where
  "dec_LoginBody strict = dec_struct strict [''username'', ''password''] field_LoginBody"

definition field_UserProfile :: "string \<Rightarrow> string \<Rightarrow> UserProfile \<Rightarrow> UserProfile result" where
  "field_UserProfile f raw u =
     (if f = ''id'' then bindE (dec_uint 64 raw (up_ID u)) (\<lambda>v. Inr (u\<lparr>up_ID := v\<rparr>))
      else if f = ''username''
        then bindE (dec_string raw (up_Username u)) (\<lambda>v. Inr (u\<lparr>up_Username := v\<rparr>))
      else if f = ''nickname''
        then bindE (dec_string raw (up_Nickname u)) (\<lambda>v. Inr (u\<lparr>up_Nickname := v\<rparr>))
      else bindE (dec_string raw (up_ProfilePictureURL u)) (\<lambda>v. Inr (u\<lparr>up_ProfilePictureURL := v\<rparr>)))"

definition zero_UserProfile :: UserProfile where
  "zero_UserProfile = \<lparr>up_ID = 0, up_Username = [], up_Nickname = [], up_ProfilePictureURL = []\<rparr>"

definition dec_UserProfile :: "string \<Rightarrow> UserProfile \<Rightarrow> UserProfile result" where
  "dec_UserProfile =
     dec_struct False [''id'', ''username'', ''nickname'', ''profile_picture_url''] field_UserProfile"

definition field_LoginResult :: "string \<Rightarrow> string \<Rightarrow> LoginResult \<Rightarrow> LoginResult result" where
  "field_LoginResult f raw r =
     (if f = ''token'' then bindE (dec_string raw (lr_Token r)) (\<lambda>v. Inr (r\<lparr>lr_Token := v\<rparr>))
      else if f = ''expires_at''
        then bindE (dec_int 64 raw (lr_ExpiresAt r)) (\<lambda>v. Inr (r\<lparr>lr_ExpiresAt := v\<rparr>))
      else bindE (dec_UserProfile raw (lr_User r)) (\<lambda>v. Inr (r\<lparr>lr_User := v\<rparr>)))"

definition zero_LoginResult :: LoginResult where
  "zero_LoginResult = \<lparr>lr_Token = [], lr_ExpiresAt = 0, lr_User = zero_UserProfile\<rparr>"

definition dec_LoginResult :: "string \<Rightarrow> LoginResult \<Rightarrow> LoginResult result" where
  "dec_LoginResult = dec_struct False [''token'', ''expires_at'', ''user''] field_LoginResult"

definition field_NicknameBody ::
    "string \<Rightarrow> string \<Rightarrow> UpdateNicknameBody \<Rightarrow> UpdateNicknameBody result" where
  "field_NicknameBody f raw b =
     bindE (dec_string raw (nb_Nickname b)) (\<lambda>v. Inr (b\<lparr>nb_Nickname := v\<rparr>))"

definition zero_NicknameBody :: UpdateNicknameBody where
  "zero_NicknameBody = \<lparr>nb_Nickname = []\<rparr>"

definition dec_NicknameBody ::
    "bool \<Rightarrow> string \<Rightarrow> UpdateNicknameBody \<Rightarrow> UpdateNicknameBody result" where
  "dec_NicknameBody strict = dec_struct strict [''nickname''] field_NicknameBody"

definition field_UploadBody ::
    "string \<Rightarrow> string \<Rightarrow> UploadProfilePictureBody \<Rightarrow> UploadProfilePictureBody result" where
  "field_UploadBody f raw b =
     (if f = ''file_name'' then bindE (dec_string raw (ub_FileName b)) (\<lambda>v. Inr (b\<lparr>ub_FileName := v\<rparr>))
      else if f = ''content_type''
        then bindE (dec_string raw (ub_ContentType b)) (\<lambda>v. Inr (b\<lparr>ub_ContentType := v\<rparr>))
      else bindE (dec_string raw (ub_DataBase64 b)) (\<lambda>v. Inr (b\<lparr>ub_DataBase64 := v\<rparr>)))"

definition zero_UploadBody :: UploadProfilePictureBody where
  "zero_UploadBody = \<lparr>ub_FileName = [], ub_ContentType = [], ub_DataBase64 = []\<rparr>"

definition dec_UploadBody ::
    "string \<Rightarrow> UploadProfilePictureBody \<Rightarrow> UploadProfilePictureBody result" where
  "dec_UploadBody = dec_struct False [''file_name'', ''content_type'', ''data_base64''] field_UploadBody"

definition field_PictureResult ::
    "string \<Rightarrow> string \<Rightarrow> ProfilePictureResult \<Rightarrow> ProfilePictureResult result" where
  "field_PictureResult f raw r =
     (if f = ''content_type''
        then bindE (dec_string raw (pr_ContentType r)) (\<lambda>v. Inr (r\<lparr>pr_ContentType := v\<rparr>))
      else bindE (dec_string raw (pr_DataBase64 r)) (\<lambda>v. Inr (r\<lparr>pr_DataBase64 := v\<rparr>)))"

definition zero_PictureResult :: ProfilePictureResult where
  "zero_PictureResult = \<lparr>pr_ContentType = [], pr_DataBase64 = []\<rparr>"

definition dec_PictureResult :: "string \<Rightarrow> ProfilePictureResult \<Rightarrow> ProfilePictureResult result" where
  "dec_PictureResult = dec_struct False [''content_type'', ''data_base64''] field_PictureResult"

subsection \<open>Every message survives the wire\<close>

text \<open>
  What a body must be to pass through a \<^verbatim>\<open>json.RawMessage\<close> unchanged: a JSON text without
  insignificant white space and without the characters marshalling rewrites.
\<close>

definition body_text :: "string \<Rightarrow> bool" where
  "body_text x \<longleftrightarrow> x \<noteq> [] \<and> compact x \<and> (\<forall>d \<ge> 2. json_text d x)"

lemma coerce_names [simp]:
  "coerce_utf8 ''version'' = ''version''"
  "coerce_utf8 ''request_id'' = ''request_id''"
  "coerce_utf8 ''op'' = ''op''"
  "coerce_utf8 ''token'' = ''token''"
  "coerce_utf8 ''body'' = ''body''"
  "coerce_utf8 ''ok'' = ''ok''"
  "coerce_utf8 ''error_code'' = ''error_code''"
  "coerce_utf8 ''message'' = ''message''"
  "coerce_utf8 ''username'' = ''username''"
  "coerce_utf8 ''password'' = ''password''"
  "coerce_utf8 ''expires_at'' = ''expires_at''"
  "coerce_utf8 ''user'' = ''user''"
  "coerce_utf8 ''id'' = ''id''"
  "coerce_utf8 ''nickname'' = ''nickname''"
  "coerce_utf8 ''profile_picture_url'' = ''profile_picture_url''"
  "coerce_utf8 ''file_name'' = ''file_name''"
  "coerce_utf8 ''content_type'' = ''content_type''"
  "coerce_utf8 ''data_base64'' = ''data_base64''"
  "coerce_utf8 ''error'' = ''error''"
  "coerce_utf8 ''code'' = ''code''"
  by (simp_all add: ascii_valid byte_of_def)

lemma body_text_RawMessage: "body_text x \<Longrightarrow> RawMessage_Marshal x = Inr x"
  by (simp add: body_text_def RawMessage_compact maxNestingDepth_def)

lemma enc_object_not_Nil [simp]: "enc_object ms \<noteq> []"
  by (simp add: enc_object_def)

lemma body_text_object:
  assumes "\<forall>(k, v) \<in> set ms. compact v" "\<forall>(k, v) \<in> set ms. \<forall>d \<ge> 1. json_text d v"
  shows "body_text (enc_object ms)"
proof -
  have "\<forall>d \<ge> Suc 1. json_text d (enc_object ms)" by (rule json_text_mono_object [OF assms(2)])
  then show ?thesis using assms(1) by (auto simp: body_text_def numeral_2_eq_2)
qed

lemma json_text_flat:
  assumes "\<forall>(k, v) \<in> set ms. \<forall>d. json_text d v"
  shows "\<forall>d \<ge> Suc 0. json_text d (enc_object ms)"
  using json_text_mono_object [of ms 0] assms by auto

lemmas marshal_defs = marshal_LoginBody_def marshal_UserProfile_def marshal_LoginResult_def
  marshal_UpdateNicknameBody_def marshal_UploadBody_def marshal_PictureResult_def
  marshal_ErrorResponse_def

lemma json_text_UserProfile: "Suc 0 \<le> d \<Longrightarrow> json_text d (marshal_UserProfile u)"
  unfolding marshal_UserProfile_def by (rule json_text_flat [rule_format]) (auto simp: omitempty_def split: if_splits)

lemma body_text_marshal [simp]:
  "body_text (marshal_LoginBody b)" "body_text (marshal_UserProfile u)"
  "body_text (marshal_LoginResult r)" "body_text (marshal_UpdateNicknameBody n)"
  "body_text (marshal_UploadBody v)" "body_text (marshal_PictureResult p)"
proof -
  have "compact (marshal_UserProfile u)" for u by (simp add: marshal_UserProfile_def omitempty_def)
  then show "body_text (marshal_LoginBody b)" "body_text (marshal_UserProfile u)"
    "body_text (marshal_LoginResult r)" "body_text (marshal_UpdateNicknameBody n)"
    "body_text (marshal_UploadBody v)" "body_text (marshal_PictureResult p)"
    using json_text_UserProfile
    by (auto simp: marshal_LoginBody_def marshal_LoginResult_def marshal_UpdateNicknameBody_def
        marshal_UploadBody_def marshal_PictureResult_def intro!: body_text_object)
      (auto simp: marshal_UserProfile_def omitempty_def intro!: body_text_object)
qed

lemma body_text_empty_object [simp]: "body_text ''{}''"
  using body_text_object [of "[]"] by (simp add: enc_object_def)

interpretation login_body: byte_codec marshal_LoginBody "\<lambda>s. Unmarshal (dec_LoginBody strict) s zero_LoginBody"
    "\<lambda>b. ValidString (lb_Username b) \<and> ValidString (lb_Password b)"
  unfolding marshal_LoginBody_def dec_LoginBody_def zero_LoginBody_def
  by unfold_locales
    (subst Unmarshal_object [where n = 0], simp_all add: maxNestingDepth_def field_LoginBody_def)

interpretation nickname_body: byte_codec marshal_UpdateNicknameBody
    "\<lambda>s. Unmarshal (dec_NicknameBody strict) s zero_NicknameBody" "\<lambda>b. ValidString (nb_Nickname b)"
  unfolding marshal_UpdateNicknameBody_def dec_NicknameBody_def zero_NicknameBody_def
  by unfold_locales
    (subst Unmarshal_object [where n = 0], simp_all add: maxNestingDepth_def field_NicknameBody_def)

interpretation upload_body: byte_codec marshal_UploadBody "\<lambda>s. Unmarshal dec_UploadBody s zero_UploadBody"
    "\<lambda>b. ValidString (ub_FileName b) \<and> ValidString (ub_ContentType b) \<and> ValidString (ub_DataBase64 b)"
  unfolding marshal_UploadBody_def dec_UploadBody_def zero_UploadBody_def
  by unfold_locales
    (subst Unmarshal_object [where n = 0], simp_all add: maxNestingDepth_def field_UploadBody_def)

interpretation picture_result: byte_codec marshal_PictureResult
    "\<lambda>s. Unmarshal dec_PictureResult s zero_PictureResult"
    "\<lambda>r. ValidString (pr_ContentType r) \<and> ValidString (pr_DataBase64 r)"
  unfolding marshal_PictureResult_def dec_PictureResult_def zero_PictureResult_def
  by unfold_locales
    (subst Unmarshal_object [where n = 0], simp_all add: maxNestingDepth_def field_PictureResult_def)

definition profile_ok :: "UserProfile \<Rightarrow> bool" where
  "profile_ok u \<longleftrightarrow> up_ID u < 2 ^ 64 \<and> ValidString (up_Username u) \<and> ValidString (up_Nickname u)
     \<and> ValidString (up_ProfilePictureURL u)"

lemma dec_UserProfile_enc:
  assumes "profile_ok u"
  shows "dec_UserProfile (marshal_UserProfile u) zero_UserProfile = Inr u"
  using assms unfolding dec_UserProfile_def marshal_UserProfile_def profile_ok_def
  by (subst dec_struct_object)
    (auto simp: omitempty_def field_UserProfile_def zero_UserProfile_def)

interpretation profile: byte_codec marshal_UserProfile
    "\<lambda>s. Unmarshal dec_UserProfile s zero_UserProfile" profile_ok
proof unfold_locales
  fix u assume "profile_ok u"
  then show "Unmarshal dec_UserProfile (marshal_UserProfile u) zero_UserProfile = Inr u"
    using dec_UserProfile_enc [of u] json_value_text [OF json_text_UserProfile, of "[]" u]
    by (simp add: Unmarshal_def maxNestingDepth_def skip_ws_def)
qed

interpretation login_result: byte_codec marshal_LoginResult
    "\<lambda>s. Unmarshal dec_LoginResult s zero_LoginResult"
    "\<lambda>r. ValidString (lr_Token r) \<and> - (2 ^ 63) \<le> lr_ExpiresAt r \<and> lr_ExpiresAt r < 2 ^ 63
       \<and> profile_ok (lr_User r)"
proof unfold_locales
  fix r :: LoginResult
  assume r: "ValidString (lr_Token r) \<and> - (2 ^ 63) \<le> lr_ExpiresAt r \<and> lr_ExpiresAt r < 2 ^ 63
       \<and> profile_ok (lr_User r)"
  then have "dec_int 64 (Itoa (lr_ExpiresAt r)) 0 = Inr (lr_ExpiresAt r)" by (intro dec_int_enc) simp_all
  then show "Unmarshal dec_LoginResult (marshal_LoginResult r) zero_LoginResult = Inr r"
    using r unfolding dec_LoginResult_def marshal_LoginResult_def
    by (subst Unmarshal_object [where n = 1])
      (simp_all add: json_text_UserProfile maxNestingDepth_def field_LoginResult_def zero_LoginResult_def
        dec_UserProfile_enc)
qed

subsection \<open>Requests and responses\<close>

definition request_ok :: "Request \<Rightarrow> bool" where
  "request_ok r \<longleftrightarrow> - (2 ^ 63) \<le> rq_Version r \<and> rq_Version r < 2 ^ 63 \<and> ValidString (rq_RequestID r)
     \<and> ValidString (rq_Op r) \<and> ValidString (rq_Token r) \<and> (rq_Body r = [] \<or> body_text (rq_Body r))"

definition response_ok :: "Response \<Rightarrow> bool" where
  "response_ok r \<longleftrightarrow> - (2 ^ 63) \<le> rs_Version r \<and> rs_Version r < 2 ^ 63 \<and> ValidString (rs_RequestID r)
     \<and> ValidString (rs_ErrorCode r) \<and> ValidString (rs_Message r) \<and> (rs_Body r = [] \<or> body_text (rs_Body r))"

lemma raw_member_ok:
  "raw = [] \<or> body_text raw \<Longrightarrow> raw_member k raw = Inr (omitempty k (raw = []) raw)"
  by (auto simp: raw_member_def omitempty_def body_text_RawMessage)

lemma body_text_depth: "body_text x \<Longrightarrow> 2 \<le> d \<Longrightarrow> json_text d x"
  by (simp add: body_text_def)

lemma request_text:
  assumes "request_ok r"
  shows "\<exists>s. marshal_Request r = Inr s \<and> unmarshal_Request s = Inr r \<and> s \<noteq> []"
proof -
  have v: "dec_int 64 (Itoa (rq_Version r)) 0 = Inr (rq_Version r)"
    using assms by (intro dec_int_enc) (simp_all add: request_ok_def)
  show ?thesis using assms v
    by (auto simp: request_ok_def marshal_Request_def unmarshal_Request_def raw_member_ok omitempty_def
        Unmarshal_object [where n = 2] maxNestingDepth_def body_text_depth field_Request_def
        zero_Request_def)
qed

lemma response_text:
  assumes "response_ok r"
  shows "\<exists>s. marshal_Response r = Inr s \<and> unmarshal_Response s = Inr r \<and> s \<noteq> []"
proof -
  have v: "dec_int 64 (Itoa (rs_Version r)) 0 = Inr (rs_Version r)"
    using assms by (intro dec_int_enc) (simp_all add: response_ok_def)
  show ?thesis using assms v
    by (auto simp: response_ok_def marshal_Response_def unmarshal_Response_def raw_member_ok omitempty_def
        Unmarshal_object [where n = 2] maxNestingDepth_def body_text_depth field_Response_def
        zero_Response_def)
qed

text \<open>
  C24: a request and a response whose strings are valid UTF-8 and whose body is compact JSON are
  read back by the peer exactly as they were sent, omitted fields included.
\<close>

theorem message_round_trip:
  assumes "request_ok rq" and "response_ok rs"
  shows "bindE (marshal_Request rq) unmarshal_Request = Inr rq \<and>
    bindE (marshal_Response rs) unmarshal_Response = Inr rs"
  using request_text [OF assms(1)] response_text [OF assms(2)] by auto

theorem message_round_trip_witness:
  "bindE (marshal_Request \<lparr>rq_Version = 1, rq_RequestID = ''7'', rq_Op = ''Logout'', rq_Token = [],
       rq_Body = ''{}''\<rparr>) unmarshal_Request =
     Inr \<lparr>rq_Version = 1, rq_RequestID = ''7'', rq_Op = ''Logout'', rq_Token = [], rq_Body = ''{}''\<rparr>"
proof -
  have "request_ok \<lparr>rq_Version = 1, rq_RequestID = ''7'', rq_Op = ''Logout'', rq_Token = [], rq_Body = ''{}''\<rparr>"
    by (simp add: request_ok_def byte_of_def)
  moreover have "response_ok zero_Response" by (simp add: response_ok_def zero_Response_def)
  ultimately show ?thesis using message_round_trip by blast
qed

end
