(* ===== verification/TcpClient.thy ===== *)
theory TcpClient
  imports RedisStore Frame Protocol
begin

text \<open>
  \<^verbatim>\<open>internal/httpapi/tcp_client.go\<close>: one call of the TCP backend, over a connection of its own. The
  network is a parameter like the one of the Redis client; in addition the deadline of the
  connection is set.
\<close>

record 'w tcp_net = "'w net" +
  net_SetDeadline :: "int \<Rightarrow> 'w \<Rightarrow> 'w"

record TCPClient =
  addr :: string
  timeout :: int
  maxFrameBytes :: u32

definition NewTCPClient :: "Config \<Rightarrow> TCPClient" where
  "NewTCPClient cfg = \<lparr>addr = TCPAddr (HTTP cfg), timeout = RequestTimeout (HTTP cfg), maxFrameBytes = MaxFrameBytes (TCP cfg)\<rparr>"

text \<open>
  The counter \<^verbatim>\<open>nextID\<close> is an \<^verbatim>\<open>atomic.Uint64\<close>; it is the state the client adds to the world.
\<close>

type_synonym 'w gw = "64 word \<times> 'w"

definition outside :: "('w, 'a) io \<Rightarrow> ('w gw, 'a) io" where
  "outside m = (\<lambda>(n, w). case m w of (r, w1) \<Rightarrow> (r, (n, w1)))"

definition nextID_Add1 :: "('w gw, 64 word) io" where
  "nextID_Add1 = (\<lambda>(n, w). (Inr (n + 1), (n + 1, w)))"

text \<open>\<^verbatim>\<open>protocol.WriteFrame\<close> and \<^verbatim>\<open>protocol.ReadFrame\<close> on a connection.\<close>

definition conn_WriteFrame :: "'w net \<Rightarrow> bytes \<Rightarrow> u32 \<Rightarrow> ('w, unit) io" where
  "conn_WriteFrame net payload maxBytes =
     (case WriteFrame \<lparr>wr_out = [], wr_room = None, wr_err = Sentinel NetErrClosed\<rparr> payload maxBytes of
        (Some err, _) \<Rightarrow> fail_io err
      | (None, out) \<Rightarrow> net_write net (wr_out out))"

definition conn_ReadFrame :: "'w net \<Rightarrow> u32 \<Rightarrow> ('w, bytes) io" where
  "conn_ReadFrame net maxBytes =
     (\<lambda>w. case net_recv net w of
        ((b, e), w1) \<Rightarrow> (fst (ReadFrame \<lparr>rd_buf = b, rd_end = e\<rparr> maxBytes), w1))"

text \<open>
  What the response means for the caller. \<open>out\<close> is the decoder and the initial value of the
  destination, \<^const>\<open>None\<close> for a nil \<^verbatim>\<open>out\<close>, where nothing is decoded.
\<close>

definition finish_call :: "(string \<Rightarrow> 'b \<Rightarrow> 'b result) option \<Rightarrow> 'b \<Rightarrow> Response \<Rightarrow> 'b result" where
  "finish_call out dst resp =
     (if \<not> rs_OK resp then Inl (RemoteErr (rs_ErrorCode resp) (rs_Message resp))
      else case out of
        None \<Rightarrow> Inr dst
      | Some dec \<Rightarrow> if rs_Body resp = [] then Inr dst else Unmarshal dec (rs_Body resp) dst)"

definition client_call ::
    "'w tcp_net \<Rightarrow> TCPClient \<Rightarrow> string \<Rightarrow> string \<Rightarrow> string option \<Rightarrow> (string \<Rightarrow> 'b \<Rightarrow> 'b result) option \<Rightarrow> 'b \<Rightarrow> int
     \<Rightarrow> ('w gw, 'b) io" where
  "client_call net c op token body out dst tmo =
     bind_io (outside (net_dial net (addr c))) (\<lambda>_.
     bind_io (outside (\<lambda>w. (Inr (), if tmo > 0 then net_SetDeadline net tmo w else w))) (\<lambda>_.
     bind_io nextID_Add1 (\<lambda>n.
     bind_io (lift_io (marshal_Request \<lparr>rq_Version = Version, rq_RequestID = FormatUint (unat n), rq_Op = op,
        rq_Token = token, rq_Body = MarshalBody body\<rparr>)) (\<lambda>data.
     bind_io (outside (conn_WriteFrame (net.truncate net) data (maxFrameBytes c))) (\<lambda>_.
     bind_io (outside (conn_ReadFrame (net.truncate net) (maxFrameBytes c))) (\<lambda>respData.
     bind_io (lift_io (unmarshal_Response respData)) (\<lambda>resp.
     lift_io (finish_call out dst resp))))))))"

text \<open>\<open>remaining\<close> is the time to the deadline of the caller's context, if it has one.\<close>

definition Call ::
    "'w tcp_net \<Rightarrow> TCPClient \<Rightarrow> int option \<Rightarrow> string \<Rightarrow> string \<Rightarrow> string option \<Rightarrow> (string \<Rightarrow> 'b \<Rightarrow> 'b result) option \<Rightarrow> 'b
     \<Rightarrow> ('w gw, 'b) io" where
  "Call net c remaining op token body out dst =
     (case remaining of
        Some r \<Rightarrow> if r > 0 \<and> r < timeout c then client_call net c op token body out dst r
                  else client_call net c op token body out dst (timeout c)
      | None \<Rightarrow> client_call net c op token body out dst (timeout c))"

subsection \<open>Remote errors\<close>

fun IsRemote :: "go_error \<Rightarrow> (string \<times> string) option" where
  "IsRemote (RemoteErr code message) = Some (code, message)"
| "IsRemote (Wrapped m e) = IsRemote e"
| "IsRemote (AppErr c m (Some e)) = IsRemote e"
| "IsRemote _ = None"

text \<open>\<^verbatim>\<open>err.Error()\<close>\<close>

fun error_text :: "go_error \<Rightarrow> string" where
  "error_text (Errorf m) = m"
| "error_text (Wrapped m e) = m"
| "error_text (AppErr c m e) = m"
| "error_text (RemoteErr code message) = code @ '': '' @ message"
| "error_text (Panic m) = m"
| "error_text (Sentinel s) =
     (case s of ErrFrameTooLarge \<Rightarrow> ''frame too large'' | ErrBadRequest \<Rightarrow> ''bad request'' | ErrUnauthorized \<Rightarrow> ''unauthorized''
      | ErrNotFound \<Rightarrow> ''not found'' | ErrPayloadTooLarge \<Rightarrow> ''payload too large''
      | ErrUnsupportedType \<Rightarrow> ''unsupported media type'' | MysqlErrNotFound \<Rightarrow> ''not found''
      | RedisErrMissing \<Rightarrow> ''redis key missing'' | EOF \<Rightarrow> ''EOF'' | UnexpectedEOF \<Rightarrow> ''unexpected EOF''
      | NetErrClosed \<Rightarrow> ''use of closed network connection'' | OsErrNotExist \<Rightarrow> ''file does not exist''
      | SqlErrNoRows \<Rightarrow> ''sql: no rows in result set'' | ContextCanceled \<Rightarrow> ''context canceled'')"

end
