(* ===== verification/Token.thy ===== *)
theory Token
  imports Crypto Base64 JsonRaw
begin

text \<open>
  \<^verbatim>\<open>internal/service/token.go\<close>: session tokens. A token is the base64url text of the JSON claims,
  a dot, and the base64url text of an HMAC-SHA256 over them. Times are nanoseconds since
  the epoch; \<^verbatim>\<open>Time.Unix()\<close> is their quotient by 10^9.
\<close>

record TokenManager =
  secret :: bytes
  ttl :: int

record tokenClaims =
  UserID :: nat
  Exp :: int
  Nonce :: string

definition unix :: "int \<Rightarrow> int" where
  "unix t = t div 1000000000"

definition NewTokenManager :: "string \<Rightarrow> int \<Rightarrow> TokenManager result" where
  "NewTokenManager sec t =
     (if sec = [] then Inl (Errorf ''token secret is required'')
      else let decoded = (case hex_DecodeString sec of Inl _ \<Rightarrow> sec | Inr d \<Rightarrow> d) in
           if length decoded < 32 then Inl (Errorf ''token secret must be at least 32 bytes'')
           else Inr \<lparr>secret = decoded, ttl = t\<rparr>)"

definition marshal_claims :: "tokenClaims \<Rightarrow> string" where
  "marshal_claims c =
     enc_object [(''uid'', FormatUint (UserID c)), (''exp'', Itoa (Exp c)),
                 (''nonce'', json_string (Nonce c))]"

definition claims_field :: "string \<Rightarrow> string \<Rightarrow> tokenClaims \<Rightarrow> tokenClaims result" where
  "claims_field f raw c =
     (if f = ''uid'' then bindE (dec_uint 64 raw (UserID c)) (\<lambda>v. Inr (c\<lparr>UserID := v\<rparr>))
      else if f = ''exp'' then bindE (dec_int 64 raw (Exp c)) (\<lambda>v. Inr (c\<lparr>Exp := v\<rparr>))
      else bindE (dec_string raw (Nonce c)) (\<lambda>v. Inr (c\<lparr>Nonce := v\<rparr>)))"

definition unmarshal_claims :: "string \<Rightarrow> tokenClaims result" where
  "unmarshal_claims s =
     Unmarshal (dec_struct False [''uid'', ''exp'', ''nonce''] claims_field) s
       \<lparr>UserID = 0, Exp = 0, Nonce = []\<rparr>"

text \<open>What is signed: the payload, a version mark and the payload's length.\<close>

definition sign_input :: "string \<Rightarrow> bytes" where
  "sign_input payload = payload @ '':v1:'' @ Itoa (int (length payload))"

definition sign :: "TokenManager \<Rightarrow> string \<Rightarrow> string" where
  "sign m payload = EncodeToString RawURLEncoding (hmac_sha256 (secret m) (sign_input payload))"

definition Issue ::
    "(nat \<Rightarrow> bytes result) \<Rightarrow> TokenManager \<Rightarrow> nat \<Rightarrow> int \<Rightarrow> (string \<times> int) result" where
  "Issue rnd m userID now =
     bindE (rnd 16) (\<lambda>nonce.
       let exp = unix (now + ttl m);
           payload = marshal_claims
             \<lparr>UserID = userID, Exp = exp, Nonce = EncodeToString RawURLEncoding nonce\<rparr>;
           payloadPart = EncodeToString RawURLEncoding payload
       in Inr (payloadPart @ ''.'' @ sign m payloadPart, exp))"

definition Verify :: "TokenManager \<Rightarrow> string \<Rightarrow> int \<Rightarrow> nat result" where
  "Verify m token now =
     (let parts = split_on CHR ''.'' token in
      if length parts \<noteq> 2 then Inl (Sentinel ErrUnauthorized)
      else let expected = sign m (parts ! 0) in
      if ConstantTimeCompare expected (parts ! 1) \<noteq> 1 then Inl (Sentinel ErrUnauthorized)
      else
        (case DecodeString RawURLEncoding (parts ! 0) of
           Inl _ \<Rightarrow> Inl (Sentinel ErrUnauthorized)
         | Inr payload \<Rightarrow>
             (case unmarshal_claims payload of
                Inl _ \<Rightarrow> Inl (Sentinel ErrUnauthorized)
              | Inr claims \<Rightarrow>
                  if UserID claims = 0 \<or> Exp claims \<le> unix now then Inl (Sentinel ErrUnauthorized)
                  else Inr (UserID claims))))"

definition TTL :: "TokenManager \<Rightarrow> int" where
  "TTL m = ttl m"

definition tokenDebugString :: "nat \<Rightarrow> string" where
  "tokenDebugString userID = ''user:'' @ FormatUint userID"

subsection \<open>Claims\<close>

definition int64_range :: "int \<Rightarrow> bool" where
  "int64_range i \<longleftrightarrow> - (2 ^ 63) \<le> i \<and> i < 2 ^ 63"

lemma claims_round_trip:
  assumes "UserID c < 2 ^ 64" "int64_range (Exp c)"
  shows "unmarshal_claims (marshal_claims c) = Inr (c\<lparr>Nonce := coerce_utf8 (Nonce c)\<rparr>)"
proof -
  have "dec_int 64 (Itoa (Exp c)) cur = Inr (Exp c)" for cur
    using assms(2) by (intro dec_int_enc) (simp_all add: int64_range_def)
  moreover have "is_ascii ''uid''" "is_ascii ''exp''" "is_ascii ''nonce''"
    by (simp_all add: byte_of_def)
  ultimately show ?thesis
    using assms(1) unfolding unmarshal_claims_def marshal_claims_def
    by (subst Unmarshal_object [where n = 0])
      (simp_all add: claims_field_def maxNestingDepth_def ascii_valid)
qed

interpretation claims_codec: byte_codec marshal_claims unmarshal_claims
    "\<lambda>c. UserID c < 2 ^ 64 \<and> int64_range (Exp c) \<and> ValidString (Nonce c)"
  by unfold_locales (simp add: claims_round_trip)

subsection \<open>Signatures\<close>

lemma dropWhile_digits_Itoa:
  "dropWhile is_digit (rev (p @ '':v1:'' @ Itoa (int n))) = CHR '':'' # rev (p @ '':v1'')"
  by (simp add: Itoa_def, subst dropWhile_append2) (auto dest: FormatUint_set)

text \<open>Distinct payloads are never signed over the same bytes.\<close>

lemma sign_input_inject: "sign_input p = sign_input q \<longleftrightarrow> p = q"
proof
  assume "sign_input p = sign_input q"
  then have "dropWhile is_digit (rev (sign_input p)) = dropWhile is_digit (rev (sign_input q))"
    by simp
  then show "p = q" unfolding sign_input_def dropWhile_digits_Itoa by simp
qed simp

lemma no_dot: "CHR ''.'' \<notin> set (EncodeToString RawURLEncoding s)"
  using rawurl_plain by blast

lemma Verify_split:
  assumes "CHR ''.'' \<notin> set p" "CHR ''.'' \<notin> set s"
  shows "Verify m (p @ ''.'' @ s) now =
    (if s \<noteq> sign m p then Inl (Sentinel ErrUnauthorized)
     else (case DecodeString RawURLEncoding p of
           Inl _ \<Rightarrow> Inl (Sentinel ErrUnauthorized)
         | Inr payload \<Rightarrow>
             (case unmarshal_claims payload of
                Inl _ \<Rightarrow> Inl (Sentinel ErrUnauthorized)
              | Inr claims \<Rightarrow>
                  if UserID claims = 0 \<or> Exp claims \<le> unix now then Inl (Sentinel ErrUnauthorized)
                  else Inr (UserID claims))))"
  using assms by (auto simp: Verify_def Let_def)

lemma split_two:
  assumes "length (split_on c t) = 2"
  obtains p s where "t = p @ c # s" "c \<notin> set p" "c \<notin> set s" "split_on c t = [p, s]"
proof -
  from assms obtain p s where ps: "split_on c t = [p, s]"
    by (auto simp: numeral_2_eq_2 length_Suc_conv)
  moreover have "t = p @ c # s" using join_split [of c t] ps by simp
  moreover have "c \<notin> set p" "c \<notin> set s" using split_on_parts [of _ c t] ps by auto
  ultimately show thesis using that by blast
qed

lemma Verify_Inr:
  assumes "Verify m t now = Inr uid"
  obtains p payload claims where "t = p @ ''.'' @ sign m p" "CHR ''.'' \<notin> set p"
    "DecodeString RawURLEncoding p = Inr payload" "unmarshal_claims payload = Inr claims"
    "UserID claims = uid" "uid \<noteq> 0" "unix now < Exp claims"
proof -
  from assms have "length (split_on CHR ''.'' t) = 2"
    by (auto simp: Verify_def Let_def split: if_splits)
  then obtain p s where t: "t = p @ CHR ''.'' # s" "CHR ''.'' \<notin> set p" "CHR ''.'' \<notin> set s"
    by (rule split_two)
  with assms Verify_split [of p s m now] show thesis
    by (auto split: if_splits sum.splits intro: that)
qed

lemma Issue_Inr:
  assumes "Issue rnd m uid now = Inr (tok, exp)"
  obtains nonce c where "rnd 16 = Inr nonce" "exp = unix (now + ttl m)"
    "c = \<lparr>UserID = uid, Exp = exp, Nonce = EncodeToString RawURLEncoding nonce\<rparr>"
    "tok = EncodeToString RawURLEncoding (marshal_claims c) @ ''.''
      @ sign m (EncodeToString RawURLEncoding (marshal_claims c))"
  using assms by (auto simp: Issue_def result_simps Let_def)

lemma Verify_Issue:
  assumes "Issue rnd m uid now = Inr (tok, exp)" "uid < 2 ^ 64" "int64_range exp"
  shows "Verify m tok now' =
    (if uid = 0 \<or> exp \<le> unix now' then Inl (Sentinel ErrUnauthorized) else Inr uid)"
  using assms(1)
proof (rule Issue_Inr)
  fix nonce c
  assume c: "exp = unix (now + ttl m)"
    "c = \<lparr>UserID = uid, Exp = exp, Nonce = EncodeToString RawURLEncoding nonce\<rparr>"
    "tok = EncodeToString RawURLEncoding (marshal_claims c) @ ''.''
      @ sign m (EncodeToString RawURLEncoding (marshal_claims c))"
  have "unmarshal_claims (marshal_claims c) = Inr c"
    by (rule claims_codec.dec_enc)
      (use assms c(2) in \<open>simp add: ascii_valid rawurl_ascii\<close>)
  then show ?thesis
    using c(2) Verify_split [OF no_dot, of "sign m (EncodeToString RawURLEncoding (marshal_claims c))"]
    by (simp add: c(3) no_dot sign_def del: append.simps)
qed

text \<open>A token is not blank, so the service's white-space check lets it through.\<close>

lemma token_TrimSpace:
  assumes "Issue rnd m uid now = Inr (tok, exp)"
  shows "TrimSpace tok = tok \<and> tok \<noteq> []"
  using assms
proof (rule Issue_Inr)
  fix nonce c
  let ?p = "EncodeToString RawURLEncoding (marshal_claims c)"
  assume tok: "tok = ?p @ ''.'' @ sign m ?p"
  have p: "?p \<noteq> []" by (simp add: marshal_claims_def enc_object_def)
  have s: "sign m ?p \<noteq> []" unfolding sign_def using length_hmac by (metis EncodeToString_Nil list.size(3) zero_neq_numeral)
  have "plain_char (hd ?p)" using rawurl_plain [OF hd_in_set [OF p]] by simp
  moreover have "plain_char (last (sign m ?p))"
    using rawurl_plain [OF last_in_set [OF s [unfolded sign_def]]] by (simp add: sign_def)
  ultimately show ?thesis using p s by (simp add: tok)
qed

subsection \<open>Properties\<close>

text \<open>
  C3: a token issued for a user is accepted by the same manager for exactly that user, until its
  expiry second and not from then on. A token for user 0 is never accepted.
\<close>

theorem token_round_trip:
  assumes "Issue rnd m uid now = Inr (tok, exp)" and "uid < 2 ^ 64" and "int64_range exp"
  shows "exp = unix (now + ttl m) \<and>
    (\<forall>now'. Verify m tok now' =
      (if uid = 0 \<or> exp \<le> unix now' then Inl (Sentinel ErrUnauthorized) else Inr uid))"
  using Verify_Issue [OF assms] Issue_Inr [OF assms(1)] by metis

lemma Issue_ex:
  "\<exists>tok. Issue (\<lambda>n. Inr (replicate n CHR ''n'')) m uid now = Inr (tok, unix (now + ttl m))"
  by (simp add: Issue_def Let_def)

theorem token_round_trip_witness:
  "\<exists>tok. Verify \<lparr>secret = ''key'', ttl = 60000000000\<rparr> tok 59000000000 = Inr 7 \<and>
     Verify \<lparr>secret = ''key'', ttl = 60000000000\<rparr> tok 60000000000 = Inl (Sentinel ErrUnauthorized)"
proof -
  let ?m = "\<lparr>secret = ''key'', ttl = 60000000000\<rparr>"
  from Issue_ex [of ?m 7 0] obtain tok where
    t: "Issue (\<lambda>n. Inr (replicate n CHR ''n'')) ?m 7 0 = Inr (tok, 60)"
    by (auto simp: unix_def)
  have "int64_range 60" "(7::nat) < 2 ^ 64" by (simp_all add: int64_range_def)
  from token_round_trip [OF t this(2,1)]
  show ?thesis by (intro exI [of _ tok]) (simp add: unix_def)
qed

text \<open>
  C4: every token that is accepted has the form payload, dot, signature, where the signature is the
  one this manager computes over that payload, the payload carries the returned user id, which
  is not zero, and its expiry lies in the future. There is exactly one accepted signature text
  per payload.
\<close>

theorem token_authentic:
  assumes "Verify m t now = Inr uid"
  shows "(\<exists>p payload claims. t = p @ ''.'' @ sign m p \<and> CHR ''.'' \<notin> set p \<and>
      DecodeString RawURLEncoding p = Inr payload \<and> unmarshal_claims payload = Inr claims \<and>
      UserID claims = uid \<and> uid \<noteq> 0 \<and> unix now < Exp claims) \<and>
    (\<forall>p s. t = p @ ''.'' @ s \<and> CHR ''.'' \<notin> set p \<longrightarrow> s = sign m p)"
  using assms
proof (rule Verify_Inr)
  fix q payload claims
  assume q: "t = q @ ''.'' @ sign m q" "CHR ''.'' \<notin> set q"
    and c: "DecodeString RawURLEncoding q = Inr payload" "unmarshal_claims payload = Inr claims"
      "UserID claims = uid" "uid \<noteq> 0" "unix now < Exp claims"
  have "s = sign m p" if "t = p @ ''.'' @ s" "CHR ''.'' \<notin> set p" for p s
  proof -
    have "split_on CHR ''.'' t = p # split_on CHR ''.'' s" using that by simp
    moreover have "split_on CHR ''.'' t = [q, sign m q]" using q no_dot by (simp add: sign_def)
    ultimately have "p = q" "split_on CHR ''.'' s = [sign m q]" by (metis list.inject)+
    then show ?thesis using join_split [of "CHR ''.''" s] by simp
  qed
  with q c show ?thesis by blast
qed

theorem token_authentic_witness:
  "\<exists>t p. Verify \<lparr>secret = ''key'', ttl = 60000000000\<rparr> t 0 = Inr 7 \<and>
     t = p @ ''.'' @ sign \<lparr>secret = ''key'', ttl = 60000000000\<rparr> p"
proof -
  let ?m = "\<lparr>secret = ''key'', ttl = 60000000000\<rparr>"
  from Issue_ex [of ?m 7 0] obtain tok where
    t: "Issue (\<lambda>n. Inr (replicate n CHR ''n'')) ?m 7 0 = Inr (tok, 60)"
    by (auto simp: unix_def)
  then have "Verify ?m tok 0 = Inr 7"
    by (subst Verify_Issue [OF t]) (simp_all add: int64_range_def unix_def)
  with token_authentic [OF this] show ?thesis by blast
qed

text \<open>
  \<^const>\<open>Verify\<close> has a single failure: whatever is wrong with a token, the caller sees
  \<^const>\<open>ErrUnauthorized\<close> and nothing about the reason.
\<close>

theorem Verify_uniform_error:
  "(\<exists>uid. Verify m t now = Inr uid) \<or> Verify m t now = Inl (Sentinel ErrUnauthorized)"
  by (auto simp: Verify_def Let_def split: sum.split)

text \<open>
  The bytes that are signed determine the payload: no two payloads share a signing input, so a
  signature for one is never by construction one for another.
\<close>

theorem sign_input_injective: "inj sign_input"
  by (simp add: inj_def sign_input_inject)

text \<open>
  A token manager exists exactly for secrets of at least 32 bytes, where a secret that is
  valid hexadecimal is read as the bytes it denotes. In particular 64 hexadecimal digits are
  accepted and 32 of them are not.
\<close>

theorem NewTokenManager_iff:
  "((\<exists>m. NewTokenManager sec t = Inr m) \<longleftrightarrow>
     32 \<le> length (case hex_DecodeString sec of Inl _ \<Rightarrow> sec | Inr d \<Rightarrow> d)) \<and>
   ((\<exists>m. NewTokenManager (hex_EncodeToString b) t = Inr m) \<longleftrightarrow> 32 \<le> length b)"
  by (auto simp: NewTokenManager_def Let_def)

end
