(* ===== verification/HttpCookie.thy ===== *)
theory HttpCookie
  imports Token
begin

text \<open>
  Cookies as \<^verbatim>\<open>net/http\<close> reads and writes them: \<^verbatim>\<open>Request.Cookie\<close> and \<^verbatim>\<open>SetCookie\<close>, as far as
  \<^verbatim>\<open>internal/httpapi/server.go\<close> uses them.
\<close>

subsection \<open>Names and values\<close>

text \<open>A token of RFC 9110, which a cookie's name has to be.\<close>

definition token_char :: "char \<Rightarrow> bool" where
  "token_char c \<longleftrightarrow> is_digit c \<or> 65 \<le> byte_of c \<and> byte_of c \<le> 90 \<or> 97 \<le> byte_of c \<and> byte_of c \<le> 122
     \<or> c \<in> set ''!#$%&*+-.^_`|~'' \<or> byte_of c = 39"

definition isToken :: "string \<Rightarrow> bool" where
  "isToken v \<longleftrightarrow> v \<noteq> [] \<and> list_all token_char v"

definition validCookieValueByte :: "char \<Rightarrow> bool" where
  "validCookieValueByte c \<longleftrightarrow>
     0x20 \<le> byte_of c \<and> byte_of c < 0x7F \<and> c \<noteq> CHR 0x22 \<and> c \<noteq> CHR '';'' \<and> c \<noteq> CHR 0x5C"

text \<open>\<^verbatim>\<open>textproto.TrimString\<close>\<close>

definition ascii_space :: "char \<Rightarrow> bool" where
  "ascii_space c \<longleftrightarrow> byte_of c \<in> {32, 9, 10, 13}"

definition TrimString :: "string \<Rightarrow> string" where
  "TrimString s = rev (dropWhile ascii_space (rev (dropWhile ascii_space s)))"

text \<open>\<^verbatim>\<open>strings.Cut(s, sep)\<close> for one character\<close>

definition cut_at :: "char \<Rightarrow> string \<Rightarrow> string \<times> string" where
  "cut_at sep s = (takeWhile (\<lambda>c. c \<noteq> sep) s, tl (dropWhile (\<lambda>c. c \<noteq> sep) s))"

subsection \<open>Reading\<close>

definition parseCookieValue :: "string \<Rightarrow> string option" where
  "parseCookieValue raw =
     (let v = (if 1 < length raw \<and> hd raw = CHR 0x22 \<and> last raw = CHR 0x22 then butlast (tl raw) else raw)
      in if list_all validCookieValueByte v then Some v else None)"

definition read_part :: "string \<Rightarrow> string \<Rightarrow> string option" where
  "read_part filt part0 =
     (let part = TrimString part0; (name0, val) = cut_at CHR ''='' part; name = TrimString name0
      in if part = [] \<or> \<not> isToken name \<or> name \<noteq> filt then None else parseCookieValue val)"

text \<open>
  \<^verbatim>\<open>r.Cookie(name)\<close>: the first cookie of that name in the \<^verbatim>\<open>Cookie\<close> headers; \<^const>\<open>None\<close> is \<^verbatim>\<open>ErrNoCookie\<close>.
\<close>

definition readCookies :: "string list \<Rightarrow> string \<Rightarrow> string list" where
  "readCookies lines filt =
     List.map_filter (read_part filt) (concat (map (\<lambda>l. split_on CHR '';'' (TrimString l)) lines))"

definition request_Cookie :: "string list \<Rightarrow> string \<Rightarrow> string option" where
  "request_Cookie lines name =
     (if name = [] then None else (case readCookies lines name of [] \<Rightarrow> None | v # _ \<Rightarrow> Some v))"

subsection \<open>Writing\<close>

record Cookie =
  ck_Name :: string
  ck_Value :: string
  ck_Path :: string
  ck_Expires :: "int option"
  ck_MaxAge :: int
  ck_HttpOnly :: bool
  ck_Lax :: bool

definition sanitizeCookieValue :: "string \<Rightarrow> string" where
  "sanitizeCookieValue v =
     (let u = filter validCookieValueByte v
      in if u = [] then u
         else if CHR '' '' \<in> set u \<or> CHR '','' \<in> set u then CHR 0x22 # u @ [CHR 0x22] else u)"

text \<open>
  \<^verbatim>\<open>http.SetCookie(w, c)\<close>: the \<^verbatim>\<open>Set-Cookie\<close> header, with its fields kept apart. There is none when the
  name is not a token.
\<close>

definition SetCookie :: "Cookie \<Rightarrow> Cookie list" where
  "SetCookie c = (if isToken (ck_Name c) then [c\<lparr>ck_Value := sanitizeCookieValue (ck_Value c)\<rparr>] else [])"

text \<open>The \<^verbatim>\<open>Cookie\<close> header with which a client returns one.\<close>

definition cookie_line :: "string \<Rightarrow> string \<Rightarrow> string" where
  "cookie_line name val = name @ CHR ''='' # val"

subsection \<open>A cookie comes back\<close>

definition cookie_safe :: "string \<Rightarrow> bool" where
  "cookie_safe v \<longleftrightarrow> v \<noteq> [] \<and> list_all (\<lambda>c. validCookieValueByte c \<and> c \<noteq> CHR '' '' \<and> c \<noteq> CHR '','') v"

lemma sanitize_safe: "cookie_safe v \<Longrightarrow> sanitizeCookieValue v = v"
proof -
  assume v: "cookie_safe v"
  then have "filter validCookieValueByte v = v" by (auto simp: cookie_safe_def list_all_iff intro: filter_True)
  with v show ?thesis by (auto simp: sanitizeCookieValue_def cookie_safe_def list_all_iff)
qed

lemma TrimString_id: "s \<noteq> [] \<Longrightarrow> \<not> ascii_space (hd s) \<Longrightarrow> \<not> ascii_space (last s) \<Longrightarrow> TrimString s = s"
proof -
  assume s: "s \<noteq> []" "\<not> ascii_space (hd s)" "\<not> ascii_space (last s)"
  then have "dropWhile ascii_space s = s" by (cases s) auto
  moreover have "dropWhile ascii_space (rev s) = rev s" using s by (cases "rev s") (auto simp: hd_rev [symmetric])
  ultimately show ?thesis by (simp add: TrimString_def)
qed

lemma token_char_plain: "token_char c \<Longrightarrow> \<not> ascii_space c \<and> c \<noteq> CHR '';'' \<and> c \<noteq> CHR ''='' \<and> c \<noteq> CHR 0x22"
  by (auto simp: token_char_def ascii_space_def is_digit_def byte_of_def)

lemma byte_space: "byte_of c = 32 \<Longrightarrow> c = CHR '' ''"
proof -
  have "byte_of CHR '' '' = 32" by (simp add: byte_of_def)
  then show "byte_of c = 32 \<Longrightarrow> c = CHR '' ''" by (metis byte_of_inject)
qed

lemma safe_char: "validCookieValueByte c \<Longrightarrow> c \<noteq> CHR '' '' \<Longrightarrow> \<not> ascii_space c \<and> c \<noteq> CHR '';'' \<and> c \<noteq> CHR 0x22"
  by (auto simp: validCookieValueByte_def ascii_space_def dest: byte_space)

lemma read_part_line:
  assumes "isToken name" "cookie_safe v"
  shows "read_part name (cookie_line name v) = Some v"
proof -
  let ?l = "cookie_line name v"
  have n: "name \<noteq> []" "\<And>c. c \<in> set name \<Longrightarrow> \<not> ascii_space c \<and> c \<noteq> CHR ''=''"
    using assms(1) token_char_plain by (auto simp: isToken_def list_all_iff)
  have v: "v \<noteq> []" "\<And>c. c \<in> set v \<Longrightarrow> \<not> ascii_space c \<and> c \<noteq> CHR 0x22" "list_all validCookieValueByte v"
    using assms(2) safe_char by (auto simp: cookie_safe_def list_all_iff)
  have "TrimString ?l = ?l" using n v by (intro TrimString_id) (auto simp: cookie_line_def)
  moreover have "TrimString name = name" using n by (intro TrimString_id) auto
  moreover have "cut_at CHR ''='' ?l = (name, v)" using n(2) by (auto simp: cut_at_def cookie_line_def takeWhile_append2 dropWhile_append2)
  moreover have "parseCookieValue v = Some v" using v hd_in_set [OF v(1)] by (auto simp: parseCookieValue_def Let_def)
  ultimately show ?thesis using assms(1) by (simp add: read_part_def cookie_line_def)
qed

lemma cookie_returns:
  assumes "isToken name" "cookie_safe v"
  shows "request_Cookie [cookie_line name v] name = Some v"
proof -
  let ?l = "cookie_line name v"
  have n: "name \<noteq> []" "\<And>c. c \<in> set name \<Longrightarrow> \<not> ascii_space c \<and> c \<noteq> CHR '';''"
    using assms(1) token_char_plain by (auto simp: isToken_def list_all_iff)
  have v: "v \<noteq> []" "\<And>c. c \<in> set v \<Longrightarrow> \<not> ascii_space c \<and> c \<noteq> CHR '';''"
    using assms(2) safe_char by (auto simp: cookie_safe_def list_all_iff)
  have "TrimString ?l = ?l" using n v by (intro TrimString_id) (auto simp: cookie_line_def)
  moreover have "split_on CHR '';'' ?l = [?l]" using n v by (intro split_on_no_sep) (auto simp: cookie_line_def)
  ultimately show ?thesis
    using read_part_line [OF assms] n(1) by (simp add: request_Cookie_def readCookies_def map_filter_def)
qed

text \<open>Every token the program issues can travel in a cookie.\<close>

lemma rawurl_cookie:
  "c \<in> set (EncodeToString RawURLEncoding s) \<Longrightarrow> validCookieValueByte c \<and> c \<noteq> CHR '' '' \<and> c \<noteq> CHR '',''"
  using EncodeToString_chars [OF proper_RawURLEncoding, of s]
  by (auto simp: RawURLEncoding_def letters_def validCookieValueByte_def byte_of_def)

lemma token_cookie_safe:
  assumes "Issue rnd m uid now = Inr (tok, exp)"
  shows "cookie_safe tok"
  using assms
proof (rule Issue_Inr)
  fix nonce c
  let ?p = "EncodeToString RawURLEncoding (marshal_claims c)"
  assume tok: "tok = ?p @ ''.'' @ sign m ?p"
  have "validCookieValueByte CHR ''.''" by (simp add: validCookieValueByte_def byte_of_def)
  then show ?thesis by (auto simp: tok cookie_safe_def list_all_iff sign_def dest: rawurl_cookie)
qed

end
