(* ===== verification/GoMime.thy ===== *)
theory GoMime
  imports GoBinary
begin

unbundle bit_operations_syntax

text \<open>
  \<^verbatim>\<open>http.DetectContentType\<close>: the signature table of \<^verbatim>\<open>net/http\<close>, tried in order on at most the first
  512 bytes.
\<close>

datatype sniff_sig =
    HtmlSig bytes
  | ExactSig bytes string
  | MaskedSig bytes bytes bool string   \<comment> \<open>mask, pattern, skip leading white space, type\<close>
  | Mp4Sig
  | TextSig

definition hexb :: "nat list \<Rightarrow> bytes" where
  "hexb ns = map chr ns"

definition ff :: "nat \<Rightarrow> bytes" where
  "ff n = replicate n (chr 0xFF)"

definition zz :: "nat \<Rightarrow> bytes" where
  "zz n = replicate n (chr 0)"

definition sniffSignatures :: "sniff_sig list" where
  "sniffSignatures =
    map HtmlSig [''<!DOCTYPE HTML'', ''<HTML'', ''<HEAD'', ''<SCRIPT'', ''<IFRAME'', ''<H1'', ''<DIV'',
      ''<FONT'', ''<TABLE'', ''<A'', ''<STYLE'', ''<TITLE'', ''<B'', ''<BODY'', ''<BR'', ''<P'', ''<!--'']
    @ [MaskedSig (ff 5) ''<?xml'' True ''text/xml; charset=utf-8'',
       ExactSig ''%PDF-'' ''application/pdf'',
       ExactSig ''%!PS-Adobe-'' ''application/postscript'',
       MaskedSig (ff 2 @ zz 2) (hexb [0xFE, 0xFF, 0, 0]) False ''text/plain; charset=utf-16be'',
       MaskedSig (ff 2 @ zz 2) (hexb [0xFF, 0xFE, 0, 0]) False ''text/plain; charset=utf-16le'',
       MaskedSig (ff 3 @ zz 1) (hexb [0xEF, 0xBB, 0xBF, 0]) False ''text/plain; charset=utf-8'',
       ExactSig (hexb [0, 0, 1, 0]) ''image/x-icon'',
       ExactSig (hexb [0, 0, 2, 0]) ''image/x-icon'',
       ExactSig ''BM'' ''image/bmp'',
       ExactSig ''GIF87a'' ''image/gif'',
       ExactSig ''GIF89a'' ''image/gif'',
       MaskedSig (ff 4 @ zz 4 @ ff 6) (''RIFF'' @ zz 4 @ ''WEBPVP'') False ''image/webp'',
       ExactSig (hexb [0x89, 0x50, 0x4E, 0x47, 0x0D, 0x0A, 0x1A, 0x0A]) ''image/png'',
       ExactSig (hexb [0xFF, 0xD8, 0xFF]) ''image/jpeg'',
       MaskedSig (ff 4 @ zz 4 @ ff 4) (''FORM'' @ zz 4 @ ''AIFF'') False ''audio/aiff'',
       MaskedSig (ff 3) ''ID3'' False ''audio/mpeg'',
       MaskedSig (ff 5) (''OggS'' @ zz 1) False ''application/ogg'',
       MaskedSig (ff 8) (''MThd'' @ hexb [0, 0, 0, 6]) False ''audio/midi'',
       MaskedSig (ff 4 @ zz 4 @ ff 4) (''RIFF'' @ zz 4 @ ''AVI '') False ''video/avi'',
       MaskedSig (ff 4 @ zz 4 @ ff 4) (''RIFF'' @ zz 4 @ ''WAVE'') False ''audio/wave'',
       Mp4Sig,
       ExactSig (hexb [0x1A, 0x45, 0xDF, 0xA3]) ''video/webm'',
       MaskedSig (zz 34 @ ff 2) (zz 34 @ ''LP'') False ''application/vnd.ms-fontobject'',
       ExactSig (hexb [0, 1, 0, 0]) ''font/ttf'',
       ExactSig ''OTTO'' ''font/otf'',
       ExactSig ''ttcf'' ''font/collection'',
       ExactSig ''wOFF'' ''font/woff'',
       ExactSig ''wOF2'' ''font/woff2'',
       ExactSig (hexb [0x1F, 0x8B, 0x08]) ''application/x-gzip'',
       ExactSig (''PK'' @ hexb [3, 4]) ''application/zip'',
       ExactSig (''Rar!'' @ hexb [0x1A, 0x07, 0x00]) ''application/x-rar-compressed'',
       ExactSig (''Rar!'' @ hexb [0x1A, 0x07, 0x01, 0x00]) ''application/x-rar-compressed'',
       ExactSig (hexb [0x00, 0x61, 0x73, 0x6D]) ''application/wasm'',
       TextSig]"

definition sniff_ws :: "char \<Rightarrow> bool" where
  "sniff_ws c \<longleftrightarrow> byte_of c \<in> {0x09, 0x0A, 0x0C, 0x0D, 0x20}"

definition html_byte :: "char \<Rightarrow> char \<Rightarrow> bool" where
  "html_byte h d \<longleftrightarrow>
     (if 65 \<le> byte_of h \<and> byte_of h \<le> 90 then word_byte h = word_byte d AND 0xDF else h = d)"

definition match_html :: "bytes \<Rightarrow> bytes \<Rightarrow> bool" where
  "match_html h d \<longleftrightarrow>
     length h < length d \<and> list_all2 html_byte h (take (length h) d)
     \<and> (d ! length h = CHR '' '' \<or> d ! length h = CHR ''>'')"

definition match_masked :: "bytes \<Rightarrow> bytes \<Rightarrow> bytes \<Rightarrow> bool" where
  "match_masked msk pat d \<longleftrightarrow>
     length msk = length pat \<and> length pat \<le> length d
     \<and> (\<forall>(m, p, c) \<in> set (zip msk (zip pat (take (length pat) d))).
          word_byte c AND word_byte m = word_byte p)"

definition match_mp4 :: "bytes \<Rightarrow> bool" where
  "match_mp4 d \<longleftrightarrow>
     12 \<le> length d
     \<and> (let boxSize = unat (Uint32 d) in
         boxSize \<le> length d \<and> boxSize mod 4 = 0 \<and> take 4 (drop 4 d) = ''ftyp''
         \<and> (\<exists>st \<in> set [8 ..< boxSize]. st mod 4 = 0 \<and> st \<noteq> 12 \<and> take 3 (drop st d) = ''mp4''))"

definition text_byte :: "char \<Rightarrow> bool" where
  "text_byte c \<longleftrightarrow>
     \<not> (byte_of c \<le> 0x08 \<or> byte_of c = 0x0B \<or> 0x0E \<le> byte_of c \<and> byte_of c \<le> 0x1A
        \<or> 0x1C \<le> byte_of c \<and> byte_of c \<le> 0x1F)"

fun match_sig :: "bytes \<Rightarrow> sniff_sig \<Rightarrow> string option" where
  "match_sig d (HtmlSig h) =
     (if match_html h (dropWhile sniff_ws d) then Some ''text/html; charset=utf-8'' else None)"
| "match_sig d (ExactSig p ct) = (if take (length p) d = p then Some ct else None)"
| "match_sig d (MaskedSig msk pat ws ct) =
     (if match_masked msk pat (if ws then dropWhile sniff_ws d else d) then Some ct else None)"
| "match_sig d Mp4Sig = (if match_mp4 d then Some ''video/mp4'' else None)"
| "match_sig d TextSig =
     (if list_all text_byte (dropWhile sniff_ws d) then Some ''text/plain; charset=utf-8'' else None)"

fun first_match :: "bytes \<Rightarrow> sniff_sig list \<Rightarrow> string" where
  "first_match d [] = ''application/octet-stream''"
| "first_match d (s # ss) = (case match_sig d s of Some ct \<Rightarrow> ct | None \<Rightarrow> first_match d ss)"

definition DetectContentType :: "bytes \<Rightarrow> string" where
  "DetectContentType data = first_match (take 512 data) sniffSignatures"

text \<open>Every answer is one of the table's types, so in particular it is ASCII.\<close>

fun sig_type :: "sniff_sig \<Rightarrow> string" where
  "sig_type (HtmlSig h) = ''text/html; charset=utf-8''"
| "sig_type (ExactSig p ct) = ct"
| "sig_type (MaskedSig m p w ct) = ct"
| "sig_type Mp4Sig = ''video/mp4''"
| "sig_type TextSig = ''text/plain; charset=utf-8''"

lemma match_sig_type: "match_sig d s = Some ct \<Longrightarrow> ct = sig_type s"
  by (cases s) (auto split: if_splits)

lemma first_match_types: "first_match d ss \<in> insert ''application/octet-stream'' (sig_type ` set ss)"
  by (induction ss) (auto dest: match_sig_type split: option.splits)

lemma DetectContentType_gif: "DetectContentType ''GIF89a'' = ''image/gif''"
  by code_simp

end
