(* ===== verification/HttpApi.thy ===== *)
theory HttpApi
  imports TcpClient HttpCookie GoMime GoPath
begin

text \<open>
  \<^verbatim>\<open>internal/httpapi/server.go\<close>: the HTTP gateway. A handler takes the parts of a request the code
  looks at and gives the response it writes. Parsing of multipart forms (\<^verbatim>\<open>mime/multipart\<close>) is a
  parameter: a function of the content type and of what can be read of the body.
\<close>

subsection \<open>Requests and responses\<close>

record http_request =
  hq_Method :: string
  hq_Path :: string
  hq_Cookies :: "string list"       \<comment> \<open>the \<open>Cookie\<close> headers\<close>
  hq_ContentType :: string
  hq_Body :: reader
  hq_Remaining :: "int option"      \<comment> \<open>the time left of the request's context\<close>

record http_response =
  hp_Status :: nat
  hp_Headers :: "(string \<times> string) list"
  hp_SetCookie :: "Cookie list"
  hp_Body :: bytes

record file_part =
  fp_Filename :: string
  fp_ContentType :: string          \<comment> \<open>empty without the header\<close>
  fp_Open :: "reader result"

type_synonym multipart_form = "string \<Rightarrow> file_part list"

record Server =
  cfg :: Config
  client :: TCPClient
  parse_form :: "string \<Rightarrow> reader \<Rightarrow> multipart_form result"

definition NewServer :: "Config \<Rightarrow> TCPClient \<Rightarrow> (string \<Rightarrow> reader \<Rightarrow> multipart_form result) \<Rightarrow> Server" where
  "NewServer c cl mp = \<lparr>cfg = c, client = cl, parse_form = mp\<rparr>"

definition StatusOK :: nat where "StatusOK = 200"
definition StatusBadRequest :: nat where "StatusBadRequest = 400"
definition StatusUnauthorized :: nat where "StatusUnauthorized = 401"
definition StatusNotFound :: nat where "StatusNotFound = 404"
definition StatusRequestEntityTooLarge :: nat where "StatusRequestEntityTooLarge = 413"
definition StatusUnsupportedMediaType :: nat where "StatusUnsupportedMediaType = 415"
definition StatusTooManyRequests :: nat where "StatusTooManyRequests = 429"
definition StatusInternalServerError :: nat where "StatusInternalServerError = 500"
definition StatusBadGateway :: nat where "StatusBadGateway = 502"

lemmas status_defs = StatusOK_def StatusBadRequest_def StatusUnauthorized_def StatusNotFound_def
  StatusRequestEntityTooLarge_def StatusUnsupportedMediaType_def StatusTooManyRequests_def
  StatusInternalServerError_def StatusBadGateway_def

subsection \<open>Writing\<close>

definition writeJSON :: "Cookie list \<Rightarrow> nat \<Rightarrow> string \<Rightarrow> http_response" where
  "writeJSON cookies status text =
     \<lparr>hp_Status = status, hp_Headers = [(''Content-Type'', ''application/json; charset=utf-8'')],
      hp_SetCookie = cookies, hp_Body = text @ [nl]\<rparr>"

definition writeProtocolError :: "nat \<Rightarrow> string \<Rightarrow> string \<Rightarrow> http_response" where
  "writeProtocolError status code message =
     writeJSON [] status (marshal_ErrorResponse \<lparr>er_Error = \<lparr>er_Code = code, er_Message = message\<rparr>\<rparr>)"

definition statusFor :: "string \<Rightarrow> nat" where
  "statusFor code =
     (if code \<in> set [''unauthorized'', ''invalid_credentials''] then StatusUnauthorized
      else if code = ''not_found'' then StatusNotFound
      else if code = ''payload_too_large'' then StatusRequestEntityTooLarge
      else if code = ''unsupported_media_type'' then StatusUnsupportedMediaType
      else if code = ''server_busy'' then StatusTooManyRequests
      else if code \<in> set [''bad_request'', ''invalid_nickname'', ''invalid_upload'', ''unknown_operation''] then StatusBadRequest
      else StatusInternalServerError)"

definition writeError :: "go_error \<Rightarrow> http_response" where
  "writeError err =
     (case IsRemote err of
        Some (code, message) \<Rightarrow> writeProtocolError (statusFor code) code message
      | None \<Rightarrow> writeProtocolError StatusBadGateway ''tcp_backend_unavailable'' ''Backend service is unavailable.'')"

definition ok_text :: string where
  "ok_text = enc_object [(''ok'', json_string ''true'')]"

subsection \<open>Reading\<close>

text \<open>
  \<^verbatim>\<open>http.MaxBytesReader\<close>: the first \<open>n\<close> bytes, and an error of its own when there are more.
\<close>

definition MaxBytesReader :: "reader \<Rightarrow> int \<Rightarrow> reader" where
  "MaxBytesReader r n =
     \<lparr>rd_buf = take (nat n) (rd_buf r),
      rd_end = (if int (length (rd_buf r)) > max 0 n then Errorf ''http: request body too large'' else rd_end r)\<rparr>"

text \<open>
  \<^verbatim>\<open>json.Decoder.Decode\<close> on a reader: the first value. An object or array is complete with its last
  byte; any other value only when a further byte or the end of the input has been seen.
\<close>

definition decode_reader :: "(string \<Rightarrow> 'b \<Rightarrow> 'b result) \<Rightarrow> reader \<Rightarrow> 'b \<Rightarrow> 'b result" where
  "decode_reader dec r dst =
     (case json_value (rd_buf r) of
        None \<Rightarrow> Inl err_json_syntax
      | Some (raw, rest) \<Rightarrow>
          if rest = [] \<and> hd raw \<notin> {CHR ''{'', CHR ''[''} \<and> rd_end r \<noteq> Sentinel EOF then Inl (rd_end r)
          else dec raw dst)"

definition decodeJSON :: "http_request \<Rightarrow> (string \<Rightarrow> 'b \<Rightarrow> 'b result) \<Rightarrow> 'b \<Rightarrow> int \<Rightarrow> http_response + 'b" where
  "decodeJSON r dec dst maxBytes =
     (case decode_reader dec (MaxBytesReader (hq_Body r) maxBytes) dst of
        Inl _ \<Rightarrow> Inl (writeProtocolError StatusBadRequest ''bad_request'' ''Invalid JSON body.'')
      | Inr v \<Rightarrow> Inr v)"

definition tokenFromCookie :: "Server \<Rightarrow> http_request \<Rightarrow> http_response + string" where
  "tokenFromCookie s r =
     (case request_Cookie (hq_Cookies r) (CookieName (HTTP (cfg s))) of
        None \<Rightarrow> Inl (writeProtocolError StatusUnauthorized ''unauthorized'' ''Authentication required.'')
      | Some v \<Rightarrow>
          if TrimSpace v = [] then Inl (writeProtocolError StatusUnauthorized ''unauthorized'' ''Authentication required.'')
          else Inr v)"

text \<open>\<^verbatim>\<open>r.FormFile(key)\<close> after the form has been parsed.\<close>

definition FormFile :: "multipart_form \<Rightarrow> string \<Rightarrow> (reader \<times> file_part) result" where
  "FormFile form key =
     (case form key of
        [] \<Rightarrow> Inl (Errorf ''http: no such file'')
      | fh # _ \<Rightarrow> bindE (fp_Open fh) (\<lambda>f. Inr (f, fh)))"

text \<open>
  \<^verbatim>\<open>io.ReadAll(io.LimitReader(file, n))\<close>. The limit is an \<^verbatim>\<open>int64\<close>; for one that is not positive nothing is
  read.
\<close>

definition read_limited :: "reader \<Rightarrow> int \<Rightarrow> bytes result" where
  "read_limited r n =
     (if int (length (rd_buf r)) \<ge> n then Inr (take (nat n) (rd_buf r))
      else if rd_end r = Sentinel EOF then Inr (rd_buf r) else Inl (rd_end r))"

definition uploadBody :: "Server \<Rightarrow> reader \<Rightarrow> file_part \<Rightarrow> UploadProfilePictureBody result" where
  "uploadBody s file header =
     bindE (read_limited file (int64_wrap (MaxBodyBytes (HTTP (cfg s)) + 1))) (\<lambda>data.
     if int (length data) > MaxBodyBytes (HTTP (cfg s)) then Inl (Errorf ''uploaded file is too large'')
     else Inr \<lparr>ub_FileName = fp_Filename header,
               ub_ContentType = (if fp_ContentType header = [] then DetectContentType data else fp_ContentType header),
               ub_DataBase64 = EncodeToString StdEncoding data\<rparr>)"

subsection \<open>Handlers\<close>

text \<open>
  \<^verbatim>\<open>if err := s.client.Call(...); err != nil { s.writeError(w, err); return }\<close>
\<close>

definition backend ::
    "'w tcp_net \<Rightarrow> Server \<Rightarrow> http_request \<Rightarrow> string \<Rightarrow> string \<Rightarrow> string option \<Rightarrow> (string \<Rightarrow> 'b \<Rightarrow> 'b result) \<Rightarrow> 'b
     \<Rightarrow> ('b \<Rightarrow> http_response) \<Rightarrow> ('w gw, http_response) io" where
  "backend net s r op token body dec dst k =
     bind_io (try_io (Call net (client s) (hq_Remaining r) op token body (Some dec) dst)) (\<lambda>res.
       return_io (case res of Inl err \<Rightarrow> writeError err | Inr v \<Rightarrow> k v))"

definition health :: "('w gw, http_response) io" where
  "health = return_io (writeJSON [] StatusOK ok_text)"

definition session_cookie :: "Server \<Rightarrow> string \<Rightarrow> int option \<Rightarrow> int \<Rightarrow> Cookie" where
  "session_cookie s val expires maxAge =
     \<lparr>ck_Name = CookieName (HTTP (cfg s)), ck_Value = val, ck_Path = ''/'', ck_Expires = expires, ck_MaxAge = maxAge,
      ck_HttpOnly = True, ck_Lax = True\<rparr>"

definition http_login :: "'w tcp_net \<Rightarrow> Server \<Rightarrow> http_request \<Rightarrow> ('w gw, http_response) io" where
  "http_login net s r =
     (case decodeJSON r (dec_LoginBody True) zero_LoginBody (MaxBodyBytes (HTTP (cfg s))) of
        Inl resp \<Rightarrow> return_io resp
      | Inr body \<Rightarrow>
          backend net s r OpLogin [] (Some (marshal_LoginBody body)) dec_LoginResult zero_LoginResult (\<lambda>res.
            writeJSON (SetCookie (session_cookie s (lr_Token res) (Some (lr_ExpiresAt res)) 0)) StatusOK
              (marshal_LoginResult res)))"

definition http_me :: "'w tcp_net \<Rightarrow> Server \<Rightarrow> http_request \<Rightarrow> ('w gw, http_response) io" where
  "http_me net s r =
     (case tokenFromCookie s r of
        Inl resp \<Rightarrow> return_io resp
      | Inr token \<Rightarrow>
          backend net s r OpGetProfile token None dec_UserProfile zero_UserProfile (\<lambda>p.
            writeJSON [] StatusOK (marshal_UserProfile p)))"

definition http_updateNickname :: "'w tcp_net \<Rightarrow> Server \<Rightarrow> http_request \<Rightarrow> ('w gw, http_response) io" where
  "http_updateNickname net s r =
     (case tokenFromCookie s r of
        Inl resp \<Rightarrow> return_io resp
      | Inr token \<Rightarrow>
          (case decodeJSON r (dec_NicknameBody True) zero_NicknameBody (MaxBodyBytes (HTTP (cfg s))) of
             Inl resp \<Rightarrow> return_io resp
           | Inr body \<Rightarrow>
               backend net s r OpUpdateNickname token (Some (marshal_UpdateNicknameBody body)) dec_UserProfile zero_UserProfile
                 (\<lambda>p. writeJSON [] StatusOK (marshal_UserProfile p))))"

definition picture_response :: "ProfilePictureResult \<Rightarrow> http_response" where
  "picture_response res =
     (case DecodeString StdEncoding (pr_DataBase64 res) of
        Inl _ \<Rightarrow> writeProtocolError StatusInternalServerError ''invalid_picture_cache'' ''Profile picture data is invalid.''
      | Inr data \<Rightarrow>
          \<lparr>hp_Status = StatusOK,
           hp_Headers = [(''Content-Type'', pr_ContentType res), (''Cache-Control'', ''private, max-age=300'')],
           hp_SetCookie = [], hp_Body = data\<rparr>)"

definition http_getProfilePicture :: "'w tcp_net \<Rightarrow> Server \<Rightarrow> http_request \<Rightarrow> ('w gw, http_response) io" where
  "http_getProfilePicture net s r =
     (case tokenFromCookie s r of
        Inl resp \<Rightarrow> return_io resp
      | Inr token \<Rightarrow>
          backend net s r OpGetProfilePicture token None dec_PictureResult zero_PictureResult picture_response)"

text \<open>The part of \<^verbatim>\<open>uploadProfilePicture\<close> before the call.\<close>

definition upload_request :: "Server \<Rightarrow> http_request \<Rightarrow> http_response + UploadProfilePictureBody" where
  "upload_request s r =
     (case parse_form s (hq_ContentType r) (MaxBytesReader (hq_Body r) (MaxBodyBytes (HTTP (cfg s)))) of
        Inl _ \<Rightarrow> Inl (writeProtocolError StatusBadRequest ''bad_request'' ''Invalid multipart upload.'')
      | Inr form \<Rightarrow>
          (case FormFile form ''picture'' of
             Inl _ \<Rightarrow> Inl (writeProtocolError StatusBadRequest ''bad_request'' ''Missing picture file.'')
           | Inr (file, header) \<Rightarrow>
               (case uploadBody s file header of
                  Inl err \<Rightarrow> Inl (writeProtocolError StatusBadRequest ''bad_request'' (error_text err))
                | Inr body \<Rightarrow> Inr body)))"

definition http_uploadProfilePicture :: "'w tcp_net \<Rightarrow> Server \<Rightarrow> http_request \<Rightarrow> ('w gw, http_response) io" where
  "http_uploadProfilePicture net s r =
     (case tokenFromCookie s r of
        Inl resp \<Rightarrow> return_io resp
      | Inr token \<Rightarrow>
          (case upload_request s r of
             Inl resp \<Rightarrow> return_io resp
           | Inr body \<Rightarrow>
               backend net s r OpUploadProfilePicture token (Some (marshal_UploadBody body)) dec_UserProfile zero_UserProfile
                 (\<lambda>p. writeJSON [] StatusOK (marshal_UserProfile p))))"

definition http_logout :: "'w tcp_net \<Rightarrow> Server \<Rightarrow> http_request \<Rightarrow> ('w gw, http_response) io" where
  "http_logout net s r =
     bind_io (case request_Cookie (hq_Cookies r) (CookieName (HTTP (cfg s))) of
                None \<Rightarrow> return_io (Inr ())
              | Some v \<Rightarrow>
                  if v = [] then return_io (Inr ())
                  else try_io (Call net (client s) (hq_Remaining r) OpLogout v (Some (enc_object [])) None ())) (\<lambda>_.
     return_io (writeJSON (SetCookie (session_cookie s [] None (-1))) StatusOK ok_text))"

subsection \<open>Routing\<close>

datatype endpoint =
  Health | LoginEP | Me | GetPicture | PutNickname | PostPicture | LogoutEP

definition routes :: "(string \<times> string \<times> endpoint) list" where
  "routes =
    [(''GET'', ''/api/health'', Health), (''POST'', ''/api/login'', LoginEP), (''GET'', ''/api/me'', Me),
     (''GET'', ''/api/me/profile-picture'', GetPicture), (''PUT'', ''/api/me/nickname'', PutNickname),
     (''POST'', ''/api/me/profile-picture'', PostPicture), (''POST'', ''/api/logout'', LogoutEP)]"

definition run_endpoint :: "'w tcp_net \<Rightarrow> Server \<Rightarrow> endpoint \<Rightarrow> http_request \<Rightarrow> ('w gw, http_response) io" where
  "run_endpoint net s e r =
     (case e of Health \<Rightarrow> health | LoginEP \<Rightarrow> http_login net s r | Me \<Rightarrow> http_me net s r
      | GetPicture \<Rightarrow> http_getProfilePicture net s r | PutNickname \<Rightarrow> http_updateNickname net s r
      | PostPicture \<Rightarrow> http_uploadProfilePicture net s r | LogoutEP \<Rightarrow> http_logout net s r)"

text \<open>
  \<^verbatim>\<open>http.ServeMux\<close> for patterns of a method and a literal path: a pattern for \<^verbatim>\<open>GET\<close> serves \<^verbatim>\<open>HEAD\<close> too,
  a path that is not in its cleaned form is redirected, a path known only under other methods is 405. Paths are taken
  without percent escapes.
\<close>

datatype route_result = Handled endpoint | MovedTo string | MethodNotAllowed | PageNotFound

definition method_ok :: "string \<Rightarrow> string \<Rightarrow> bool" where
  "method_ok pat m \<longleftrightarrow> m = pat \<or> pat = ''GET'' \<and> m = ''HEAD''"

definition cleanPath :: "string \<Rightarrow> string" where
  "cleanPath p =
     (if p = [] then ''/''
      else let q = (if hd p = CHR ''/'' then p else CHR ''/'' # p); np = Clean q
           in if last q = CHR ''/'' \<and> np \<noteq> ''/'' then np @ ''/'' else np)"

definition route :: "string \<Rightarrow> string \<Rightarrow> route_result" where
  "route m path =
     (if cleanPath path \<noteq> path then MovedTo (cleanPath path)
      else case List.find (\<lambda>(pm, pp, e). pp = path \<and> method_ok pm m) routes of
        Some (_, _, e) \<Rightarrow> Handled e
      | None \<Rightarrow>
          if list_ex (\<lambda>(pm, pp, e). pp = path) routes then MethodNotAllowed else PageNotFound)"

definition ServeHTTP :: "'w tcp_net \<Rightarrow> Server \<Rightarrow> http_request \<Rightarrow> ('w gw, route_result + http_response) io" where
  "ServeHTTP net s r =
     (case route (hq_Method r) (hq_Path r) of
        Handled e \<Rightarrow> bind_io (run_endpoint net s e r) (\<lambda>resp. return_io (Inr resp))
      | other \<Rightarrow> return_io (Inl other))"

end
