(* ===== verification/MysqlStore.thy ===== *)
theory MysqlStore
  imports GoIO GoText
begin

text \<open>
  \<^verbatim>\<open>internal/store/mysqlstore/store.go\<close>: the user table behind \<^verbatim>\<open>database/sql\<close>. The connection pool
  with the MySQL driver is a parameter: \<open>QueryRow\<close> gives the columns of the first row, or
  \<^verbatim>\<open>sql.ErrNoRows\<close>; \<open>Exec\<close> the outcome of \<^verbatim>\<open>RowsAffected\<close>. Statements are the strings the code
  sends, with their line breaks, and placeholders are bound positionally.
\<close>

datatype sqlval = SqlNull | SqlInt int | SqlBytes bytes

record 'w sqldb =
  QueryRow :: "string \<Rightarrow> sqlval list \<Rightarrow> ('w, sqlval list) io"
  Exec :: "string \<Rightarrow> sqlval list \<Rightarrow> ('w, int result) io"

subsection \<open>Scanning columns\<close>

text \<open>\<^verbatim>\<open>convertAssign\<close>: numbers are read from their decimal text, NULL only into what can hold it.\<close>

definition err_scan :: go_error where
  "err_scan = Errorf ''sql: Scan error''"

fun as_text :: "sqlval \<Rightarrow> string result" where
  "as_text SqlNull = Inl err_scan"
| "as_text (SqlInt i) = Inr (Itoa i)"
| "as_text (SqlBytes b) = Inr b"

definition sql_uint64 :: "sqlval \<Rightarrow> nat result" where
  "sql_uint64 v = bindE (as_text v) (\<lambda>s. ParseUint s 64)"

definition sql_int :: "sqlval \<Rightarrow> int result" where
  "sql_int v = bindE (as_text v) (\<lambda>s. ParseInt s 64)"

definition sql_bytes :: "sqlval \<Rightarrow> bytes result" where
  "sql_bytes v = (if v = SqlNull then Inr [] else as_text v)"

text \<open>\<^verbatim>\<open>sql.NullString\<close>: not valid for NULL.\<close>

definition sql_null_string :: "sqlval \<Rightarrow> string option result" where
  "sql_null_string v = (if v = SqlNull then Inr None else bindE (as_text v) (\<lambda>s. Inr (Some s)))"

subsection \<open>Rows\<close>

record UserAuth =
  ua_ID :: nat
  ua_Username :: string
  ua_Nickname :: string
  PasswordSalt :: bytes
  PasswordHash :: bytes
  PasswordIter :: int
  ua_ProfilePicturePath :: "string option"
  ua_ProfilePictureVersion :: nat

record StoredProfile =
  sp_ID :: nat
  sp_Username :: string
  sp_Nickname :: string
  ProfilePicturePath :: "string option"
  ProfilePictureMIME :: "string option"
  ProfilePictureSize :: nat
  ProfileVersion :: nat

record SeedUser =
  su_Username :: string
  su_Nickname :: string
  su_PasswordSalt :: bytes
  su_PasswordHash :: bytes
  su_PasswordIter :: int

definition scan_UserAuth :: "sqlval list \<Rightarrow> UserAuth result" where
  "scan_UserAuth row =
     (case row of
        [a, b, c, d, e, f, g, h] \<Rightarrow>
          bindE (sql_uint64 a) (\<lambda>a. bindE (as_text b) (\<lambda>b. bindE (as_text c) (\<lambda>c.
          bindE (sql_bytes d) (\<lambda>d. bindE (sql_bytes e) (\<lambda>e. bindE (sql_int f) (\<lambda>f.
          bindE (sql_null_string g) (\<lambda>g. bindE (sql_uint64 h) (\<lambda>h.
          Inr \<lparr>ua_ID = a, ua_Username = b, ua_Nickname = c, PasswordSalt = d, PasswordHash = e,
               PasswordIter = f, ua_ProfilePicturePath = g, ua_ProfilePictureVersion = h\<rparr>))))))))
      | _ \<Rightarrow> Inl err_scan)"

definition scan_StoredProfile :: "sqlval list \<Rightarrow> StoredProfile result" where
  "scan_StoredProfile row =
     (case row of
        [a, b, c, d, e, f, g] \<Rightarrow>
          bindE (sql_uint64 a) (\<lambda>a. bindE (as_text b) (\<lambda>b. bindE (as_text c) (\<lambda>c.
          bindE (sql_null_string d) (\<lambda>d. bindE (sql_null_string e) (\<lambda>e.
          bindE (sql_uint64 f) (\<lambda>f. bindE (sql_uint64 g) (\<lambda>g.
          Inr \<lparr>sp_ID = a, sp_Username = b, sp_Nickname = c, ProfilePicturePath = d,
               ProfilePictureMIME = e, ProfilePictureSize = f, ProfileVersion = g\<rparr>)))))))
      | _ \<Rightarrow> Inl err_scan)"

subsection \<open>Statements\<close>

abbreviation lf :: string where
  "lf \<equiv> [CHR 0x0A]"

definition q_auth :: string where
  "q_auth = lf @ ''SELECT id, username, nickname, password_salt, password_hash, password_iter,'' @ lf @
     ''       profile_picture_path, profile_picture_version'' @ lf @ ''FROM users'' @ lf @
     ''WHERE username = ?'' @ lf @ ''LIMIT 1''"

definition q_profile :: string where
  "q_profile = lf @ ''SELECT id, username, nickname, profile_picture_path, profile_picture_mime,'' @ lf @
     ''       profile_picture_size, profile_picture_version'' @ lf @ ''FROM users'' @ lf @
     ''WHERE id = ?'' @ lf @ ''LIMIT 1''"

definition q_nickname :: string where
  "q_nickname = ''UPDATE users SET nickname = ? WHERE id = ?''"

definition q_picture :: string where
  "q_picture = lf @ ''UPDATE users'' @ lf @ ''SET profile_picture_path = ?,'' @ lf @
     ''    profile_picture_mime = ?,'' @ lf @ ''    profile_picture_size = ?,'' @ lf @
     ''    profile_picture_version = profile_picture_version + 1'' @ lf @ ''WHERE id = ?''"

definition q_count :: string where
  "q_count = ''SELECT COUNT(*) FROM users''"

subsection \<open>Operations\<close>

definition mapNoRows :: "go_error \<Rightarrow> go_error" where
  "mapNoRows err = (if errors_Is err SqlErrNoRows then Sentinel MysqlErrNotFound else err)"

text \<open>\<^verbatim>\<open>QueryRowContext(...).Scan(...)\<close> with the error mapped.\<close>

definition query_one :: "'w sqldb \<Rightarrow> string \<Rightarrow> sqlval list \<Rightarrow> (sqlval list \<Rightarrow> 'a result) \<Rightarrow> ('w, 'a) io" where
  "query_one db q args scan =
     bind_io (try_io (bind_io (QueryRow db q args) (\<lambda>row. lift_io (scan row)))) (\<lambda>res.
       case res of Inl err \<Rightarrow> fail_io (mapNoRows err) | Inr u \<Rightarrow> return_io u)"

lemma query_one_row:
  "QueryRow db q args w = (Inr row, w1) \<Longrightarrow> scan row = Inr u \<Longrightarrow>
   query_one db q args scan w = (Inr u, w1)"
  unfolding query_one_def bind_io_try by (simp add: bind_io_def)

lemma query_one_none:
  "QueryRow db q args w = (Inl (Sentinel SqlErrNoRows), w1) \<Longrightarrow>
   query_one db q args scan w = (Inl (Sentinel MysqlErrNotFound), w1)"
  unfolding query_one_def bind_io_try by (simp add: bind_io_def mapNoRows_def)

definition GetUserAuthByUsername :: "'w sqldb \<Rightarrow> string \<Rightarrow> ('w, UserAuth) io" where
  "GetUserAuthByUsername db username = query_one db q_auth [SqlBytes username] scan_UserAuth"

definition GetUserProfileByID :: "'w sqldb \<Rightarrow> nat \<Rightarrow> ('w, StoredProfile) io" where
  "GetUserProfileByID db uid = query_one db q_profile [SqlInt (int uid)] scan_StoredProfile"

definition UpdateNickname :: "'w sqldb \<Rightarrow> nat \<Rightarrow> string \<Rightarrow> ('w, StoredProfile) io" where
  "UpdateNickname db uid nickname =
     bind_io (Exec db q_nickname [SqlBytes nickname, SqlInt (int uid)]) (\<lambda>affected.
       if affected = Inr 0 then fail_io (Sentinel MysqlErrNotFound)
       else GetUserProfileByID db uid)"

definition UpdateProfilePicture ::
    "'w sqldb \<Rightarrow> nat \<Rightarrow> string \<Rightarrow> string \<Rightarrow> nat \<Rightarrow> ('w, StoredProfile) io" where
  "UpdateProfilePicture db uid relPath mime sz =
     bind_io (Exec db q_picture [SqlBytes relPath, SqlBytes mime, SqlInt (int sz), SqlInt (int uid)])
       (\<lambda>affected.
         if affected = Inr 0 then fail_io (Sentinel MysqlErrNotFound)
         else GetUserProfileByID db uid)"

definition insert_query :: "nat \<Rightarrow> string" where
  "insert_query n =
     ''INSERT INTO users (username, nickname, password_salt, password_hash, password_iter) VALUES ''
     @ join_with (CHR '','') (replicate n ''(?, ?, ?, ?, ?)'')
     @ '' ON DUPLICATE KEY UPDATE username = username''"

definition seed_args :: "SeedUser \<Rightarrow> sqlval list" where
  "seed_args u = [SqlBytes (su_Username u), SqlBytes (su_Nickname u), SqlBytes (su_PasswordSalt u),
     SqlBytes (su_PasswordHash u), SqlInt (su_PasswordIter u)]"

definition InsertSeedUsers :: "'w sqldb \<Rightarrow> SeedUser list \<Rightarrow> ('w, unit) io" where
  "InsertSeedUsers db users =
     (if users = [] then return_io ()
      else bind_io (Exec db (insert_query (length users)) (concat (map seed_args users)))
             (\<lambda>_. return_io ()))"

definition CountUsers :: "'w sqldb \<Rightarrow> ('w, nat) io" where
  "CountUsers db =
     bind_io (QueryRow db q_count []) (\<lambda>row.
       lift_io (case row of [c] \<Rightarrow> sql_uint64 c | _ \<Rightarrow> Inl err_scan))"

subsection \<open>Migration\<close>

definition splitSQL :: "string \<Rightarrow> string list" where
  "splitSQL sqlText = filter (\<lambda>s. s \<noteq> []) (map TrimSpace (split_on (CHR '';'') sqlText))"

fun exec_all :: "'w sqldb \<Rightarrow> string list \<Rightarrow> ('w, unit) io" where
  "exec_all db [] = return_io ()"
| "exec_all db (stmt # stmts) =
     (if TrimSpace stmt = [] then exec_all db stmts
      else bind_io (try_io (Exec db stmt [])) (\<lambda>res.
             case res of
               Inl err \<Rightarrow> fail_io (Wrapped ''exec schema statement: '' err)
             | Inr _ \<Rightarrow> exec_all db stmts))"

definition Migrate :: "(string \<Rightarrow> ('w, bytes) io) \<Rightarrow> 'w sqldb \<Rightarrow> string \<Rightarrow> ('w, unit) io" where
  "Migrate readFile db schemaPath = bind_io (readFile schemaPath) (\<lambda>data. exec_all db (splitSQL data))"

text \<open>
  The placeholders of an insert are as many as its arguments, whatever the number of rows: five
  each.
\<close>

lemma count_join: "count_list (join_with c (replicate (Suc n) s)) q =
    Suc n * count_list s q + (if c = q then n else 0)"
  by (induction n) auto

lemma insert_placeholders:
  assumes "users \<noteq> []"
  shows "count_list (insert_query (length users)) (CHR ''?'') = length (concat (map seed_args users))"
proof -
  obtain n where n: "length users = Suc n" using assms by (cases users) auto
  have "length (concat (map seed_args users)) = 5 * length users"
    by (induction users) (simp_all add: seed_args_def)
  then show ?thesis by (simp add: insert_query_def n count_join del: replicate.simps)
qed

end
