(* ===== verification/Password.thy ===== *)
theory Password
  imports Crypto
begin

text \<open>
  \<^verbatim>\<open>internal/service/password.go\<close>: salted PBKDF2 password hashes. \<open>rnd n\<close> is the outcome of
  reading \<open>n\<close> bytes from \<^verbatim>\<open>crypto/rand\<close>.
\<close>

definition saltBytes :: nat where
  "saltBytes = 16"

definition hashBytes :: nat where
  "hashBytes = 32"

definition HashPassword ::
    "(nat \<Rightarrow> bytes result) \<Rightarrow> bytes \<Rightarrow> int \<Rightarrow> (bytes \<times> bytes) result" where
  "HashPassword rnd password iterations =
     (if iterations \<le> 0 then Inl (Errorf ''iterations must be positive'')
      else bindE (rnd saltBytes) (\<lambda>salt.
           bindE (pbkdf2_Key password salt (nat iterations) hashBytes) (\<lambda>hash.
           Inr (salt, hash))))"

definition VerifyPassword :: "bytes \<Rightarrow> bytes \<Rightarrow> bytes \<Rightarrow> int \<Rightarrow> bool result" where
  "VerifyPassword password salt expected iterations =
     (if length salt = 0 \<or> length expected = 0 \<or> iterations \<le> 0 then Inr False
      else bindE (pbkdf2_Key password salt (nat iterations) (length expected)) (\<lambda>got.
           if length got \<noteq> length expected then Inr False
           else Inr (ConstantTimeCompare got expected = 1 \<and> got \<noteq> [])))"

lemma VerifyPassword_True:
  "VerifyPassword password salt expected iterations = Inr True \<longleftrightarrow>
     salt \<noteq> [] \<and> expected \<noteq> [] \<and> 0 < iterations \<and>
     pbkdf2_Key password salt (nat iterations) (length expected) = Inr expected"
  by (auto simp: VerifyPassword_def result_simps dest: length_pbkdf2_Key)

text \<open>A hash of \<^const>\<open>hashBytes\<close> bytes can always be checked: no error is possible.\<close>

lemma VerifyPassword_total:
  assumes "length expected = hashBytes"
  shows "\<exists>b. VerifyPassword password salt expected iterations = Inr b"
  using pbkdf2_Key_32 [of password salt "nat iterations"] assms
  by (auto simp: VerifyPassword_def hashBytes_def)

lemma HashPassword_Inr:
  assumes "HashPassword rnd p it = Inr (salt, hash)"
  shows "0 < it \<and> rnd saltBytes = Inr salt \<and> pbkdf2_Key p salt (nat it) hashBytes = Inr hash
    \<and> length hash = hashBytes"
  using assms by (auto simp: HashPassword_def result_simps dest: length_pbkdf2_Key split: if_splits)

text \<open>
  A password verifies against the salt and hash that \<^const>\<open>HashPassword\<close> stored for it, and any
  other password verifies exactly when PBKDF2 maps it to the same hash. No error is possible.
\<close>

theorem VerifyPassword_HashPassword:
  assumes "HashPassword rnd p it = Inr (salt, hash)" and "salt \<noteq> []"
  shows "VerifyPassword p salt hash it = Inr True \<and>
    (\<forall>q. VerifyPassword q salt hash it =
      Inr (pbkdf2_Key q salt (nat it) hashBytes = pbkdf2_Key p salt (nat it) hashBytes))"
proof -
  note h = HashPassword_Inr [OF assms(1)]
  then have ne: "hash \<noteq> []" by (auto simp: hashBytes_def)
  have "VerifyPassword q salt hash it =
      Inr (pbkdf2_Key q salt (nat it) hashBytes = pbkdf2_Key p salt (nat it) hashBytes)" for q
    using h ne assms(2) VerifyPassword_total [of hash q salt it]
    by (cases "VerifyPassword q salt hash it = Inr True") (auto simp: VerifyPassword_True)
  then show ?thesis by simp
qed

theorem VerifyPassword_HashPassword_witness:
  "\<exists>salt hash. HashPassword (\<lambda>n. Inr (replicate n CHR ''s'')) ''pw'' 2 = Inr (salt, hash) \<and>
     VerifyPassword ''pw'' salt hash 2 = Inr True"
proof -
  let ?rnd = "\<lambda>n. Inr (replicate n CHR ''s'') :: bytes result"
  obtain hash where h: "HashPassword ?rnd ''pw'' 2 = Inr (replicate saltBytes CHR ''s'', hash)"
    using pbkdf2_Key_32 [of "''pw''" "replicate saltBytes CHR ''s''" 2]
    by (auto simp: HashPassword_def hashBytes_def)
  then show ?thesis using VerifyPassword_HashPassword [OF h] by (auto simp: saltBytes_def)
qed

end
