(* ===== verification/ServiceErrors.thy ===== *)
theory ServiceErrors
  imports GoErrors
begin

text \<open>
  \<^verbatim>\<open>internal/service/errors.go\<close>: the service's error type and the code and message a failed
  request is answered with.
\<close>

definition NewAppError :: "string \<Rightarrow> string \<Rightarrow> go_error \<Rightarrow> go_error" where
  "NewAppError code message err = AppErr code message (Some err)"

text \<open>\<^verbatim>\<open>errors.As(err, &app)\<close>: the first \<^verbatim>\<open>*AppError\<close> of the chain.\<close>

fun As_AppError :: "go_error \<Rightarrow> (string \<times> string) option" where
  "As_AppError (AppErr c m e) = Some (c, m)"
| "As_AppError (Wrapped m e) = As_AppError e"
| "As_AppError _ = None"

definition ErrorCode :: "go_error \<Rightarrow> string \<times> string" where
  "ErrorCode err =
     (case As_AppError err of Some cm \<Rightarrow> cm
      | None \<Rightarrow>
          if errors_Is err ErrBadRequest then (''bad_request'', ''Invalid request.'')
          else if errors_Is err ErrUnauthorized then (''unauthorized'', ''Authentication failed.'')
          else if errors_Is err ErrNotFound then (''not_found'', ''Resource not found.'')
          else if errors_Is err ErrPayloadTooLarge
            then (''payload_too_large'', ''Uploaded file is too large.'')
          else if errors_Is err ErrUnsupportedType
            then (''unsupported_media_type'', ''Unsupported file type.'')
          else (''internal_error'', ''Internal server error.''))"

lemma ErrorCode_sentinel [simp]:
  "ErrorCode (Sentinel ErrUnauthorized) = (''unauthorized'', ''Authentication failed.'')"
  "ErrorCode (Sentinel ErrNotFound) = (''not_found'', ''Resource not found.'')"
  "ErrorCode (NewAppError c m e) = (c, m)"
  by (simp_all add: ErrorCode_def NewAppError_def)

text \<open>
  The store's own \<^verbatim>\<open>ErrNotFound\<close> is another variable than the service's: unless the service
  translates it, it is an internal error.
\<close>

lemma ErrorCode_store_not_found:
  "ErrorCode (Sentinel MysqlErrNotFound) = (''internal_error'', ''Internal server error.'')"
  by (simp add: ErrorCode_def)

end
