(* ===== verification/Service.thy ===== *)
theory Service
  imports MysqlStore Config Protocol Token Password ServiceErrors GoMime
begin

text \<open>
  \<^verbatim>\<open>internal/service/service.go\<close>: the operations behind the wire protocol. The three stores are
  Go interfaces and become records of calls over an arbitrary world; a nil interface is
  \<^const>\<open>None\<close>. The operating system (clock, random source, files, the MIME table of the host) is a
  record of calls as well.
\<close>

subsection \<open>Interfaces\<close>

record 'w UserStore =
  us_GetUserAuthByUsername :: "string \<Rightarrow> ('w, UserAuth) io"
  us_GetUserProfileByID :: "nat \<Rightarrow> ('w, StoredProfile) io"
  us_UpdateNickname :: "nat \<Rightarrow> string \<Rightarrow> ('w, StoredProfile) io"
  us_UpdateProfilePicture :: "nat \<Rightarrow> string \<Rightarrow> string \<Rightarrow> nat \<Rightarrow> ('w, StoredProfile) io"

record 'w SessionStore =
  ss_SaveSession :: "string \<Rightarrow> nat \<Rightarrow> int \<Rightarrow> ('w, unit) io"
  ss_GetSession :: "string \<Rightarrow> ('w, nat option) io"
  ss_DeleteSession :: "string \<Rightarrow> ('w, unit) io"

record 'w PictureCache =
  pc_SaveProfilePicture :: "nat \<Rightarrow> nat \<Rightarrow> string \<Rightarrow> bytes \<Rightarrow> ('w, unit) io"
  pc_GetProfilePicture :: "nat \<Rightarrow> nat \<Rightarrow> ('w, (string \<times> bytes) option) io"
  pc_DeleteProfilePicture :: "nat \<Rightarrow> nat \<Rightarrow> ('w, unit) io"

record 'w sysenv =
  env_Now :: "('w, int) io"
  env_Rand :: "nat \<Rightarrow> ('w, bytes) io"
  env_MkdirAll :: "string \<Rightarrow> ('w, unit) io"
  env_WriteFile :: "string \<Rightarrow> bytes \<Rightarrow> ('w, unit) io"
  env_Remove :: "string \<Rightarrow> ('w, unit) io"
  env_ReadFile :: "string \<Rightarrow> ('w, bytes) io"
  env_ExtensionsByType :: "string \<Rightarrow> string list result"

record 'w Service =
  sv_env :: "'w sysenv"
  store :: "'w UserStore"
  sessions :: "'w SessionStore option"
  pictureCache :: "'w PictureCache option"
  tokens :: TokenManager
  uploadDir :: string
  allowedMIMEs :: "string list"
  maxUploadBytes :: int
  profilePictureBaseURL :: string
  passwordIterations :: int
  maxNicknameBytes :: nat

definition New ::
    "'w sysenv \<Rightarrow> string result \<Rightarrow> 'w UserStore \<Rightarrow> Config \<Rightarrow> 'w SessionStore option \<Rightarrow> 'w PictureCache option
     \<Rightarrow> 'w Service result" where
  "New env getwd st cfg optSessions optCache =
     bindE (NewTokenManager (TokenSecret (Security cfg)) (SessionTTL (Security cfg))) (\<lambda>toks.
     bindE (ProfilePictureDirAbs getwd cfg) (\<lambda>dir.
     Inr \<lparr>sv_env = env, store = st, sessions = optSessions, pictureCache = optCache, tokens = toks,
          uploadDir = dir, allowedMIMEs = AllowedMIMETypes (Upload cfg), maxUploadBytes = MaxBytes (Upload cfg),
          profilePictureBaseURL = TrimRight (ProfilePictureBaseURL (HTTP cfg)) (CHR ''/''),
          passwordIterations = PasswordIterations (Security cfg), maxNicknameBytes = 191 * 4\<rparr>))"

subsection \<open>Helpers\<close>

definition decodeBody :: "(string \<Rightarrow> 'b \<Rightarrow> 'b result) \<Rightarrow> string \<Rightarrow> 'b \<Rightarrow> 'b result" where
  "decodeBody dec raw dst =
     (if length raw = 0 then Inl (Sentinel ErrBadRequest) else Unmarshal dec raw dst)"

definition marshal :: "('b \<Rightarrow> string) \<Rightarrow> ('w, 'b) io \<Rightarrow> ('w, string) io" where
  "marshal enc m = bind_io m (\<lambda>v. return_io (enc v))"

definition toProtocolProfile :: "'w Service \<Rightarrow> StoredProfile \<Rightarrow> UserProfile" where
  "toProtocolProfile s profile =
     \<lparr>up_ID = sp_ID profile, up_Username = sp_Username profile, up_Nickname = sp_Nickname profile,
      up_ProfilePictureURL =
        (case ProfilePicturePath profile of
           Some p \<Rightarrow>
             if p \<noteq> [] then profilePictureBaseURL s
               @ (if CHR ''?'' \<in> set (profilePictureBaseURL s) then ''&'' else ''?'')
               @ ''v='' @ FormatUint (ProfileVersion profile)
             else []
         | None \<Rightarrow> [])\<rparr>"

definition extensionFor :: "(string \<Rightarrow> string list result) \<Rightarrow> string \<Rightarrow> string \<Rightarrow> string" where
  "extensionFor extensionsByType contentType fileName =
     (case extensionsByType contentType of
        Inr (e # _) \<Rightarrow> e
      | _ \<Rightarrow>
          let ext = ToLower (Ext fileName) in
          if ext \<in> set [''.jpg'', ''.jpeg'', ''.png'', ''.webp'', ''.gif''] then ext else ''.bin'')"

text \<open>
  \<^verbatim>\<open>if errors.Is(err, mysqlstore.ErrNotFound) { return ErrNotFound }; return err\<close>
\<close>

definition store_error :: "go_error \<Rightarrow> go_error" where
  "store_error err = (if errors_Is err MysqlErrNotFound then Sentinel ErrNotFound else err)"

definition translated :: "('w, 'b) io \<Rightarrow> ('w, 'b) io" where
  "translated m =
     bind_io (try_io m) (\<lambda>res. case res of Inl err \<Rightarrow> fail_io (store_error err) | Inr v \<Rightarrow> return_io v)"

definition invalid_credentials :: go_error where
  "invalid_credentials =
     NewAppError ''invalid_credentials'' ''Invalid username or password.'' (Sentinel ErrUnauthorized)"

subsection \<open>Authentication\<close>

definition issue_token :: "'w Service \<Rightarrow> nat \<Rightarrow> int \<Rightarrow> ('w, string \<times> int) io" where
  "issue_token s userID now =
     bind_io (try_io (env_Rand (sv_env s) 16)) (\<lambda>nonce. lift_io (Issue (\<lambda>_. nonce) (tokens s) userID now))"

definition find_account :: "'w Service \<Rightarrow> string \<Rightarrow> ('w, UserAuth) io" where
  "find_account s username =
     bind_io (try_io (us_GetUserAuthByUsername (store s) username)) (\<lambda>res.
       case res of
         Inl err \<Rightarrow> fail_io (if errors_Is err MysqlErrNotFound then invalid_credentials else err)
       | Inr user \<Rightarrow> return_io user)"

definition save_session :: "'w Service \<Rightarrow> string \<Rightarrow> nat \<Rightarrow> int \<Rightarrow> ('w, unit) io" where
  "save_session s token userID exp =
     (case sessions s of
        None \<Rightarrow> return_io ()
      | Some ss \<Rightarrow>
          bind_io (env_Now (sv_env s)) (\<lambda>now.
            ss_SaveSession ss token userID (exp * 1000000000 - now)))"

definition Login :: "'w Service \<Rightarrow> LoginBody \<Rightarrow> ('w, LoginResult) io" where
  "Login s body =
     (let username = TrimSpace (lb_Username body) in
      if username = [] \<or> lb_Password body = [] then fail_io invalid_credentials
      else
        bind_io (find_account s username) (\<lambda>user.
        bind_io (lift_io (VerifyPassword (lb_Password body) (PasswordSalt user) (PasswordHash user) (PasswordIter user)))
          (\<lambda>ok.
        if \<not> ok then fail_io invalid_credentials
        else
          bind_io (env_Now (sv_env s)) (\<lambda>now.
          bind_io (issue_token s (ua_ID user) now) (\<lambda>(token, exp).
          bind_io (save_session s token (ua_ID user) exp) (\<lambda>_.
          bind_io (us_GetUserProfileByID (store s) (ua_ID user)) (\<lambda>profile.
          return_io \<lparr>lr_Token = token, lr_ExpiresAt = exp, lr_User = toProtocolProfile s profile\<rparr>)))))))"

definition requireUser :: "'w Service \<Rightarrow> string \<Rightarrow> ('w, nat) io" where
  "requireUser s token =
     (if TrimSpace token = [] then fail_io (Sentinel ErrUnauthorized)
      else
        bind_io (env_Now (sv_env s)) (\<lambda>now.
        bind_io (lift_io (Verify (tokens s) token now)) (\<lambda>userID.
        case sessions s of
          None \<Rightarrow> return_io userID
        | Some ss \<Rightarrow>
            bind_io (ss_GetSession ss token) (\<lambda>stored.
              case stored of
                None \<Rightarrow> fail_io (Sentinel ErrUnauthorized)
              | Some storedUserID \<Rightarrow>
                  if storedUserID \<noteq> userID then fail_io (Sentinel ErrUnauthorized)
                  else return_io userID))))"

definition Logout :: "'w Service \<Rightarrow> string \<Rightarrow> ('w, unit) io" where
  "Logout s token =
     (case sessions s of
        None \<Rightarrow> return_io ()
      | Some ss \<Rightarrow> if TrimSpace token = [] then return_io () else ss_DeleteSession ss token)"

subsection \<open>Profiles\<close>

definition GetProfile :: "'w Service \<Rightarrow> nat \<Rightarrow> ('w, UserProfile) io" where
  "GetProfile s userID =
     bind_io (translated (us_GetUserProfileByID (store s) userID)) (\<lambda>p. return_io (toProtocolProfile s p))"

definition invalid_nickname :: go_error where
  "invalid_nickname =
     NewAppError ''invalid_nickname'' ''Nickname must be valid UTF-8 and within the configured length.''
       (Sentinel ErrBadRequest)"

definition Service_UpdateNickname :: "'w Service \<Rightarrow> nat \<Rightarrow> string \<Rightarrow> ('w, UserProfile) io" where
  "Service_UpdateNickname s userID nick =
     (let nickname = TrimSpace nick in
      if nickname = [] \<or> \<not> ValidString nickname \<or> length nickname > maxNicknameBytes s
      then fail_io invalid_nickname
      else bind_io (translated (us_UpdateNickname (store s) userID nickname))
             (\<lambda>p. return_io (toProtocolProfile s p)))"

subsection \<open>Pictures\<close>

definition invalid_upload :: go_error where
  "invalid_upload =
     NewAppError ''invalid_upload'' ''Uploaded file is not valid base64.'' (Sentinel ErrBadRequest)"

text \<open>The checks before anything is stored: the data and the content type.\<close>

definition check_upload :: "'w Service \<Rightarrow> UploadProfilePictureBody \<Rightarrow> (bytes \<times> string) result" where
  "check_upload s body =
     (case DecodeString StdEncoding (ub_DataBase64 body) of
        Inl _ \<Rightarrow> Inl invalid_upload
      | Inr data \<Rightarrow>
          if int (length data) > maxUploadBytes s then Inl (Sentinel ErrPayloadTooLarge)
          else
            let detected = DetectContentType data;
                declared = TrimSpace (hd (split_on (CHR '';'') (ub_ContentType body)));
                contentType = (if declared = [] then detected else declared)
            in if contentType \<notin> set (allowedMIMEs s) then Inl (Sentinel ErrUnsupportedType)
               else if detected \<noteq> ''application/octet-stream'' \<and> detected \<notin> set (allowedMIMEs s)
                 then Inl (Sentinel ErrUnsupportedType)
               else Inr (data, contentType))"

definition upload_path :: "'w Service \<Rightarrow> nat \<Rightarrow> int \<Rightarrow> string \<Rightarrow> string \<Rightarrow> string" where
  "upload_path s userID nanos contentType fileName =
     FormatUint userID @ ''/'' @ Itoa nanos @ extensionFor (env_ExtensionsByType (sv_env s)) contentType fileName"

text \<open>The cache is refreshed at best: its errors are dropped.\<close>

definition refresh_cache ::
    "'w Service \<Rightarrow> nat \<Rightarrow> StoredProfile result \<Rightarrow> StoredProfile \<Rightarrow> string \<Rightarrow> bytes \<Rightarrow> ('w, unit) io" where
  "refresh_cache s userID oldProfile profile contentType data =
     (case pictureCache s of
        None \<Rightarrow> return_io ()
      | Some pc \<Rightarrow>
          bind_io (case oldProfile of
                     Inr old \<Rightarrow>
                       if ProfileVersion old > 0
                       then try_io (pc_DeleteProfilePicture pc userID (ProfileVersion old))
                       else return_io (Inr ())
                   | Inl _ \<Rightarrow> return_io (Inr ())) (\<lambda>_.
          bind_io (try_io (pc_SaveProfilePicture pc userID (ProfileVersion profile) contentType data)) (\<lambda>_.
          return_io ())))"

definition UploadProfilePicture ::
    "'w Service \<Rightarrow> nat \<Rightarrow> UploadProfilePictureBody \<Rightarrow> ('w, UserProfile) io" where
  "UploadProfilePicture s userID body =
     bind_io (lift_io (check_upload s body)) (\<lambda>(data, contentType).
     bind_io (env_Now (sv_env s)) (\<lambda>nanos.
     let relPath = upload_path s userID nanos contentType (ub_FileName body);
         absPath = Join [uploadDir s, relPath] in
     bind_io (try_io (us_GetUserProfileByID (store s) userID)) (\<lambda>oldProfile.
     bind_io (env_MkdirAll (sv_env s) (Dir absPath)) (\<lambda>_.
     bind_io (env_WriteFile (sv_env s) absPath data) (\<lambda>_.
     bind_io (try_io (us_UpdateProfilePicture (store s) userID relPath contentType (length data))) (\<lambda>res.
     case res of
       Inl err \<Rightarrow>
         bind_io (try_io (env_Remove (sv_env s) absPath)) (\<lambda>_. fail_io (store_error err))
     | Inr profile \<Rightarrow>
         bind_io (refresh_cache s userID oldProfile profile contentType data) (\<lambda>_.
         return_io (toProtocolProfile s profile))))))))"

definition cached_picture :: "'w Service \<Rightarrow> nat \<Rightarrow> nat \<Rightarrow> ('w, (string \<times> bytes) option) io" where
  "cached_picture s userID version =
     (case pictureCache s of
        None \<Rightarrow> return_io None
      | Some pc \<Rightarrow> pc_GetProfilePicture pc userID version)"

definition read_picture :: "'w Service \<Rightarrow> string \<Rightarrow> ('w, bytes) io" where
  "read_picture s absPath =
     bind_io (try_io (env_ReadFile (sv_env s) absPath)) (\<lambda>res.
       case res of
         Inl err \<Rightarrow> fail_io (if errors_Is err OsErrNotExist then Sentinel ErrNotFound else err)
       | Inr data \<Rightarrow> return_io data)"

definition fill_cache :: "'w Service \<Rightarrow> nat \<Rightarrow> nat \<Rightarrow> string \<Rightarrow> bytes \<Rightarrow> ('w, unit) io" where
  "fill_cache s userID version mimeType data =
     (case pictureCache s of
        None \<Rightarrow> return_io ()
      | Some pc \<Rightarrow>
          bind_io (try_io (pc_SaveProfilePicture pc userID version mimeType data)) (\<lambda>_. return_io ()))"

definition picture_result :: "string \<Rightarrow> bytes \<Rightarrow> ProfilePictureResult" where
  "picture_result mimeType data =
     \<lparr>pr_ContentType = mimeType, pr_DataBase64 = EncodeToString StdEncoding data\<rparr>"

definition stored_mime :: "StoredProfile \<Rightarrow> string" where
  "stored_mime profile =
     (case ProfilePictureMIME profile of
        Some m \<Rightarrow> if m \<noteq> [] then m else ''application/octet-stream''
      | None \<Rightarrow> ''application/octet-stream'')"

definition Service_GetProfilePicture :: "'w Service \<Rightarrow> nat \<Rightarrow> ('w, ProfilePictureResult) io" where
  "Service_GetProfilePicture s userID =
     bind_io (translated (us_GetUserProfileByID (store s) userID)) (\<lambda>profile.
       case ProfilePicturePath profile of
         None \<Rightarrow> fail_io (Sentinel ErrNotFound)
       | Some path \<Rightarrow>
           if path = [] \<or> ProfileVersion profile = 0 then fail_io (Sentinel ErrNotFound)
           else
             bind_io (cached_picture s userID (ProfileVersion profile)) (\<lambda>hit.
             case hit of
               Some (mimeType, data) \<Rightarrow> return_io (picture_result mimeType data)
             | None \<Rightarrow>
                 bind_io (read_picture s (Join [uploadDir s, Clean path])) (\<lambda>data.
                 let mimeType = stored_mime profile in
                 bind_io (fill_cache s userID (ProfileVersion profile) mimeType data) (\<lambda>_.
                 return_io (picture_result mimeType data)))))"

subsection \<open>Dispatch\<close>

definition body_error :: "string \<Rightarrow> 'b result \<Rightarrow> 'b result" where
  "body_error msg r =
     (case r of Inl err \<Rightarrow> Inl (NewAppError ''bad_request'' msg err) | Inr b \<Rightarrow> Inr b)"

definition Handle :: "'w Service \<Rightarrow> Request \<Rightarrow> ('w, string) io" where
  "Handle s req =
     (if rq_Op req = OpLogin then
        bind_io (lift_io (body_error ''Invalid login body.''
          (decodeBody (dec_LoginBody False) (rq_Body req) zero_LoginBody))) (\<lambda>body.
        marshal marshal_LoginResult (Login s body))
      else if rq_Op req = OpGetProfile then
        bind_io (requireUser s (rq_Token req)) (\<lambda>userID.
        marshal marshal_UserProfile (GetProfile s userID))
      else if rq_Op req = OpGetProfilePicture then
        bind_io (requireUser s (rq_Token req)) (\<lambda>userID.
        marshal marshal_PictureResult (Service_GetProfilePicture s userID))
      else if rq_Op req = OpUpdateNickname then
        bind_io (requireUser s (rq_Token req)) (\<lambda>userID.
        bind_io (lift_io (body_error ''Invalid nickname body.''
          (decodeBody (dec_NicknameBody False) (rq_Body req) zero_NicknameBody))) (\<lambda>body.
        marshal marshal_UserProfile (Service_UpdateNickname s userID (nb_Nickname body))))
      else if rq_Op req = OpUploadProfilePicture then
        bind_io (requireUser s (rq_Token req)) (\<lambda>userID.
        bind_io (lift_io (body_error ''Invalid upload body.''
          (decodeBody dec_UploadBody (rq_Body req) zero_UploadBody))) (\<lambda>body.
        marshal marshal_UserProfile (UploadProfilePicture s userID body)))
      else if rq_Op req = OpLogout then
        bind_io (Logout s (rq_Token req)) (\<lambda>_. return_io ''{}'')
      else fail_io (NewAppError ''unknown_operation'' ''Unknown TCP operation.'' (Sentinel ErrBadRequest)))"

subsection \<open>A sample service\<close>

text \<open>A service without sessions and cache over a fixed account, to apply the properties to.\<close>

definition sample_env :: "unit sysenv" where
  "sample_env = \<lparr>env_Now = return_io 0, env_Rand = (\<lambda>n. return_io (replicate n CHR ''n'')),
     env_MkdirAll = (\<lambda>_. return_io ()), env_WriteFile = (\<lambda>_ _. return_io ()), env_Remove = (\<lambda>_. return_io ()),
     env_ReadFile = (\<lambda>_. fail_io (Sentinel OsErrNotExist)), env_ExtensionsByType = (\<lambda>_. Inr [])\<rparr>"

definition sample_hash :: bytes where
  "sample_hash = (case pbkdf2_Key ''pw'' ''salt'' 1 32 of Inr h \<Rightarrow> h | Inl _ \<Rightarrow> [])"

definition sample_account :: UserAuth where
  "sample_account = \<lparr>ua_ID = 7, ua_Username = ''ann'', ua_Nickname = ''Ann'', PasswordSalt = ''salt'',
     PasswordHash = sample_hash, PasswordIter = 1, ua_ProfilePicturePath = None, ua_ProfilePictureVersion = 0\<rparr>"

definition sample_profile :: StoredProfile where
  "sample_profile = \<lparr>sp_ID = 7, sp_Username = ''ann'', sp_Nickname = ''Ann'', ProfilePicturePath = None,
     ProfilePictureMIME = None, ProfilePictureSize = 0, ProfileVersion = 0\<rparr>"

definition sample_store :: "unit UserStore" where
  "sample_store = \<lparr>
     us_GetUserAuthByUsername = (\<lambda>n. if n = ''ann'' then return_io sample_account else fail_io (Sentinel MysqlErrNotFound)),
     us_GetUserProfileByID = (\<lambda>u. if u = 7 then return_io sample_profile else fail_io (Sentinel MysqlErrNotFound)),
     us_UpdateNickname = (\<lambda>_ _. fail_io (Sentinel MysqlErrNotFound)),
     us_UpdateProfilePicture = (\<lambda>_ _ _ _. fail_io (Sentinel MysqlErrNotFound))\<rparr>"

definition sample_service :: "unit Service" where
  "sample_service = \<lparr>sv_env = sample_env, store = sample_store, sessions = None, pictureCache = None,
     tokens = \<lparr>secret = ''key'', ttl = 60000000000\<rparr>, uploadDir = ''/srv/pics'', allowedMIMEs = [''image/gif''],
     maxUploadBytes = 6, profilePictureBaseURL = ''/p'', passwordIterations = 1, maxNicknameBytes = 764\<rparr>"

lemma sample_password: "VerifyPassword ''pw'' ''salt'' sample_hash 1 = Inr True"
proof -
  obtain h where h: "pbkdf2_Key ''pw'' ''salt'' 1 32 = Inr h" using pbkdf2_Key_32 by blast
  then have "length h = 32" by (rule length_pbkdf2_Key)
  then show ?thesis using h by (auto simp: VerifyPassword_True sample_hash_def)
qed

lemma TrimSpace_Nil [simp]: "TrimSpace [] = []"
  using TrimSpace_sublist [of "[]"] by auto

lemma plain_names [simp]: "TrimSpace ''ann'' = ''ann''" "TrimSpace ''eve'' = ''eve''"
  by (rule TrimSpace_plain; simp add: plain_char_def byte_of_def)+

subsection \<open>Who gets through\<close>

lemma requireUser_Inr:
  assumes "requireUser s tok w = (Inr uid, w')"
  obtains now w1 where "TrimSpace tok \<noteq> []" "env_Now (sv_env s) w = (Inr now, w1)"
    "Verify (tokens s) tok now = Inr uid"
    "case sessions s of None \<Rightarrow> w' = w1 | Some ss \<Rightarrow> ss_GetSession ss tok w1 = (Inr (Some uid), w')"
  using assms
  by (cases "sessions s") (auto simp: requireUser_def bind_io_Inr_iff split: if_splits option.splits intro: that)

definition protected_ops :: "string set" where
  "protected_ops = {OpGetProfile, OpGetProfilePicture, OpUpdateNickname, OpUploadProfilePicture}"

lemma Handle_protected:
  assumes "rq_Op req \<in> protected_ops"
  shows "\<exists>f. Handle s req = bind_io (requireUser s (rq_Token req)) f"
  using assms unfolding protected_ops_def Handle_def by (auto simp: op_defs)

text \<open>
  C2: a protected operation that succeeds was asked for with a token this service signed, that had
  not expired, and whose session (when sessions are kept) is live and belongs to the user the
  token names. When the check fails, the request ends with that error and without any further
  effect: no store, file or cache is touched.
\<close>

theorem Handle_authenticated:
  assumes "rq_Op req \<in> protected_ops"
  shows "(\<forall>out w'. Handle s req w = (Inr out, w') \<longrightarrow>
      (\<exists>uid now w1. env_Now (sv_env s) w = (Inr now, w1) \<and> Verify (tokens s) (rq_Token req) now = Inr uid \<and>
         (\<forall>ss. sessions s = Some ss \<longrightarrow> (\<exists>w2. ss_GetSession ss (rq_Token req) w1 = (Inr (Some uid), w2))))) \<and>
    (\<forall>e w'. requireUser s (rq_Token req) w = (Inl e, w') \<longrightarrow> Handle s req w = (Inl e, w'))"
proof (intro conjI allI impI)
  obtain f where f: "Handle s req = bind_io (requireUser s (rq_Token req)) f"
    using Handle_protected [OF assms] by blast
  fix out w' assume "Handle s req w = (Inr out, w')"
  then obtain uid v where "requireUser s (rq_Token req) w = (Inr uid, v)"
    unfolding f by (auto simp: bind_io_Inr_iff)
  then show "\<exists>uid now w1. env_Now (sv_env s) w = (Inr now, w1) \<and> Verify (tokens s) (rq_Token req) now = Inr uid \<and>
         (\<forall>ss. sessions s = Some ss \<longrightarrow> (\<exists>w2. ss_GetSession ss (rq_Token req) w1 = (Inr (Some uid), w2)))"
    by (rule requireUser_Inr) (auto split: option.splits)
next
  obtain f where f: "Handle s req = bind_io (requireUser s (rq_Token req)) f"
    using Handle_protected [OF assms] by blast
  fix e w' assume "requireUser s (rq_Token req) w = (Inl e, w')"
  then show "Handle s req w = (Inl e, w')" unfolding f by (rule bind_io_Inl)
qed

theorem Handle_authenticated_witness:
  "Handle sample_service (zero_Request\<lparr>rq_Op := OpGetProfile\<rparr>) () = (Inl (Sentinel ErrUnauthorized), ())"
proof -
  have "requireUser sample_service [] () = (Inl (Sentinel ErrUnauthorized), ())"
    by (simp add: requireUser_def)
  then show ?thesis
    using Handle_authenticated [of "zero_Request\<lparr>rq_Op := OpGetProfile\<rparr>" sample_service "()"]
    by (simp add: protected_ops_def zero_Request_def)
qed

subsection \<open>Login\<close>

lemma issue_token_Inr:
  assumes "issue_token s uid now w = (Inr (tok, exp), w')"
  shows "\<exists>rnd. Issue rnd (tokens s) uid now = Inr (tok, exp)"
  using assms by (auto simp: issue_token_def bind_io_Inr_iff)

lemma find_account_run:
  "us_GetUserAuthByUsername (store s) n w = (Inr user, w1) \<Longrightarrow> find_account s n w = (Inr user, w1)"
  "us_GetUserAuthByUsername (store s) n w = (Inl (Sentinel MysqlErrNotFound), w1) \<Longrightarrow>
   find_account s n w = (Inl invalid_credentials, w1)"
  by (simp_all add: find_account_def bind_io_try)

lemma Login_Inr:
  assumes "Login s body w = (Inr r, w')"
  obtains user w1 now w2 w3 w4 profile where
    "find_account s (TrimSpace (lb_Username body)) w = (Inr user, w1)"
    "TrimSpace (lb_Username body) \<noteq> []" "lb_Password body \<noteq> []"
    "VerifyPassword (lb_Password body) (PasswordSalt user) (PasswordHash user) (PasswordIter user) = Inr True"
    "env_Now (sv_env s) w1 = (Inr now, w2)"
    "issue_token s (ua_ID user) now w2 = (Inr (lr_Token r, lr_ExpiresAt r), w3)"
    "save_session s (lr_Token r) (ua_ID user) (lr_ExpiresAt r) w3 = (Inr (), w4)"
    "us_GetUserProfileByID (store s) (ua_ID user) w4 = (Inr profile, w')"
    "lr_User r = toProtocolProfile s profile"
  using assms
  by (auto simp: Login_def Let_def bind_io_Inr_iff split: if_splits intro: that)

text \<open>
  C5: a login succeeds only for an account found under the trimmed user name whose stored hash the
  password verifies against; the token in the answer is accepted for exactly that account until
  it expires, and it was registered with the session store when there is one.
\<close>

theorem Login_sound:
  assumes "Login s body w = (Inr r, w')"
  shows "\<exists>user w1. find_account s (TrimSpace (lb_Username body)) w = (Inr user, w1) \<and>
    VerifyPassword (lb_Password body) (PasswordSalt user) (PasswordHash user) (PasswordIter user) = Inr True \<and>
    (ua_ID user < 2 ^ 64 \<and> int64_range (lr_ExpiresAt r) \<longrightarrow>
       (\<forall>now. Verify (tokens s) (lr_Token r) now =
          (if ua_ID user = 0 \<or> lr_ExpiresAt r \<le> unix now then Inl (Sentinel ErrUnauthorized)
           else Inr (ua_ID user)))) \<and>
    (\<forall>ss. sessions s = Some ss \<longrightarrow>
       (\<exists>ttl w2 w3. ss_SaveSession ss (lr_Token r) (ua_ID user) ttl w2 = (Inr (), w3)))"
  using assms
proof (rule Login_Inr)
  fix user w1 now w2 w3 w4
  assume u: "find_account s (TrimSpace (lb_Username body)) w = (Inr user, w1)"
    "VerifyPassword (lb_Password body) (PasswordSalt user) (PasswordHash user) (PasswordIter user) = Inr True"
    "issue_token s (ua_ID user) now w2 = (Inr (lr_Token r, lr_ExpiresAt r), w3)"
    "save_session s (lr_Token r) (ua_ID user) (lr_ExpiresAt r) w3 = (Inr (), w4)"
  obtain rnd where "Issue rnd (tokens s) (ua_ID user) now = Inr (lr_Token r, lr_ExpiresAt r)"
    using issue_token_Inr [OF u(3)] by blast
  note v = Verify_Issue [OF this]
  have "\<exists>ttl v w3. ss_SaveSession ss (lr_Token r) (ua_ID user) ttl v = (Inr (), w3)" if "sessions s = Some ss" for ss
    using u(4) that by (auto simp: save_session_def bind_io_Inr_iff)
  with u v show ?thesis by blast
qed

lemma sample_login:
  "\<exists>tok. Login sample_service \<lparr>lb_Username = ''ann'', lb_Password = ''pw''\<rparr> () =
     (Inr \<lparr>lr_Token = tok, lr_ExpiresAt = 60, lr_User = toProtocolProfile sample_service sample_profile\<rparr>, ())"
  using sample_password
  by (auto simp: Login_def Let_def find_account_def sample_service_def sample_store_def sample_account_def
      sample_env_def issue_token_def save_session_def bind_io_def try_io_def unix_def Issue_def)

theorem Login_sound_witness:
  "\<exists>r. Login sample_service \<lparr>lb_Username = ''ann'', lb_Password = ''pw''\<rparr> () = (Inr r, ()) \<and>
     Verify (tokens sample_service) (lr_Token r) 0 = Inr 7"
proof -
  obtain r where r: "Login sample_service \<lparr>lb_Username = ''ann'', lb_Password = ''pw''\<rparr> () = (Inr r, ())"
    "lr_ExpiresAt r = 60" using sample_login by auto
  have "find_account sample_service ''ann'' () = (Inr sample_account, ())"
    by (rule find_account_run) (simp add: sample_service_def sample_store_def)
  with Login_sound [OF r(1)] r show ?thesis
    by (auto simp: sample_account_def int64_range_def unix_def)
qed

text \<open>
  An unknown user name and a wrong password are answered alike: the same error with the same
  code and message, so that the answer does not tell whether an account exists.
\<close>

theorem Login_no_enumeration:
  assumes "TrimSpace n \<noteq> []" and "p \<noteq> []"
    and "us_GetUserAuthByUsername (store s) (TrimSpace n) w = (Inl (Sentinel MysqlErrNotFound), w1)
       \<or> (\<exists>user. us_GetUserAuthByUsername (store s) (TrimSpace n) w = (Inr user, w1) \<and>
            VerifyPassword p (PasswordSalt user) (PasswordHash user) (PasswordIter user) = Inr False)"
  shows "Login s \<lparr>lb_Username = n, lb_Password = p\<rparr> w = (Inl invalid_credentials, w1) \<and>
    ErrorCode invalid_credentials = (''invalid_credentials'', ''Invalid username or password.'')"
  using assms
  by (auto simp: Login_def Let_def find_account_run bind_io_def invalid_credentials_def)

theorem Login_no_enumeration_witness:
  "Login sample_service \<lparr>lb_Username = ''eve'', lb_Password = ''pw''\<rparr> () = (Inl invalid_credentials, ())"
proof -
  have "us_GetUserAuthByUsername (store sample_service) (TrimSpace ''eve'') () = (Inl (Sentinel MysqlErrNotFound), ())"
    by (simp add: sample_service_def sample_store_def)
  with Login_no_enumeration [of "''eve''" "''pw''" sample_service "()" "()"] show ?thesis by simp
qed

subsection \<open>Uploads\<close>

text \<open>
  C15: an upload that passes the checks holds exactly the decoded bytes, at most the configured
  number of them, its declared (or else detected) content type is an allowed one, and what the
  bytes themselves look like is allowed too unless it is unknown. A refused upload changes
  nothing.
\<close>

theorem check_upload_sound:
  "(\<forall>data ct. check_upload s body = Inr (data, ct) \<longrightarrow>
      DecodeString StdEncoding (ub_DataBase64 body) = Inr data \<and> int (length data) \<le> maxUploadBytes s \<and>
      ct \<in> set (allowedMIMEs s) \<and>
      DetectContentType data \<in> insert ''application/octet-stream'' (set (allowedMIMEs s))) \<and>
   (\<forall>e. check_upload s body = Inl e \<longrightarrow> UploadProfilePicture s uid body w = (Inl e, w))"
  by (auto simp: check_upload_def UploadProfilePicture_def Let_def split: sum.splits if_splits)

theorem check_upload_sound_witness:
  "check_upload sample_service
     \<lparr>ub_FileName = ''a.gif'', ub_ContentType = [], ub_DataBase64 = EncodeToString StdEncoding ''GIF89a''\<rparr>
     = Inr (''GIF89a'', ''image/gif'') \<and> int (length ''GIF89a'') \<le> maxUploadBytes sample_service"
proof -
  let ?b = "\<lparr>ub_FileName = ''a.gif'', ub_ContentType = [], ub_DataBase64 = EncodeToString StdEncoding ''GIF89a''\<rparr>"
  have "check_upload sample_service ?b = Inr (''GIF89a'', ''image/gif'')"
    by (simp add: check_upload_def sample_service_def DetectContentType_gif)
  with check_upload_sound [of sample_service ?b] show ?thesis by blast
qed

text \<open>The elements of an upload's path are plain, so \<^const>\<open>Clean\<close> has nothing to remove.\<close>

definition slash_free :: "(string \<Rightarrow> string list result) \<Rightarrow> bool" where
  "slash_free ext \<longleftrightarrow> (\<forall>ct es e. ext ct = Inr es \<and> e \<in> set es \<longrightarrow> slash \<notin> set e)"

lemma extensionFor_no_slash:
  assumes "slash_free ext"
  shows "slash \<notin> set (extensionFor ext ct f)"
proof (cases "\<exists>e es. ext ct = Inr (e # es)")
  case True
  then obtain e es where "ext ct = Inr (e # es)" by blast
  moreover from this have "slash \<notin> set e"
    using assms by (metis list.set_intros(1) slash_free_def)
  ultimately show ?thesis by (simp add: extensionFor_def)
next
  case False
  define x where "x = ToLower (Ext f)"
  have eq: "extensionFor ext ct f =
      (if x \<in> set [''.jpg'', ''.jpeg'', ''.png'', ''.webp'', ''.gif''] then x else ''.bin'')"
    using False by (auto simp: extensionFor_def x_def Let_def split: sum.splits list.splits)
  show ?thesis
  proof (cases "x \<in> set [''.jpg'', ''.jpeg'', ''.png'', ''.webp'', ''.gif'']")
    case True
    then show ?thesis unfolding eq by (simp only: if_True) auto
  next
    case False
    then show ?thesis unfolding eq by (simp only: if_False) simp
  qed
qed

lemma digits_plain: "plain_elem (FormatUint n)"
  using hd_FormatUint [of n] FormatUint_set [of slash n]
  by (auto simp: plain_elem_def is_digit_def byte_of_def)

lemma stamped_plain:
  assumes "slash \<notin> set e" "0 \<le> i"
  shows "plain_elem (Itoa i @ e)"
  using assms hd_FormatUint [of "nat i"] FormatUint_set [of slash "nat i"]
  by (cases "FormatUint (nat i)") (auto simp: plain_elem_def Itoa_def is_digit_def byte_of_def)

definition upload_elems :: "'w Service \<Rightarrow> nat \<Rightarrow> int \<Rightarrow> string \<Rightarrow> string \<Rightarrow> string list" where
  "upload_elems s uid nanos ct f =
     [FormatUint uid, Itoa nanos @ extensionFor (env_ExtensionsByType (sv_env s)) ct f]"

lemma upload_path_elems: "upload_path s uid nanos ct f = join_with slash (upload_elems s uid nanos ct f)"
  by (simp add: upload_path_def upload_elems_def)

lemma upload_elems_plain:
  "slash_free (env_ExtensionsByType (sv_env s)) \<Longrightarrow> 0 \<le> nanos \<Longrightarrow> list_all plain_elem (upload_elems s uid nanos ct f)"
  by (simp add: upload_elems_def digits_plain stamped_plain extensionFor_no_slash)



end
