(* ===== verification/TcpServer.thy ===== *)
theory TcpServer
  imports Service Frame
begin

text \<open>
  The TCP backend of \<^verbatim>\<open>internal/service/tcp_server.go\<close>: connections that read requests and put them
  into a bounded queue, and workers that take them out, handle them and send the response back
  over a channel of the request's own. The goroutines are interleaved by a step relation. One step
  is what a goroutine does between two points where it may be held up; a handler runs in one step.
\<close>

subsection \<open>State\<close>

record tcpJob =
  job_req :: Request
  job_resp :: nat   \<comment> \<open>the response channel\<close>

text \<open>
  A connection is at the top of its loop, or waiting at the second \<^verbatim>\<open>select\<close> with the request it has
  handed over, or closed. \<open>cn_asked\<close> and \<open>cn_answers\<close> are history: the requests read (\<^const>\<open>None\<close> for one
  that did not parse) and the responses given to \<^verbatim>\<open>writeResponse\<close>.
\<close>

datatype conn_state = Reading | Waiting Request nat | ConnClosed

record conn =
  cn_in :: reader
  cn_out :: writer
  cn_state :: conn_state
  cn_asked :: "Request option list"
  cn_answers :: "Response list"

datatype worker_state = Idle | Handling tcpJob | Sending Response nat | Stopped

datatype server_phase = Accepting | Draining | Returned

record 'w TCPServer =
  ts_world :: 'w
  ts_jobs :: "tcpJob list"
  ts_closed :: bool                    \<comment> \<open>\<open>close(s.jobs)\<close> has happened\<close>
  ts_chans :: "nat \<Rightarrow> Response option" \<comment> \<open>response channels, each with room for one value\<close>
  ts_next :: nat                       \<comment> \<open>the next channel to be made\<close>
  ts_conns :: "conn list"
  ts_workers :: "worker_state list"
  ts_done :: bool                      \<comment> \<open>the context has ended\<close>
  ts_phase :: server_phase
  ts_crash :: "string option"          \<comment> \<open>a panic has ended the process\<close>

text \<open>\<^verbatim>\<open>make(chan tcpJob, cfg.QueueSize)\<close> panics for a negative size.\<close>

definition NewTCPServer :: "TCPConfig \<Rightarrow> 'w \<Rightarrow> 'w TCPServer result" where
  "NewTCPServer cfg w =
     (if QueueSize cfg < 0 then Inl (Panic ''makechan: size out of range'')
      else Inr \<lparr>ts_world = w, ts_jobs = [], ts_closed = False, ts_chans = (\<lambda>_. None), ts_next = 0, ts_conns = [],
        ts_workers = [], ts_done = False, ts_phase = Accepting, ts_crash = None\<rparr>)"

text \<open>The start of \<^verbatim>\<open>ListenAndServe\<close>, given the outcome of \<^verbatim>\<open>net.Listen\<close>.\<close>

definition start_workers :: "TCPConfig \<Rightarrow> unit result \<Rightarrow> 'w TCPServer \<Rightarrow> 'w TCPServer result" where
  "start_workers cfg listen s =
     bindE listen (\<lambda>_.
       let workers = (if WorkerCount cfg \<le> 0 then 1 else WorkerCount cfg)
       in Inr (s\<lparr>ts_workers := replicate (nat workers) Idle\<rparr>))"

subsection \<open>Responses\<close>

definition bad_request :: Response where
  "bad_request = \<lparr>rs_Version = Version, rs_RequestID = [], rs_OK = False, rs_ErrorCode = ''bad_request'',
     rs_Message = ''Invalid JSON request.'', rs_Body = []\<rparr>"

definition server_busy :: "Request \<Rightarrow> Response" where
  "server_busy req = \<lparr>rs_Version = Version, rs_RequestID = rq_RequestID req, rs_OK = False,
     rs_ErrorCode = ''server_busy'', rs_Message = ''Server is busy.'', rs_Body = []\<rparr>"

definition job_response :: "Request \<Rightarrow> string result \<Rightarrow> Response" where
  "job_response req res =
     (case res of
        Inr body \<Rightarrow> \<lparr>rs_Version = Version, rs_RequestID = rq_RequestID req, rs_OK = True, rs_ErrorCode = [],
          rs_Message = [], rs_Body = body\<rparr>
      | Inl err \<Rightarrow> \<lparr>rs_Version = Version, rs_RequestID = rq_RequestID req, rs_OK = False,
          rs_ErrorCode = fst (ErrorCode err), rs_Message = snd (ErrorCode err), rs_Body = []\<rparr>)"

definition writeResponse :: "TCPConfig \<Rightarrow> Response \<Rightarrow> writer \<Rightarrow> writer" where
  "writeResponse cfg resp conn =
     (case marshal_Response resp of
        Inl _ \<Rightarrow> conn
      | Inr data \<Rightarrow> snd (WriteFrame conn data (MaxFrameBytes cfg)))"

text \<open>A connection answers and goes back to the top of its loop.\<close>

definition answer :: "TCPConfig \<Rightarrow> Response \<Rightarrow> conn \<Rightarrow> conn" where
  "answer cfg resp c =
     c\<lparr>cn_out := writeResponse cfg resp (cn_out c), cn_state := Reading, cn_answers := cn_answers c @ [resp]\<rparr>"

text \<open>What one turn of the loop takes off the connection.\<close>

definition asked :: "Request option \<Rightarrow> reader \<Rightarrow> conn \<Rightarrow> conn" where
  "asked req r c = c\<lparr>cn_in := r, cn_asked := cn_asked c @ [req]\<rparr>"

definition set_conn :: "nat \<Rightarrow> conn \<Rightarrow> 'w TCPServer \<Rightarrow> 'w TCPServer" where
  "set_conn i c s = s\<lparr>ts_conns := (ts_conns s)[i := c]\<rparr>"

definition set_worker :: "nat \<Rightarrow> worker_state \<Rightarrow> 'w TCPServer \<Rightarrow> 'w TCPServer" where
  "set_worker k x s = s\<lparr>ts_workers := (ts_workers s)[k := x]\<rparr>"

subsection \<open>Steps\<close>

text \<open>
  A request has been read when the frame is complete and parses. The send to the queue can go ahead
  when there is room in it, or when it is empty and a worker is waiting at it (\<open>hand_over\<close>, which
  matters for a queue of size zero). A worker on its way to the queue is not yet waiting at it, so a
  full queue may be found busy although a worker is idle.
\<close>

definition reads_request :: "TCPConfig \<Rightarrow> conn \<Rightarrow> Request \<Rightarrow> reader \<Rightarrow> bool" where
  "reads_request cfg c req r \<longleftrightarrow>
     (\<exists>payload. ReadFrame (cn_in c) (MaxFrameBytes cfg) = (Inr payload, r) \<and> unmarshal_Request payload = Inr req)"

definition has_room :: "TCPConfig \<Rightarrow> 'w TCPServer \<Rightarrow> bool" where
  "has_room cfg s \<longleftrightarrow> int (length (ts_jobs s)) < QueueSize cfg"

inductive step :: "TCPConfig \<Rightarrow> 'w Service \<Rightarrow> 'w TCPServer \<Rightarrow> 'w TCPServer \<Rightarrow> bool"
  for cfg :: TCPConfig and svc :: "'w Service" where
  \<comment> \<open>the outside world\<close>
  cancel: "ts_crash s = None \<Longrightarrow> step cfg svc s (s\<lparr>ts_done := True\<rparr>)"
| arrive: "ts_crash s = None \<Longrightarrow> i < length (ts_conns s) \<Longrightarrow> c = ts_conns s ! i \<Longrightarrow>
    step cfg svc s (set_conn i (c\<lparr>cn_in := (cn_in c)\<lparr>rd_buf := rd_buf (cn_in c) @ bs\<rparr>\<rparr>) s)"
  \<comment> \<open>ListenAndServe\<close>
| accept: "ts_crash s = None \<Longrightarrow> ts_phase s = Accepting \<Longrightarrow>
    c = \<lparr>cn_in = r, cn_out = out, cn_state = Reading, cn_asked = [], cn_answers = []\<rparr> \<Longrightarrow>
    step cfg svc s (s\<lparr>ts_conns := ts_conns s @ [c]\<rparr>)"
| close_jobs: "ts_crash s = None \<Longrightarrow> ts_phase s = Accepting \<Longrightarrow> ts_done s \<Longrightarrow>
    step cfg svc s (s\<lparr>ts_closed := True, ts_phase := Draining\<rparr>)"
| wait_workers: "ts_crash s = None \<Longrightarrow> ts_phase s = Draining \<Longrightarrow> set (ts_workers s) \<subseteq> {Stopped} \<Longrightarrow>
    step cfg svc s (s\<lparr>ts_phase := Returned\<rparr>)"
  \<comment> \<open>handleConn: reading\<close>
| read_fails: "ts_crash s = None \<Longrightarrow> i < length (ts_conns s) \<Longrightarrow> c = ts_conns s ! i \<Longrightarrow> cn_state c = Reading \<Longrightarrow>
    ReadFrame (cn_in c) (MaxFrameBytes cfg) = (Inl err, r) \<Longrightarrow>
    step cfg svc s (set_conn i (c\<lparr>cn_in := r, cn_state := ConnClosed\<rparr>) s)"
| deadline_fails: "ts_crash s = None \<Longrightarrow> i < length (ts_conns s) \<Longrightarrow> c = ts_conns s ! i \<Longrightarrow> cn_state c = Reading \<Longrightarrow>
    step cfg svc s (set_conn i (c\<lparr>cn_state := ConnClosed\<rparr>) s)"
| bad_json: "ts_crash s = None \<Longrightarrow> i < length (ts_conns s) \<Longrightarrow> c = ts_conns s ! i \<Longrightarrow> cn_state c = Reading \<Longrightarrow>
    ReadFrame (cn_in c) (MaxFrameBytes cfg) = (Inr payload, r) \<Longrightarrow> unmarshal_Request payload = Inl err \<Longrightarrow>
    step cfg svc s (set_conn i (answer cfg bad_request (asked None r c)) s)"
  \<comment> \<open>handleConn: the first select\<close>
| enqueue: "ts_crash s = None \<Longrightarrow> i < length (ts_conns s) \<Longrightarrow> c = ts_conns s ! i \<Longrightarrow> cn_state c = Reading \<Longrightarrow>
    reads_request cfg c req r \<Longrightarrow> \<not> ts_closed s \<Longrightarrow> has_room cfg s \<Longrightarrow>
    step cfg svc s (set_conn i ((asked (Some req) r c)\<lparr>cn_state := Waiting req (ts_next s)\<rparr>)
      (s\<lparr>ts_jobs := ts_jobs s @ [\<lparr>job_req = req, job_resp = ts_next s\<rparr>], ts_next := Suc (ts_next s)\<rparr>))"
| hand_over: "ts_crash s = None \<Longrightarrow> i < length (ts_conns s) \<Longrightarrow> c = ts_conns s ! i \<Longrightarrow> cn_state c = Reading \<Longrightarrow>
    reads_request cfg c req r \<Longrightarrow> \<not> ts_closed s \<Longrightarrow> ts_jobs s = [] \<Longrightarrow> k < length (ts_workers s) \<Longrightarrow> ts_workers s ! k = Idle \<Longrightarrow>
    step cfg svc s (set_conn i ((asked (Some req) r c)\<lparr>cn_state := Waiting req (ts_next s)\<rparr>)
      (set_worker k (Handling \<lparr>job_req = req, job_resp = ts_next s\<rparr>) (s\<lparr>ts_next := Suc (ts_next s)\<rparr>)))"
| send_closed: "ts_crash s = None \<Longrightarrow> i < length (ts_conns s) \<Longrightarrow> c = ts_conns s ! i \<Longrightarrow> cn_state c = Reading \<Longrightarrow>
    reads_request cfg c req r \<Longrightarrow> ts_closed s \<Longrightarrow>
    step cfg svc s (s\<lparr>ts_crash := Some ''send on closed channel''\<rparr>)"
| leave: "ts_crash s = None \<Longrightarrow> i < length (ts_conns s) \<Longrightarrow> c = ts_conns s ! i \<Longrightarrow> cn_state c = Reading \<Longrightarrow>
    reads_request cfg c req r \<Longrightarrow> ts_done s \<Longrightarrow>
    step cfg svc s (set_conn i ((asked (Some req) r c)\<lparr>cn_state := ConnClosed\<rparr>) s)"
| busy: "ts_crash s = None \<Longrightarrow> i < length (ts_conns s) \<Longrightarrow> c = ts_conns s ! i \<Longrightarrow> cn_state c = Reading \<Longrightarrow>
    reads_request cfg c req r \<Longrightarrow> \<not> ts_closed s \<Longrightarrow> \<not> ts_done s \<Longrightarrow> \<not> has_room cfg s \<Longrightarrow>
    step cfg svc s (set_conn i (answer cfg (server_busy req) (asked (Some req) r c)) s)"
  \<comment> \<open>handleConn: the second select\<close>
| respond: "ts_crash s = None \<Longrightarrow> i < length (ts_conns s) \<Longrightarrow> c = ts_conns s ! i \<Longrightarrow> cn_state c = Waiting req ch \<Longrightarrow>
    ts_chans s ch = Some resp \<Longrightarrow>
    step cfg svc s (set_conn i (answer cfg resp c) (s\<lparr>ts_chans := (ts_chans s)(ch := None)\<rparr>))"
| give_up: "ts_crash s = None \<Longrightarrow> i < length (ts_conns s) \<Longrightarrow> c = ts_conns s ! i \<Longrightarrow> cn_state c = Waiting req ch \<Longrightarrow>
    ts_done s \<Longrightarrow> step cfg svc s (set_conn i (c\<lparr>cn_state := ConnClosed\<rparr>) s)"
  \<comment> \<open>worker\<close>
| take_job: "ts_crash s = None \<Longrightarrow> k < length (ts_workers s) \<Longrightarrow> ts_workers s ! k = Idle \<Longrightarrow> ts_jobs s = job # rest \<Longrightarrow>
    step cfg svc s (set_worker k (Handling job) (s\<lparr>ts_jobs := rest\<rparr>))"
| handle: "ts_crash s = None \<Longrightarrow> k < length (ts_workers s) \<Longrightarrow> ts_workers s ! k = Handling job \<Longrightarrow>
    Handle svc (job_req job) (ts_world s) = (res, w') \<Longrightarrow> \<not> is_panic res \<Longrightarrow>
    step cfg svc s (set_worker k (Sending (job_response (job_req job) res) (job_resp job)) (s\<lparr>ts_world := w'\<rparr>))"
| handler_panics: "ts_crash s = None \<Longrightarrow> k < length (ts_workers s) \<Longrightarrow> ts_workers s ! k = Handling job \<Longrightarrow>
    Handle svc (job_req job) (ts_world s) = (Inl (Panic p), w') \<Longrightarrow>
    step cfg svc s (s\<lparr>ts_world := w', ts_crash := Some p\<rparr>)"
| send: "ts_crash s = None \<Longrightarrow> k < length (ts_workers s) \<Longrightarrow> ts_workers s ! k = Sending resp ch \<Longrightarrow>
    ts_chans s ch = None \<Longrightarrow>
    step cfg svc s (set_worker k Idle (s\<lparr>ts_chans := (ts_chans s)(ch \<mapsto> resp)\<rparr>))"
| stop: "ts_crash s = None \<Longrightarrow> k < length (ts_workers s) \<Longrightarrow>
    (ts_workers s ! k = Idle \<and> (ts_done s \<or> ts_closed s \<and> ts_jobs s = [])) \<or> (\<exists>resp ch. ts_workers s ! k = Sending resp ch \<and> ts_done s) \<Longrightarrow>
    step cfg svc s (set_worker k Stopped s)"

inductive reachable :: "TCPConfig \<Rightarrow> 'w Service \<Rightarrow> 'w TCPServer \<Rightarrow> bool"
  for cfg :: TCPConfig and svc :: "'w Service" where
  start: "NewTCPServer cfg w = Inr s0 \<Longrightarrow> start_workers cfg (Inr ()) s0 = Inr s \<Longrightarrow> reachable cfg svc s"
| more: "reachable cfg svc s \<Longrightarrow> step cfg svc s s' \<Longrightarrow> reachable cfg svc s'"

declare set_conn_def [simp] set_worker_def [simp]

inductive_cases step_elim: "step cfg svc s s'"

subsection \<open>Every request gets its own answer, in order\<close>

definition answers_to :: "'w Service \<Rightarrow> Request \<Rightarrow> Response \<Rightarrow> bool" where
  "answers_to svc req resp \<longleftrightarrow> (\<exists>v. resp = job_response req (fst (Handle svc req v)))"

definition answer_ok :: "'w Service \<Rightarrow> Request option \<Rightarrow> Response \<Rightarrow> bool" where
  "answer_ok svc q resp \<longleftrightarrow>
     (case q of None \<Rightarrow> resp = bad_request | Some req \<Rightarrow> resp = server_busy req \<or> answers_to svc req resp)"

text \<open>
  The answers of a connection so far belong, one by one, to the requests read so far; while it
  waits, the last request has none yet, and a connection that is closed may owe its last one.
\<close>

definition conn_ok :: "'w Service \<Rightarrow> conn \<Rightarrow> bool" where
  "conn_ok svc c \<longleftrightarrow>
     (\<exists>answered owed. cn_asked c = answered @ owed \<and> list_all2 (answer_ok svc) answered (cn_answers c) \<and>
        (case cn_state c of Reading \<Rightarrow> owed = [] | Waiting req ch \<Rightarrow> owed = [Some req] | ConnClosed \<Rightarrow> length owed \<le> 1))"

text \<open>Channels are never used twice: \<open>own\<close> gives the request each was made for.\<close>

definition worker_ok :: "'w Service \<Rightarrow> (nat \<Rightarrow> Request) \<Rightarrow> nat \<Rightarrow> worker_state \<Rightarrow> bool" where
  "worker_ok svc own n x \<longleftrightarrow>
     (case x of Handling j \<Rightarrow> job_resp j < n \<and> own (job_resp j) = job_req j
      | Sending resp ch \<Rightarrow> ch < n \<and> answers_to svc (own ch) resp | _ \<Rightarrow> True)"

definition waiting_ok :: "(nat \<Rightarrow> Request) \<Rightarrow> nat \<Rightarrow> conn \<Rightarrow> bool" where
  "waiting_ok own n c \<longleftrightarrow> (case cn_state c of Waiting req ch \<Rightarrow> ch < n \<and> own ch = req | _ \<Rightarrow> True)"

definition server_inv :: "TCPConfig \<Rightarrow> 'w Service \<Rightarrow> (nat \<Rightarrow> Request) \<Rightarrow> 'w TCPServer \<Rightarrow> bool" where
  "server_inv cfg svc own s \<longleftrightarrow>
     int (length (ts_jobs s)) \<le> QueueSize cfg \<and> (ts_closed s \<longrightarrow> ts_done s) \<and>
     (\<forall>j \<in> set (ts_jobs s). job_resp j < ts_next s \<and> own (job_resp j) = job_req j) \<and>
     (\<forall>x \<in> set (ts_workers s). worker_ok svc own (ts_next s) x) \<and>
     (\<forall>ch resp. ts_chans s ch = Some resp \<longrightarrow> ch < ts_next s \<and> answers_to svc (own ch) resp) \<and>
     (\<forall>c \<in> set (ts_conns s). waiting_ok own (ts_next s) c \<and> conn_ok svc c)"

lemma ok_later:
  "worker_ok svc own n x \<Longrightarrow> worker_ok svc (own(n := req)) (Suc n) x"
  "waiting_ok own n c \<Longrightarrow> waiting_ok (own(n := req)) (Suc n) c"
  by (auto simp: worker_ok_def waiting_ok_def split: worker_state.splits conn_state.splits)

lemma all_set_update: "\<forall>x \<in> set xs. P x \<Longrightarrow> P y \<Longrightarrow> \<forall>x \<in> set (xs[i := y]). P x"
  using set_update_subset_insert [of xs i y] by auto

lemma conn_ok_ask:
  assumes "conn_ok svc c" "cn_state c = Reading"
  shows "conn_ok svc ((asked (Some req) r c)\<lparr>cn_state := Waiting req ch\<rparr>)"
    "conn_ok svc ((asked (Some req) r c)\<lparr>cn_state := ConnClosed\<rparr>)"
proof -
  have a: "list_all2 (answer_ok svc) (cn_asked c) (cn_answers c)" using assms by (auto simp: conn_ok_def)
  show "conn_ok svc ((asked (Some req) r c)\<lparr>cn_state := Waiting req ch\<rparr>)"
    unfolding conn_ok_def using a by (intro exI [of _ "cn_asked c"] exI [of _ "[Some req]"]) (simp add: asked_def)
  show "conn_ok svc ((asked (Some req) r c)\<lparr>cn_state := ConnClosed\<rparr>)"
    unfolding conn_ok_def using a by (intro exI [of _ "cn_asked c"] exI [of _ "[Some req]"]) (simp add: asked_def)
qed

lemma conn_ok_answer_now:
  assumes "conn_ok svc c" "cn_state c = Reading" "answer_ok svc q resp"
  shows "conn_ok svc (answer cfg resp (asked q r c))"
  using assms by (auto simp: conn_ok_def answer_def asked_def intro!: exI [of _ "cn_asked c @ [q]"] list_all2_appendI)

lemma conn_ok_answer:
  assumes "conn_ok svc c" "cn_state c = Waiting req ch" "answers_to svc req resp"
  shows "conn_ok svc (answer cfg resp c)"
  using assms by (auto simp: conn_ok_def answer_ok_def answer_def intro!: exI [of _ "cn_asked c"] list_all2_appendI)

lemma conn_ok_close:
  assumes "conn_ok svc c" "cn_state c \<noteq> ConnClosed"
  shows "conn_ok svc (c\<lparr>cn_state := ConnClosed\<rparr>)" "conn_ok svc (c\<lparr>cn_in := r, cn_state := ConnClosed\<rparr>)"
proof -
  obtain answered owed where a: "cn_asked c = answered @ owed" "list_all2 (answer_ok svc) answered (cn_answers c)"
    and owed: "case cn_state c of Reading \<Rightarrow> owed = [] | Waiting req ch \<Rightarrow> owed = [Some req] | ConnClosed \<Rightarrow> length owed \<le> 1"
    using assms(1) unfolding conn_ok_def by blast
  have "length owed \<le> 1" using owed assms(2) by (auto split: conn_state.splits)
  with a have "\<exists>answered owed. cn_asked c = answered @ owed \<and> list_all2 (answer_ok svc) answered (cn_answers c) \<and> length owed \<le> 1"
    by blast
  then show "conn_ok svc (c\<lparr>cn_state := ConnClosed\<rparr>)" "conn_ok svc (c\<lparr>cn_in := r, cn_state := ConnClosed\<rparr>)"
    by (simp_all add: conn_ok_def)
qed

lemma conn_ok_in: "conn_ok svc (c\<lparr>cn_in := r\<rparr>) = conn_ok svc c" "waiting_ok own n (c\<lparr>cn_in := r\<rparr>) = waiting_ok own n c"
  by (simp_all add: conn_ok_def waiting_ok_def)

lemma waiting_ok_simps [simp]:
  "waiting_ok own n (c\<lparr>cn_state := Waiting req ch\<rparr>) \<longleftrightarrow> ch < n \<and> own ch = req"
  "waiting_ok own n (c\<lparr>cn_state := ConnClosed\<rparr>)" "waiting_ok own n (answer cfg resp c)"
  "waiting_ok own n \<lparr>cn_in = r, cn_out = out, cn_state = Reading, cn_asked = qs, cn_answers = as\<rparr>"
  by (simp_all add: waiting_ok_def answer_def)

lemma server_inv_conn:
  assumes "server_inv cfg svc own s" "waiting_ok own (ts_next s) c" "conn_ok svc c"
  shows "server_inv cfg svc own (set_conn i c s)"
  using assms all_set_update [of "ts_conns s" "\<lambda>c. waiting_ok own (ts_next s) c \<and> conn_ok svc c" c i]
  by (simp add: server_inv_def)

lemma server_inv_worker:
  assumes "server_inv cfg svc own s" "worker_ok svc own (ts_next s) x"
  shows "server_inv cfg svc own (set_worker k x s)"
  using assms all_set_update [of "ts_workers s" "worker_ok svc own (ts_next s)" x k]
  by (simp add: server_inv_def)

lemma server_inv_next:
  assumes "server_inv cfg svc own s"
  shows "server_inv cfg svc (own(ts_next s := req)) (s\<lparr>ts_next := Suc (ts_next s)\<rparr>)"
  using assms ok_later(1) [of svc own "ts_next s" _ req] ok_later(2) [of own "ts_next s" _ req]
  by (auto simp: server_inv_def less_Suc_eq)

lemma server_inv_parts:
  assumes "server_inv cfg svc own s"
  shows "c \<in> set (ts_conns s) \<Longrightarrow> waiting_ok own (ts_next s) c \<and> conn_ok svc c"
    "x \<in> set (ts_workers s) \<Longrightarrow> worker_ok svc own (ts_next s) x"
    "ts_chans s ch = Some resp \<Longrightarrow> ch < ts_next s \<and> answers_to svc (own ch) resp"
    "j \<in> set (ts_jobs s) \<Longrightarrow> job_resp j < ts_next s \<and> own (job_resp j) = job_req j"
  using assms by (auto simp: server_inv_def)

lemma reading_conn:
  assumes "server_inv cfg svc own s" "i < length (ts_conns s)" "c = ts_conns s ! i"
  shows "conn_ok svc c" "waiting_ok own (ts_next s) c"
  using server_inv_parts(1) [OF assms(1)] assms(2,3) by auto

lemma server_inv_step:
  assumes "server_inv cfg svc own s" "step cfg svc s s'"
  shows "\<exists>own. server_inv cfg svc own s'"
  using assms(2,1)
proof (induction rule: step.induct)
  case (enqueue s i c req r)
  let ?own = "own(ts_next s := req)" and ?s = "s\<lparr>ts_next := Suc (ts_next s)\<rparr>"
  have "server_inv cfg svc ?own ?s" using enqueue by (intro server_inv_next)
  then have base: "server_inv cfg svc ?own (s\<lparr>ts_jobs := ts_jobs s @ [\<lparr>job_req = req, job_resp = ts_next s\<rparr>], ts_next := Suc (ts_next s)\<rparr>)"
    using enqueue.hyps(7) by (auto simp: server_inv_def has_room_def)
  note ok = conn_ok_ask(1) [OF reading_conn(1) [OF enqueue.prems enqueue.hyps(2,3)] enqueue.hyps(4)]
  show ?case by (intro exI [of _ ?own] server_inv_conn base ok) simp
next
  case (hand_over s i c req r k)
  let ?own = "own(ts_next s := req)" and ?s = "s\<lparr>ts_next := Suc (ts_next s)\<rparr>"
  have "server_inv cfg svc ?own ?s" using hand_over by (intro server_inv_next)
  then have base: "server_inv cfg svc ?own (set_worker k (Handling \<lparr>job_req = req, job_resp = ts_next s\<rparr>) ?s)"
    by (intro server_inv_worker) (simp_all add: worker_ok_def)
  note ok = conn_ok_ask(1) [OF reading_conn(1) [OF hand_over.prems hand_over.hyps(2,3)] hand_over.hyps(4)]
  show ?case by (intro exI [of _ ?own] server_inv_conn base ok) simp
next
  case (respond s i c req ch resp)
  note c = reading_conn [OF respond.prems respond.hyps(2,3)]
  have "answers_to svc req resp"
    using server_inv_parts(3) [OF respond.prems respond.hyps(5)] c(2) respond.hyps(4) by (simp add: waiting_ok_def)
  then have "conn_ok svc (answer cfg resp c)" using c(1) respond.hyps(4) by (intro conn_ok_answer)
  moreover have "server_inv cfg svc own (s\<lparr>ts_chans := (ts_chans s)(ch := None)\<rparr>)"
    using respond.prems by (simp add: server_inv_def)
  ultimately show ?case by (intro exI [of _ own] server_inv_conn) simp_all
next
  case (handle s k job res w')
  have "worker_ok svc own (ts_next s) (Handling job)"
    using server_inv_parts(2) [OF handle.prems] handle.hyps(2,3) by (metis nth_mem)
  then have "worker_ok svc own (ts_next s) (Sending (job_response (job_req job) res) (job_resp job))"
    using handle.hyps(4) by (auto simp: worker_ok_def answers_to_def) (metis fst_conv)
  moreover have "server_inv cfg svc own (s\<lparr>ts_world := w'\<rparr>)" using handle.prems by (simp add: server_inv_def)
  ultimately show ?case by (intro exI [of _ own] server_inv_worker) simp_all
next
  case (send s k resp ch)
  have "worker_ok svc own (ts_next s) (Sending resp ch)"
    using server_inv_parts(2) [OF send.prems] send.hyps(2,3) by (metis nth_mem)
  then have "server_inv cfg svc own (s\<lparr>ts_chans := (ts_chans s)(ch \<mapsto> resp)\<rparr>)"
    using send.prems by (simp add: server_inv_def worker_ok_def)
  then show ?case by (intro exI [of _ own] server_inv_worker) (simp_all add: worker_ok_def)
next
  case (take_job s k job rest)
  then have "server_inv cfg svc own (s\<lparr>ts_jobs := rest\<rparr>)" by (simp add: server_inv_def)
  moreover have "worker_ok svc own (ts_next s) (Handling job)"
    using server_inv_parts(4) [OF take_job.prems] take_job.hyps(4) by (simp add: worker_ok_def)
  ultimately show ?case by (intro exI [of _ own] server_inv_worker) simp_all
next
  case (bad_json s i c payload r err)
  then show ?case using reading_conn [OF bad_json.prems bad_json.hyps(2,3)]
    by (intro exI [of _ own] server_inv_conn conn_ok_answer_now waiting_ok_simps) (simp_all add: answer_ok_def)
next
  case (busy s i c req r)
  then show ?case using reading_conn [OF busy.prems busy.hyps(2,3)]
    by (intro exI [of _ own] server_inv_conn conn_ok_answer_now waiting_ok_simps) (simp_all add: answer_ok_def)
next
  case (leave s i c req r)
  then show ?case using reading_conn [OF leave.prems leave.hyps(2,3)]
    by (intro exI [of _ own] server_inv_conn conn_ok_ask waiting_ok_simps)
next
  case (read_fails s i c err r)
  then show ?case using reading_conn [OF read_fails.prems read_fails.hyps(2,3)]
    by (intro exI [of _ own] server_inv_conn conn_ok_close waiting_ok_simps) simp_all
next
  case (deadline_fails s i c)
  then show ?case using reading_conn [OF deadline_fails.prems deadline_fails.hyps(2,3)]
    by (intro exI [of _ own] server_inv_conn conn_ok_close waiting_ok_simps) simp_all
next
  case (give_up s i c req ch)
  then show ?case using reading_conn [OF give_up.prems give_up.hyps(2,3)]
    by (intro exI [of _ own] server_inv_conn conn_ok_close waiting_ok_simps) simp_all
next
  case (arrive s i c bs)
  then show ?case using reading_conn [OF arrive.prems arrive.hyps(2,3)]
    by (intro exI [of _ own] server_inv_conn) (simp_all add: conn_ok_in)
next
  case (accept s c r out)
  then have "conn_ok svc c" "waiting_ok own (ts_next s) c" by (simp_all add: conn_ok_def)
  with accept.prems show ?case by (auto simp: server_inv_def intro!: exI [of _ own])
next
  case (stop s k)
  then show ?case by (intro exI [of _ own] server_inv_worker) (simp_all add: worker_ok_def)
qed (auto simp: server_inv_def intro!: exI [of _ own])

lemma reachable_inv: "reachable cfg svc s \<Longrightarrow> \<exists>own. server_inv cfg svc own s"
proof (induction rule: reachable.induct)
  case (start w s0 s)
  then show ?case
    by (auto simp: NewTCPServer_def start_workers_def server_inv_def worker_ok_def Let_def split: if_splits)
next
  case (more s s')
  then show ?case using server_inv_step by blast
qed

end
