(* ===== verification/ServiceCalm.thy ===== *)
theory ServiceCalm
  imports Service
begin

text \<open>
  A worker of the TCP server has no \<^verbatim>\<open>recover\<close>: a panic in a handler ends the process. The handlers
  of \<^verbatim>\<open>internal/service/service.go\<close> have none of their own; what could panic is a store, the cache or
  the operating system.
\<close>

definition calm :: "('w, 'a) io \<Rightarrow> bool" where
  "calm m \<longleftrightarrow> (\<forall>w. \<not> is_panic (fst (m w)))"

named_theorems calm_rules \<open>calls that do not panic\<close>

lemma calm_run [calm_rules]: "calm (return_io x)" "\<not> panics e \<Longrightarrow> calm (fail_io e)" "\<not> is_panic r \<Longrightarrow> calm (lift_io r)"
  by (simp_all add: calm_def)

lemma calm_bind [calm_rules]: "calm m \<Longrightarrow> (\<And>x. calm (f x)) \<Longrightarrow> calm (bind_io m f)"
  unfolding calm_def bind_io_def by (auto split: prod.split sum.split) (metis fst_conv is_panic_simps(2))

text \<open>The error that is handed to the code is not a panic either.\<close>

lemma calm_try [calm_rules]:
  assumes "calm m" "\<And>r. \<not> is_panic r \<Longrightarrow> calm (f r)"
  shows "calm (bind_io (try_io m) f)"
  unfolding calm_def
proof
  fix w
  obtain r w1 where r: "m w = (r, w1)" by fastforce
  then have np: "\<not> is_panic r" using assms(1) by (metis calm_def fst_conv)
  then have "bind_io (try_io m) f w = f r w1" using try_io_eq [of m w r w1] r by (simp add: bind_io_Inr)
  then show "\<not> is_panic (fst (bind_io (try_io m) f w))" using assms(2) [OF np] by (simp add: calm_def)
qed

lemma calm_translated [calm_rules]: "calm m \<Longrightarrow> calm (translated m)"
  unfolding translated_def
  by (rule calm_try) (auto simp: store_error_def split: sum.split intro!: calm_rules)

subsection \<open>The parts of a service\<close>

definition calm_store :: "'w UserStore \<Rightarrow> bool" where
  "calm_store u \<longleftrightarrow> (\<forall>n. calm (us_GetUserAuthByUsername u n)) \<and> (\<forall>i. calm (us_GetUserProfileByID u i)) \<and>
     (\<forall>i n. calm (us_UpdateNickname u i n)) \<and> (\<forall>i p m n. calm (us_UpdateProfilePicture u i p m n))"

definition calm_sessions :: "'w SessionStore \<Rightarrow> bool" where
  "calm_sessions ss \<longleftrightarrow> (\<forall>t u d. calm (ss_SaveSession ss t u d)) \<and> (\<forall>t. calm (ss_GetSession ss t)) \<and>
     (\<forall>t. calm (ss_DeleteSession ss t))"

definition calm_cache :: "'w PictureCache \<Rightarrow> bool" where
  "calm_cache pc \<longleftrightarrow> (\<forall>u v m d. calm (pc_SaveProfilePicture pc u v m d)) \<and> (\<forall>u v. calm (pc_GetProfilePicture pc u v)) \<and>
     (\<forall>u v. calm (pc_DeleteProfilePicture pc u v))"

definition calm_env :: "'w sysenv \<Rightarrow> bool" where
  "calm_env e \<longleftrightarrow> calm (env_Now e) \<and> (\<forall>n. calm (env_Rand e n)) \<and> (\<forall>p. calm (env_MkdirAll e p)) \<and>
     (\<forall>p d. calm (env_WriteFile e p d)) \<and> (\<forall>p. calm (env_Remove e p)) \<and> (\<forall>p. calm (env_ReadFile e p))"

definition calm_service :: "'w Service \<Rightarrow> bool" where
  "calm_service s \<longleftrightarrow> calm_env (sv_env s) \<and> calm_store (store s) \<and>
     (\<forall>ss. sessions s = Some ss \<longrightarrow> calm_sessions ss) \<and> (\<forall>pc. pictureCache s = Some pc \<longrightarrow> calm_cache pc)"

lemma calm_parts [calm_rules]:
  assumes "calm_service s"
  shows "calm (env_Now (sv_env s))" "calm (env_Rand (sv_env s) n)" "calm (env_MkdirAll (sv_env s) p)"
    "calm (env_WriteFile (sv_env s) p d)" "calm (env_Remove (sv_env s) p)" "calm (env_ReadFile (sv_env s) p)"
    "calm (us_GetUserAuthByUsername (store s) p)" "calm (us_GetUserProfileByID (store s) u)"
    "calm (us_UpdateNickname (store s) u p)" "calm (us_UpdateProfilePicture (store s) u p mt n)"
    "sessions s = Some ss \<Longrightarrow> calm (ss_SaveSession ss p u e)" "sessions s = Some ss \<Longrightarrow> calm (ss_GetSession ss p)"
    "sessions s = Some ss \<Longrightarrow> calm (ss_DeleteSession ss p)"
    "pictureCache s = Some pc \<Longrightarrow> calm (pc_SaveProfilePicture pc u v mt d)"
    "pictureCache s = Some pc \<Longrightarrow> calm (pc_GetProfilePicture pc u v)"
    "pictureCache s = Some pc \<Longrightarrow> calm (pc_DeleteProfilePicture pc u v)"
  using assms
  by (auto simp: calm_service_def calm_env_def calm_store_def calm_sessions_def calm_cache_def)

subsection \<open>The pure parts\<close>

lemma pure_no_panic [simp]:
  "\<not> is_panic (Verify m t now)" "\<not> is_panic (VerifyPassword p salt h it)" "\<not> is_panic (check_upload s b)"
  "\<not> is_panic (body_error msg r)"
  by (auto simp: is_panic_def Verify_def VerifyPassword_def pbkdf2_Key_def check_upload_def body_error_def
      NewAppError_def invalid_upload_def Let_def split: sum.split)

lemma Issue_no_panic [simp]: "\<not> is_panic nonce \<Longrightarrow> \<not> is_panic (Issue (\<lambda>_. nonce) m u now)"
  by (cases nonce) (simp_all add: Issue_def Let_def)

lemma error_no_panic [simp]: "\<not> panics (NewAppError c m e)" "\<not> panics invalid_credentials" "\<not> panics invalid_nickname"
  by (simp_all add: NewAppError_def invalid_credentials_def invalid_nickname_def)

lemma panics_if [simp]: "panics (if b then e else e') \<longleftrightarrow> b \<and> panics e \<or> \<not> b \<and> panics e'"
  by simp

lemma calm_try_alone [calm_rules]: "calm m \<Longrightarrow> calm (try_io m)"
  unfolding calm_def try_io_def by (auto split: prod.split sum.split go_error.split) (metis fst_conv is_panic_simps(2) panics.simps(1))

lemma store_error_panics [simp]: "panics (store_error e) \<longleftrightarrow> panics e"
  by (cases e) (auto simp: store_error_def)

subsection \<open>The handlers\<close>

lemma calm_case [calm_rules]:
  "(x = None \<Longrightarrow> calm m) \<Longrightarrow> (\<And>y. x = Some y \<Longrightarrow> calm (f y)) \<Longrightarrow> calm (case x of None \<Rightarrow> m | Some y \<Rightarrow> f y)"
  "(\<And>a b. calm (g a b)) \<Longrightarrow> calm (case p of (a, b) \<Rightarrow> g a b)"
  "(\<And>e. r = Inl e \<Longrightarrow> calm (h e)) \<Longrightarrow> (\<And>v. r = Inr v \<Longrightarrow> calm (k v)) \<Longrightarrow> calm (case r of Inl e \<Rightarrow> h e | Inr v \<Rightarrow> k v)"
  "calm t \<Longrightarrow> calm u \<Longrightarrow> calm (if b then t else u)"
  by (cases x; cases p; cases r; simp)+

lemma calm_marshal [calm_rules]: "calm m \<Longrightarrow> calm (marshal enc m)"
  unfolding marshal_def by (intro calm_rules)

lemma calm_auth [calm_rules]:
  assumes "calm_service s"
  shows "calm (issue_token s u now)" "calm (find_account s n)" "calm (save_session s t u e)"
    "calm (requireUser s t)" "calm (Logout s t)"
  unfolding issue_token_def find_account_def save_session_def requireUser_def Logout_def
  using assms by (auto intro!: calm_rules)

lemma calm_Login [calm_rules]: "calm_service s \<Longrightarrow> calm (Login s b)"
  unfolding Login_def Let_def by (auto intro!: calm_rules)

lemma calm_profile [calm_rules]:
  assumes "calm_service s"
  shows "calm (GetProfile s u)" "calm (Service_UpdateNickname s u n)"
  unfolding GetProfile_def Service_UpdateNickname_def Let_def using assms by (auto intro!: calm_rules)

lemma calm_cache_use [calm_rules]:
  assumes "calm_service s"
  shows "calm (refresh_cache s u old p mt d)" "calm (cached_picture s u v)" "calm (read_picture s p')" "calm (fill_cache s u v mt d)"
  unfolding refresh_cache_def cached_picture_def read_picture_def fill_cache_def using assms by (auto intro!: calm_rules)

lemma calm_pictures [calm_rules]:
  assumes "calm_service s"
  shows "calm (UploadProfilePicture s u b)" "calm (Service_GetProfilePicture s u)"
  unfolding UploadProfilePicture_def Service_GetProfilePicture_def Let_def using assms by (auto intro!: calm_rules)

lemma calm_Handle: "calm_service s \<Longrightarrow> calm (Handle s req)"
  unfolding Handle_def by (intro calm_rules) simp_all

lemma calm_sample: "calm_service sample_service"
  by (auto simp: calm_service_def calm_env_def calm_store_def sample_service_def sample_env_def sample_store_def intro!: calm_rules)



end
