(* ===== verification/TcpLive.thy ===== *)
theory TcpLive
  imports TcpServer ServiceCalm
begin

text \<open>
  Progress of the TCP server: a response channel is in exactly one place (the queue, a worker, or
  the channel itself holding the response) from the moment its request is handed over until the
  connection takes the response, so no worker is ever held up by a response nobody can take, and
  every waiting request can be brought to its answer.
\<close>

subsection \<open>Where a channel is\<close>

definition held :: "nat \<Rightarrow> worker_state \<Rightarrow> nat" where
  "held ch x = (case x of Handling j \<Rightarrow> of_bool (job_resp j = ch) | Sending r c \<Rightarrow> of_bool (c = ch) | _ \<Rightarrow> 0)"

definition queued :: "nat \<Rightarrow> tcpJob list \<Rightarrow> nat" where
  "queued ch js = length (filter (\<lambda>j. job_resp j = ch) js)"

definition waits :: "nat \<Rightarrow> conn \<Rightarrow> nat" where
  "waits ch c = (case cn_state c of Waiting req d \<Rightarrow> of_bool (d = ch) | _ \<Rightarrow> 0)"

definition places :: "'w TCPServer \<Rightarrow> nat \<Rightarrow> nat" where
  "places s ch = queued ch (ts_jobs s) + sum_list (map (held ch) (ts_workers s)) + of_bool (ts_chans s ch \<noteq> None)"

definition waiters :: "'w TCPServer \<Rightarrow> nat \<Rightarrow> nat" where
  "waiters s ch = sum_list (map (waits ch) (ts_conns s))"

definition place_inv :: "'w TCPServer \<Rightarrow> bool" where
  "place_inv s \<longleftrightarrow>
     (\<forall>ch. places s ch \<le> 1 \<and> waiters s ch \<le> 1 \<and> (ts_next s \<le> ch \<longrightarrow> places s ch = 0 \<and> waiters s ch = 0) \<and>
        (\<not> ts_done s \<longrightarrow> waiters s ch \<le> places s ch)) \<and>
     (Stopped \<in> set (ts_workers s) \<longrightarrow> ts_done s) \<and> (ts_closed s \<longrightarrow> ts_done s) \<and> ts_workers s \<noteq> []"

lemma held_simps [simp]:
  "held ch Idle = 0" "held ch Stopped = 0" "held ch (Handling j) = of_bool (job_resp j = ch)"
  "held ch (Sending r c) = of_bool (c = ch)"
  by (simp_all add: held_def)

lemma waits_simps [simp]:
  "waits ch (c\<lparr>cn_state := Waiting req d\<rparr>) = of_bool (d = ch)" "waits ch (c\<lparr>cn_state := ConnClosed\<rparr>) = 0"
  "waits ch (answer cfg resp c) = 0" "cn_state c = Reading \<Longrightarrow> waits ch c = 0" "cn_state c = ConnClosed \<Longrightarrow> waits ch c = 0"
  "cn_state c = Waiting req d \<Longrightarrow> waits ch c = of_bool (d = ch)"
  "waits ch (c\<lparr>cn_in := r\<rparr>) = waits ch c"
  by (simp_all add: waits_def answer_def)

lemma queued_simps [simp]:
  "queued ch [] = 0" "queued ch (j # js) = of_bool (job_resp j = ch) + queued ch js"
  "queued ch (js @ ks) = queued ch js + queued ch ks"
  by (simp_all add: queued_def)

lemma sum_update:
  fixes f :: "'a \<Rightarrow> nat"
  assumes "k < length xs"
  shows "sum_list (map f (xs[k := y])) + f (xs ! k) = sum_list (map f xs) + f y"
proof -
  have "f (xs ! k) \<le> sum_list (map f xs)" using assms by (simp add: member_le_sum_list)
  then show ?thesis using assms by (simp add: map_update sum_list_update)
qed

lemma place_worker:
  assumes "k < length (ts_workers s)"
  shows "places (set_worker k x s) ch + held ch (ts_workers s ! k) = places s ch + held ch x"
  using sum_update [OF assms, of "held ch" x] by (simp add: places_def)

lemma waiters_conn:
  assumes "i < length (ts_conns s)"
  shows "waiters (set_conn i c s) ch + waits ch (ts_conns s ! i) = waiters s ch + waits ch c"
  using sum_update [OF assms, of "waits ch" c] by (simp add: waiters_def)

lemma places_conn [simp]: "places (set_conn i c s) ch = places s ch"
  by (simp add: places_def)

lemma waiters_worker [simp]: "waiters (set_worker k x s) ch = waiters s ch"
  by (simp add: waiters_def)

text \<open>What each part of a step does to a count.\<close>

lemma place_updates [simp]:
  "places (s\<lparr>ts_next := n\<rparr>) ch = places s ch" "waiters (s\<lparr>ts_next := n\<rparr>) ch = waiters s ch"
  "places (s\<lparr>ts_world := v\<rparr>) ch = places s ch" "waiters (s\<lparr>ts_world := v\<rparr>) ch = waiters s ch"
  "waiters (s\<lparr>ts_jobs := js\<rparr>) ch = waiters s ch" "waiters (s\<lparr>ts_chans := cs\<rparr>) ch = waiters s ch"
  "places (s\<lparr>ts_done := b\<rparr>) ch = places s ch" "waiters (s\<lparr>ts_done := b\<rparr>) ch = waiters s ch"
  "places (s\<lparr>ts_crash := x\<rparr>) ch = places s ch" "waiters (s\<lparr>ts_crash := x\<rparr>) ch = waiters s ch"
  "places (s\<lparr>ts_phase := p\<rparr>) ch = places s ch" "waiters (s\<lparr>ts_phase := p\<rparr>) ch = waiters s ch"
  "places (s\<lparr>ts_closed := b\<rparr>) ch = places s ch" "waiters (s\<lparr>ts_closed := b\<rparr>) ch = waiters s ch"
  "places (s\<lparr>ts_conns := xs\<rparr>) ch = places s ch"
  by (simp_all add: places_def waiters_def)

declare set_conn_def [simp del] set_worker_def [simp del]

lemma set_fields [simp]:
  "ts_done (set_conn i c s) = ts_done s" "ts_next (set_conn i c s) = ts_next s" "ts_workers (set_conn i c s) = ts_workers s"
  "ts_closed (set_conn i c s) = ts_closed s" "ts_crash (set_conn i c s) = ts_crash s" "ts_jobs (set_conn i c s) = ts_jobs s"
  "ts_chans (set_conn i c s) = ts_chans s" "ts_conns (set_conn i c s) = (ts_conns s)[i := c]"
  "ts_done (set_worker k x s) = ts_done s" "ts_next (set_worker k x s) = ts_next s" "ts_conns (set_worker k x s) = ts_conns s"
  "ts_closed (set_worker k x s) = ts_closed s" "ts_crash (set_worker k x s) = ts_crash s" "ts_jobs (set_worker k x s) = ts_jobs s"
  "ts_chans (set_worker k x s) = ts_chans s" "ts_workers (set_worker k x s) = (ts_workers s)[k := x]"
  by (simp_all add: set_conn_def set_worker_def)

lemma place_invD:
  assumes "place_inv s"
  shows "places s ch \<le> 1" "waiters s ch \<le> 1" "ts_next s \<le> ch \<Longrightarrow> places s ch = 0" "ts_next s \<le> ch \<Longrightarrow> waiters s ch = 0"
    "\<not> ts_done s \<Longrightarrow> waiters s ch \<le> places s ch" "Stopped \<in> set (ts_workers s) \<Longrightarrow> ts_done s"
    "ts_closed s \<Longrightarrow> ts_done s" "ts_workers s \<noteq> []"
  using assms by (auto simp: place_inv_def)

text \<open>
  A step that leaves the workers' number and moves or frees channels keeps the invariant when, for
  every channel, it changes both counts alike, or only frees.
\<close>

lemma place_inv_keep:
  assumes inv: "place_inv s" and n: "ts_next s \<le> ts_next s'" and d: "ts_done s \<longrightarrow> ts_done s'"
    and counts: "\<And>ch. places s' ch + freed ch = places s ch + made ch \<and> waiters s' ch + freed' ch = waiters s ch + made ch"
    and made: "\<And>ch. made ch = of_bool (ts_next s \<le> ch \<and> ch < ts_next s')"
    and freed: "\<And>ch. \<not> ts_done s' \<Longrightarrow> freed ch \<le> freed' ch"
    and w: "Stopped \<in> set (ts_workers s') \<longrightarrow> ts_done s'" "ts_closed s' \<longrightarrow> ts_done s'" "ts_workers s' \<noteq> []"
  shows "place_inv s'"
  unfolding place_inv_def
proof (intro conjI allI w)
  fix ch
  note old = place_invD(1-5) [OF inv, of ch]
  show "places s' ch \<le> 1"
    using counts [of ch] made [of ch] old(1,3) by (cases "ts_next s \<le> ch"; cases "ch < ts_next s'") auto
  show "waiters s' ch \<le> 1"
    using counts [of ch] made [of ch] old(2,4) by (cases "ts_next s \<le> ch"; cases "ch < ts_next s'") auto
  show "ts_next s' \<le> ch \<longrightarrow> places s' ch = 0 \<and> waiters s' ch = 0"
    using counts [of ch] made [of ch] old(3,4) n by auto
  show "\<not> ts_done s' \<longrightarrow> waiters s' ch \<le> places s' ch"
    using counts [of ch] freed [of ch] old(5) d by linarith
qed

lemma stopped_update: "Stopped \<in> set (xs[k := x]) \<Longrightarrow> x = Stopped \<or> Stopped \<in> set xs"
  using set_update_subset_insert [of xs k x] by auto

text \<open>A step on one connection that was reading and closes, answers or just has more input.\<close>

lemma place_inv_conn:
  assumes inv: "place_inv s" and i: "i < length (ts_conns s)"
    and c: "\<And>ch. waits ch c = waits ch (ts_conns s ! i) \<or> ts_done s \<and> waits ch c = 0"
  shows "place_inv (set_conn i c s)"
proof (rule place_inv_keep [OF inv, where freed = "\<lambda>_. 0" and made = "\<lambda>_. 0"
      and freed' = "\<lambda>ch. waits ch (ts_conns s ! i) - waits ch c"])
  fix ch
  have "waits ch c \<le> waits ch (ts_conns s ! i)" using c [of ch] by auto
  then show "places (set_conn i c s) ch + 0 = places s ch + 0 \<and>
      waiters (set_conn i c s) ch + (waits ch (ts_conns s ! i) - waits ch c) = waiters s ch + 0"
    using waiters_conn [OF i, of c ch] by auto
qed (use place_invD [OF inv] in auto)

lemma place_inv_step:
  assumes "step cfg svc s s'" "place_inv s"
  shows "place_inv s'"
  using assms
proof (induction rule: step.induct)
  case (enqueue s i c req r)
  let ?s = "s\<lparr>ts_jobs := ts_jobs s @ [\<lparr>job_req = req, job_resp = ts_next s\<rparr>], ts_next := Suc (ts_next s)\<rparr>"
  let ?c = "(asked (Some req) r c)\<lparr>cn_state := Waiting req (ts_next s)\<rparr>"
  have p: "places ?s ch = places s ch + of_bool (ts_next s = ch)" for ch by (simp add: places_def)
  have "waiters (set_conn i ?c ?s) ch = waiters s ch + of_bool (ts_next s = ch)" for ch
    using waiters_conn [of i ?s ?c ch] enqueue.hyps(2-4) by simp
  with p show ?case
    using place_invD [OF enqueue.prems]
    by (intro place_inv_keep [OF enqueue.prems, where freed = "\<lambda>_. 0" and freed' = "\<lambda>_. 0"
          and made = "\<lambda>ch. of_bool (ts_next s = ch)"]) auto
next
  case (hand_over s i c req r k)
  let ?s = "s\<lparr>ts_next := Suc (ts_next s)\<rparr>" and ?x = "Handling \<lparr>job_req = req, job_resp = ts_next s\<rparr>"
  let ?c = "(asked (Some req) r c)\<lparr>cn_state := Waiting req (ts_next s)\<rparr>"
  have p: "places (set_worker k ?x ?s) ch = places s ch + of_bool (ts_next s = ch)" for ch
    using place_worker [of k ?s ?x ch] hand_over.hyps by simp
  have "waiters (set_conn i ?c (set_worker k ?x ?s)) ch = waiters s ch + of_bool (ts_next s = ch)" for ch
    using waiters_conn [of i "set_worker k ?x ?s" ?c ch] hand_over.hyps(2-4) by simp
  with p show ?case
    using place_invD [OF hand_over.prems] stopped_update [of "ts_workers s" k ?x]
    by (intro place_inv_keep [OF hand_over.prems, where freed = "\<lambda>_. 0" and freed' = "\<lambda>_. 0"
          and made = "\<lambda>ch. of_bool (ts_next s = ch)"]) auto
next
  case (respond s i c req d resp)
  let ?s = "s\<lparr>ts_chans := (ts_chans s)(d := None)\<rparr>"
  have "places ?s ch + of_bool (d = ch) = places s ch" for ch using respond.hyps(5) by (simp add: places_def)
  moreover have "waiters (set_conn i (answer cfg resp c) ?s) ch + of_bool (d = ch) = waiters s ch" for ch
    using waiters_conn [of i ?s "answer cfg resp c" ch] respond.hyps(2-4) by simp
  ultimately show ?case
    using place_invD [OF respond.prems]
    by (intro place_inv_keep [OF respond.prems, where freed = "\<lambda>ch. of_bool (d = ch)"
          and freed' = "\<lambda>ch. of_bool (d = ch)" and made = "\<lambda>_. 0"]) auto
next
  case (take_job s k job rest)
  let ?s = "s\<lparr>ts_jobs := rest\<rparr>"
  have "places ?s ch + of_bool (job_resp job = ch) = places s ch" for ch using take_job.hyps(4) by (simp add: places_def)
  moreover have "places (set_worker k (Handling job) ?s) ch = places ?s ch + of_bool (job_resp job = ch)" for ch
    using place_worker [of k ?s "Handling job" ch] take_job.hyps by simp
  ultimately show ?case
    using place_invD [OF take_job.prems] stopped_update [of "ts_workers s" k "Handling job"]
    by (intro place_inv_keep [OF take_job.prems, where freed = "\<lambda>_. 0" and freed' = "\<lambda>_. 0" and made = "\<lambda>_. 0"]) auto
next
  case (handle s k job res w')
  let ?x = "Sending (job_response (job_req job) res) (job_resp job)"
  have "places (set_worker k ?x (s\<lparr>ts_world := w'\<rparr>)) ch = places s ch" for ch
    using place_worker [of k "s\<lparr>ts_world := w'\<rparr>" ?x ch] handle.hyps by simp
  then show ?case
    using place_invD [OF handle.prems] stopped_update [of "ts_workers s" k ?x]
    by (intro place_inv_keep [OF handle.prems, where freed = "\<lambda>_. 0" and freed' = "\<lambda>_. 0" and made = "\<lambda>_. 0"]) auto
next
  case (send s k resp d)
  let ?s = "s\<lparr>ts_chans := (ts_chans s)(d \<mapsto> resp)\<rparr>"
  have "places ?s ch = places s ch + of_bool (d = ch)" for ch using send.hyps(4) by (simp add: places_def)
  moreover have "places (set_worker k Idle ?s) ch + of_bool (d = ch) = places ?s ch" for ch
    using place_worker [of k ?s Idle ch] send.hyps by simp
  ultimately have "places (set_worker k Idle ?s) ch = places s ch" for ch by (metis add_right_cancel)
  then show ?case
    using place_invD [OF send.prems] stopped_update [of "ts_workers s" k Idle]
    by (intro place_inv_keep [OF send.prems, where freed = "\<lambda>_. 0" and freed' = "\<lambda>_. 0" and made = "\<lambda>_. 0"]) auto
next
  case (stop s k)
  have "places (set_worker k Stopped s) ch + held ch (ts_workers s ! k) = places s ch" for ch
    using place_worker [of k s Stopped ch] stop.hyps(2) by simp
  moreover have "ts_done s" using stop.hyps(3) place_invD(7) [OF stop.prems] by auto
  ultimately show ?case
    using place_invD [OF stop.prems]
    by (intro place_inv_keep [OF stop.prems, where freed = "\<lambda>ch. held ch (ts_workers s ! k)" and freed' = "\<lambda>_. 0" and made = "\<lambda>_. 0"]) auto
next
  case (accept s c r out)
  then have "waiters (s\<lparr>ts_conns := ts_conns s @ [c]\<rparr>) ch = waiters s ch" for ch by (simp add: waiters_def waits_def)
  then show ?case
    using place_invD [OF accept.prems]
    by (intro place_inv_keep [OF accept.prems, where freed = "\<lambda>_. 0" and freed' = "\<lambda>_. 0" and made = "\<lambda>_. 0"]) auto
next
  case (give_up s i c req ch)
  then show ?case by (intro place_inv_conn) simp_all
qed (auto intro!: place_inv_conn simp: asked_def, auto simp: place_inv_def)

lemma reachable_place: "reachable cfg svc s \<Longrightarrow> place_inv s"
proof (induction rule: reachable.induct)
  case (start w s0 s)
  then show ?case
    by (auto simp: NewTCPServer_def start_workers_def place_inv_def places_def waiters_def queued_def
        sum_list_replicate Let_def split: if_splits)
next
  case (more s s')
  then show ?case using place_inv_step by blast
qed

subsection \<open>Progress\<close>

text \<open>A server that runs: not cancelled, not crashed. Other steps do not change the connections.\<close>

definition running :: "'w TCPServer \<Rightarrow> bool" where
  "running s \<longleftrightarrow> place_inv s \<and> \<not> ts_done s \<and> ts_crash s = None"

definition worker_steps :: "TCPConfig \<Rightarrow> 'w Service \<Rightarrow> 'w TCPServer \<Rightarrow> 'w TCPServer \<Rightarrow> bool" where
  "worker_steps cfg svc s s' \<longleftrightarrow> (step cfg svc)\<^sup>*\<^sup>* s s' \<and> running s' \<and> ts_conns s' = ts_conns s"

lemma worker_step:
  assumes "running s" "step cfg svc s s'" "ts_conns s' = ts_conns s" "ts_done s' = ts_done s" "ts_crash s' = None"
  shows "worker_steps cfg svc s s'"
  using assms place_inv_step by (auto simp: worker_steps_def running_def)

lemma worker_steps_trans: "worker_steps cfg svc s t \<Longrightarrow> worker_steps cfg svc t u \<Longrightarrow> worker_steps cfg svc s u"
  by (auto simp: worker_steps_def)

lemma held_alone:
  assumes "place_inv s" "k < length (ts_workers s)" "held ch (ts_workers s ! k) = 1"
  shows "ts_chans s ch = None"
proof -
  have "held ch (ts_workers s ! k) \<le> sum_list (map (held ch) (ts_workers s))"
    using assms(2) by (simp add: member_le_sum_list)
  then show ?thesis using place_invD(1) [OF assms(1), of ch] assms(3) assms(2)
    by (cases "ts_chans s ch") (auto simp: places_def dest: nth_mem)
qed

lemma free_sender:
  assumes "running s" "k < length (ts_workers s)" "ts_workers s ! k = Sending resp ch"
  shows "\<exists>s'. worker_steps cfg svc s s' \<and> ts_workers s' = (ts_workers s)[k := Idle] \<and> ts_jobs s' = ts_jobs s \<and> ts_chans s' ch \<noteq> None"
proof -
  have "ts_chans s ch = None" using held_alone [of s k ch] assms by (simp add: running_def)
  then have "step cfg svc s (set_worker k Idle (s\<lparr>ts_chans := (ts_chans s)(ch \<mapsto> resp)\<rparr>))"
    using assms by (intro step.send) (simp_all add: running_def)
  from worker_step [OF assms(1) this] show ?thesis using assms(1) by (auto simp: running_def)
qed

lemma free_worker:
  assumes run: "running s" and k: "k < length (ts_workers s)" and np: "\<And>req w. \<not> is_panic (fst (Handle svc req w))"
  shows "\<exists>s'. worker_steps cfg svc s s' \<and> ts_workers s' = (ts_workers s)[k := Idle] \<and> ts_jobs s' = ts_jobs s \<and>
    (\<forall>ch. held ch (ts_workers s ! k) = 1 \<longrightarrow> ts_chans s' ch \<noteq> None)"
proof (cases "ts_workers s ! k")
  case Idle
  then show ?thesis using run by (metis held_simps(1) list_update_id rtranclp.rtrancl_refl worker_steps_def zero_neq_one)
next
  case Stopped
  then have "Stopped \<in> set (ts_workers s)" using k by (metis nth_mem)
  then show ?thesis using run place_invD(6) by (auto simp: running_def)
next
  case (Sending resp ch)
  from free_sender [OF run k this] show ?thesis using Sending by auto
next
  case (Handling job)
  obtain res w' where h: "Handle svc (job_req job) (ts_world s) = (res, w')" by fastforce
  let ?t = "set_worker k (Sending (job_response (job_req job) res) (job_resp job)) (s\<lparr>ts_world := w'\<rparr>)"
  have "step cfg svc s ?t"
    using run k Handling h np [of "job_req job" "ts_world s"] by (intro step.handle) (simp_all add: running_def)
  then have t: "worker_steps cfg svc s ?t" using run by (intro worker_step) (simp_all add: running_def)
  then have "running ?t" by (simp add: worker_steps_def)
  from free_sender [OF this, of k "job_response (job_req job) res" "job_resp job" cfg svc] obtain u where
    "worker_steps cfg svc ?t u" "ts_workers u = (ts_workers s)[k := Idle]" "ts_jobs u = ts_jobs s" "ts_chans u (job_resp job) \<noteq> None"
    using k by auto
  with worker_steps_trans [OF t] Handling show ?thesis by (intro exI [of _ u]) auto
qed

lemma take_answer:
  assumes "running s" "i < length (ts_conns s)" "cn_state (ts_conns s ! i) = Waiting req ch" "ts_chans s ch = Some resp"
  shows "\<exists>s'. step cfg svc s s' \<and> ts_conns s' ! i = answer cfg resp (ts_conns s ! i)"
proof -
  have "step cfg svc s (set_conn i (answer cfg resp (ts_conns s ! i)) (s\<lparr>ts_chans := (ts_chans s)(ch := None)\<rparr>))"
    using assms by (intro step.respond) (simp_all add: running_def)
  moreover have "ts_conns (set_conn i c (s\<lparr>ts_chans := cs\<rparr>)) ! i = c" for c cs using assms(2) by simp
  ultimately show ?thesis by blast
qed

lemma can_answer:
  assumes "running s" "i < length (ts_conns s)" "cn_state (ts_conns s ! i) = Waiting req ch"
    and np: "\<And>req w. \<not> is_panic (fst (Handle svc req w))"
  shows "\<exists>s' resp. (step cfg svc)\<^sup>*\<^sup>* s s' \<and> ts_conns s' ! i = answer cfg resp (ts_conns s ! i)"
  using assms(1-3)
proof (induction "length (ts_jobs s)" arbitrary: s rule: less_induct)
  case less
  have finish: ?case if u: "worker_steps cfg svc s u" "ts_chans u ch \<noteq> None" for u
  proof -
    obtain resp where "ts_chans u ch = Some resp" using u(2) by blast
    moreover have "running u" "ts_conns u = ts_conns s" "(step cfg svc)\<^sup>*\<^sup>* s u" using u(1) by (simp_all add: worker_steps_def)
    ultimately show ?thesis using take_answer [of u i req ch resp cfg svc] less.prems by (metis rtranclp.rtrancl_into_rtrancl)
  qed
  have "waits ch (ts_conns s ! i) \<le> waiters s ch"
    unfolding waiters_def using less.prems(2) by (intro member_le_sum_list) simp_all
  then have pl: "1 \<le> places s ch"
    using place_invD(5) [of s ch] less.prems by (simp add: running_def)
  show ?case
  proof (cases "ts_chans s ch \<noteq> None \<or> (\<exists>k < length (ts_workers s). held ch (ts_workers s ! k) = 1)")
    case True
    then show ?thesis
    proof
      assume "ts_chans s ch \<noteq> None"
      then show ?thesis using less.prems(1) by (intro finish [of s]) (simp_all add: worker_steps_def)
    next
      assume "\<exists>k < length (ts_workers s). held ch (ts_workers s ! k) = 1"
      then show ?thesis using free_worker [OF less.prems(1) _ np] finish by blast
    qed
  next
    case False
    have z: "sum_list (map (held ch) (ts_workers s)) = 0"
    proof -
      have "held ch x = 0 \<or> held ch x = 1" for x by (cases x) auto
      then have "\<forall>x \<in> set (ts_workers s). held ch x = 0" using False by (metis in_set_conv_nth)
      then show ?thesis by simp
    qed
    have "queued ch (ts_jobs s) \<noteq> 0" using pl False unfolding places_def z by simp
    then obtain job rest where js: "ts_jobs s = job # rest" by (cases "ts_jobs s") auto
    have w: "0 < length (ts_workers s)" using less.prems(1) place_invD(8) [of s] by (auto simp: running_def)
    obtain t where t: "worker_steps cfg svc s t" "ts_workers t = (ts_workers s)[0 := Idle]" "ts_jobs t = ts_jobs s"
      using free_worker [OF less.prems(1) w np] by blast
    have rt: "running t" using t(1) by (simp add: worker_steps_def)
    let ?u = "set_worker 0 (Handling job) (t\<lparr>ts_jobs := rest\<rparr>)"
    have "step cfg svc t ?u" using rt t js w by (intro step.take_job) (auto simp: running_def)
    then have "worker_steps cfg svc t ?u" using rt by (intro worker_step) (simp_all add: running_def)
    then have u: "worker_steps cfg svc s ?u" using worker_steps_trans [OF t(1)] by blast
    then have ru: "running ?u" "ts_conns ?u = ts_conns s" "(step cfg svc)\<^sup>*\<^sup>* s ?u" unfolding worker_steps_def by blast+
    have "length (ts_jobs ?u) < length (ts_jobs s)" using js by simp
    from less.hyps [OF this ru(1)] less.prems(2,3) obtain v resp where
      "(step cfg svc)\<^sup>*\<^sup>* ?u v" "ts_conns v ! i = answer cfg resp (ts_conns s ! i)"
      unfolding ru(2) by blast
    with ru(3) show ?thesis by (meson rtranclp_trans)
  qed
qed

subsection \<open>Properties\<close>

text \<open>A server with one worker, a request on its first connection, and where it goes.\<close>

definition tcp_cfg :: "int \<Rightarrow> TCPConfig" where
  "tcp_cfg queue = (TCP Default)\<lparr>WorkerCount := 1, QueueSize := queue\<rparr>"

definition ping_request :: Request where
  "ping_request = \<lparr>rq_Version = 1, rq_RequestID = ''7'', rq_Op = ''Logout'', rq_Token = [], rq_Body = ''{}''\<rparr>"

definition ping_reader :: reader where
  "ping_reader = \<lparr>rd_buf = frame_bytes (projr (marshal_Request ping_request)), rd_end = Sentinel EOF\<rparr>"

definition ping_conn :: conn where
  "ping_conn = \<lparr>cn_in = ping_reader, cn_out = \<lparr>wr_out = [], wr_room = None, wr_err = Sentinel EOF\<rparr>, cn_state = Reading,
     cn_asked = [], cn_answers = []\<rparr>"

definition idle_server :: "unit TCPServer" where
  "idle_server = \<lparr>ts_world = (), ts_jobs = [], ts_closed = False, ts_chans = (\<lambda>_. None), ts_next = 0, ts_conns = [],
     ts_workers = [Idle], ts_done = False, ts_phase = Accepting, ts_crash = None\<rparr>"

lemma idle_reachable: "0 \<le> q \<Longrightarrow> reachable (tcp_cfg q) svc idle_server"
  by (rule reachable.start [of _ "()" "idle_server\<lparr>ts_workers := []\<rparr>"])
    (simp_all add: NewTCPServer_def start_workers_def idle_server_def tcp_cfg_def Let_def)

lemma accepted: "0 \<le> q \<Longrightarrow> reachable (tcp_cfg q) svc (idle_server\<lparr>ts_conns := [ping_conn]\<rparr>)"
  using reachable.more [OF idle_reachable step.accept [where s = idle_server]]
  by (simp add: idle_server_def ping_conn_def)

lemma ping_text:
  "marshal_Request ping_request = Inr ''{\"version\":1,\"request_id\":\"7\",\"op\":\"Logout\",\"body\":{}}''"
  by code_simp

lemma ping_reads: "reads_request (tcp_cfg q) ping_conn ping_request \<lparr>rd_buf = [], rd_end = Sentinel EOF\<rparr>"
proof -
  have "request_ok ping_request" by (simp add: request_ok_def ping_request_def byte_of_def)
  from request_text [OF this] obtain t where t: "marshal_Request ping_request = Inr t" "unmarshal_Request t = Inr ping_request"
    by blast
  then have "frame_ok (MaxFrameBytes (tcp_cfg q)) t"
    using ping_text by (auto simp: frame_ok_def tcp_cfg_def Default_def)
  then show ?thesis using ReadFrame_frame_bytes [of _ t "cn_in ping_conn" "[]"] t
    by (auto simp: reads_request_def ping_conn_def ping_reader_def)
qed

text \<open>The request is in the queue and its connection waits.\<close>

definition waiting_server :: "unit TCPServer" where
  "waiting_server = set_conn 0 ((asked (Some ping_request) \<lparr>rd_buf = [], rd_end = Sentinel EOF\<rparr> ping_conn)\<lparr>cn_state := Waiting ping_request 0\<rparr>)
     (idle_server\<lparr>ts_conns := [ping_conn], ts_jobs := [\<lparr>job_req = ping_request, job_resp = 0\<rparr>], ts_next := 1\<rparr>)"

lemma waiting_reachable: "0 < q \<Longrightarrow> reachable (tcp_cfg q) svc waiting_server"
proof -
  let ?s = "idle_server\<lparr>ts_conns := [ping_conn]\<rparr>"
  assume q: "0 < q"
  have "step (tcp_cfg q) svc ?s (set_conn 0 ((asked (Some ping_request) \<lparr>rd_buf = [], rd_end = Sentinel EOF\<rparr> ping_conn)
      \<lparr>cn_state := Waiting ping_request (ts_next ?s)\<rparr>)
      (?s\<lparr>ts_jobs := ts_jobs ?s @ [\<lparr>job_req = ping_request, job_resp = ts_next ?s\<rparr>], ts_next := Suc (ts_next ?s)\<rparr>))"
    using q by (intro step.enqueue ping_reads) (simp_all add: idle_server_def has_room_def tcp_cfg_def ping_conn_def)
  from reachable.more [OF accepted this] q show ?thesis by (simp add: waiting_server_def idle_server_def set_conn_def)
qed

text \<open>
  C8: every connection gets the answers to its requests, each its own and in the order the requests
  came in. In every state the server can get into, the responses given to a connection belong one by
  one to the requests read from it: to a request that did not parse the bad-request response, to any
  other one the busy response or what the service answers to that very request, under its request
  id. Only the last request may still be without an answer, and it is while the connection waits.
  The queue never holds more than its size.
\<close>

theorem tcp_answers_in_order:
  assumes "reachable cfg svc s"
  shows "int (length (ts_jobs s)) \<le> QueueSize cfg \<and>
    (\<forall>c \<in> set (ts_conns s). \<exists>answered owed. cn_asked c = answered @ owed \<and>
       list_all2 (\<lambda>q resp. case q of None \<Rightarrow> resp = bad_request
         | Some req \<Rightarrow> resp = server_busy req \<or> (\<exists>v. resp = job_response req (fst (Handle svc req v)))) answered (cn_answers c) \<and>
       (case cn_state c of Reading \<Rightarrow> owed = [] | Waiting req ch \<Rightarrow> owed = [Some req] | ConnClosed \<Rightarrow> length owed \<le> 1))"
proof -
  have ok: "(\<lambda>q resp. case q of None \<Rightarrow> resp = bad_request
         | Some req \<Rightarrow> resp = server_busy req \<or> (\<exists>v. resp = job_response req (fst (Handle svc req v)))) = answer_ok svc"
    by (auto simp: fun_eq_iff answer_ok_def answers_to_def split: option.split)
  obtain own where "server_inv cfg svc own s" using reachable_inv [OF assms] by blast
  then show ?thesis unfolding ok server_inv_def conn_ok_def by blast
qed

theorem tcp_answers_in_order_witness:
  "int (length (ts_jobs waiting_server)) \<le> 4 \<and> cn_state (ts_conns waiting_server ! 0) = Waiting ping_request 0"
  using tcp_answers_in_order [OF waiting_reachable [of 4 sample_service]]
  by (simp add: waiting_server_def set_conn_def idle_server_def tcp_cfg_def)

text \<open>
  C9: no request is left behind. While the server runs and no handler panics, the server can always
  go on so that a waiting connection gets its answer, whatever the queue and the other workers
  hold: a worker is never held up by a response nobody takes.
\<close>

theorem tcp_can_answer:
  assumes "reachable cfg svc s" and "\<not> ts_done s" and "ts_crash s = None"
    and "\<forall>req w. \<not> is_panic (fst (Handle svc req w))"
    and "i < length (ts_conns s)" and "cn_state (ts_conns s ! i) = Waiting req ch"
  shows "\<exists>s' resp. (step cfg svc)\<^sup>*\<^sup>* s s' \<and> ts_conns s' ! i = answer cfg resp (ts_conns s ! i) \<and>
    (resp = server_busy req \<or> (\<exists>v. resp = job_response req (fst (Handle svc req v))))"
proof -
  have "running s" using assms(1-3) reachable_place by (auto simp: running_def)
  then obtain s' resp where s': "(step cfg svc)\<^sup>*\<^sup>* s s'" "ts_conns s' ! i = answer cfg resp (ts_conns s ! i)"
    using can_answer [OF _ assms(5,6)] assms(4) by blast
  have more: "reachable cfg svc v \<and> i < length (ts_conns v)" if "(step cfg svc)\<^sup>*\<^sup>* s v" for v
    using that
  proof (induction rule: rtranclp_induct)
    case base
    then show ?case using assms(1,5) by simp
  next
    case (step v u)
    then show ?case by (auto intro: reachable.more elim: step_elim)
  qed
  let ?old = "ts_conns s ! i" and ?c = "answer cfg resp (ts_conns s ! i)"
  have ok: "conn_ok svc ?c" "conn_ok svc ?old"
    using more [OF s'(1)] s'(2) reachable_inv server_inv_parts(1) assms(1,5) by (metis nth_mem)+
  obtain answered where a: "cn_asked ?old = answered @ [Some req]" "length answered = length (cn_answers ?old)"
    using ok(2) assms(6) by (auto simp: conn_ok_def dest: list_all2_lengthD)
  have "list_all2 (answer_ok svc) (answered @ [Some req]) (cn_answers ?old @ [resp])"
    using ok(1) a(1) by (auto simp: conn_ok_def answer_def)
  then have "answer_ok svc (Some req) resp" by (simp add: list_all2_append a(2))
  then show ?thesis using s' by (auto simp: answer_ok_def answers_to_def)
qed

theorem tcp_can_answer_witness:
  "\<exists>s' resp. (step (tcp_cfg 4) sample_service)\<^sup>*\<^sup>* waiting_server s' \<and>
     ts_conns s' ! 0 = answer (tcp_cfg 4) resp (ts_conns waiting_server ! 0)"
proof -
  have "\<not> ts_done waiting_server" "ts_crash waiting_server = None" "0 < length (ts_conns waiting_server)"
    "cn_state (ts_conns waiting_server ! 0) = Waiting ping_request 0"
    by (simp_all add: waiting_server_def set_conn_def idle_server_def)
  from tcp_can_answer [OF waiting_reachable [of 4 sample_service] this(1,2) _ this(3,4)] calm_Handle [OF calm_sample]
  show ?thesis unfolding calm_def by auto
qed

text \<open>
  C32: a panic ends the process only when a handler panics or during shutdown. The second does
  happen: once \<^verbatim>\<open>ListenAndServe\<close> has closed the queue, a connection that reads one more request may
  send it there, and a send on a closed channel panics.
\<close>

theorem tcp_crash:
  assumes "0 \<le> q"
  shows "(\<forall>s. reachable cfg svc s \<and> ts_crash s \<noteq> None \<longrightarrow>
      ts_done s \<and> ts_crash s = Some ''send on closed channel'' \<or> (\<exists>req v p. fst (Handle svc req v) = Inl (Panic p) \<and> ts_crash s = Some p)) \<and>
    (\<exists>s. reachable (tcp_cfg q) (svc' :: unit Service) s \<and> ts_crash s = Some ''send on closed channel'')"
proof
  have "ts_crash s \<noteq> None \<longrightarrow> ts_done s \<and> ts_crash s = Some ''send on closed channel'' \<or>
      (\<exists>req v p. fst (Handle svc req v) = Inl (Panic p) \<and> ts_crash s = Some p)" if "reachable cfg svc s" for s
    using that
  proof (induction rule: reachable.induct)
    case (start w s0 s)
    then show ?case by (auto simp: NewTCPServer_def start_workers_def Let_def split: if_splits)
  next
    case (more s s')
    have closed: "ts_closed s \<longrightarrow> ts_done s" using reachable_place [OF more.hyps(1)] by (simp add: place_inv_def)
    from more.hyps(2) show ?case
    proof (cases rule: step.cases)
      case (handler_panics k job p w')
      then show ?thesis by (auto intro!: exI [of _ "job_req job"] exI [of _ "ts_world s"])
    qed (use closed more.IH in auto)
  qed
  then show "\<forall>s. reachable cfg svc s \<and> ts_crash s \<noteq> None \<longrightarrow>
      ts_done s \<and> ts_crash s = Some ''send on closed channel'' \<or>
      (\<exists>req v p. fst (Handle svc req v) = Inl (Panic p) \<and> ts_crash s = Some p)" by blast
next
  let ?s = "idle_server\<lparr>ts_conns := [ping_conn]\<rparr>"
  have "step (tcp_cfg q) svc' ?s (?s\<lparr>ts_done := True\<rparr>)" by (intro step.cancel) (simp add: idle_server_def)
  then have 1: "reachable (tcp_cfg q) svc' (?s\<lparr>ts_done := True\<rparr>)" using accepted [OF assms] reachable.more by blast
  let ?t = "?s\<lparr>ts_done := True, ts_closed := True, ts_phase := Draining\<rparr>"
  have "step (tcp_cfg q) svc' (?s\<lparr>ts_done := True\<rparr>) ?t"
    using step.close_jobs [of "?s\<lparr>ts_done := True\<rparr>" "tcp_cfg q" svc'] by (simp add: idle_server_def)
  then have 2: "reachable (tcp_cfg q) svc' ?t" using 1 reachable.more by blast
  have "step (tcp_cfg q) svc' ?t (?t\<lparr>ts_crash := Some ''send on closed channel''\<rparr>)"
    by (intro step.send_closed [OF _ _ refl, where i = 0])
      (use ping_reads in \<open>auto simp: idle_server_def ping_conn_def\<close>)
  then show "\<exists>s. reachable (tcp_cfg q) svc' s \<and> ts_crash s = Some ''send on closed channel''"
    using 2 reachable.more by fastforce
qed

theorem tcp_crash_witness:
  "\<exists>s. reachable (tcp_cfg 4) sample_service s \<and> ts_crash s = Some ''send on closed channel''"
  using tcp_crash [of 4 _ _ sample_service] by auto

end
