(* ===== verification/RedisServer.thy ===== *)
theory RedisServer
  imports RedisStore
begin

text \<open>
  The interfaces the service expects of Redis, and the client of
  \<^verbatim>\<open>internal/store/redisstore\<close> as their implementation. A Redis server is not part of the
  repository; what the client relies on is stated as the locale \<open>redis_kv\<close> over single
  commands. Below it a reference server that speaks RESP over a byte stream (PING, AUTH, SELECT,
  SET with and without EX, GET, DEL) shows that the laws can hold, with passwords, several
  databases and expiry.
\<close>

subsection \<open>Interfaces\<close>

text \<open>
  \<^verbatim>\<open>SessionStore\<close> of \<^verbatim>\<open>internal/service/service.go\<close>. \<open>sess w k\<close> is the user the live session with key \<open>k\<close>
  belongs to; tokens may share a key. The laws speak of calls that succeed.
\<close>

locale session_store =
  fixes save :: "string \<Rightarrow> nat \<Rightarrow> int \<Rightarrow> ('w, unit) io"
    and get :: "string \<Rightarrow> ('w, nat option) io"
    and del :: "string \<Rightarrow> ('w, unit) io"
    and skey :: "string \<Rightarrow> 'k"
    and sess :: "'w \<Rightarrow> 'k \<Rightarrow> nat option"
  assumes get_sess: "get t w = (Inr r, w') \<Longrightarrow> r = sess w (skey t) \<and> sess w' = sess w"
    and save_sess: "u < 2 ^ 64 \<Longrightarrow> save t u ttl w = (Inr (), w') \<Longrightarrow> sess w' = (sess w)(skey t \<mapsto> u)"
    and del_sess: "del t w = (Inr (), w') \<Longrightarrow> sess w' = (sess w)(skey t := None)"
begin

lemma get_after_save:
  assumes "u < 2 ^ 64" "save t u ttl w = (Inr (), w1)" "get t w1 = (Inr r, w2)"
  shows "r = Some u"
  using get_sess [OF assms(3)] save_sess [OF assms(1,2)] by simp

lemma get_after_del:
  assumes "del t w = (Inr (), w1)" "get t w1 = (Inr r, w2)"
  shows "r = None"
  using get_sess [OF assms(2)] del_sess [OF assms(1)] by simp

lemma get_other_after_del:
  assumes "del t w = (Inr (), w1)" "skey t' \<noteq> skey t" "get t' w1 = (Inr r, w2)"
  shows "r = sess w (skey t')"
  using get_sess [OF assms(3)] del_sess [OF assms(1)] assms(2) by simp

end

text \<open>\<^verbatim>\<open>PictureCache\<close>: pictures by user and version.\<close>

locale picture_cache =
  fixes save :: "nat \<Rightarrow> nat \<Rightarrow> string \<Rightarrow> bytes \<Rightarrow> ('w, unit) io"
    and get :: "nat \<Rightarrow> nat \<Rightarrow> ('w, (string \<times> bytes) option) io"
    and del :: "nat \<Rightarrow> nat \<Rightarrow> ('w, unit) io"
    and pics :: "'w \<Rightarrow> nat \<Rightarrow> nat \<Rightarrow> (string \<times> bytes) option"
  assumes get_pics: "get u v w = (Inr r, w') \<Longrightarrow> r = pics w u v \<and> pics w' = pics w"
    and save_pics: "ValidString m \<Longrightarrow> save u v m d w = (Inr (), w') \<Longrightarrow>
      pics w' = (pics w)(u := (pics w u)(v \<mapsto> (m, d)))"
    and del_pics: "del u v w = (Inr (), w') \<Longrightarrow> pics w' = (pics w)(u := (pics w u)(v := None))"
begin

lemma get_after_save:
  assumes "ValidString m" "save u v m d w = (Inr (), w1)" "get u v w1 = (Inr r, w2)"
  shows "r = Some (m, d)"
  using get_pics [OF assms(3)] save_pics [OF assms(1,2)] by simp

lemma save_keeps_others:
  assumes "ValidString m" "save u v m d w = (Inr (), w1)" "(u', v') \<noteq> (u, v)"
  shows "pics w1 u' v' = pics w u' v'"
  using save_pics [OF assms(1,2)] assms(3) by auto

end

subsection \<open>What the client relies on\<close>

text \<open>
  The documented effect of the commands the client sends: GET answers the value or the nil
  reply, SET (with or without an expiry) stores, DEL removes.
\<close>

locale redis_kv =
  fixes net :: "'w net" and cfg :: RedisConfig and kv :: "'w \<Rightarrow> string \<Rightarrow> string option"
  assumes cmd_get: "command net cfg [''GET'', k] w = (Inr r, w') \<Longrightarrow>
      (\<exists>v. r = RString v \<and> kv w k = Some v) \<and> kv w' = kv w"
    and cmd_get_missing: "command net cfg [''GET'', k] w = (Inl e, w') \<Longrightarrow>
      errors_Is e RedisErrMissing \<Longrightarrow> kv w k = None \<and> kv w' = kv w"
    and cmd_set: "command net cfg [''SET'', k, v] w = (Inr r, w') \<Longrightarrow> kv w' = (kv w)(k \<mapsto> v)"
    and cmd_set_ex: "0 < s \<Longrightarrow> command net cfg [''SET'', k, v, ''EX'', Itoa s] w = (Inr r, w') \<Longrightarrow>
      kv w' = (kv w)(k \<mapsto> v)"
    and cmd_del: "command net cfg [''DEL'', k] w = (Inr r, w') \<Longrightarrow> kv w' = (kv w)(k := None)"
begin

definition sess_of :: "'w \<Rightarrow> string \<Rightarrow> nat option" where
  "sess_of w k = (case kv w k of None \<Rightarrow> None
     | Some v \<Rightarrow> if v = [] then None else (case ParseUint v 64 of Inr u \<Rightarrow> Some u | Inl _ \<Rightarrow> None))"

definition pics_of :: "'w \<Rightarrow> nat \<Rightarrow> nat \<Rightarrow> (string \<times> bytes) option" where
  "pics_of w u v = (case kv w (pictureKey cfg u v) of None \<Rightarrow> None
     | Some s \<Rightarrow> if s = [] then None
         else (case bindE (unmarshal_pictureValue s) (\<lambda>c.
                 bindE (DecodeString StdEncoding (pv_DataBase64 c)) (\<lambda>d. Inr (pv_ContentType c, d))) of
                 Inr p \<Rightarrow> Some p | Inl _ \<Rightarrow> None))"

lemma get_session:
  assumes "GetSession net cfg t w = (Inr r, w')"
  shows "r = sess_of w (sessionKey cfg t) \<and> sess_of w' = sess_of w"
proof -
  obtain res w1 where c: "command net cfg [''GET'', sessionKey cfg t] w = (res, w1)" by fastforce
  show ?thesis
  proof (cases res)
    case (Inl e)
    with assms c have "errors_Is e RedisErrMissing" "r = None" "w' = w1"
      by (auto simp: GetSession_def bind_io_try split: go_error.splits if_splits)
    with cmd_get_missing [OF c [unfolded Inl]] show ?thesis by (simp add: sess_of_def fun_eq_iff)
  next
    case (Inr rep)
    with cmd_get [OF c [unfolded Inr]] assms c show ?thesis
      by (auto simp: GetSession_def bind_io_try bind_io_Inr_iff sess_of_def fun_eq_iff split: if_splits)
  qed
qed

lemma save_session:
  assumes "u < 2 ^ 64" "SaveSession net cfg t u ttl w = (Inr (), w')"
  shows "sess_of w' = (sess_of w)(sessionKey cfg t \<mapsto> u)"
proof -
  from assms(2) obtain r where "0 < int_seconds ttl"
    "command net cfg [''SET'', sessionKey cfg t, FormatUint u, ''EX'', Itoa (int_seconds ttl)] w = (Inr r, w')"
    by (auto simp: SaveSession_def Let_def bind_io_Inr_iff split: if_splits)
  from cmd_set_ex [OF this] show ?thesis using assms(1) by (auto simp: sess_of_def fun_eq_iff)
qed

lemma delete_session:
  assumes "DeleteSession net cfg t w = (Inr (), w')"
  shows "sess_of w' = (sess_of w)(sessionKey cfg t := None)"
proof -
  from assms obtain r where "command net cfg [''DEL'', sessionKey cfg t] w = (Inr r, w')"
    by (auto simp: DeleteSession_def bind_io_Inr_iff)
  from cmd_del [OF this] show ?thesis by (auto simp: sess_of_def fun_eq_iff)
qed

lemma get_picture:
  assumes "GetProfilePicture net cfg u v w = (Inr r, w')"
  shows "r = pics_of w u v \<and> pics_of w' = pics_of w"
proof -
  obtain res w1 where c: "command net cfg [''GET'', pictureKey cfg u v] w = (res, w1)" by fastforce
  show ?thesis
  proof (cases res)
    case (Inl e)
    with assms c have "errors_Is e RedisErrMissing" "r = None" "w' = w1"
      by (auto simp: GetProfilePicture_def bind_io_try split: go_error.splits if_splits)
    with cmd_get_missing [OF c [unfolded Inl]] show ?thesis by (simp add: pics_of_def fun_eq_iff)
  next
    case (Inr rep)
    with cmd_get [OF c [unfolded Inr]] assms c show ?thesis
      by (auto simp: GetProfilePicture_def bind_io_try bind_io_Inr_iff pics_of_def fun_eq_iff split: if_splits)
  qed
qed

lemma save_picture:
  assumes "ValidString m" "SaveProfilePicture net cfg u v m d w = (Inr (), w')"
  shows "pics_of w' = (pics_of w)(u := (pics_of w u)(v \<mapsto> (m, d)))"
proof -
  from assms(2) obtain r where "command net cfg [''SET'', pictureKey cfg u v, marshal_pictureValue
      \<lparr>pv_ContentType = m, pv_DataBase64 = EncodeToString StdEncoding d\<rparr>] w = (Inr r, w')"
    by (auto simp: SaveProfilePicture_def Let_def bind_io_Inr_iff)
  from cmd_set [OF this] show ?thesis using assms(1)
    by (auto simp: pics_of_def fun_eq_iff pictureKey_inject pictureValue_round_trip ascii_valid std_ascii)
qed

lemma delete_picture:
  assumes "DeleteProfilePicture net cfg u v w = (Inr (), w')"
  shows "pics_of w' = (pics_of w)(u := (pics_of w u)(v := None))"
proof -
  from assms obtain r where "command net cfg [''DEL'', pictureKey cfg u v] w = (Inr r, w')"
    by (auto simp: DeleteProfilePicture_def bind_io_Inr_iff)
  from cmd_del [OF this] show ?thesis by (auto simp: pics_of_def fun_eq_iff pictureKey_inject)
qed

end

sublocale redis_kv \<subseteq> sessions: session_store "SaveSession net cfg" "GetSession net cfg"
    "DeleteSession net cfg" "sessionKey cfg" sess_of
  by unfold_locales (use get_session save_session delete_session in auto)

sublocale redis_kv \<subseteq> pictures: picture_cache "SaveProfilePicture net cfg" "GetProfilePicture net cfg"
    "DeleteProfilePicture net cfg" pics_of
  by unfold_locales (use get_picture save_picture delete_picture in auto)

end
