(* ===== verification/RedisReference.thy ===== *)
theory RedisReference
  imports RedisServer
begin

text \<open>
  A reference Redis server behind a byte stream, on which the laws of \<open>redis_kv\<close> hold for every
  client configuration. It is the concrete instance the properties are applied to.
\<close>

record redis_world = base_world +
  rw_kv :: "nat \<Rightarrow> string \<Rightarrow> (string \<times> int option) option"   \<comment> \<open>per database: value and expiry\<close>
  rw_pass :: string      \<comment> \<open>requirepass, empty for none\<close>
  rw_in :: bytes         \<comment> \<open>input of the current connection not yet read\<close>
  rw_auth :: bool
  rw_db :: nat

datatype resp = Simple string | Err string | Integer int | Bulk string | Nil_reply

fun reply_bytes :: "resp \<Rightarrow> bytes" where
  "reply_bytes (Simple s) = CHR ''+'' # s @ crlf"
| "reply_bytes (Err s) = CHR ''-'' # s @ crlf"
| "reply_bytes (Integer i) = CHR '':'' # Itoa i @ crlf"
| "reply_bytes (Bulk s) = bulk s"
| "reply_bytes Nil_reply = ''$-1'' @ crlf"

definition live :: "'a redis_world_scheme \<Rightarrow> nat \<Rightarrow> string \<Rightarrow> string option" where
  "live w d k = (case rw_kv w d k of
      Some (v, None) \<Rightarrow> Some v
    | Some (v, Some e) \<Rightarrow> if wd_clock w < e then Some v else None
    | None \<Rightarrow> None)"

definition put :: "string \<Rightarrow> (string \<times> int option) option \<Rightarrow> 'a redis_world_scheme \<Rightarrow> 'a redis_world_scheme" where
  "put k x w = w\<lparr>rw_kv := (rw_kv w)(rw_db w := (rw_kv w (rw_db w))(k := x))\<rparr>"

definition exec_data :: "string list \<Rightarrow> 'a redis_world_scheme \<Rightarrow> resp \<times> 'a redis_world_scheme" where
  "exec_data args w =
     (case args of
        [c] \<Rightarrow> if c = ''PING'' then (Simple ''PONG'', w) else (Err ''ERR syntax error'', w)
      | [c, k] \<Rightarrow>
          if c = ''GET'' then (case live w (rw_db w) k of Some v \<Rightarrow> Bulk v | None \<Rightarrow> Nil_reply, w)
          else if c = ''DEL'' then
            (Integer (if live w (rw_db w) k = None then 0 else 1), put k None w)
          else if c = ''SELECT'' then
            (case ParseUint k 64 of
               Inr n \<Rightarrow> if n < 16 then (Simple ''OK'', w\<lparr>rw_db := n\<rparr>) else (Err ''ERR DB index is out of range'', w)
             | Inl _ \<Rightarrow> (Err ''ERR invalid DB index'', w))
          else (Err ''ERR unknown command'', w)
      | [c, k, v] \<Rightarrow> if c = ''SET'' then (Simple ''OK'', put k (Some (v, None)) w) else (Err ''ERR syntax error'', w)
      | [c, k, v, x, s] \<Rightarrow>
          if c = ''SET'' \<and> x = ''EX'' then
            (case Atoi s of
               Inr n \<Rightarrow>
                 if 0 < n then (Simple ''OK'', put k (Some (v, Some (wd_clock w + n * Second))) w)
                 else (Err ''ERR invalid expire time'', w)
             | Inl _ \<Rightarrow> (Err ''ERR value is not an integer'', w))
          else (Err ''ERR syntax error'', w)
      | _ \<Rightarrow> (Err ''ERR unknown command'', w))"

definition exec :: "string list \<Rightarrow> 'a redis_world_scheme \<Rightarrow> resp \<times> 'a redis_world_scheme" where
  "exec args w =
     (if length args = 2 \<and> args ! 0 = ''AUTH'' then
        (if rw_pass w \<noteq> [] \<and> args ! 1 = rw_pass w then (Simple ''OK'', w\<lparr>rw_auth := True\<rparr>)
         else (Err ''ERR invalid password'', w))
      else if \<not> rw_auth w then (Err ''NOAUTH Authentication required.'', w)
      else exec_data args w)"

text \<open>Every complete command of the input is executed; a command has at least one byte.\<close>

fun serve :: "nat \<Rightarrow> 'a redis_world_scheme \<Rightarrow> bytes \<times> 'a redis_world_scheme" where
  "serve 0 w = ([], w)"
| "serve (Suc n) w =
     (case parse_command (rw_in w) of
        None \<Rightarrow> ([], w)
      | Some (args, rest) \<Rightarrow>
          (case exec args (w\<lparr>rw_in := rest\<rparr>) of
             (rep, w1) \<Rightarrow> (case serve n w1 of (out, w2) \<Rightarrow> (reply_bytes rep @ out, w2))))"

definition redis_net :: "'a redis_world_scheme net" where
  "redis_net = \<lparr>
     net_dial = (\<lambda>addr w. (Inr (), w\<lparr>rw_in := [], rw_auth := (rw_pass w = []), rw_db := 0\<rparr>)),
     net_write = (\<lambda>b w. (Inr (), w\<lparr>rw_in := rw_in w @ b\<rparr>)),
     net_recv = (\<lambda>w. case serve (length (rw_in w)) w of
        (out, w1) \<Rightarrow> ((out, Errorf ''i/o timeout''), w1))\<rparr>"

subsection \<open>One exchange\<close>

lemma parse_command_Nil [simp]: "parse_command [] = None"
  by (simp add: parse_command_def parse_count_def)

lemma serve_empty [simp]: "rw_in w = [] \<Longrightarrow> serve n w = ([], w)"
  by (cases n) simp_all

lemma put_in [simp]: "rw_in (put k x w) = rw_in w"
  by (simp add: put_def)

lemma exec_in [simp]: "rw_in (snd (exec args w)) = rw_in w"
proof -
  have "rw_in (snd (exec_data args w)) = rw_in w"
    by (auto simp: exec_data_def split: list.splits sum.splits)
  then show ?thesis by (auto simp: exec_def)
qed

lemma writeCommand_redis: "writeCommand redis_net args w = (Inr (), w\<lparr>rw_in := rw_in w @ command_bytes args\<rparr>)"
  by (rule writeCommand_out [where upd = "\<lambda>x w. w\<lparr>rw_in := x\<rparr>" and out = rw_in])
    (simp_all add: redis_net_def)

lemma recv_redis:
  assumes "rw_in w = command_bytes args"
  shows "net_recv redis_net w =
    (case exec args (w\<lparr>rw_in := []\<rparr>) of (rep, w1) \<Rightarrow> ((reply_bytes rep, Errorf ''i/o timeout''), w1))"
proof -
  obtain rep w1 where e: "exec args (w\<lparr>rw_in := []\<rparr>) = (rep, w1)" by fastforce
  have "rw_in w1 = []" using exec_in [of args "w\<lparr>rw_in := []\<rparr>"] e by simp
  moreover have "parse_command (rw_in w) = Some (args, [])"
    using parse_command_bytes [of args "[]"] assms by simp
  moreover obtain n where "length (rw_in w) = Suc n"
    using assms by (cases "length (rw_in w)") (auto simp: command_bytes_def array_header_def)
  ultimately show ?thesis by (simp add: redis_net_def e)
qed

text \<open>What the client makes of each reply.\<close>

definition line_ok :: "string \<Rightarrow> bool" where
  "line_ok s \<longleftrightarrow> cr \<notin> set s \<and> nl \<notin> set s"

fun resp_ok :: "resp \<Rightarrow> bool" where
  "resp_ok (Simple s) = line_ok s"
| "resp_ok (Err s) = line_ok s"
| "resp_ok (Integer i) = (- (2 ^ 63) \<le> i \<and> i < 2 ^ 63)"
| "resp_ok _ = True"

fun resp_result :: "resp \<Rightarrow> reply result" where
  "resp_result (Simple s) = Inr (RString s)"
| "resp_result (Err s) = Inl (Errorf s)"
| "resp_result (Integer i) = Inr (RInt i)"
| "resp_result (Bulk s) =
     (if int (length s) < 2 ^ 63 then
        if int (length s) + 2 > maxAlloc then Inl (Panic ''runtime error: makeslice: len out of range'')
        else Inr (RString s)
      else Inl err_range)"
| "resp_result Nil_reply = Inl (Sentinel RedisErrMissing)"

lemma line_ok_Itoa: "line_ok (Itoa i)"
  using digits_no_crlf by (auto simp: line_ok_def Itoa_def cr_def nl_def)

lemma readReply_line:
  assumes "line_ok l" "p \<noteq> CHR ''$''"
  shows "readReply (r\<lparr>rd_buf := p # l @ crlf\<rparr>) =
    (if p = CHR ''+'' then Inr (RString l)
     else if p = CHR ''-'' then Inl (Errorf l)
     else if p = CHR '':'' then bindE (ParseInt l 64) (\<lambda>i. Inr (RInt i))
     else Inl (Errorf ''unknown redis reply prefix''), r\<lparr>rd_buf := []\<rparr>)"
  using readLine_line [where l = l and r = r and t = "[]"] assms by (simp add: readReply_def line_ok_def)

lemma Atoi_length:
  "Atoi (FormatUint n) = (if int n < 2 ^ 63 then Inr (int n) else Inl err_range)"
proof (cases "int n < 2 ^ 63")
  case True
  then show ?thesis using Atoi_Itoa [of "int n"] by (simp add: Itoa_nat)
next
  case False
  have "hd (FormatUint n) \<noteq> CHR ''-''" "hd (FormatUint n) \<noteq> CHR ''+''"
    using hd_FormatUint [of n] by (auto simp: is_digit_def byte_of_def)
  with False show ?thesis
    using FormatUint_digits [of n] by (simp add: Atoi_def ParseInt_def)
qed

lemma readReply_reply:
  assumes "resp_ok rep"
  shows "\<exists>r'. readReply (r\<lparr>rd_buf := reply_bytes rep\<rparr>) = (resp_result rep, r')
     \<and> (case resp_result rep of Inr _ \<Rightarrow> rd_buf r' = [] \<and> rd_end r' = rd_end r | Inl _ \<Rightarrow> True)"
proof (cases rep)
  case (Integer i)
  then show ?thesis using readReply_line [of "Itoa i" "CHR '':''" r] line_ok_Itoa assms by simp
next
  case (Bulk s)
  have l: "readLine (r\<lparr>rd_buf := FormatUint (length s) @ crlf @ s @ crlf\<rparr>)
      = (Inr (FormatUint (length s)), r\<lparr>rd_buf := s @ crlf\<rparr>)"
    using digits_no_crlf [of "length s"] by (intro readLine_line)
  have rf: "ReadFull (nat (int (length s) + 2)) (r\<lparr>rd_buf := s @ crlf\<rparr>) = (Inr (s @ crlf), r\<lparr>rd_buf := []\<rparr>)"
    using ReadFull_append [where n = "length s + 2" and xs = "s @ crlf" and r = r and ys = "[]"] by (simp add: nat_add_distrib)
  show ?thesis using l rf by (simp add: Bulk readReply_def bulk_def Itoa_nat Atoi_length)
next
  case Nil_reply
  have "readLine (r\<lparr>rd_buf := ''-1'' @ crlf\<rparr>) = (Inr ''-1'', r\<lparr>rd_buf := []\<rparr>)"
    using readLine_line [where l = "''-1''" and r = r and t = "[]"] by (simp add: cr_def nl_def)
  moreover have "Atoi ''-1'' = Inr (-1)"
    by (simp add: Atoi_def ParseInt_def is_digit_def digits_val_def digit_val_def byte_of_def)
  ultimately show ?thesis by (simp add: Nil_reply readReply_def)
qed (use readReply_line assms in auto)

lemma line_ok_const:
  "line_ok ''OK''" "line_ok ''PONG''" "line_ok ''ERR syntax error''" "line_ok ''ERR unknown command''"
  "line_ok ''ERR DB index is out of range''" "line_ok ''ERR invalid DB index''"
  "line_ok ''ERR invalid expire time''" "line_ok ''ERR value is not an integer''"
  "line_ok ''ERR invalid password''" "line_ok ''NOAUTH Authentication required.''"
  by (simp_all add: line_ok_def cr_def nl_def)

lemma exec_resp_ok: "resp_ok (fst (exec args w))"
proof -
  have "resp_ok (fst (exec_data args w))"
    by (auto simp: exec_data_def line_ok_const split: list.splits sum.splits option.splits)
  then show ?thesis by (auto simp: exec_def line_ok_const)
qed

definition drained :: reader where
  "drained = \<lparr>rd_buf = [], rd_end = Errorf ''i/o timeout''\<rparr>"

lemma exchange_redis:
  assumes "rd_buf r = []" "rw_in w = []" "exec args w = (rep, w1)"
  shows "exchange redis_net args r w =
    (case resp_result rep of Inl e \<Rightarrow> (Inl e, w1) | Inr v \<Rightarrow> (Inr (v, drained), w1))"
proof -
  let ?w = "w\<lparr>rw_in := command_bytes args\<rparr>"
  have "?w\<lparr>rw_in := []\<rparr> = w" using assms(2) by (cases w) simp
  then have rv: "net_recv redis_net ?w = ((reply_bytes rep, Errorf ''i/o timeout''), w1)"
    using recv_redis [of ?w args] assms(3) by simp
  have "resp_ok rep" using exec_resp_ok [of args w] assms(3) by simp
  from readReply_reply [OF this, of drained] obtain r' where
    r': "readReply (drained\<lparr>rd_buf := reply_bytes rep\<rparr>) = (resp_result rep, r')"
    "case resp_result rep of Inr _ \<Rightarrow> rd_buf r' = [] \<and> rd_end r' = rd_end drained | Inl _ \<Rightarrow> True" by blast
  have "r\<lparr>rd_buf := rd_buf r @ reply_bytes rep, rd_end := Errorf ''i/o timeout''\<rparr>
      = drained\<lparr>rd_buf := reply_bytes rep\<rparr>"
    using assms(1) by (simp add: drained_def)
  moreover have "resp_result rep = Inr v \<Longrightarrow> r' = drained" for v
    using r'(2) by (cases r') (simp add: drained_def)
  ultimately show ?thesis using r'(1) assms(2)
    by (auto simp: exchange_def bind_io_def writeCommand_redis await_reply_def rv split: sum.splits)
qed

subsection \<open>One command\<close>

text \<open>The connection after dialling, authenticating and selecting the database.\<close>

definition conn :: "RedisConfig \<Rightarrow> 'a redis_world_scheme \<Rightarrow> 'a redis_world_scheme" where
  "conn cfg w = w\<lparr>rw_in := [], rw_auth := True, rw_db := nat (redis_DB cfg)\<rparr>"

definition not_auth :: "string list \<Rightarrow> bool" where
  "not_auth args \<longleftrightarrow> \<not> (length args = 2 \<and> args ! 0 = ''AUTH'')"

definition server_ok :: "RedisConfig \<Rightarrow> 'a redis_world_scheme \<Rightarrow> bool" where
  "server_ok cfg w \<longleftrightarrow> redis_Addr cfg \<noteq> [] \<and> redis_Password cfg = rw_pass w \<and> redis_DB cfg < 16"

lemma auth_step_redis:
  assumes "rd_buf r = []" "rw_in w = []"
  shows "redis_Password cfg = [] \<Longrightarrow> auth_step redis_net cfg r w = (Inr r, w)"
    and "redis_Password cfg \<noteq> [] \<Longrightarrow> redis_Password cfg = rw_pass w \<Longrightarrow>
      auth_step redis_net cfg r w = (Inr drained, w\<lparr>rw_auth := True\<rparr>)"
    and "redis_Password cfg \<noteq> [] \<Longrightarrow> redis_Password cfg \<noteq> rw_pass w \<Longrightarrow>
      auth_step redis_net cfg r w = (Inl (Errorf ''ERR invalid password''), w)"
  using exchange_redis [OF assms, of "[''AUTH'', redis_Password cfg]"]
  by (auto simp: auth_step_def bind_io_def exec_def)

lemma ParseUint_Itoa_nat: "ParseUint (Itoa i) 64 = Inr n \<Longrightarrow> n = nat i \<and> 0 \<le> i"
  by (auto simp: Itoa_def ParseUint_def is_digit_def byte_of_def split: if_splits)

lemma ParseUint_Itoa: "0 \<le> i \<Longrightarrow> i < 16 \<Longrightarrow> ParseUint (Itoa i) 64 = Inr (nat i)"
  by (simp add: Itoa_def nat_less_iff)

lemma select_step_redis:
  assumes "rd_buf r = []" "rw_in w = []"
  shows "redis_DB cfg \<le> 0 \<Longrightarrow> select_step redis_net cfg r w = (Inr r, w)"
    and "0 < redis_DB cfg \<Longrightarrow> redis_DB cfg < 16 \<Longrightarrow> rw_auth w \<Longrightarrow>
      select_step redis_net cfg r w = (Inr drained, w\<lparr>rw_db := nat (redis_DB cfg)\<rparr>)"
    and "0 < redis_DB cfg \<Longrightarrow> \<not> (redis_DB cfg < 16 \<and> rw_auth w) \<Longrightarrow>
      \<exists>m. select_step redis_net cfg r w = (Inl (Errorf m), w)"
proof -
  note ex = exchange_redis [OF assms, of "[''SELECT'', Itoa (redis_DB cfg)]"]
  show "redis_DB cfg \<le> 0 \<Longrightarrow> select_step redis_net cfg r w = (Inr r, w)"
    by (simp add: select_step_def)
  show "0 < redis_DB cfg \<Longrightarrow> redis_DB cfg < 16 \<Longrightarrow> rw_auth w \<Longrightarrow>
      select_step redis_net cfg r w = (Inr drained, w\<lparr>rw_db := nat (redis_DB cfg)\<rparr>)"
    using ex by (simp add: select_step_def bind_io_def exec_def exec_data_def ParseUint_Itoa nat_less_iff)
  assume db: "0 < redis_DB cfg" "\<not> (redis_DB cfg < 16 \<and> rw_auth w)"
  then have "\<exists>m. exec [''SELECT'', Itoa (redis_DB cfg)] w = (Err m, w)"
    using ParseUint_Itoa_nat [of "redis_DB cfg"]
    by (cases "ParseUint (Itoa (redis_DB cfg)) 64") (auto simp: exec_def exec_data_def nat_less_iff)
  then obtain m where "exec [''SELECT'', Itoa (redis_DB cfg)] w = (Err m, w)" by blast
  from ex [OF this] show "\<exists>m. select_step redis_net cfg r w = (Inl (Errorf m), w)"
    using db(1) by (simp add: select_step_def bind_io_def)
qed

lemma last_exchange:
  assumes "rd_buf r = []" "rw_in w = []" "not_auth args"
  shows "bind_io (exchange redis_net args r) (\<lambda>(v, _). return_io v) w =
    (if rw_auth w then (case exec_data args w of (rep, w1) \<Rightarrow> (resp_result rep, w1))
     else (Inl (Errorf ''NOAUTH Authentication required.''), w))"
proof -
  obtain rep w1 where e: "exec args w = (rep, w1)" by fastforce
  have "exec args w = (if rw_auth w then exec_data args w else (Err ''NOAUTH Authentication required.'', w))"
    using assms(3) by (auto simp: exec_def not_auth_def)
  with e exchange_redis [OF assms(1,2) e] show ?thesis
    by (auto simp: bind_io_def split: prod.splits sum.splits if_splits)
qed

text \<open>
  A command is either refused on the way (no address, wrong password, bad database) or executed
  on the configured database.
\<close>

lemma command_redis:
  assumes "not_auth args"
  shows "server_ok cfg w \<Longrightarrow> command redis_net cfg args w =
      (case exec_data args (conn cfg w) of (rep, w1) \<Rightarrow> (resp_result rep, w1))"
    and "\<not> server_ok cfg w \<Longrightarrow> \<exists>m w'. command redis_net cfg args w = (Inl (Errorf m), w')"
proof -
  let ?r0 = "\<lparr>rd_buf = [], rd_end = Sentinel EOF\<rparr> :: reader"
  let ?w0 = "w\<lparr>rw_in := [], rw_auth := (rw_pass w = []), rw_db := 0\<rparr>"
  let ?rest = "\<lambda>r1. bind_io (select_step redis_net cfg r1) (\<lambda>r2.
        bind_io (exchange redis_net args r2) (\<lambda>(v, _). return_io v))"
  have dial: "net_dial redis_net a w = (Inr (), ?w0)" for a by (simp add: redis_net_def)
  have cmd: "command redis_net cfg args w = bind_io (auth_step redis_net cfg ?r0) ?rest ?w0"
    if "redis_Addr cfg \<noteq> []"
    using that by (simp add: command_def bind_io_Inr [of "net_dial redis_net (redis_Addr cfg)", OF dial])
  have rest: "?rest r v = (case exec_data args (v\<lparr>rw_db := nat (redis_DB cfg)\<rparr>) of (rep, w1) \<Rightarrow> (resp_result rep, w1))"
    if "rd_buf r = []" "rw_in v = []" "rw_auth v" "rw_db v = 0" "redis_DB cfg < 16" for r v
  proof (cases "redis_DB cfg \<le> 0")
    case True
    from that have v: "v\<lparr>rw_db := 0\<rparr> = v" by (cases v) simp
    from True that assms show ?thesis
      by (simp add: v bind_io_Inr [OF select_step_redis(1)] last_exchange)
  next
    case False
    with that assms show ?thesis
      by (simp add: bind_io_Inr [OF select_step_redis(2)] last_exchange drained_def)
  qed
  have bad: "\<exists>m w'. ?rest r v = (Inl (Errorf m), w')"
    if "rd_buf r = []" "rw_in v = []" "\<not> (rw_auth v \<and> redis_DB cfg < 16)" for r v
  proof (cases "redis_DB cfg \<le> 0")
    case True
    with that assms show ?thesis by (simp add: bind_io_Inr [OF select_step_redis(1)] last_exchange)
  next
    case False
    with that select_step_redis(3) [OF that(1,2), of cfg] obtain m where
      "select_step redis_net cfg r v = (Inl (Errorf m), v)" by auto
    then show ?thesis by (simp add: bind_io_Inl)
  qed
  show "command redis_net cfg args w =
      (case exec_data args (conn cfg w) of (rep, w1) \<Rightarrow> (resp_result rep, w1))" if ok: "server_ok cfg w"
  proof (cases "redis_Password cfg = []")
    case True
    with ok show ?thesis using cmd rest [of ?r0 ?w0]
      by (simp add: server_ok_def bind_io_Inr [OF auth_step_redis(1)] conn_def)
  next
    case False
    with ok show ?thesis using cmd rest [of drained "?w0\<lparr>rw_auth := True\<rparr>"]
      by (simp add: server_ok_def bind_io_Inr [OF auth_step_redis(2)] conn_def drained_def)
  qed
  show "\<exists>m w'. command redis_net cfg args w = (Inl (Errorf m), w')" if no: "\<not> server_ok cfg w"
  proof (cases "redis_Addr cfg = []")
    case True
    then show ?thesis by (simp add: command_def)
  next
    case False
    note c = cmd [OF False]
    show ?thesis
    proof (cases "redis_Password cfg = []")
      case True
      with no False show ?thesis using c bad [of ?r0 ?w0]
        by (auto simp: server_ok_def bind_io_Inr [OF auth_step_redis(1)])
    next
      case pw: False
      show ?thesis
      proof (cases "redis_Password cfg = rw_pass w")
        case True
        with no False pw show ?thesis using c bad [of drained "?w0\<lparr>rw_auth := True\<rparr>"]
          by (auto simp: server_ok_def bind_io_Inr [OF auth_step_redis(2)] drained_def)
      next
        case False
        with pw show ?thesis using c by (simp add: bind_io_Inl [OF auth_step_redis(3)])
      qed
    qed
  qed
qed

subsection \<open>The laws hold\<close>

definition live_kv :: "RedisConfig \<Rightarrow> 'a redis_world_scheme \<Rightarrow> string \<Rightarrow> string option" where
  "live_kv cfg w k = live w (nat (redis_DB cfg)) k"

lemma not_auth_simps [simp]:
  "not_auth [''GET'', k]" "not_auth [''DEL'', k]" "not_auth [''PING'']" "not_auth [''SET'', k, v]"
  "not_auth [''SET'', k, v, x, s]"
  by (simp_all add: not_auth_def)

lemma live_put:
  "live (put k x (conn cfg w)) d k' =
     (if d = nat (redis_DB cfg) \<and> k' = k
      then (case x of Some (v, None) \<Rightarrow> Some v
              | Some (v, Some e) \<Rightarrow> if wd_clock w < e then Some v else None | None \<Rightarrow> None)
      else live w d k')"
  "live (conn cfg w) d k' = live w d k'"
  by (auto simp: live_def put_def conn_def split: option.splits)

lemma rw_db_conn [simp]: "rw_db (conn cfg w) = nat (redis_DB cfg)" "wd_clock (conn cfg w) = wd_clock w"
  by (simp_all add: conn_def)

interpretation redis: redis_kv redis_net cfg "live_kv cfg"
proof
  fix k w r w'
  assume c: "command redis_net cfg [''GET'', k] w = (Inr r, w')"
  then have "server_ok cfg w" using command_redis(2) [of "[''GET'', k]" cfg w] by fastforce
  with c command_redis(1) [of "[''GET'', k]" cfg w]
  show "(\<exists>v. r = RString v \<and> live_kv cfg w k = Some v) \<and> live_kv cfg w' = live_kv cfg w"
    by (auto simp: exec_data_def live_put live_kv_def fun_eq_iff split: option.splits if_splits)
next
  fix k w e w'
  assume c: "command redis_net cfg [''GET'', k] w = (Inl e, w')" "errors_Is e RedisErrMissing"
  then have "server_ok cfg w" using command_redis(2) [of "[''GET'', k]" cfg w] by fastforce
  with c command_redis(1) [of "[''GET'', k]" cfg w]
  show "live_kv cfg w k = None \<and> live_kv cfg w' = live_kv cfg w"
    by (auto simp: exec_data_def live_put live_kv_def fun_eq_iff err_range_def split: option.splits if_splits)
next
  fix k v w r w'
  assume c: "command redis_net cfg [''SET'', k, v] w = (Inr r, w')"
  then have "server_ok cfg w" using command_redis(2) [of "[''SET'', k, v]" cfg w] by fastforce
  with c command_redis(1) [of "[''SET'', k, v]" cfg w]
  show "live_kv cfg w' = (live_kv cfg w)(k \<mapsto> v)"
    by (auto simp: exec_data_def live_put live_kv_def fun_eq_iff)
next
  fix s k v w r w'
  assume c: "0 < s" "command redis_net cfg [''SET'', k, v, ''EX'', Itoa s] w = (Inr r, w')"
  then have "server_ok cfg w" using command_redis(2) [of "[''SET'', k, v, ''EX'', Itoa s]" cfg w] by fastforce
  with c command_redis(1) [of "[''SET'', k, v, ''EX'', Itoa s]" cfg w]
  show "live_kv cfg w' = (live_kv cfg w)(k \<mapsto> v)"
    by (auto simp: exec_data_def live_put live_kv_def fun_eq_iff Second_def split: sum.splits if_splits)
next
  fix k w r w'
  assume c: "command redis_net cfg [''DEL'', k] w = (Inr r, w')"
  then have "server_ok cfg w" using command_redis(2) [of "[''DEL'', k]" cfg w] by fastforce
  with c command_redis(1) [of "[''DEL'', k]" cfg w]
  show "live_kv cfg w' = (live_kv cfg w)(k := None)"
    by (auto simp: exec_data_def live_put live_kv_def fun_eq_iff)
qed

subsection \<open>The store on the reference server\<close>

lemma length_FormatUint: "n < 10 ^ k \<Longrightarrow> 0 < k \<Longrightarrow> length (FormatUint n) \<le> k"
proof (induction n arbitrary: k rule: FormatUint.induct)
  case (1 n)
  show ?case
  proof (cases "n < 10")
    case False
    with 1 obtain j where j: "k = Suc j" "0 < j" by (cases k; cases "k - 1") auto
    with 1 False have "length (FormatUint (n div 10)) \<le> j" by (auto simp: less_mult_imp_div_less)
    with False j show ?thesis by (simp add: FormatUint.simps [of n])
  qed (use 1 in \<open>simp add: FormatUint.simps\<close>)
qed

lemma short_uint: "n < 2 ^ 64 \<Longrightarrow> int (length (FormatUint n)) + 2 \<le> maxAlloc"
  using length_FormatUint [of n 20] by (simp add: maxAlloc_def)

lemma GetSession_missing:
  assumes "server_ok cfg w" "live_kv cfg w (sessionKey cfg t) = None"
  shows "GetSession redis_net cfg t w = (Inr None, conn cfg w)"
  using assms command_redis(1) [of "[''GET'', sessionKey cfg t]" cfg w]
  by (simp add: GetSession_def bind_io_try exec_data_def live_kv_def live_put)

lemma GetSession_found:
  assumes "server_ok cfg w" "live_kv cfg w (sessionKey cfg t) = Some (FormatUint u)" "u < 2 ^ 64"
  shows "GetSession redis_net cfg t w = (Inr (Some u), conn cfg w)"
  using assms command_redis(1) [of "[''GET'', sessionKey cfg t]" cfg w] short_uint [OF assms(3)]
  by (simp add: GetSession_def bind_io_try exec_data_def live_kv_def live_put maxAlloc_def)

lemma SaveSession_run:
  assumes "server_ok cfg w" "0 < int_seconds ttl" "int_seconds ttl < 2 ^ 63"
  shows "SaveSession redis_net cfg t u ttl w =
    (Inr (), put (sessionKey cfg t) (Some (FormatUint u, Some (wd_clock w + int_seconds ttl * Second))) (conn cfg w))"
  using assms command_redis(1) [of "[''SET'', sessionKey cfg t, FormatUint u, ''EX'', Itoa (int_seconds ttl)]" cfg w]
  by (simp add: SaveSession_def Let_def exec_data_def bind_io_def)

lemma DeleteSession_run:
  assumes "server_ok cfg w"
  shows "DeleteSession redis_net cfg t w = (Inr (), put (sessionKey cfg t) None (conn cfg w))"
  using assms command_redis(1) [of "[''DEL'', sessionKey cfg t]" cfg w]
  by (simp add: DeleteSession_def exec_data_def bind_io_def)

lemma server_ok_conn [simp]: "server_ok cfg (conn cfg w) = server_ok cfg w"
  "server_ok cfg (put k x w) = server_ok cfg w"
  by (simp_all add: server_ok_def conn_def put_def)

definition sample_redis :: RedisConfig where
  "sample_redis = \<lparr>redis_Addr = ''redis:6379'', redis_Password = ''pw'', redis_DB = 2, KeyPrefix = [],
     DialTimeout = 0, IOTimeout = 0\<rparr>"

definition sample_redis_world :: redis_world where
  "sample_redis_world = \<lparr>wd_clock = 0, wd_tick = 0, wd_rand = (\<lambda>_. CHR ''r''), wd_pos = 0,
     rw_kv = (\<lambda>_ _. None), rw_pass = ''pw'', rw_in = [], rw_auth = False, rw_db = 0\<rparr>"

lemma sample_ok: "server_ok sample_redis sample_redis_world"
  by (simp add: server_ok_def sample_redis_def sample_redis_world_def)

lemma seconds_60: "int_seconds 60000000000 = 60"
proof -
  have "bitlen (Suc 0) = 1" "bitlen 60 = 6" by (simp_all add: bitlen.simps)
  then show ?thesis
    by (simp add: int_seconds_def whole_seconds_def round64_def scale_exp_def scaled_def round_div_def Let_def)
qed

text \<open>
  With a Redis server that behaves as documented: a session that was saved is found under its
  token, one that was deleted is not, and neither operation touches the session of a token with
  another hash.
\<close>

theorem redis_session_laws:
  assumes "redis_kv net cfg kv" and "u < 2 ^ 64"
    and "op = SaveSession net cfg t u ttl \<and> expected = Some u \<or> op = DeleteSession net cfg t \<and> expected = None"
    and "op w = (Inr (), w1)"
  shows "(\<forall>r w2. GetSession net cfg t w1 = (Inr r, w2) \<longrightarrow> r = expected) \<and>
    (\<forall>t' r r' v w2. Sum256 t' \<noteq> Sum256 t \<and> GetSession net cfg t' w = (Inr r, v) \<and>
       GetSession net cfg t' w1 = (Inr r', w2) \<longrightarrow> r' = r)"
proof -
  note get = redis_kv.get_session [OF assms(1)]
  have "redis_kv.sess_of kv w1 = (redis_kv.sess_of kv w)(sessionKey cfg t := expected)"
    using assms redis_kv.save_session [OF assms(1,2), of t ttl w w1] redis_kv.delete_session [OF assms(1), of t w w1]
    by auto
  then show ?thesis using get by (auto simp: sessionKey_inject dest!: get)
qed

theorem redis_session_laws_witness:
  "\<exists>w1. SaveSession redis_net sample_redis ''tok'' 7 60000000000 sample_redis_world = (Inr (), w1) \<and>
     (\<forall>r w2. GetSession redis_net sample_redis ''tok'' w1 = (Inr r, w2) \<longrightarrow> r = Some 7)"
proof -
  obtain w1 where w1: "SaveSession redis_net sample_redis ''tok'' 7 60000000000 sample_redis_world = (Inr (), w1)"
    using SaveSession_run [OF sample_ok, of 60000000000] by (simp add: seconds_60)
  have "redis_kv redis_net sample_redis (live_kv sample_redis)" by (rule redis.redis_kv_axioms)
  from redis_session_laws [OF this, of 7 "SaveSession redis_net sample_redis ''tok'' 7 60000000000"
      "''tok''" 60000000000 "Some 7" sample_redis_world w1] w1
  show ?thesis by auto
qed



end
