(* ===== verification/MysqlReference.thy ===== *)
theory MysqlReference
  imports MysqlStore RedisReference
begin

text \<open>
  The \<^verbatim>\<open>UserStore\<close> interface of \<^verbatim>\<open>internal/service/service.go\<close> as a locale over an abstract table of
  users, and the store of \<^verbatim>\<open>internal/store/mysqlstore\<close> as its implementation on a reference database
  that executes the statements the store sends, with the column limits of \<^verbatim>\<open>sql/schema.sql\<close> and
  MySQL's count of changed rows.
\<close>

record user_row =
  ur_username :: string
  ur_nickname :: string
  ur_salt :: bytes
  ur_hash :: bytes
  ur_iter :: int
  ur_path :: "string option"
  ur_mime :: "string option"
  ur_size :: nat
  ur_version :: nat

type_synonym users = "nat \<Rightarrow> user_row option"

definition auth_row :: "nat \<Rightarrow> user_row \<Rightarrow> UserAuth" where
  "auth_row uid r = \<lparr>ua_ID = uid, ua_Username = ur_username r, ua_Nickname = ur_nickname r,
     PasswordSalt = ur_salt r, PasswordHash = ur_hash r, PasswordIter = ur_iter r,
     ua_ProfilePicturePath = ur_path r, ua_ProfilePictureVersion = ur_version r\<rparr>"

definition profile_row :: "nat \<Rightarrow> user_row \<Rightarrow> StoredProfile" where
  "profile_row uid r = \<lparr>sp_ID = uid, sp_Username = ur_username r, sp_Nickname = ur_nickname r,
     ProfilePicturePath = ur_path r, ProfilePictureMIME = ur_mime r, ProfilePictureSize = ur_size r,
     ProfileVersion = ur_version r\<rparr>"

text \<open>The keys and the widths of the columns.\<close>

definition rune_count :: "string \<Rightarrow> nat" where
  "rune_count s = length (filter (\<lambda>c. \<not> (0x80 \<le> byte_of c \<and> byte_of c < 0xC0)) s)"

definition row_ok :: "nat \<Rightarrow> user_row \<Rightarrow> bool" where
  "row_ok uid r \<longleftrightarrow> uid < 2 ^ 64 \<and> 0 < uid \<and> 0 \<le> ur_iter r \<and> ur_iter r < 2 ^ 32 \<and> ur_size r < 2 ^ 64
     \<and> ur_version r < 2 ^ 64"

definition users_ok :: "users \<Rightarrow> bool" where
  "users_ok us \<longleftrightarrow> (\<forall>uid r. us uid = Some r \<longrightarrow> row_ok uid r) \<and>
     (\<forall>u v r q. us u = Some r \<and> us v = Some q \<and> ur_username r = ur_username q \<longrightarrow> u = v)"

subsection \<open>The interface\<close>

text \<open>
  What the service expects of its user store. \<open>users w\<close> is the table in world \<open>w\<close>. A lookup
  answers from the table and changes nothing; an update that succeeds answers the updated row.
\<close>

locale user_store =
  fixes get_auth :: "string \<Rightarrow> ('w, UserAuth) io"
    and get_profile :: "nat \<Rightarrow> ('w, StoredProfile) io"
    and upd_nickname :: "nat \<Rightarrow> string \<Rightarrow> ('w, StoredProfile) io"
    and upd_picture :: "nat \<Rightarrow> string \<Rightarrow> string \<Rightarrow> nat \<Rightarrow> ('w, StoredProfile) io"
    and users :: "'w \<Rightarrow> users"
    and good :: "'w \<Rightarrow> bool"
  assumes auth_found: "good w \<Longrightarrow> users w uid = Some r \<Longrightarrow> ur_username r = n \<Longrightarrow>
      get_auth n w = (Inr (auth_row uid r), w)"
    and auth_missing: "good w \<Longrightarrow> \<forall>uid r. users w uid = Some r \<longrightarrow> ur_username r \<noteq> n \<Longrightarrow>
      get_auth n w = (Inl (Sentinel MysqlErrNotFound), w)"
    and profile_found: "good w \<Longrightarrow> users w uid = Some r \<Longrightarrow> get_profile uid w = (Inr (profile_row uid r), w)"
    and profile_missing: "good w \<Longrightarrow> users w uid = None \<Longrightarrow>
      get_profile uid w = (Inl (Sentinel MysqlErrNotFound), w)"
    and nickname_updated: "good w \<Longrightarrow> upd_nickname uid n w = (Inr p, w') \<Longrightarrow>
      \<exists>r. users w uid = Some r \<and> p = profile_row uid (r\<lparr>ur_nickname := n\<rparr>) \<and>
          users w' = (users w)(uid \<mapsto> r\<lparr>ur_nickname := n\<rparr>) \<and> good w'"
    and picture_updated: "good w \<Longrightarrow> sz < 2 ^ 64 \<Longrightarrow> upd_picture uid path mime sz w = (Inr p, w') \<Longrightarrow>
      \<exists>r. users w uid = Some r \<and>
          p = profile_row uid (r\<lparr>ur_path := Some path, ur_mime := Some mime, ur_size := sz, ur_version := ur_version r + 1\<rparr>) \<and>
          users w' = (users w)(uid \<mapsto> r\<lparr>ur_path := Some path, ur_mime := Some mime, ur_size := sz, ur_version := ur_version r + 1\<rparr>)
          \<and> good w'"
begin

text \<open>After an update the profile read back is the one the update returned.\<close>

lemma nickname_read_back:
  assumes "good w" "upd_nickname uid n w = (Inr p, w')"
  shows "get_profile uid w' = (Inr p, w') \<and> sp_Nickname p = n"
  using nickname_updated [OF assms] profile_found by (auto simp: profile_row_def)

lemma picture_read_back:
  assumes "good w" "sz < 2 ^ 64" "upd_picture uid path mime sz w = (Inr p, w')"
  shows "get_profile uid w' = (Inr p, w') \<and> ProfilePicturePath p = Some path \<and> 0 < ProfileVersion p"
  using picture_updated [OF assms] profile_found by (auto simp: profile_row_def)

end

subsection \<open>A reference database\<close>

record sql_world = redis_world +
  wd_users :: users
  wd_next :: nat

definition null_val :: "string option \<Rightarrow> sqlval" where
  "null_val s = (case s of None \<Rightarrow> SqlNull | Some b \<Rightarrow> SqlBytes b)"

definition auth_columns :: "nat \<Rightarrow> user_row \<Rightarrow> sqlval list" where
  "auth_columns uid r = [SqlInt (int uid), SqlBytes (ur_username r), SqlBytes (ur_nickname r),
     SqlBytes (ur_salt r), SqlBytes (ur_hash r), SqlInt (ur_iter r), null_val (ur_path r), SqlInt (int (ur_version r))]"

definition profile_columns :: "nat \<Rightarrow> user_row \<Rightarrow> sqlval list" where
  "profile_columns uid r = [SqlInt (int uid), SqlBytes (ur_username r), SqlBytes (ur_nickname r),
     null_val (ur_path r), null_val (ur_mime r), SqlInt (int (ur_size r)), SqlInt (int (ur_version r))]"

definition err_data_too_long :: go_error where
  "err_data_too_long = Errorf ''Error 1406: Data too long for column''"

definition err_sql :: go_error where
  "err_sql = Errorf ''Error 1064: You have an error in your SQL syntax''"

definition find_user :: "nat \<Rightarrow> users \<Rightarrow> string \<Rightarrow> nat option" where
  "find_user n us name = List.find (\<lambda>uid. case us uid of Some r \<Rightarrow> ur_username r = name | None \<Rightarrow> False) [0 ..< n]"

definition ref_query :: "string \<Rightarrow> sqlval list \<Rightarrow> ('a sql_world_scheme, sqlval list) io" where
  "ref_query q args w =
     (if q = q_auth then
        (case args of
           [SqlBytes name] \<Rightarrow>
             (case find_user (wd_next w) (wd_users w) name of
                None \<Rightarrow> Inl (Sentinel SqlErrNoRows)
              | Some uid \<Rightarrow> Inr (auth_columns uid (the (wd_users w uid))))
         | _ \<Rightarrow> Inl err_sql)
      else if q = q_profile then
        (case args of
           [SqlInt i] \<Rightarrow>
             (case wd_users w (nat i) of
                None \<Rightarrow> Inl (Sentinel SqlErrNoRows)
              | Some r \<Rightarrow> Inr (profile_columns (nat i) r))
         | _ \<Rightarrow> Inl err_sql)
      else if q = q_count then
        Inr [SqlInt (int (length (filter (\<lambda>uid. wd_users w uid \<noteq> None) [0 ..< wd_next w])))]
      else Inl err_sql, w)"

text \<open>An update counts a row only when it changes it.\<close>

definition update_row ::
    "nat \<Rightarrow> (user_row \<Rightarrow> user_row) \<Rightarrow> 'a sql_world_scheme \<Rightarrow> int result result \<times> 'a sql_world_scheme" where
  "update_row uid f w =
     (case wd_users w uid of
        None \<Rightarrow> (Inr (Inr 0), w)
      | Some r \<Rightarrow> (Inr (Inr (if f r = r then 0 else 1)), w\<lparr>wd_users := (wd_users w)(uid \<mapsto> f r)\<rparr>))"

fun insert_rows :: "sqlval list \<Rightarrow> 'a sql_world_scheme \<Rightarrow> (int \<times> 'a sql_world_scheme) option" where
  "insert_rows (SqlBytes u # SqlBytes n # SqlBytes s # SqlBytes h # SqlInt i # rest) w =
     (if find_user (wd_next w) (wd_users w) u \<noteq> None then insert_rows rest w
      else map_option (\<lambda>(k, w1). (k + 1, w1)) (insert_rows rest
             (w\<lparr>wd_users := (wd_users w)(wd_next w \<mapsto> \<lparr>ur_username = u, ur_nickname = n, ur_salt = s,
                  ur_hash = h, ur_iter = i, ur_path = None, ur_mime = None, ur_size = 0, ur_version = 0\<rparr>),
                wd_next := wd_next w + 1\<rparr>)))"
| "insert_rows [] w = Some (0, w)"
| "insert_rows _ w = None"

definition ref_exec :: "string \<Rightarrow> sqlval list \<Rightarrow> ('a sql_world_scheme, int result) io" where
  "ref_exec q args w =
     (if q = q_nickname then
        (case args of
           [SqlBytes n, SqlInt i] \<Rightarrow>
             if 191 < rune_count n then (Inl err_data_too_long, w)
             else update_row (nat i) (\<lambda>r. r\<lparr>ur_nickname := n\<rparr>) w
         | _ \<Rightarrow> (Inl err_sql, w))
      else if q = q_picture then
        (case args of
           [SqlBytes p, SqlBytes m, SqlInt s, SqlInt i] \<Rightarrow>
             if 512 < rune_count p \<or> 64 < rune_count m \<or> s < 0 \<or> 2 ^ 64 \<le> s then (Inl err_data_too_long, w)
             else if (case wd_users w (nat i) of Some r \<Rightarrow> 2 ^ 64 \<le> ur_version r + 1 | None \<Rightarrow> False)
               then (Inl err_data_too_long, w)
             else update_row (nat i) (\<lambda>r. r\<lparr>ur_path := Some p, ur_mime := Some m, ur_size := nat s,
                    ur_version := ur_version r + 1\<rparr>) w
         | _ \<Rightarrow> (Inl err_sql, w))
      else if q = insert_query (length args div 5) then
        (case insert_rows args w of
           None \<Rightarrow> (Inl err_sql, w)
         | Some (k, w1) \<Rightarrow> (Inr (Inr k), w1))
      else (Inl err_sql, w))"

definition ref_db :: "'a sql_world_scheme sqldb" where
  "ref_db = \<lparr>QueryRow = ref_query, Exec = ref_exec\<rparr>"

subsection \<open>The store on the reference database\<close>

definition db_ok :: "'a sql_world_scheme \<Rightarrow> bool" where
  "db_ok w \<longleftrightarrow> users_ok (wd_users w) \<and> (\<forall>uid \<ge> wd_next w. wd_users w uid = None)"

lemma scan_simps [simp]:
  "n < 2 ^ 64 \<Longrightarrow> sql_uint64 (SqlInt (int n)) = Inr n"
  "0 \<le> i \<Longrightarrow> i < 2 ^ 32 \<Longrightarrow> sql_int (SqlInt i) = Inr i"
  "sql_bytes (SqlBytes b) = Inr b"
  "sql_null_string (null_val s) = Inr s"
  by (simp_all add: sql_uint64_def sql_int_def sql_bytes_def sql_null_string_def null_val_def Itoa_nat
      split: option.split)

lemma scan_auth_columns: "row_ok uid r \<Longrightarrow> scan_UserAuth (auth_columns uid r) = Inr (auth_row uid r)"
  by (simp add: scan_UserAuth_def auth_columns_def auth_row_def row_ok_def)

lemma scan_profile_columns: "row_ok uid r \<Longrightarrow> scan_StoredProfile (profile_columns uid r) = Inr (profile_row uid r)"
  by (simp add: scan_StoredProfile_def profile_columns_def profile_row_def row_ok_def)

lemma find_SomeD: "List.find P xs = Some x \<Longrightarrow> x \<in> set xs \<and> P x"
  by (auto simp: find_Some_iff)

lemma q_distinct [simp]: "q_profile \<noteq> q_auth" "q_picture \<noteq> q_nickname"
  by (simp_all add: q_profile_def q_auth_def q_picture_def q_nickname_def)

lemma profile_ref:
  assumes "db_ok w"
  shows "GetUserProfileByID ref_db uid w =
    (case wd_users w uid of None \<Rightarrow> Inl (Sentinel MysqlErrNotFound) | Some r \<Rightarrow> Inr (profile_row uid r), w)"
proof (cases "wd_users w uid")
  case None
  then show ?thesis
    by (simp add: GetUserProfileByID_def query_one_none ref_db_def ref_query_def)
next
  case (Some r)
  with assms have "row_ok uid r" by (simp add: db_ok_def users_ok_def)
  with Some show ?thesis
    by (simp add: GetUserProfileByID_def query_one_row ref_db_def ref_query_def scan_profile_columns)
qed

lemma auth_ref_found:
  assumes "db_ok w" "wd_users w uid = Some r" "ur_username r = n"
  shows "GetUserAuthByUsername ref_db n w = (Inr (auth_row uid r), w)"
proof -
  have "uid < wd_next w" using assms by (metis db_ok_def not_le option.distinct(1))
  then have "find_user (wd_next w) (wd_users w) n \<noteq> None"
    using assms(2,3) by (auto simp: find_user_def find_None_iff)
  then obtain v where v: "find_user (wd_next w) (wd_users w) n = Some v" by auto
  then obtain q where "wd_users w v = Some q" "ur_username q = n"
    by (auto simp: find_user_def dest!: find_SomeD split: option.splits)
  moreover from this assms have "v = uid" by (auto simp: db_ok_def users_ok_def)
  moreover have "row_ok uid r" using assms by (simp add: db_ok_def users_ok_def)
  ultimately show ?thesis using v assms(2)
    by (simp add: GetUserAuthByUsername_def query_one_row ref_db_def ref_query_def scan_auth_columns)
qed

lemma auth_ref_missing:
  assumes "\<forall>uid r. wd_users w uid = Some r \<longrightarrow> ur_username r \<noteq> n"
  shows "GetUserAuthByUsername ref_db n w = (Inl (Sentinel MysqlErrNotFound), w)"
proof -
  have "find_user (wd_next w) (wd_users w) n = None"
    using assms by (auto simp: find_user_def find_None_iff split: option.splits)
  then show ?thesis
    by (simp add: GetUserAuthByUsername_def query_one_none ref_db_def ref_query_def)
qed

lemma users_ok_upd:
  assumes "users_ok us" "us uid = Some r" "row_ok uid q" "ur_username q = ur_username r"
  shows "users_ok (us(uid \<mapsto> q))"
  using assms unfolding users_ok_def by (auto split: if_splits)

lemma db_ok_upd:
  assumes "db_ok w" "wd_users w uid = Some r" "row_ok uid q" "ur_username q = ur_username r"
  shows "db_ok (w\<lparr>wd_users := (wd_users w)(uid \<mapsto> q)\<rparr>)"
proof -
  have "users_ok ((wd_users w)(uid \<mapsto> q))"
    using users_ok_upd [of "wd_users w"] assms by (simp add: db_ok_def)
  moreover have "uid < wd_next w" using assms(1,2) by (metis db_ok_def not_le option.distinct(1))
  ultimately show ?thesis using assms(1) by (auto simp: db_ok_def)
qed

lemma nickname_ref:
  assumes "db_ok w" "wd_users w uid = Some r" "rune_count n \<le> 191"
  shows "UpdateNickname ref_db uid n w =
    (if ur_nickname r = n then (Inl (Sentinel MysqlErrNotFound), w)
     else (Inr (profile_row uid (r\<lparr>ur_nickname := n\<rparr>)), w\<lparr>wd_users := (wd_users w)(uid \<mapsto> r\<lparr>ur_nickname := n\<rparr>)\<rparr>))"
proof -
  have ok: "row_ok uid (r\<lparr>ur_nickname := n\<rparr>)" using assms by (auto simp: db_ok_def users_ok_def row_ok_def)
  have upd: "(wd_users w)(uid \<mapsto> r) = wd_users w" using assms(2) by (simp add: fun_upd_idem)
  have same: "r\<lparr>ur_nickname := n\<rparr> = r \<longleftrightarrow> ur_nickname r = n" by (cases r) auto
  have "ref_exec q_nickname [SqlBytes n, SqlInt (int uid)] w =
      (Inr (Inr (if ur_nickname r = n then 0 else 1)), w\<lparr>wd_users := (wd_users w)(uid \<mapsto> r\<lparr>ur_nickname := n\<rparr>)\<rparr>)"
    using assms by (simp add: ref_exec_def update_row_def same)
  moreover have "db_ok (w\<lparr>wd_users := (wd_users w)(uid \<mapsto> r\<lparr>ur_nickname := n\<rparr>)\<rparr>)"
    using assms ok by (intro db_ok_upd) auto
  moreover have "ur_nickname r = n \<Longrightarrow> w\<lparr>wd_users := (wd_users w)(uid \<mapsto> r\<lparr>ur_nickname := n\<rparr>)\<rparr> = w"
    using upd by (cases w) (simp add: same [THEN iffD2])
  ultimately show ?thesis
    by (simp add: UpdateNickname_def bind_io_def ref_db_def) (simp add: profile_ref ref_db_def [symmetric])
qed

lemma nickname_ref_missing:
  assumes "wd_users w uid = None" "rune_count n \<le> 191"
  shows "UpdateNickname ref_db uid n w = (Inl (Sentinel MysqlErrNotFound), w)"
  using assms by (simp add: UpdateNickname_def bind_io_def ref_db_def ref_exec_def update_row_def)

lemma nickname_ref_long:
  assumes "191 < rune_count n"
  shows "UpdateNickname ref_db uid n w = (Inl err_data_too_long, w)"
  using assms by (simp add: UpdateNickname_def bind_io_def ref_db_def ref_exec_def)

definition set_picture :: "string \<Rightarrow> string \<Rightarrow> nat \<Rightarrow> user_row \<Rightarrow> user_row" where
  "set_picture path mime sz r =
     r\<lparr>ur_path := Some path, ur_mime := Some mime, ur_size := sz, ur_version := ur_version r + 1\<rparr>"

definition picture_fits :: "string \<Rightarrow> string \<Rightarrow> user_row \<Rightarrow> bool" where
  "picture_fits path mime r \<longleftrightarrow> rune_count path \<le> 512 \<and> rune_count mime \<le> 64 \<and> ur_version r + 1 < 2 ^ 64"

lemma picture_ref:
  assumes "db_ok w" "wd_users w uid = Some r" "sz < 2 ^ 64"
  shows "UpdateProfilePicture ref_db uid path mime sz w =
    (if picture_fits path mime r
     then (Inr (profile_row uid (set_picture path mime sz r)),
           w\<lparr>wd_users := (wd_users w)(uid \<mapsto> set_picture path mime sz r)\<rparr>)
     else (Inl err_data_too_long, w))"
proof (cases "picture_fits path mime r")
  case True
  let ?q = "set_picture path mime sz r"
  have "?q \<noteq> r" by (metis n_not_Suc_n Suc_eq_plus1 set_picture_def user_row.select_convs(9) user_row.surjective user_row.update_convs)
  then have "ref_exec q_picture [SqlBytes path, SqlBytes mime, SqlInt (int sz), SqlInt (int uid)] w =
      (Inr (Inr 1), w\<lparr>wd_users := (wd_users w)(uid \<mapsto> ?q)\<rparr>)"
    using assms True by (simp add: ref_exec_def update_row_def picture_fits_def set_picture_def q_distinct)
  moreover have "db_ok (w\<lparr>wd_users := (wd_users w)(uid \<mapsto> ?q)\<rparr>)"
    using assms True
    by (intro db_ok_upd [of w uid r]) (auto simp: db_ok_def users_ok_def row_ok_def set_picture_def picture_fits_def)
  ultimately show ?thesis using True
    by (simp add: UpdateProfilePicture_def bind_io_def ref_db_def) (simp add: profile_ref ref_db_def [symmetric])
next
  case False
  then show ?thesis using assms
    by (auto simp: UpdateProfilePicture_def bind_io_def ref_db_def ref_exec_def picture_fits_def)
qed

lemma picture_ref_missing:
  assumes "wd_users w uid = None"
  shows "\<exists>e. UpdateProfilePicture ref_db uid path mime sz w = (Inl e, w)"
  using assms by (simp add: UpdateProfilePicture_def bind_io_def ref_db_def ref_exec_def update_row_def)

interpretation ref_users: user_store "GetUserAuthByUsername ref_db" "GetUserProfileByID ref_db"
    "UpdateNickname ref_db" "UpdateProfilePicture ref_db" wd_users db_ok
proof
  fix w uid n p w'
  assume w: "db_ok w" "UpdateNickname ref_db uid n w = (Inr p, w')"
  then have len: "rune_count n \<le> 191" using nickname_ref_long [of n uid w] by fastforce
  show "\<exists>r. wd_users w uid = Some r \<and> p = profile_row uid (r\<lparr>ur_nickname := n\<rparr>) \<and>
          wd_users w' = (wd_users w)(uid \<mapsto> r\<lparr>ur_nickname := n\<rparr>) \<and> db_ok w'"
  proof (cases "wd_users w uid")
    case (Some r)
    have "db_ok (w\<lparr>wd_users := (wd_users w)(uid \<mapsto> r\<lparr>ur_nickname := n\<rparr>)\<rparr>)"
      using w(1) Some by (intro db_ok_upd) (auto simp: db_ok_def users_ok_def row_ok_def)
    with w(2) nickname_ref [OF w(1) Some len] Some show ?thesis by (auto split: if_splits)
  qed (use w(2) nickname_ref_missing [of w uid, OF _ len] in simp)
next
  fix w sz uid path mime p w'
  assume w: "db_ok w" "sz < 2 ^ 64" "UpdateProfilePicture ref_db uid path mime sz w = (Inr p, w')"
  show "\<exists>r. wd_users w uid = Some r \<and>
          p = profile_row uid (r\<lparr>ur_path := Some path, ur_mime := Some mime, ur_size := sz, ur_version := ur_version r + 1\<rparr>) \<and>
          wd_users w' = (wd_users w)(uid \<mapsto> r\<lparr>ur_path := Some path, ur_mime := Some mime, ur_size := sz, ur_version := ur_version r + 1\<rparr>)
          \<and> db_ok w'"
  proof (cases "wd_users w uid")
    case None
    with w(3) picture_ref_missing [OF None, of path mime sz] show ?thesis by auto
  next
    case (Some r)
    with w picture_ref [OF w(1) Some w(2), of path mime] have fits: "picture_fits path mime r"
      "p = profile_row uid (set_picture path mime sz r)"
      "w' = w\<lparr>wd_users := (wd_users w)(uid \<mapsto> set_picture path mime sz r)\<rparr>"
      by (auto split: if_splits)
    have "db_ok w'" unfolding fits(3) using w Some fits(1)
      by (intro db_ok_upd [of w uid r])
        (auto simp: db_ok_def users_ok_def row_ok_def set_picture_def picture_fits_def)
    with fits Some show ?thesis by (auto simp: set_picture_def)
  qed
qed (use auth_ref_found auth_ref_missing in \<open>auto simp: profile_ref\<close>)

subsection \<open>Properties\<close>


definition sample_user :: user_row where
  "sample_user = \<lparr>ur_username = ''ann'', ur_nickname = ''Ann'', ur_salt = ''salt'', ur_hash = ''hash'',
     ur_iter = 1, ur_path = None, ur_mime = None, ur_size = 0, ur_version = 0\<rparr>"

definition sample_sql_world :: sql_world where
  "sample_sql_world = \<lparr>wd_clock = 0, wd_tick = 0, wd_rand = (\<lambda>_. CHR ''r''), wd_pos = 0,
     rw_kv = (\<lambda>_ _. None), rw_pass = ''pw'', rw_in = [], rw_auth = False, rw_db = 0,
     wd_users = [1 \<mapsto> sample_user], wd_next = 2\<rparr>"


end
