(* ===== verification/System.thy ===== *)
theory System
  imports Service MysqlReference
begin

text \<open>
  The service on its stores. First what the service promises its users for any session store that
  keeps the contract of \<^verbatim>\<open>SessionStore\<close> (locale \<open>authenticated\<close>), then the deployment of
  \<^verbatim>\<open>cmd/tcpd\<close>: the MySQL store for users, the Redis store for sessions and pictures, files on disk,
  over the reference servers.
\<close>

subsection \<open>Sessions decide\<close>

text \<open>
  Reading the clock may let a session expire but not come to life.
\<close>

locale authenticated = session_store "ss_SaveSession ss" "ss_GetSession ss" "ss_DeleteSession ss" skey sess
    for ss :: "'w SessionStore" and skey :: "string \<Rightarrow> 'k" and sess :: "'w \<Rightarrow> 'k \<Rightarrow> nat option" +
  fixes s :: "'w Service"
  assumes with_sessions: "sessions s = Some ss"
    and now_sess: "env_Now (sv_env s) w = (Inr t, w') \<Longrightarrow> sess w' k = Some u \<Longrightarrow> sess w k = Some u"
begin

lemma session_needed:
  assumes "requireUser s tok w = (Inr uid, w')"
  shows "sess w (skey tok) = Some uid"
  using assms
proof (rule requireUser_Inr)
  fix now w1
  assume "env_Now (sv_env s) w = (Inr now, w1)"
    "case sessions s of None \<Rightarrow> w' = w1 | Some ss \<Rightarrow> ss_GetSession ss tok w1 = (Inr (Some uid), w')"
  with get_sess [of tok w1] show ?thesis by (simp add: with_sessions) (metis now_sess)
qed

lemma logout_revokes:
  assumes "TrimSpace tok \<noteq> []" "Logout s tok w = (Inr (), w1)"
  shows "\<not> (\<exists>uid w2. requireUser s tok w1 = (Inr uid, w2))"
proof
  assume "\<exists>uid w2. requireUser s tok w1 = (Inr uid, w2)"
  then obtain uid where "sess w1 (skey tok) = Some uid" using session_needed by blast
  moreover have "sess w1 (skey tok) = None"
    using assms del_sess [of tok w w1] by (simp add: Logout_def with_sessions)
  ultimately show False by simp
qed

end

subsection \<open>The deployment\<close>

record world = sql_world +
  wd_files :: "string \<Rightarrow> bytes option"

definition ref_env :: "(string \<Rightarrow> string list result) \<Rightarrow> 'a world_scheme sysenv" where
  "ref_env ext = \<lparr>env_Now = time_Now, env_Rand = rand_Read, env_MkdirAll = (\<lambda>_. return_io ()),
     env_WriteFile = (\<lambda>p d w. (Inr (), w\<lparr>wd_files := (wd_files w)(p \<mapsto> d)\<rparr>)),
     env_Remove = (\<lambda>p w. if wd_files w p = None then (Inl (Sentinel OsErrNotExist), w)
                         else (Inr (), w\<lparr>wd_files := (wd_files w)(p := None)\<rparr>)),
     env_ReadFile = (\<lambda>p w. (of_option (Sentinel OsErrNotExist) (wd_files w p), w)),
     env_ExtensionsByType = ext\<rparr>"

definition mysql_store :: "'w sqldb \<Rightarrow> 'w UserStore" where
  "mysql_store db = \<lparr>us_GetUserAuthByUsername = GetUserAuthByUsername db,
     us_GetUserProfileByID = GetUserProfileByID db, us_UpdateNickname = UpdateNickname db,
     us_UpdateProfilePicture = UpdateProfilePicture db\<rparr>"

definition redis_sessions :: "'w net \<Rightarrow> RedisConfig \<Rightarrow> 'w SessionStore" where
  "redis_sessions net cfg = \<lparr>ss_SaveSession = SaveSession net cfg, ss_GetSession = GetSession net cfg,
     ss_DeleteSession = DeleteSession net cfg\<rparr>"

definition redis_pictures :: "'w net \<Rightarrow> RedisConfig \<Rightarrow> 'w PictureCache" where
  "redis_pictures net cfg = \<lparr>pc_SaveProfilePicture = SaveProfilePicture net cfg,
     pc_GetProfilePicture = GetProfilePicture net cfg, pc_DeleteProfilePicture = DeleteProfilePicture net cfg\<rparr>"

text \<open>
  The stores \<^verbatim>\<open>cmd/tcpd/main.go\<close> hands to the service: with a Redis address and a server that
  answers the ping, sessions and picture cache are the Redis store; otherwise there are none.
\<close>

definition tcpd_service :: "'w sysenv \<Rightarrow> string result \<Rightarrow> 'w sqldb \<Rightarrow> 'w net \<Rightarrow> Config \<Rightarrow> ('w, 'w Service) io" where
  "tcpd_service env getwd db net cfg =
     bind_io (if redis_Addr (Redis cfg) \<noteq> []
              then bind_io (try_io (Ping net (Redis cfg))) (\<lambda>res. return_io (res = Inr ()))
              else return_io False) (\<lambda>up.
     lift_io (New env getwd (mysql_store db) cfg
       (if up then Some (redis_sessions net (Redis cfg)) else None)
       (if up then Some (redis_pictures net (Redis cfg)) else None)))"

text \<open>The service as it runs after a start with Redis reachable.\<close>

definition ref_service :: "(string \<Rightarrow> string list result) \<Rightarrow> RedisConfig \<Rightarrow> 'a world_scheme Service \<Rightarrow> bool" where
  "ref_service ext rcfg s \<longleftrightarrow> sv_env s = ref_env ext \<and> store s = mysql_store ref_db \<and>
     sessions s = Some (redis_sessions redis_net rcfg) \<and> pictureCache s = Some (redis_pictures redis_net rcfg)"

lemma Ping_redis: "server_ok cfg w \<Longrightarrow> Ping redis_net cfg w = (Inr (), conn cfg w)"
  using command_redis(1) [of "[''PING'']" cfg w] by (simp add: Ping_def exec_data_def bind_io_def)

text \<open>
  \<^verbatim>\<open>tcpd\<close> started with a reachable Redis runs the service with Redis sessions and the Redis
  picture cache; started with a Redis it cannot use, or with none configured, it runs without
  either. The start fails only for a bad token secret or a missing working directory.
\<close>

theorem tcpd_start:
  fixes w :: "'a world_scheme" and s0 :: "'a world_scheme Service"
  assumes "New (ref_env ext) getwd (mysql_store ref_db) cfg ss pc = Inr s0"
  shows "\<exists>s w'. tcpd_service (ref_env ext) getwd ref_db redis_net cfg w = (Inr s, w') \<and>
    (server_ok (Redis cfg) w \<longrightarrow> ref_service ext (Redis cfg) s) \<and>
    (\<not> server_ok (Redis cfg) w \<longrightarrow> sessions s = None \<and> pictureCache s = None)"
proof -
  have new: "New (ref_env ext) getwd (mysql_store ref_db) cfg a b = Inr (s0\<lparr>sessions := a, pictureCache := b\<rparr>)" for a b
    using assms by (auto simp: New_def result_simps)
  have s0: "sv_env s0 = ref_env ext" "store s0 = mysql_store ref_db" using assms by (auto simp: New_def result_simps)
  show ?thesis
  proof (cases "server_ok (Redis cfg) w")
    case True
    then have a: "redis_Addr (Redis cfg) \<noteq> []" by (simp add: server_ok_def)
    with Ping_redis [OF True] s0 show ?thesis
      by (simp add: tcpd_service_def bind_io_def try_io_def new ref_service_def True)
  next
    case False
    have "\<exists>m w'. Ping redis_net (Redis cfg) w = (Inl (Errorf m), w')"
      using command_redis(2) [of "[''PING'']" "Redis cfg" w] False by (auto simp: Ping_def bind_io_Inl_iff)
    with False s0 show ?thesis
      by (auto simp: tcpd_service_def bind_io_def try_io_def new)
  qed
qed

lemma live_later:
  "live w' d k = Some v \<Longrightarrow> rw_kv w' = rw_kv w \<Longrightarrow> wd_clock w \<le> wd_clock w' \<Longrightarrow> live w d k = Some v"
  by (auto simp: live_def split: option.splits if_splits)

lemma sess_later:
  assumes "redis.sess_of cfg w' k = Some u" "rw_kv w' = rw_kv w" "wd_clock w \<le> wd_clock w'"
  shows "redis.sess_of cfg w k = Some u"
proof -
  from assms(1) obtain v where v: "live_kv cfg w' k = Some v"
    by (auto simp: redis.sess_of_def split: option.splits)
  then have "live_kv cfg w k = Some v" using assms(2,3) by (auto simp: live_kv_def intro: live_later)
  with assms(1) v show ?thesis by (simp add: redis.sess_of_def)
qed

interpretation redis_auth: authenticated "redis_sessions redis_net rcfg" "sessionKey rcfg"
    "redis.sess_of rcfg" "s\<lparr>sv_env := ref_env ext, sessions := Some (redis_sessions redis_net rcfg)\<rparr>"
proof (unfold_locales, goal_cases)
  case (5 w t w' k u)
  then show ?case by (auto simp: ref_env_def time_Now_def intro: sess_later)
qed (simp_all add: redis_sessions_def redis.get_session redis.save_session redis.delete_session)

lemma ref_service_upd:
  assumes "ref_service ext rcfg s"
  shows "s\<lparr>sv_env := ref_env ext, sessions := Some (redis_sessions redis_net rcfg)\<rparr> = s"
  using assms by (cases s) (simp add: ref_service_def)

subsection \<open>Evaluating the deployment\<close>

lemma conn_fields [simp]:
  "rw_kv (conn cfg w) = rw_kv w" "rw_pass (conn cfg w) = rw_pass w" "wd_tick (conn cfg w) = wd_tick w"
  by (simp_all add: conn_def)

lemma conn_users [simp]:
  fixes w :: "'a sql_world_scheme"
  shows "wd_users (conn cfg w) = wd_users w" "wd_users (put k x w) = wd_users w"
    "db_ok (conn cfg w) = db_ok w" "db_ok (put k x w) = db_ok w"
  by (simp_all add: conn_def put_def db_ok_def)

lemma conn_files [simp]:
  fixes w :: "'a world_scheme"
  shows "wd_files (conn cfg w) = wd_files w" "wd_files (put k x w) = wd_files w"
  by (simp_all add: conn_def put_def)

lemma put_fields [simp]:
  "rw_pass (put k x w) = rw_pass w" "wd_tick (put k x w) = wd_tick w" "wd_clock (put k x w) = wd_clock w"
  by (simp_all add: put_def)

definition tick :: "'a world_scheme \<Rightarrow> 'a world_scheme" where
  "tick w = w\<lparr>wd_clock := wd_clock w + int (wd_tick w)\<rparr>"

lemma tick_fields [simp]:
  "wd_clock (tick w) = wd_clock w + int (wd_tick w)" "wd_tick (tick w) = wd_tick w" "rw_kv (tick w) = rw_kv w"
  "rw_pass (tick w) = rw_pass w" "wd_users (tick w) = wd_users w" "wd_files (tick w) = wd_files w"
  "server_ok cfg (tick w) = server_ok cfg w" "db_ok (tick w) = db_ok w"
  by (simp_all add: tick_def server_ok_def db_ok_def)

definition drawn :: "'a world_scheme \<Rightarrow> 'a world_scheme" where
  "drawn w = w\<lparr>wd_pos := wd_pos w + 16\<rparr>"

lemma drawn_fields [simp]:
  "wd_clock (drawn w) = wd_clock w" "wd_tick (drawn w) = wd_tick w" "rw_kv (drawn w) = rw_kv w"
  "rw_pass (drawn w) = rw_pass w" "wd_users (drawn w) = wd_users w" "wd_files (drawn w) = wd_files w"
  "server_ok cfg (drawn w) = server_ok cfg w" "db_ok (drawn w) = db_ok w"
  by (simp_all add: drawn_def server_ok_def db_ok_def)

lemma ref_parts:
  assumes "ref_service ext rcfg s"
  shows "env_Now (sv_env s) w = (Inr (wd_clock w), tick w)"
    and "us_GetUserAuthByUsername (store s) = GetUserAuthByUsername ref_db"
    and "us_GetUserProfileByID (store s) = GetUserProfileByID ref_db"
    and "us_UpdateNickname (store s) = UpdateNickname ref_db"
    and "us_UpdateProfilePicture (store s) = UpdateProfilePicture ref_db"
    and "sessions s = Some (redis_sessions redis_net rcfg)"
    and "pictureCache s = Some (redis_pictures redis_net rcfg)"
  using assms by (simp_all add: ref_service_def ref_env_def mysql_store_def time_Now_def tick_def)

lemma issue_token_ref:
  assumes "ref_service ext rcfg s"
  shows "\<exists>tok rnd. issue_token s uid now w = (Inr (tok, unix (now + ttl (tokens s))), drawn w) \<and>
    Issue rnd (tokens s) uid now = Inr (tok, unix (now + ttl (tokens s))) \<and> (\<forall>b. rnd 16 = Inr b \<longrightarrow> length b = 16)"
proof -
  let ?nonce = "map (wd_rand w) [wd_pos w ..< wd_pos w + 16]"
  have "env_Rand (sv_env s) 16 w = (Inr ?nonce, drawn w)"
    using assms by (simp add: ref_service_def ref_env_def rand_Read_def drawn_def)
  moreover obtain tok where "Issue (\<lambda>_. Inr ?nonce) (tokens s) uid now = Inr (tok, unix (now + ttl (tokens s)))"
    by (simp add: Issue_def Let_def)
  ultimately show ?thesis
    by (intro exI [of _ tok] exI [of _ "\<lambda>_. Inr ?nonce"]) (auto simp: issue_token_def bind_io_def try_io_def)
qed

text \<open>The lifetime given to the session store, and how long the session stays live.\<close>

lemma session_lifetime:
  fixes c :: int
  assumes "0 \<le> c" "c + t < 2 ^ 63" "3 * int k + 2 * Second \<le> t"
  defines "left \<equiv> unix (c + t) * 1000000000 - (c + int k)"
  shows "Second \<le> left" "left < 2 ^ 63" "0 < int_seconds left" "int_seconds left < 2 ^ 63"
    "2 * int k < int_seconds left * Second" "unix (c + 2 * int k) < unix (c + t)" "int64_range (unix (c + t))"
proof -
  define q where "q = (c + t) div 1000000000"
  have q: "1000000000 * q \<le> c + t" "c + t < 1000000000 * q + 1000000000"
    unfolding q_def by (auto simp: minus_mod_eq_mult_div [symmetric])
  have left: "left = 1000000000 * q - (c + int k)" unfolding left_def unix_def q_def by simp
  show l: "Second \<le> left" using q assms(3) unfolding left Second_def by linarith
  show u: "left < 2 ^ 63" using q assms unfolding left by linarith
  have ge: "left div 1000000000 \<le> int_seconds left"
    using int_seconds_ge [OF _ u] l by (simp add: Second_def)
  have le: "int_seconds left \<le> left div 1000000000 + 1"
    using int_seconds_le [OF _ u] l by (simp add: Second_def)
  have d: "left < 1000000000 * (left div 1000000000) + 1000000000" "1000000000 * (left div 1000000000) \<le> left"
    by (auto simp: minus_mod_eq_mult_div [symmetric])
  show "0 < int_seconds left" using ge d(1) l unfolding Second_def by linarith
  have "left div 1000000000 + 1 \<le> left" using d l unfolding Second_def by linarith
  then show "int_seconds left < 2 ^ 63" using le u by linarith
  show "2 * int k < int_seconds left * Second"
    using ge d(1) q assms(3) unfolding left Second_def by linarith
  have "unix (c + 2 * int k) * 1000000000 \<le> c + 2 * int k"
    unfolding unix_def by (auto simp: minus_mod_eq_mult_div [symmetric] mult.commute)
  then show "unix (c + 2 * int k) < unix (c + t)"
    using q assms(3) unfolding unix_def q_def [symmetric] Second_def by linarith
  show "int64_range (unix (c + t))"
    using q assms unfolding int64_range_def unix_def q_def [symmetric] Second_def by linarith
qed

subsection \<open>From login to logout\<close>

lemma Login_ref:
  fixes w :: "'a world_scheme"
  assumes s: "ref_service ext rcfg s" and db: "db_ok w" and sv: "server_ok rcfg w"
    and row: "wd_users w uid = Some row" "ur_username row = TrimSpace name" "TrimSpace name \<noteq> []" "pw \<noteq> []"
      "VerifyPassword pw (ur_salt row) (ur_hash row) (ur_iter row) = Inr True"
    and time: "0 \<le> wd_clock w" "wd_clock w + ttl (tokens s) < 2 ^ 63" "3 * int (wd_tick w) + 2 * Second \<le> ttl (tokens s)"
  shows "\<exists>tok exp rnd w1. exp = unix (wd_clock w + ttl (tokens s)) \<and>
    Login s \<lparr>lb_Username = name, lb_Password = pw\<rparr> w =
      (Inr \<lparr>lr_Token = tok, lr_ExpiresAt = exp, lr_User = toProtocolProfile s (profile_row uid row)\<rparr>, w1) \<and>
    Issue rnd (tokens s) uid (wd_clock w) = Inr (tok, exp) \<and> (\<forall>b. rnd 16 = Inr b \<longrightarrow> length b = 16) \<and>
    live_kv rcfg w1 (sessionKey rcfg tok) = Some (FormatUint uid) \<and>
    wd_clock w1 = wd_clock w + 2 * int (wd_tick w) \<and> wd_tick w1 = wd_tick w \<and> wd_users w1 = wd_users w \<and>
    wd_files w1 = wd_files w \<and> db_ok w1 \<and> server_ok rcfg w1 \<and>
    (\<forall>v :: 'a world_scheme. rw_kv v = rw_kv w1 \<and> wd_clock v \<le> wd_clock w1 + int (wd_tick w) \<longrightarrow>
       live_kv rcfg v (sessionKey rcfg tok) = Some (FormatUint uid))"
proof -
  note parts = ref_parts [OF s]
  let ?c = "wd_clock w" and ?k = "int (wd_tick w)"
  let ?exp = "unix (?c + ttl (tokens s))"
  obtain tok rnd where tok: "issue_token s uid ?c (tick w) = (Inr (tok, ?exp), drawn (tick w))"
    "Issue rnd (tokens s) uid ?c = Inr (tok, ?exp)" "\<forall>b. rnd 16 = Inr b \<longrightarrow> length b = 16"
    using issue_token_ref [OF s] by blast
  let ?left = "?exp * 1000000000 - (?c + ?k)"
  note life = session_lifetime [OF time]
  let ?w1 = "put (sessionKey rcfg tok) (Some (FormatUint uid, Some (?c + 2 * ?k + int_seconds ?left * Second)))
       (conn rcfg (tick (drawn (tick w))))"
  have save: "save_session s tok uid ?exp (drawn (tick w)) = (Inr (), ?w1)"
    using SaveSession_run [of rcfg "tick (drawn (tick w))" ?left tok uid] sv life
    by (simp add: save_session_def parts redis_sessions_def bind_io_def algebra_simps)
  have acc: "find_account s (TrimSpace name) w = (Inr (auth_row uid row), w)"
    by (rule find_account_run) (simp add: parts ref_users.auth_found [OF db row(1,2)])
  have prof: "GetUserProfileByID ref_db uid ?w1 = (Inr (profile_row uid row), ?w1)"
    using ref_users.profile_found [of ?w1 uid row] db row(1) by simp
  have login: "Login s \<lparr>lb_Username = name, lb_Password = pw\<rparr> w =
      (Inr \<lparr>lr_Token = tok, lr_ExpiresAt = ?exp, lr_User = toProtocolProfile s (profile_row uid row)\<rparr>, ?w1)"
    using row acc tok(1) save prof
    by (simp add: Login_def bind_io_Inr [where m = "find_account _ _"] bind_io_def parts auth_row_def)
  have live: "live_kv rcfg v (sessionKey rcfg tok) = Some (FormatUint uid)"
    if "rw_kv v = rw_kv ?w1" "wd_clock v \<le> ?c + 3 * ?k" for v :: "'a world_scheme"
    using that life(5) time by (simp add: live_kv_def live_def put_def)
  have clock: "wd_clock ?w1 = ?c + 2 * ?k" by simp
  show ?thesis
  proof (intro exI [of _ tok] exI [of _ ?exp] exI [of _ rnd] exI [of _ ?w1] conjI allI impI)
    show "live_kv rcfg ?w1 (sessionKey rcfg tok) = Some (FormatUint uid)"
      by (rule live) (simp_all add: clock)
  next
    fix v :: "'a world_scheme"
    assume "rw_kv v = rw_kv ?w1 \<and> wd_clock v \<le> wd_clock ?w1 + ?k"
    then show "live_kv rcfg v (sessionKey rcfg tok) = Some (FormatUint uid)"
      unfolding clock by (intro live) auto
  qed (use login tok(2,3) sv db clock in simp_all)
qed

lemma requireUser_ref:
  fixes w :: "'a world_scheme"
  assumes "ref_service ext rcfg s" "server_ok rcfg w" "TrimSpace tok \<noteq> []"
    and "Verify (tokens s) tok (wd_clock w) = Inr uid" "uid < 2 ^ 64"
  shows "live_kv rcfg (tick w) (sessionKey rcfg tok) = Some (FormatUint uid) \<Longrightarrow>
      requireUser s tok w = (Inr uid, conn rcfg (tick w))"
    and "live_kv rcfg (tick w) (sessionKey rcfg tok) = None \<Longrightarrow>
      requireUser s tok w = (Inl (Sentinel ErrUnauthorized), conn rcfg (tick w))"
  using assms GetSession_found [of rcfg "tick w" tok uid] GetSession_missing [of rcfg "tick w" tok]
  by (simp_all add: requireUser_def ref_parts bind_io_def redis_sessions_def)

definition request :: "string \<Rightarrow> string \<Rightarrow> string \<Rightarrow> Request" where
  "request op tok body = \<lparr>rq_Version = Version, rq_RequestID = ''1'', rq_Op = op, rq_Token = tok, rq_Body = body\<rparr>"

lemma requireUser_revoked:
  fixes w :: "'a world_scheme"
  assumes "ref_service ext rcfg s" "server_ok rcfg w" "live_kv rcfg (tick w) (sessionKey rcfg tok) = None"
  shows "fst (requireUser s tok w) = Inl (Sentinel ErrUnauthorized)"
proof -
  have "Verify (tokens s) tok (wd_clock w) = Inl e \<Longrightarrow> e = Sentinel ErrUnauthorized" for e
    by (auto simp: Verify_def Let_def split: if_splits sum.splits)
  then show ?thesis using assms GetSession_missing [of rcfg "tick w" tok]
    by (cases "Verify (tokens s) tok (wd_clock w)")
      (auto simp: requireUser_def ref_parts bind_io_def redis_sessions_def)
qed

lemma Handle_profile:
  assumes "requireUser s tok w = (Inr uid, w1)" "us_GetUserProfileByID (store s) uid w1 = (Inr p, w1)"
  shows "Handle s (request OpGetProfile tok b) w = (Inr (marshal_UserProfile (toProtocolProfile s p)), w1)"
  using assms
  by (simp add: Handle_def request_def op_defs bind_io_def marshal_def GetProfile_def translated_def try_io_def)

lemma Handle_login:
  assumes "ValidString n" "ValidString p"
  shows "Handle s (request OpLogin tok (marshal_LoginBody \<lparr>lb_Username = n, lb_Password = p\<rparr>)) w =
    (case Login s \<lparr>lb_Username = n, lb_Password = p\<rparr> w of
       (Inl e, w1) \<Rightarrow> (Inl e, w1) | (Inr r, w1) \<Rightarrow> (Inr (marshal_LoginResult r), w1))"
proof -
  let ?b = "\<lparr>lb_Username = n, lb_Password = p\<rparr>"
  have "decodeBody (dec_LoginBody False) (marshal_LoginBody ?b) zero_LoginBody = Inr ?b"
    using login_body.dec_enc [of ?b False] assms
    by (simp add: decodeBody_def) (simp add: marshal_LoginBody_def)
  then show ?thesis
    by (simp add: Handle_def request_def body_error_def marshal_def bind_io_def split: prod.split sum.split)
qed

lemma session_run:
  fixes w :: "'a world_scheme"
  assumes s: "ref_service ext rcfg s" and db: "db_ok w" and sv: "server_ok rcfg w"
    and row: "wd_users w uid = Some row" "ur_username row = TrimSpace name" "TrimSpace name \<noteq> []" "pw \<noteq> []"
      "VerifyPassword pw (ur_salt row) (ur_hash row) (ur_iter row) = Inr True"
    and valid: "ValidString name" "ValidString pw"
    and time: "0 \<le> wd_clock w" "wd_clock w + ttl (tokens s) < 2 ^ 63" "3 * int (wd_tick w) + 2 * Second \<le> ttl (tokens s)"
  obtains tok exp rnd w1 w2 w3 where
    "Handle s (request OpLogin [] (marshal_LoginBody \<lparr>lb_Username = name, lb_Password = pw\<rparr>)) w =
      (Inr (marshal_LoginResult \<lparr>lr_Token = tok, lr_ExpiresAt = exp,
         lr_User = toProtocolProfile s (profile_row uid row)\<rparr>), w1)"
    "Handle s (request OpGetProfile tok []) w1 =
      (Inr (marshal_UserProfile (toProtocolProfile s (profile_row uid row))), w2)"
    "\<And>b. Handle s (request OpLogout tok b) w2 = (Inr ''{}'', w3)"
    "fst (Handle s (request OpGetProfile tok []) w3) = Inl (Sentinel ErrUnauthorized)"
    "Issue rnd (tokens s) uid (wd_clock w) = Inr (tok, exp)" "\<forall>b. rnd 16 = Inr b \<longrightarrow> length b = 16"
    "0 < uid" "uid < 2 ^ 64" "int64_range exp"
proof -
  obtain tok exp rnd w1 where exp: "exp = unix (wd_clock w + ttl (tokens s))"
    and login: "Login s \<lparr>lb_Username = name, lb_Password = pw\<rparr> w =
      (Inr \<lparr>lr_Token = tok, lr_ExpiresAt = exp, lr_User = toProtocolProfile s (profile_row uid row)\<rparr>, w1)"
    and issue: "Issue rnd (tokens s) uid (wd_clock w) = Inr (tok, exp)" "\<forall>b. rnd 16 = Inr b \<longrightarrow> length b = 16"
    and w1: "wd_clock w1 = wd_clock w + 2 * int (wd_tick w)" "wd_tick w1 = wd_tick w" "wd_users w1 = wd_users w"
      "db_ok w1" "server_ok rcfg w1"
    and live: "\<forall>v :: 'a world_scheme. rw_kv v = rw_kv w1 \<and> wd_clock v \<le> wd_clock w1 + int (wd_tick w) \<longrightarrow>
       live_kv rcfg v (sessionKey rcfg tok) = Some (FormatUint uid)"
    using Login_ref [OF s db sv row time] by blast
  have uid: "0 < uid" "uid < 2 ^ 64" using db row(1) by (auto simp: db_ok_def users_ok_def row_ok_def)
  have tok: "TrimSpace tok \<noteq> []" using token_TrimSpace [OF issue(1)] by simp
  have ver: "Verify (tokens s) tok (wd_clock w1) = Inr uid"
    using Verify_Issue [OF issue(1) uid(2), of "wd_clock w1"] session_lifetime(6,7) [OF time] uid(1)
    by (simp add: exp w1)
  let ?w2 = "conn rcfg (tick w1)"
  have "live_kv rcfg (tick w1) (sessionKey rcfg tok) = Some (FormatUint uid)" using live w1 by simp
  then have req: "requireUser s tok w1 = (Inr uid, ?w2)" by (rule requireUser_ref(1) [OF s w1(5) tok ver uid(2)])
  let ?w3 = "put (sessionKey rcfg tok) None (conn rcfg ?w2)"
  have "Logout s tok ?w2 = (Inr (), ?w3)"
    using DeleteSession_run [of rcfg ?w2 tok] w1(5) tok by (simp add: Logout_def ref_parts [OF s] redis_sessions_def)
  then have out: "Handle s (request OpLogout tok b) ?w2 = (Inr ''{}'', ?w3)" for b
    by (simp add: Handle_def request_def op_defs bind_io_def)
  have "live_kv rcfg (tick ?w3) (sessionKey rcfg tok) = None" by (simp add: live_kv_def live_def put_def)
  then have "fst (requireUser s tok ?w3) = Inl (Sentinel ErrUnauthorized)"
    using requireUser_revoked [OF s, of ?w3 tok] w1(5) by simp
  then have refused: "fst (Handle s (request OpGetProfile tok []) ?w3) = Inl (Sentinel ErrUnauthorized)"
    by (cases "requireUser s tok ?w3") (auto simp: Handle_def request_def op_defs bind_io_def)
  have me: "Handle s (request OpGetProfile tok []) w1 =
      (Inr (marshal_UserProfile (toProtocolProfile s (profile_row uid row))), ?w2)"
    using req w1 row(1) ref_users.profile_found [of ?w2 uid row]
    by (intro Handle_profile) (simp_all add: ref_parts [OF s])
  have "Handle s (request OpLogin [] (marshal_LoginBody \<lparr>lb_Username = name, lb_Password = pw\<rparr>)) w =
      (Inr (marshal_LoginResult \<lparr>lr_Token = tok, lr_ExpiresAt = exp, lr_User = toProtocolProfile s (profile_row uid row)\<rparr>), w1)"
    using login valid by (simp add: Handle_login)
  moreover have "int64_range exp" using session_lifetime(7) [OF time] by (simp add: exp)
  ultimately show ?thesis using me out refused issue uid that [of tok exp w1 ?w2 ?w3 rnd] by blast
qed

text \<open>
  The life of a session on the deployed service. A registered user logs in with name and
  password and gets a token; with the token the profile is served; after the logout the same
  token, though not expired, is refused as unauthorized.
\<close>

theorem session_lifecycle:
  fixes w :: "'a world_scheme"
  assumes s: "ref_service ext rcfg s" and db: "db_ok w" and sv: "server_ok rcfg w"
    and row: "wd_users w uid = Some row" "ur_username row = TrimSpace name" "TrimSpace name \<noteq> []" "pw \<noteq> []"
      "VerifyPassword pw (ur_salt row) (ur_hash row) (ur_iter row) = Inr True"
    and valid: "ValidString name" "ValidString pw"
    and time: "0 \<le> wd_clock w" "wd_clock w + ttl (tokens s) < 2 ^ 63" "3 * int (wd_tick w) + 2 * Second \<le> ttl (tokens s)"
  shows "\<exists>tok exp w1 w2 w3.
    Handle s (request OpLogin [] (marshal_LoginBody \<lparr>lb_Username = name, lb_Password = pw\<rparr>)) w =
      (Inr (marshal_LoginResult \<lparr>lr_Token = tok, lr_ExpiresAt = exp,
         lr_User = toProtocolProfile s (profile_row uid row)\<rparr>), w1) \<and>
    Handle s (request OpGetProfile tok []) w1 =
      (Inr (marshal_UserProfile (toProtocolProfile s (profile_row uid row))), w2) \<and>
    Handle s (request OpLogout tok []) w2 = (Inr ''{}'', w3) \<and>
    fst (Handle s (request OpGetProfile tok []) w3) = Inl (Sentinel ErrUnauthorized)"
proof -
  obtain tok exp rnd w1 w2 w3 where
    "Handle s (request OpLogin [] (marshal_LoginBody \<lparr>lb_Username = name, lb_Password = pw\<rparr>)) w =
      (Inr (marshal_LoginResult \<lparr>lr_Token = tok, lr_ExpiresAt = exp,
         lr_User = toProtocolProfile s (profile_row uid row)\<rparr>), w1)"
    "Handle s (request OpGetProfile tok []) w1 =
      (Inr (marshal_UserProfile (toProtocolProfile s (profile_row uid row))), w2)"
    "\<And>b. Handle s (request OpLogout tok b) w2 = (Inr ''{}'', w3)"
    "fst (Handle s (request OpGetProfile tok []) w3) = Inl (Sentinel ErrUnauthorized)"
    by (rule session_run [OF assms]) blast
  then show ?thesis by blast
qed

subsection \<open>A sample deployment\<close>

definition sample_row :: user_row where
  "sample_row = sample_user\<lparr>ur_hash := sample_hash\<rparr>"

definition sample_world :: world where
  "sample_world = \<lparr>wd_clock = 0, wd_tick = 5, wd_rand = (\<lambda>_. CHR ''r''), wd_pos = 0,
     rw_kv = (\<lambda>_ _. None), rw_pass = ''pw'', rw_in = [], rw_auth = False, rw_db = 0,
     wd_users = [1 \<mapsto> sample_row], wd_next = 2, wd_files = (\<lambda>_. None)\<rparr>"

definition sample_cfg :: Config where
  "sample_cfg = Default\<lparr>Redis := sample_redis, Security := (Security Default)\<lparr>TokenSecret := replicate 32 CHR ''z''\<rparr>\<rparr>"

definition no_ext :: "string \<Rightarrow> string list result" where
  "no_ext ct = Inr []"

lemma sample_world_ok: "db_ok sample_world" "server_ok sample_redis sample_world"
  by (auto simp: db_ok_def users_ok_def row_ok_def sample_world_def sample_row_def sample_user_def
      server_ok_def sample_redis_def split: if_splits)

lemma sample_token_manager:
  "NewTokenManager (replicate 32 CHR ''z'') t = Inr \<lparr>secret = replicate 32 CHR ''z'', ttl = t\<rparr>"
proof -
  have "hex_DecodeString (replicate 32 CHR ''z'') = Inl e \<Longrightarrow> ?thesis" for e
    by (simp add: NewTokenManager_def Let_def)
  moreover have "\<exists>e. hex_DecodeString (CHR ''z'' # CHR ''z'' # x) = Inl e" for x
    by (simp add: hex_val_def byte_of_def)
  from this [of "replicate 30 CHR ''z''"] have "\<exists>e. hex_DecodeString (replicate 32 CHR ''z'') = Inl e"
    by (simp add: numeral_eq_Suc)
  ultimately show ?thesis by blast
qed

lemma sample_New:
  "\<exists>s0 :: world Service. New (ref_env no_ext) (Inr ''/srv'') (mysql_store ref_db) sample_cfg None None = Inr s0 \<and>
     tokens s0 = \<lparr>secret = replicate 32 CHR ''z'', ttl = 86400 * Second\<rparr>"
  by (simp add: New_def sample_cfg_def Default_def sample_token_manager ProfilePictureDirAbs_def IsAbs_def)

theorem tcpd_start_witness:
  "\<exists>s w'. tcpd_service (ref_env no_ext) (Inr ''/srv'') ref_db redis_net sample_cfg sample_world = (Inr s, w') \<and>
     ref_service no_ext sample_redis s"
proof -
  obtain s0 :: "world Service" where
    "New (ref_env no_ext) (Inr ''/srv'') (mysql_store ref_db) sample_cfg None None = Inr s0"
    using sample_New by blast
  from tcpd_start [OF this, of sample_world] sample_world_ok(2) show ?thesis
    by (auto simp: sample_cfg_def)
qed

text \<open>The sample deployment after its start, and the account of its only user.\<close>

lemma sample_running:
  obtains s :: "world Service" where "ref_service no_ext sample_redis s"
    "tokens s = \<lparr>secret = replicate 32 CHR ''z'', ttl = 86400 * Second\<rparr>" "profilePictureBaseURL s = ''/profile-pictures''"
proof -
  obtain s0 :: "world Service" where s0:
    "New (ref_env no_ext) (Inr ''/srv'') (mysql_store ref_db) sample_cfg None None = Inr s0"
    "tokens s0 = \<lparr>secret = replicate 32 CHR ''z'', ttl = 86400 * Second\<rparr>"
    using sample_New by blast
  define s where "s = s0\<lparr>sessions := Some (redis_sessions redis_net sample_redis),
     pictureCache := Some (redis_pictures redis_net sample_redis)\<rparr>"
  have "TrimRight ''/profile-pictures/'' CHR ''/'' = ''/profile-pictures''" by code_simp
  then have "ref_service no_ext sample_redis s" "tokens s = \<lparr>secret = replicate 32 CHR ''z'', ttl = 86400 * Second\<rparr>"
    "profilePictureBaseURL s = ''/profile-pictures''"
    using s0 by (auto simp: s_def ref_service_def New_def result_simps sample_cfg_def Default_def)
  then show ?thesis by (rule that)
qed

lemma sample_account_row:
  "wd_users sample_world 1 = Some sample_row" "ur_username sample_row = TrimSpace ''ann''"
  "TrimSpace ''ann'' \<noteq> []" "''pw'' \<noteq> []"
  "VerifyPassword ''pw'' (ur_salt sample_row) (ur_hash sample_row) (ur_iter sample_row) = Inr True"
  using sample_password by (simp_all add: sample_world_def sample_row_def sample_user_def)

lemma sample_time:
  "0 \<le> wd_clock sample_world" "wd_clock sample_world + 86400 * Second < 2 ^ 63"
  "3 * int (wd_tick sample_world) + 2 * Second \<le> 86400 * Second"
  by (simp_all add: sample_world_def Second_def)

theorem session_lifecycle_witness:
  "\<exists>s tok w2 w3. ref_service no_ext sample_redis (s :: world Service) \<and>
     Handle s (request OpLogout tok []) w2 = (Inr ''{}'', w3) \<and>
     fst (Handle s (request OpGetProfile tok []) w3) = Inl (Sentinel ErrUnauthorized)"
proof -
  obtain s :: "world Service" where s: "ref_service no_ext sample_redis s"
    "tokens s = \<lparr>secret = replicate 32 CHR ''z'', ttl = 86400 * Second\<rparr>"
    by (rule sample_running)
  have valid: "ValidString ''ann''" "ValidString ''pw''" by (simp_all add: byte_of_def)
  from session_lifecycle [OF s(1) sample_world_ok sample_account_row valid] sample_time s show ?thesis
    by simp blast
qed

end
