(* ===== verification/JsonSize.thy ===== *)
theory JsonSize
  imports Token Protocol
begin

text \<open>
  How long the texts on the wire can get: a JSON string is at most six times its content, a number
  of 64 bits has at most twenty characters. From this the size of tokens and messages follows, which
  the frame limit is compared with.
\<close>

lemma length_json_escape: "length (json_escape s) \<le> 6 * length s"
proof (induction s rule: json_escape.induct)
  case (1 s)
  have u: "length (esc_u n) = 6" for n by (simp add: esc_u_def)
  have a: "length (esc_ascii c) \<le> 6" for c by (simp add: esc_ascii_def Let_def u)
  have r: "length (esc_rune (take k s)) \<le> 6 * min k (length s)" if "0 < k" "s \<noteq> []" for k
    using that by (cases s; cases k) (auto simp: esc_rune_def u)
  show ?case
  proof (cases "s = []")
    case True
    then show ?thesis by (simp add: json_escape.simps)
  next
    case s: False
    then obtain c t where ct: "s = c # t" by (cases s) auto
    consider "rune_len s = 0" | "rune_len s = 1" | "rune_len s > 1" by linarith
    then show ?thesis
    proof cases
      case 1
      with "1.IH"(1) [OF s] s show ?thesis by (subst json_escape.simps) (simp add: u ct)
    next
      case 2
      with "1.IH"(2) [OF s] s a [of c] show ?thesis by (subst json_escape.simps) (simp add: ct)
    next
      case 3
      have "length (json_escape (drop (rune_len s) s)) \<le> 6 * length (drop (rune_len s) s)" using "1.IH"(3) [OF s] 3 by simp
      moreover have "length (esc_rune (take (rune_len s) s)) \<le> 6 * min (rune_len s) (length s)" using r [of "rune_len s"] 3 s by simp
      ultimately have "length (esc_rune (take (rune_len s) s)) + length (json_escape (drop (rune_len s) s)) \<le> 6 * length s"
        by (simp add: min_def split: if_splits)
      with 3 s show ?thesis by (subst json_escape.simps) simp
    qed
  qed
qed

lemma length_json_string: "length (json_string s) \<le> 6 * length s + 2"
  using length_json_escape [of s] by (simp add: json_string_def)

lemma length_decimal: "n < 10 ^ Suc k \<Longrightarrow> length (FormatUint n) \<le> Suc k"
proof (induction k arbitrary: n)
  case 0
  then show ?case by (subst FormatUint.simps) simp
next
  case (Suc k)
  show ?case
  proof (cases "n < 10")
    case True
    then show ?thesis by (subst FormatUint.simps) simp
  next
    case False
    have "n div 10 < 10 ^ Suc k" using Suc.prems by (simp add: less_mult_imp_div_less)
    from Suc.IH [OF this] False show ?thesis by (subst FormatUint.simps) simp
  qed
qed

lemma length_uint64: "n < 2 ^ 64 \<Longrightarrow> length (FormatUint n) \<le> 20"
  using length_decimal [of n 19] by simp

lemma length_int64: "int64_range i \<Longrightarrow> length (Itoa i) \<le> 21"
proof -
  assume "int64_range i"
  then have "nat \<bar>i\<bar> < 2 ^ 64" by (auto simp: int64_range_def)
  from length_uint64 [OF this] show ?thesis by (auto simp: Itoa_def)
qed

lemma length_rawurl: "length (EncodeToString RawURLEncoding s) \<le> 2 * length s + 2"
proof -
  have "length (b64_Encode RawURLEncoding t) \<le> 2 * length t + 2" for t
    by (induction RawURLEncoding t rule: b64_Encode.induct) (simp_all add: pad_def RawURLEncoding_def)
  from this [of "map byte_of s"] show ?thesis by (simp add: EncodeToString_def)
qed

subsection \<open>Objects\<close>

fun member_size :: "(string \<times> string) list \<Rightarrow> nat" where
  "member_size [] = 0"
| "member_size ((k, v) # ms) = length (json_string k) + length v + 2 + member_size ms"

lemma length_enc_object: "length (enc_object ms) \<le> member_size ms + 2"
proof -
  have "length (enc_members ms) \<le> member_size ms" for ms
  proof (induction ms rule: enc_members.induct)
    case (3 m n ms)
    then show ?case by (cases m) (simp add: enc_member_def)
  qed (auto simp: enc_member_def)
  then show ?thesis by (simp add: enc_object_def)
qed

lemma member_size_append [simp]: "member_size (xs @ ys) = member_size xs + member_size ys"
  by (induction xs rule: member_size.induct) simp_all

lemma member_size_omitempty: "member_size (omitempty k e v) \<le> length (json_string k) + length v + 2"
  by (simp add: omitempty_def)

lemma name_size: "length (json_string ''request_id'') \<le> 62" "length (json_string ''version'') \<le> 62"
  "length (json_string ''op'') \<le> 62" "length (json_string ''token'') \<le> 62" "length (json_string ''body'') \<le> 62"
  "length (json_string ''ok'') \<le> 62" "length (json_string ''error_code'') \<le> 62" "length (json_string ''message'') \<le> 62"
  "length (json_string ''uid'') \<le> 62" "length (json_string ''exp'') \<le> 62" "length (json_string ''nonce'') \<le> 62"
  "length (json_string ''username'') \<le> 62" "length (json_string ''password'') \<le> 62" "length (json_string ''id'') \<le> 62"
  "length (json_string ''nickname'') \<le> 62" "length (json_string ''profile_picture_url'') \<le> 122"
  "length (json_string ''expires_at'') \<le> 62" "length (json_string ''user'') \<le> 62"
  using length_json_string [of "''request_id''"] length_json_string [of "''version''"] length_json_string [of "''op''"]
    length_json_string [of "''token''"] length_json_string [of "''body''"] length_json_string [of "''ok''"]
    length_json_string [of "''error_code''"] length_json_string [of "''message''"] length_json_string [of "''uid''"]
    length_json_string [of "''exp''"] length_json_string [of "''nonce''"] length_json_string [of "''username''"]
    length_json_string [of "''password''"] length_json_string [of "''id''"] length_json_string [of "''nickname''"]
    length_json_string [of "''profile_picture_url''"] length_json_string [of "''expires_at''"] length_json_string [of "''user''"]
  by simp_all

subsection \<open>Tokens and messages\<close>

lemma token_size:
  assumes "Issue rnd m uid now = Inr (tok, exp)" "\<And>b. rnd 16 = Inr b \<Longrightarrow> length b = 16" "uid < 2 ^ 64" "int64_range exp"
  shows "length tok \<le> 1200"
  using assms(1)
proof (rule Issue_Inr)
  fix nonce c
  let ?t = "marshal_claims c"
  assume n: "rnd 16 = Inr nonce" and c: "c = \<lparr>UserID = uid, Exp = exp, Nonce = EncodeToString RawURLEncoding nonce\<rparr>"
    and tok: "tok = EncodeToString RawURLEncoding ?t @ ''.'' @ sign m (EncodeToString RawURLEncoding ?t)"
  have "length (json_string (Nonce c)) \<le> 206"
    using length_json_string [of "Nonce c"] length_rawurl [of nonce] assms(2) [OF n] by (simp add: c)
  then have "length ?t \<le> 480"
    using length_enc_object [of "[(''uid'', FormatUint uid), (''exp'', Itoa exp), (''nonce'', json_string (Nonce c))]"]
      length_uint64 [OF assms(3)] length_int64 [OF assms(4)] name_size(9-11)
    by (simp add: marshal_claims_def c)
  moreover have "length (sign m x) \<le> 66" for x
    using length_rawurl [of "hmac_sha256 (secret m) (sign_input x)"] length_hmac by (simp add: sign_def)
  note this [of "EncodeToString RawURLEncoding ?t"]
  ultimately show ?thesis using length_rawurl [of ?t] unfolding tok length_append by (simp only: list.size)
qed

lemma request_size:
  assumes "marshal_Request r = Inr t" "rq_Body r = [] \<or> body_text (rq_Body r)" "int64_range (rq_Version r)"
  shows "length t \<le> 400 + 6 * (length (rq_RequestID r) + length (rq_Op r) + length (rq_Token r)) + length (rq_Body r)"
proof -
  let ?ms = "[(''version'', Itoa (rq_Version r)), (''request_id'', json_string (rq_RequestID r)), (''op'', json_string (rq_Op r))]
    @ omitempty ''token'' (rq_Token r = []) (json_string (rq_Token r)) @ omitempty ''body'' (rq_Body r = []) (rq_Body r)"
  have "t = enc_object ?ms" using assms(1,2) by (simp add: marshal_Request_def raw_member_ok)
  then show ?thesis
    using length_enc_object [of ?ms] length_json_string [of "rq_RequestID r"] length_json_string [of "rq_Op r"]
      length_json_string [of "rq_Token r"] length_int64 [OF assms(3)] name_size(1-5)
      member_size_omitempty [of "''token''" "rq_Token r = []" "json_string (rq_Token r)"]
      member_size_omitempty [of "''body''" "rq_Body r = []" "rq_Body r"]
    by simp
qed

lemma response_size:
  assumes "marshal_Response r = Inr t" "rs_Body r = [] \<or> body_text (rs_Body r)" "int64_range (rs_Version r)"
  shows "length t \<le> 500 + 6 * (length (rs_RequestID r) + length (rs_ErrorCode r) + length (rs_Message r)) + length (rs_Body r)"
proof -
  let ?ms = "[(''version'', Itoa (rs_Version r)), (''request_id'', json_string (rs_RequestID r)), (''ok'', enc_bool (rs_OK r))]
    @ omitempty ''error_code'' (rs_ErrorCode r = []) (json_string (rs_ErrorCode r))
    @ omitempty ''message'' (rs_Message r = []) (json_string (rs_Message r)) @ omitempty ''body'' (rs_Body r = []) (rs_Body r)"
  have "t = enc_object ?ms" using assms(1,2) by (simp add: marshal_Response_def raw_member_ok)
  moreover have "length (enc_bool (rs_OK r)) \<le> 5" by (simp add: enc_bool_def)
  ultimately show ?thesis
    using length_enc_object [of ?ms] length_json_string [of "rs_RequestID r"] length_json_string [of "rs_ErrorCode r"]
      length_json_string [of "rs_Message r"] length_int64 [OF assms(3)] name_size(1,2,5-8)
      member_size_omitempty [of "''error_code''" "rs_ErrorCode r = []" "json_string (rs_ErrorCode r)"]
      member_size_omitempty [of "''message''" "rs_Message r = []" "json_string (rs_Message r)"]
      member_size_omitempty [of "''body''" "rs_Body r = []" "rs_Body r"]
    by simp
qed

lemma login_size: "length (marshal_LoginBody b) \<le> 140 + 6 * (length (lb_Username b) + length (lb_Password b))"
  using length_enc_object [of "[(''username'', json_string (lb_Username b)), (''password'', json_string (lb_Password b))]"]
    length_json_string [of "lb_Username b"] length_json_string [of "lb_Password b"] name_size(12,13)
  by (simp add: marshal_LoginBody_def)

lemma profile_size:
  assumes "up_ID u < 2 ^ 64"
  shows "length (marshal_UserProfile u) \<le> 350 + 6 * (length (up_Username u) + length (up_Nickname u) + length (up_ProfilePictureURL u))"
  using length_enc_object [of "[(''id'', FormatUint (up_ID u)), (''username'', json_string (up_Username u)),
      (''nickname'', json_string (up_Nickname u))] @ omitempty ''profile_picture_url'' (up_ProfilePictureURL u = [])
           (json_string (up_ProfilePictureURL u))"]
    length_json_string [of "up_Username u"] length_json_string [of "up_Nickname u"] length_json_string [of "up_ProfilePictureURL u"]
    length_uint64 [OF assms] name_size(12,14-16)
    member_size_omitempty [of "''profile_picture_url''" "up_ProfilePictureURL u = []" "json_string (up_ProfilePictureURL u)"]
  by (simp add: marshal_UserProfile_def)

lemma login_result_size:
  assumes "int64_range (lr_ExpiresAt r)"
  shows "length (marshal_LoginResult r) \<le> 220 + 6 * length (lr_Token r) + length (marshal_UserProfile (lr_User r))"
  using length_enc_object [of "[(''token'', json_string (lr_Token r)), (''expires_at'', Itoa (lr_ExpiresAt r)),
      (''user'', marshal_UserProfile (lr_User r))]"]
    length_json_string [of "lr_Token r"] length_int64 [OF assms] name_size(4,17,18)
  by (simp add: marshal_LoginResult_def)

end
