(* ===== verification/Backend.thy ===== *)
theory Backend
  imports HttpApi TcpLive System JsonSize
begin

text \<open>
  The TCP backend as a client sees it: one request and its response on a connection of its own
  (\<open>serve_one\<close>), that the server of \<^verbatim>\<open>tcp_server.go\<close> does answer so, and the calls of the gateway's client
  against it.
\<close>

subsection \<open>One exchange\<close>

abbreviation fresh_writer :: writer where
  "fresh_writer \<equiv> \<lparr>wr_out = [], wr_room = None, wr_err = Sentinel NetErrClosed\<rparr>"

definition response_bytes :: "TCPConfig \<Rightarrow> Response \<Rightarrow> bytes" where
  "response_bytes tc resp = wr_out (writeResponse tc resp fresh_writer)"

definition serve_one :: "TCPConfig \<Rightarrow> 'w Service \<Rightarrow> reader \<Rightarrow> 'w \<Rightarrow> bytes \<times> 'w" where
  "serve_one tc svc r w =
     (case ReadFrame r (MaxFrameBytes tc) of
        (Inl _, _) \<Rightarrow> ([], w)
      | (Inr payload, _) \<Rightarrow>
          (case unmarshal_Request payload of
             Inl _ \<Rightarrow> (response_bytes tc bad_request, w)
           | Inr req \<Rightarrow>
               (case Handle svc req w of
                  (res, w1) \<Rightarrow> (if is_panic res then [] else response_bytes tc (job_response req res), w1))))"

lemma frame_small: "t \<noteq> [] \<Longrightarrow> length t \<le> unat m \<Longrightarrow> frame_ok m t" for m :: u32
  using unsigned_less [of m, where 'a = nat] by (auto simp: frame_ok_def)

lemma response_bytes_ok:
  assumes "marshal_Response resp = Inr t" "frame_ok (MaxFrameBytes tc) t"
  shows "response_bytes tc resp = frame_bytes t"
  using assms by (simp add: response_bytes_def writeResponse_def WriteFrame_unbounded)

lemma Write_room: "wr_room w = None \<Longrightarrow> wr_room (snd (Write p w)) = None"
  by (simp add: Write_def)

lemma writeResponse_bytes:
  assumes "wr_room w = None"
  shows "wr_out (writeResponse tc resp w) = wr_out w @ response_bytes tc resp"
proof (cases "marshal_Response resp")
  case (Inl e)
  then show ?thesis by (simp add: writeResponse_def response_bytes_def)
next
  case (Inr t)
  then show ?thesis
    using assms by (simp add: writeResponse_def response_bytes_def WriteFrame_def Write_unbounded)
qed

lemma answer_out: "wr_room (cn_out c) = None \<Longrightarrow> wr_out (cn_out (answer tc resp c)) = wr_out (cn_out c) @ response_bytes tc resp"
  by (simp add: answer_def writeResponse_bytes)

lemma set_world [simp]: "ts_world (set_conn i c s) = ts_world s" "ts_world (set_worker k x s) = ts_world s"
  by (simp_all add: set_conn_def set_worker_def)

text \<open>The four steps of a request that finds a worker idle.\<close>

lemma one_exchange:
  assumes r: "reachable tc svc s" and up: "\<not> ts_done s" "ts_crash s = None" "ts_jobs s = []"
    and k: "k < length (ts_workers s)" "ts_workers s ! k = Idle"
    and i: "i < length (ts_conns s)" "cn_state (ts_conns s ! i) = Reading"
    and req: "reads_request tc (ts_conns s ! i) req rd"
    and h: "Handle svc req (ts_world s) = (res, w')" "\<not> is_panic res"
  shows "\<exists>s'. (step tc svc)\<^sup>*\<^sup>* s s' \<and> ts_world s' = w' \<and>
    ts_conns s' = (ts_conns s)[i := answer tc (job_response req res)
      ((asked (Some req) rd (ts_conns s ! i))\<lparr>cn_state := Waiting req (ts_next s)\<rparr>)]"
proof -
  let ?ch = "ts_next s" and ?c = "ts_conns s ! i"
  let ?job = "\<lparr>job_req = req, job_resp = ?ch\<rparr>" and ?resp = "job_response req res"
  let ?c1 = "(asked (Some req) rd ?c)\<lparr>cn_state := Waiting req ?ch\<rparr>"
  let ?s1 = "set_conn i ?c1 (set_worker k (Handling ?job) (s\<lparr>ts_next := Suc ?ch\<rparr>))"
  let ?s2 = "set_worker k (Sending ?resp ?ch) (?s1\<lparr>ts_world := w'\<rparr>)"
  let ?s3 = "set_worker k Idle (?s2\<lparr>ts_chans := (ts_chans ?s2)(?ch \<mapsto> ?resp)\<rparr>)"
  let ?s4 = "set_conn i (answer tc ?resp ?c1) (?s3\<lparr>ts_chans := (ts_chans ?s3)(?ch := None)\<rparr>)"
  obtain own where "server_inv tc svc own s" using reachable_inv [OF r] by blast
  then have ch: "ts_chans s ?ch = None" and closed: "\<not> ts_closed s"
    using up(1) by (auto simp: server_inv_def) (metis less_irrefl not_None_eq)
  have "step tc svc s ?s1" using up k i req closed by (intro step.hand_over) simp_all
  moreover have "step tc svc ?s1 ?s2"
    using step.handle [where s = ?s1 and k = k and job = ?job and res = res and w' = w' and svc = svc and cfg = tc] up k h by simp
  moreover have "step tc svc ?s2 ?s3"
    using step.send [where s = ?s2 and k = k and resp = ?resp and ch = ?ch and svc = svc and cfg = tc] up k ch by simp
  moreover have "step tc svc ?s3 ?s4"
    using step.respond [where s = ?s3 and i = i and c = ?c1 and req = req and ch = ?ch and resp = ?resp and svc = svc and cfg = tc] up i by simp
  ultimately have "(step tc svc)\<^sup>*\<^sup>* s ?s4" by (meson converse_rtranclp_into_rtranclp rtranclp.rtrancl_refl)
  then show ?thesis by (intro exI [of _ ?s4]) (simp add: set_conn_def set_worker_def)
qed





subsection \<open>The client's network\<close>

record 'w backend_world =
  bk_in :: bytes
  bk_w :: 'w

text \<open>
  A connection to a backend that is up: what is written arrives, and a client that reads gets the
  response to what it has sent, and then the end of the connection.
\<close>

definition backend_net :: "TCPConfig \<Rightarrow> 'w Service \<Rightarrow> ('w backend_world) tcp_net" where
  "backend_net tc svc = \<lparr>
     net_dial = (\<lambda>_ b. (Inr (), b\<lparr>bk_in := []\<rparr>)),
     net_write = (\<lambda>bs b. (Inr (), b\<lparr>bk_in := bk_in b @ bs\<rparr>)),
     net_recv = (\<lambda>b. case serve_one tc svc \<lparr>rd_buf = bk_in b, rd_end = Sentinel EOF\<rparr> (bk_w b) of
        (out, w1) \<Rightarrow> ((out, Sentinel EOF), b\<lparr>bk_w := w1\<rparr>)),
     net_SetDeadline = (\<lambda>_ b. b)\<rparr>"

text \<open>The request of a call, and the response to it when both fit into a frame.\<close>

definition call_request :: "64 word \<Rightarrow> string \<Rightarrow> string \<Rightarrow> string option \<Rightarrow> Request" where
  "call_request n op token body = \<lparr>rq_Version = Version, rq_RequestID = FormatUint (unat n), rq_Op = op,
     rq_Token = token, rq_Body = MarshalBody body\<rparr>"

lemma ReadFrame_whole: "frame_ok m t \<Longrightarrow> ReadFrame \<lparr>rd_buf = frame_bytes t, rd_end = e\<rparr> m = (Inr t, \<lparr>rd_buf = [], rd_end = e\<rparr>)"
  using ReadFrame_frame_bytes [of m t "\<lparr>rd_buf = frame_bytes t, rd_end = e\<rparr>" "[]"] by simp

lemma outside_run: "m w = (r, w1) \<Longrightarrow> outside m (n, w) = (r, (n, w1))"
  by (simp add: outside_def)

lemma call_backend:
  fixes svc :: "'w Service"
  assumes "maxFrameBytes c = MaxFrameBytes tc"
    and req: "req = call_request (n + 1) op token body" "request_ok req" "marshal_Request req = Inr t" "frame_ok (MaxFrameBytes tc) t"
    and h: "Handle svc req (bk_w b) = (res, w1)" "\<not> is_panic res"
    and resp: "response_ok (job_response req res)" "marshal_Response (job_response req res) = Inr u" "frame_ok (MaxFrameBytes tc) u"
  shows "\<exists>b1. client_call (backend_net tc svc) c op token body out dst tmo (n, b) =
      (finish_call out dst (job_response req res), (n + 1, b1)) \<and> bk_w b1 = w1"
proof -
  have t: "unmarshal_Request t = Inr req" using request_text [OF req(2)] req(3) by auto
  have u: "unmarshal_Response u = Inr (job_response req res)" using response_text [OF resp(1)] resp(2) by auto
  let ?b = "b\<lparr>bk_in := frame_bytes t\<rparr>"
  have serve: "serve_one tc svc \<lparr>rd_buf = frame_bytes t, rd_end = Sentinel EOF\<rparr> (bk_w b) = (frame_bytes u, w1)"
    using ReadFrame_whole [OF req(4)] t h response_bytes_ok [OF resp(2,3)] by (simp add: serve_one_def)
  let ?net = "net.truncate (backend_net tc svc)"
  have "WriteFrame fresh_writer t (MaxFrameBytes tc) = (None, fresh_writer\<lparr>wr_out := frame_bytes t\<rparr>)"
    using WriteFrame_unbounded [of fresh_writer "MaxFrameBytes tc" t] req(4) by simp
  then have w: "conn_WriteFrame ?net t (MaxFrameBytes tc) (b\<lparr>bk_in := []\<rparr>) = (Inr (), ?b)"
    by (simp add: conn_WriteFrame_def backend_net_def net.defs)
  have r: "conn_ReadFrame ?net (MaxFrameBytes tc) ?b = (Inr u, ?b\<lparr>bk_w := w1\<rparr>)"
    using serve ReadFrame_whole [OF resp(3)] by (simp add: conn_ReadFrame_def backend_net_def net.defs)
  have "client_call (backend_net tc svc) c op token body out dst tmo (n, b) =
      (finish_call out dst (job_response req res), (n + 1, ?b\<lparr>bk_w := w1\<rparr>))"
    unfolding client_call_def
    using req(3) by (simp add: bind_io_def nextID_Add1_def outside_def backend_net_def [THEN arg_cong [where f = net_dial]]
        backend_net_def [THEN arg_cong [where f = net_SetDeadline]] assms(1) w r u call_request_def req(1))
  then show ?thesis by auto
qed

end
