(* ===== verification/Gateway.thy ===== *)
theory Gateway
  imports Backend
begin

text \<open>
  The whole way of a request: from the HTTP gateway over the framed protocol to the TCP backend, its
  service and its stores, and back.
\<close>

subsection \<open>A call reaches the service\<close>

definition call_outcome :: "(string \<Rightarrow> 'b \<Rightarrow> 'b result) option \<Rightarrow> 'b \<Rightarrow> string result \<Rightarrow> 'b result" where
  "call_outcome out dst res =
     (case res of
        Inl e \<Rightarrow> Inl (RemoteErr (fst (ErrorCode e)) (snd (ErrorCode e)))
      | Inr t \<Rightarrow> (case out of None \<Rightarrow> Inr dst | Some dec \<Rightarrow> if t = [] then Inr dst else Unmarshal dec t dst))"

lemma finish_job: "finish_call out dst (job_response req res) = call_outcome out dst res"
  by (auto simp: finish_call_def call_outcome_def job_response_def split: sum.split option.split)

lemma Handle_id: "Handle s (r\<lparr>rq_RequestID := i, rq_Version := v\<rparr>) = Handle s r"
  by (simp add: Handle_def)

lemma call_request_Handle: "Handle s (call_request n op token body) = Handle s (request op token (MarshalBody body))"
  using Handle_id [where r = "request op token (MarshalBody body)" and i = "FormatUint (unat n)" and v = Version]
  by (simp add: call_request_def request_def)

lemma id_ok: "ValidString (FormatUint (unat (n :: 64 word)))" "length (FormatUint (unat n)) \<le> 20"
proof -
  have "unat n < 2 ^ 64" using unsigned_less [of n, where 'a = nat] by simp
  then show "length (FormatUint (unat n)) \<le> 20" by (rule length_uint64)
  have "is_ascii (FormatUint (unat n))"
    using FormatUint_digits [of "unat n"] by (auto simp: is_ascii_def is_digit_def list_all_iff)
  then show "ValidString (FormatUint (unat n))" by (rule ascii_valid)
qed

definition reply_fits :: "nat \<Rightarrow> string result \<Rightarrow> bool" where
  "reply_fits m res \<longleftrightarrow>
     (case res of
        Inr t \<Rightarrow> (t = [] \<or> body_text t) \<and> 700 + length t \<le> m
      | Inl e \<Rightarrow> ValidString (fst (ErrorCode e)) \<and> ValidString (snd (ErrorCode e)) \<and>
          700 + 6 * (length (fst (ErrorCode e)) + length (snd (ErrorCode e))) \<le> m)"

lemma gateway_call:
  fixes svc :: "'w Service"
  assumes "maxFrameBytes c = MaxFrameBytes tc"
    and v: "ValidString op" "ValidString token" "MarshalBody body = [] \<or> body_text (MarshalBody body)"
    and fit: "600 + 6 * (length op + length token) + length (MarshalBody body) \<le> unat (MaxFrameBytes tc)"
    and h: "Handle svc (request op token (MarshalBody body)) (bk_w b) = (res, w1)" "\<not> is_panic res"
    and rs: "reply_fits (unat (MaxFrameBytes tc)) res"
  shows "\<exists>b1. Call (backend_net tc svc) c None op token body out dst (n, b) = (call_outcome out dst res, (n + 1, b1)) \<and> bk_w b1 = w1"
proof -
  let ?req = "call_request (n + 1) op token body"
  have ok: "request_ok ?req" using v id_ok(1) by (simp add: request_ok_def call_request_def Version_def)
  from request_text [OF ok] obtain t where t: "marshal_Request ?req = Inr t" "t \<noteq> []" by blast
  have "length t \<le> 400 + 6 * (length (rq_RequestID ?req) + length (rq_Op ?req) + length (rq_Token ?req)) + length (rq_Body ?req)"
    using t(1) v(3) by (intro request_size) (simp_all add: call_request_def Version_def int64_range_def)
  then have ft: "frame_ok (MaxFrameBytes tc) t"
    using fit id_ok(2) [of "n + 1"] t(2) by (intro frame_small) (simp_all add: call_request_def)
  let ?resp = "job_response ?req res"
  have rok: "response_ok ?resp" using rs id_ok(1)
    by (auto simp: response_ok_def job_response_def reply_fits_def call_request_def Version_def split: sum.splits)
  from response_text [OF rok] obtain u where u: "marshal_Response ?resp = Inr u" "u \<noteq> []" by blast
  have "length u \<le> 500 + 6 * (length (rs_RequestID ?resp) + length (rs_ErrorCode ?resp) + length (rs_Message ?resp)) + length (rs_Body ?resp)"
    using u(1) rok by (intro response_size) (simp_all add: response_ok_def int64_range_def)
  then have fu: "frame_ok (MaxFrameBytes tc) u"
    using rs id_ok(2) [of "n + 1"] u(2)
    by (intro frame_small) (auto simp: call_request_def job_response_def reply_fits_def split: sum.splits)
  have "Handle svc ?req (bk_w b) = (res, w1)" using h(1) by (simp add: call_request_Handle)
  from call_backend [OF assms(1) refl ok t(1) ft this h(2) rok u(1) fu, of out dst "timeout c"] show ?thesis
    by (simp add: Call_def finish_job)
qed


subsection \<open>Handlers on the backend\<close>

lemma backend_run:
  assumes "Call net (client s) None op token body (Some dec) dst g = (res, g1)" "hq_Remaining r = None" "\<not> is_panic res"
  shows "backend net s r op token body dec dst k g = (Inr (case res of Inl err \<Rightarrow> writeError err | Inr v \<Rightarrow> k v), g1)"
proof -
  have "try_io (Call net (client s) None op token body (Some dec) dst) g = (Inr res, g1)"
    using assms(1,3) by (rule try_io_eq)
  then show ?thesis using assms(2) by (simp add: backend_def bind_io_Inr)
qed

lemma outcome_no_panic:
  "\<not> is_panic (call_outcome None dst res)" "\<not> is_panic (call_outcome out dst (Inl e))"
  by (auto simp: call_outcome_def split: sum.split)

text \<open>A JSON body is read when it fits, also by the decoder that knows no other fields.\<close>

lemma decode_login:
  assumes "ValidString n" "ValidString p" "int (length (marshal_LoginBody \<lparr>lb_Username = n, lb_Password = p\<rparr>)) \<le> mx"
    and "hq_Body r = \<lparr>rd_buf = marshal_LoginBody \<lparr>lb_Username = n, lb_Password = p\<rparr>, rd_end = e\<rparr>"
  shows "decodeJSON r (dec_LoginBody True) zero_LoginBody mx = Inr \<lparr>lb_Username = n, lb_Password = p\<rparr>"
proof -
  let ?b = "\<lparr>lb_Username = n, lb_Password = p\<rparr>" and ?t = "marshal_LoginBody \<lparr>lb_Username = n, lb_Password = p\<rparr>"
  have jt: "json_text maxNestingDepth ?t" using body_text_marshal(1) by (simp add: body_text_def maxNestingDepth_def)
  then have v: "json_value ?t = Some (?t, [])" using json_value_text [of ?t "[]"] by simp
  have "Unmarshal (dec_LoginBody True) ?t zero_LoginBody = Inr ?b" using login_body.dec_enc [of ?b True] assms by simp
  then have "dec_LoginBody True ?t zero_LoginBody = Inr ?b" using v by (simp add: Unmarshal_def skip_ws_def)
  moreover have "take (nat mx) ?t = ?t" using assms(3) by simp
  moreover have "hd ?t = CHR ''{''" by (simp add: marshal_LoginBody_def enc_object_def)
  ultimately show ?thesis using assms(4) v by (simp add: decodeJSON_def decode_reader_def MaxBytesReader_def)
qed

lemma token_valid: "cookie_safe v \<Longrightarrow> ValidString v"
proof -
  assume v: "cookie_safe v"
  have "byte_of c < 0x80" if "c \<in> set v" for c
    using v that unfolding cookie_safe_def list_all_iff validCookieValueByte_def by force
  then show ?thesis by (intro ascii_valid) (simp add: is_ascii_def list_all_iff)
qed

subsection \<open>Profiles fit\<close>

lemma profile_url:
  assumes "ValidString (profilePictureBaseURL s)" "sp_ID p < 2 ^ 64" "ProfileVersion p < 2 ^ 64"
    "ValidString (sp_Username p)" "ValidString (sp_Nickname p)"
  shows "profile_ok (toProtocolProfile s p)"
    "length (marshal_UserProfile (toProtocolProfile s p)) \<le>
      500 + 6 * (length (sp_Username p) + length (sp_Nickname p) + length (profilePictureBaseURL s))"
proof -
  let ?u = "toProtocolProfile s p"
  have d: "ValidString (FormatUint n)" for n
    using FormatUint_digits [of n] by (intro ascii_valid) (auto simp: is_ascii_def is_digit_def list_all_iff)
  have "ValidString (up_ProfilePictureURL ?u)"
    using assms(1) d by (auto simp: toProtocolProfile_def ValidString_append byte_of_def split: option.split)
  then show "profile_ok ?u" using assms by (simp add: profile_ok_def toProtocolProfile_def)
  have "length (up_ProfilePictureURL ?u) \<le> length (profilePictureBaseURL s) + 23"
    using length_uint64 [OF assms(3)] by (auto simp: toProtocolProfile_def split: option.split)
  moreover have "up_ID ?u < 2 ^ 64" using assms(2) by (simp add: toProtocolProfile_def)
  ultimately show "length (marshal_UserProfile ?u) \<le>
      500 + 6 * (length (sp_Username p) + length (sp_Nickname p) + length (profilePictureBaseURL s))"
    using profile_size [of ?u] by (simp add: toProtocolProfile_def)
qed


subsection \<open>A session over HTTP\<close>

definition http_req :: "string \<Rightarrow> string \<Rightarrow> string list \<Rightarrow> bytes \<Rightarrow> http_request" where
  "http_req m path cookies body = \<lparr>hq_Method = m, hq_Path = path, hq_Cookies = cookies, hq_ContentType = ''application/json'',
     hq_Body = \<lparr>rd_buf = body, rd_end = Sentinel EOF\<rparr>, hq_Remaining = None\<rparr>"

lemma cleaned [simp]:
  "cleanPath ''/api/login'' = ''/api/login''" "cleanPath ''/api/me'' = ''/api/me''" "cleanPath ''/api/logout'' = ''/api/logout''"
  "cleanPath ''/api/health'' = ''/api/health''" "cleanPath ''/api/me/nickname'' = ''/api/me/nickname''"
  "cleanPath ''/api/me/profile-picture'' = ''/api/me/profile-picture''"
  by code_simp+

lemma routed [simp]:
  "route ''POST'' ''/api/login'' = Handled LoginEP" "route ''GET'' ''/api/me'' = Handled Me"
  "route ''POST'' ''/api/logout'' = Handled LogoutEP"
  by (simp_all add: route_def routes_def method_ok_def)

lemma serve_Handled:
  "route m path = Handled e \<Longrightarrow> run_endpoint net s e (http_req m path ck b) g = (Inr resp, g1) \<Longrightarrow>
   ServeHTTP net s (http_req m path ck b) g = (Inr (Inr resp), g1)"
  by (simp add: ServeHTTP_def http_req_def bind_io_Inr)

text \<open>The three handlers of a session, with the service's answer to the request they make.\<close>

lemma login_over_http:
  fixes svc :: "'w Service"
  assumes m: "maxFrameBytes (client gw) = MaxFrameBytes tc"
    and v: "ValidString name" "ValidString pw"
      "int (length (marshal_LoginBody \<lparr>lb_Username = name, lb_Password = pw\<rparr>)) \<le> MaxBodyBytes (HTTP (cfg gw))"
    and fit: "1000 + 6 * (length name + length pw) \<le> unat (MaxFrameBytes tc)"
    and h: "Handle svc (request OpLogin [] (marshal_LoginBody \<lparr>lb_Username = name, lb_Password = pw\<rparr>)) (bk_w b) =
      (Inr (marshal_LoginResult res), w1)"
    and res: "700 + length (marshal_LoginResult res) \<le> unat (MaxFrameBytes tc)" "ValidString (lr_Token res)"
      "int64_range (lr_ExpiresAt res)" "profile_ok (lr_User res)"
  shows "\<exists>b1. ServeHTTP (backend_net tc svc) gw
      (http_req ''POST'' ''/api/login'' ck (marshal_LoginBody \<lparr>lb_Username = name, lb_Password = pw\<rparr>)) (n, b) =
      (Inr (Inr (writeJSON (SetCookie (session_cookie gw (lr_Token res) (Some (lr_ExpiresAt res)) 0)) StatusOK
         (marshal_LoginResult res))), (n + 1, b1)) \<and> bk_w b1 = w1"
proof -
  let ?body = "\<lparr>lb_Username = name, lb_Password = pw\<rparr>"
  let ?r = "http_req ''POST'' ''/api/login'' ck (marshal_LoginBody ?body)"
  have dec: "decodeJSON ?r (dec_LoginBody True) zero_LoginBody (MaxBodyBytes (HTTP (cfg gw))) = Inr ?body"
    using v by (intro decode_login) (simp_all add: http_req_def)
  have "Unmarshal dec_LoginResult (marshal_LoginResult res) zero_LoginResult = Inr res"
    using res(2-4) by (intro login_result.dec_enc) (simp add: int64_range_def)
  then have out: "call_outcome (Some dec_LoginResult) zero_LoginResult (Inr (marshal_LoginResult res)) = Inr res"
    by (simp add: call_outcome_def marshal_LoginResult_def)
  have "\<exists>b1. Call (backend_net tc svc) (client gw) None OpLogin [] (Some (marshal_LoginBody ?body)) (Some dec_LoginResult)
      zero_LoginResult (n, b) = (Inr res, (n + 1, b1)) \<and> bk_w b1 = w1"
    unfolding out [symmetric]
  proof (rule gateway_call [OF m])
    show "600 + 6 * (length OpLogin + length []) + length (MarshalBody (Some (marshal_LoginBody ?body))) \<le> unat (MaxFrameBytes tc)"
      using fit login_size [of ?body] by (simp add: MarshalBody_def OpLogin_def)
    show "reply_fits (unat (MaxFrameBytes tc)) (Inr (marshal_LoginResult res))" using res(1) by (simp add: reply_fits_def)
  qed (use h in \<open>simp_all add: MarshalBody_def OpLogin_def byte_of_def\<close>)
  then obtain b1 where c: "Call (backend_net tc svc) (client gw) None OpLogin [] (Some (marshal_LoginBody ?body)) (Some dec_LoginResult)
      zero_LoginResult (n, b) = (Inr res, (n + 1, b1))" "bk_w b1 = w1" by blast
  have "hq_Remaining ?r = None" by (simp add: http_req_def)
  from backend_run [OF c(1) this] dec have "http_login (backend_net tc svc) gw ?r (n, b) =
      (Inr (writeJSON (SetCookie (session_cookie gw (lr_Token res) (Some (lr_ExpiresAt res)) 0)) StatusOK
         (marshal_LoginResult res)), (n + 1, b1))"
    by (simp add: http_login_def)
  then show ?thesis using c(2) by (intro exI [of _ b1] conjI serve_Handled [OF routed(1)]) (simp_all add: run_endpoint_def)
qed

lemma token_sent:
  assumes "isToken (CookieName (HTTP (cfg gw)))" "cookie_safe tok" "TrimSpace tok \<noteq> []"
  shows "request_Cookie (hq_Cookies (http_req m p [cookie_line (CookieName (HTTP (cfg gw))) tok] bd)) (CookieName (HTTP (cfg gw))) = Some tok"
    "tokenFromCookie gw (http_req m p [cookie_line (CookieName (HTTP (cfg gw))) tok] bd) = Inr tok"
  using cookie_returns [OF assms(1,2)] assms(3) by (simp_all add: tokenFromCookie_def http_req_def)

lemma me_over_http:
  fixes svc :: "'w Service"
  assumes m: "maxFrameBytes (client gw) = MaxFrameBytes tc" and ck: "isToken (CookieName (HTTP (cfg gw)))"
    and tok: "cookie_safe tok" "TrimSpace tok \<noteq> []" "length tok \<le> 1200" "10000 \<le> unat (MaxFrameBytes tc)"
    and h: "Handle svc (request OpGetProfile tok []) (bk_w b) = (res, w1)" "\<not> is_panic res"
      "reply_fits (unat (MaxFrameBytes tc)) res"
    and out: "\<not> is_panic (call_outcome (Some dec_UserProfile) zero_UserProfile res)"
  shows "\<exists>b1. ServeHTTP (backend_net tc svc) gw (http_req ''GET'' ''/api/me'' [cookie_line (CookieName (HTTP (cfg gw))) tok] []) (n, b) =
      (Inr (Inr (case call_outcome (Some dec_UserProfile) zero_UserProfile res of
         Inl err \<Rightarrow> writeError err | Inr p \<Rightarrow> writeJSON [] StatusOK (marshal_UserProfile p))), (n + 1, b1)) \<and> bk_w b1 = w1"
proof -
  let ?r = "http_req ''GET'' ''/api/me'' [cookie_line (CookieName (HTTP (cfg gw))) tok] []"
  have "\<exists>b1. Call (backend_net tc svc) (client gw) None OpGetProfile tok None (Some dec_UserProfile) zero_UserProfile (n, b) =
      (call_outcome (Some dec_UserProfile) zero_UserProfile res, (n + 1, b1)) \<and> bk_w b1 = w1"
    using h tok by (intro gateway_call [OF m]) (simp_all add: MarshalBody_def OpGetProfile_def byte_of_def token_valid)
  then obtain b1 where c: "Call (backend_net tc svc) (client gw) None OpGetProfile tok None (Some dec_UserProfile) zero_UserProfile (n, b) =
      (call_outcome (Some dec_UserProfile) zero_UserProfile res, (n + 1, b1))" "bk_w b1 = w1" by blast
  have "hq_Remaining ?r = None" by (simp add: http_req_def)
  from backend_run [OF c(1) this out] show ?thesis
    using c(2) token_sent(2) [OF ck tok(1,2)]
    by (intro exI [of _ b1] conjI serve_Handled [OF routed(2)]) (simp_all add: run_endpoint_def http_me_def)
qed

lemma logout_over_http:
  fixes svc :: "'w Service"
  assumes m: "maxFrameBytes (client gw) = MaxFrameBytes tc" and ck: "isToken (CookieName (HTTP (cfg gw)))"
    and tok: "cookie_safe tok" "TrimSpace tok \<noteq> []" "length tok \<le> 1200" "10000 \<le> unat (MaxFrameBytes tc)"
    and h: "Handle svc (request OpLogout tok ''{}'') (bk_w b) = (Inr ''{}'', w1)"
  shows "\<exists>b1. ServeHTTP (backend_net tc svc) gw (http_req ''POST'' ''/api/logout'' [cookie_line (CookieName (HTTP (cfg gw))) tok] []) (n, b) =
      (Inr (Inr (writeJSON (SetCookie (session_cookie gw [] None (-1))) StatusOK ok_text)), (n + 1, b1)) \<and> bk_w b1 = w1"
proof -
  let ?r = "http_req ''POST'' ''/api/logout'' [cookie_line (CookieName (HTTP (cfg gw))) tok] []"
  have e: "enc_object [] = ''{}''" by (simp add: enc_object_def)
  have "\<exists>b1. Call (backend_net tc svc) (client gw) None OpLogout tok (Some (enc_object [])) None () (n, b) =
      (call_outcome None () (Inr ''{}''), (n + 1, b1)) \<and> bk_w b1 = w1"
    using h tok by (intro gateway_call [OF m]) (simp_all add: MarshalBody_def OpLogout_def byte_of_def token_valid e reply_fits_def)
  then obtain b1 where c: "Call (backend_net tc svc) (client gw) None OpLogout tok (Some (enc_object [])) None () (n, b) =
      (Inr (), (n + 1, b1))" "bk_w b1 = w1" by (auto simp: call_outcome_def)
  have "try_io (Call (backend_net tc svc) (client gw) None OpLogout tok (Some (enc_object [])) None ()) (n, b) =
      (Inr (Inr ()), (n + 1, b1))"
    using c(1) by (rule try_io_eq) simp
  moreover have "tok \<noteq> []" "hq_Remaining ?r = None" using tok(1) by (simp_all add: cookie_safe_def http_req_def)
  ultimately have "http_logout (backend_net tc svc) gw ?r (n, b) =
      (Inr (writeJSON (SetCookie (session_cookie gw [] None (-1))) StatusOK ok_text), (n + 1, b1))"
    using token_sent(1) [OF ck tok(1,2)] by (simp add: http_logout_def bind_io_Inr)
  then show ?thesis using c(2) by (intro exI [of _ b1] conjI serve_Handled [OF routed(3)]) (simp_all add: run_endpoint_def)
qed


text \<open>What the deployment of gateway and backend needs for the session to run.\<close>

definition gateway_fits :: "Server \<Rightarrow> TCPConfig \<Rightarrow> 'w Service \<Rightarrow> user_row \<Rightarrow> string \<Rightarrow> string \<Rightarrow> bool" where
  "gateway_fits gw tc s row name pw \<longleftrightarrow>
     maxFrameBytes (client gw) = MaxFrameBytes tc \<and> isToken (CookieName (HTTP (cfg gw))) \<and>
     int (length (marshal_LoginBody \<lparr>lb_Username = name, lb_Password = pw\<rparr>)) \<le> MaxBodyBytes (HTTP (cfg gw)) \<and>
     12000 + 6 * (length name + length pw + length (ur_username row) + length (ur_nickname row)
       + length (profilePictureBaseURL s)) \<le> unat (MaxFrameBytes tc) \<and>
     ValidString name \<and> ValidString pw \<and> ValidString (ur_username row) \<and> ValidString (ur_nickname row) \<and>
     ValidString (profilePictureBaseURL s)"

lemma session_sizes:
  assumes "gateway_fits gw tc s row name pw" "row_ok uid row" "length tok \<le> 1200" "int64_range exp"
  shows "profile_ok (toProtocolProfile s (profile_row uid row))"
    "700 + length (marshal_LoginResult \<lparr>lr_Token = tok, lr_ExpiresAt = exp, lr_User = toProtocolProfile s (profile_row uid row)\<rparr>)
       \<le> unat (MaxFrameBytes tc)"
    "700 + length (marshal_UserProfile (toProtocolProfile s (profile_row uid row))) \<le> unat (MaxFrameBytes tc)"
    "10000 \<le> unat (MaxFrameBytes tc)"
    "1000 + 6 * (length name + length pw) \<le> unat (MaxFrameBytes tc)"
proof -
  let ?u = "toProtocolProfile s (profile_row uid row)"
  let ?res = "\<lparr>lr_Token = tok, lr_ExpiresAt = exp, lr_User = ?u\<rparr>"
  have room: "12000 + 6 * (length name + length pw + length (ur_username row) + length (ur_nickname row)
       + length (profilePictureBaseURL s)) \<le> unat (MaxFrameBytes tc)"
    and v: "ValidString (ur_username row)" "ValidString (ur_nickname row)" "ValidString (profilePictureBaseURL s)"
    using assms(1) by (simp_all add: gateway_fits_def)
  have prof: "profile_ok ?u"
    "length (marshal_UserProfile ?u) \<le> 500 + 6 * (length (ur_username row) + length (ur_nickname row) + length (profilePictureBaseURL s))"
    using profile_url [OF v(3), of "profile_row uid row"] v(1,2) assms(2) by (simp_all add: profile_row_def row_ok_def)
  then show "profile_ok ?u" "700 + length (marshal_UserProfile ?u) \<le> unat (MaxFrameBytes tc)" "10000 \<le> unat (MaxFrameBytes tc)"
    "1000 + 6 * (length name + length pw) \<le> unat (MaxFrameBytes tc)"
    using room by simp_all
  show "700 + length (marshal_LoginResult ?res) \<le> unat (MaxFrameBytes tc)"
    using login_result_size [of ?res] assms(3,4) prof(2) room by simp
qed

lemma profile_outcome:
  "profile_ok u \<Longrightarrow> call_outcome (Some dec_UserProfile) zero_UserProfile (Inr (marshal_UserProfile u)) = Inr u"
  using profile.dec_enc [of u] by (simp add: call_outcome_def marshal_UserProfile_def)

text \<open>
  C1: a session over HTTP, through all parts of the system. Posting name and password to \<^verbatim>\<open>/api/login\<close>
  answers 200 with the profile and one http-only cookie; \<^verbatim>\<open>GET /api/me\<close> with that cookie answers 200 with
  the profile of the user; \<^verbatim>\<open>/api/logout\<close> answers 200 and deletes the cookie; and a client that keeps using
  the cookie afterwards is answered 401. The requests pass through the gateway's decoder, the framed
  protocol, the service and the reference MySQL and Redis servers.
\<close>

theorem http_session_lifecycle:
  fixes w :: "'a world_scheme"
  assumes s: "ref_service ext rcfg s" and db: "db_ok w" and sv: "server_ok rcfg w"
    and row: "wd_users w uid = Some row" "ur_username row = TrimSpace name" "TrimSpace name \<noteq> []" "pw \<noteq> []"
      "VerifyPassword pw (ur_salt row) (ur_hash row) (ur_iter row) = Inr True"
    and time: "0 \<le> wd_clock w" "wd_clock w + ttl (tokens s) < 2 ^ 63" "3 * int (wd_tick w) + 2 * Second \<le> ttl (tokens s)"
    and fits: "gateway_fits gw tc s row name pw" and b: "bk_w b = w"
  shows "\<exists>tok resp1 resp3 resp4 g1 g2 g3 g4.
    ServeHTTP (backend_net tc s) gw
      (http_req ''POST'' ''/api/login'' [] (marshal_LoginBody \<lparr>lb_Username = name, lb_Password = pw\<rparr>)) (n, b) = (Inr (Inr resp1), g1) \<and>
    hp_Status resp1 = 200 \<and>
    (\<exists>c. hp_SetCookie resp1 = [c] \<and> ck_Name c = CookieName (HTTP (cfg gw)) \<and> ck_Value c = tok \<and> ck_HttpOnly c) \<and>
    ServeHTTP (backend_net tc s) gw (http_req ''GET'' ''/api/me'' [cookie_line (CookieName (HTTP (cfg gw))) tok] []) g1 =
      (Inr (Inr (writeJSON [] 200 (marshal_UserProfile (toProtocolProfile s (profile_row uid row))))), g2) \<and>
    ServeHTTP (backend_net tc s) gw (http_req ''POST'' ''/api/logout'' [cookie_line (CookieName (HTTP (cfg gw))) tok] []) g2 =
      (Inr (Inr resp3), g3) \<and> hp_Status resp3 = 200 \<and>
    (\<exists>c. hp_SetCookie resp3 = [c] \<and> ck_Name c = CookieName (HTTP (cfg gw)) \<and> ck_MaxAge c = -1) \<and>
    ServeHTTP (backend_net tc s) gw (http_req ''GET'' ''/api/me'' [cookie_line (CookieName (HTTP (cfg gw))) tok] []) g3 =
      (Inr (Inr resp4), g4) \<and> hp_Status resp4 = 401"
proof -
  let ?M = "unat (MaxFrameBytes tc)" and ?net = "backend_net tc s" and ?u = "toProtocolProfile s (profile_row uid row)"
  have m: "maxFrameBytes (client gw) = MaxFrameBytes tc" and ck: "isToken (CookieName (HTTP (cfg gw)))"
    and v: "ValidString name" "ValidString pw"
    and bd: "int (length (marshal_LoginBody \<lparr>lb_Username = name, lb_Password = pw\<rparr>)) \<le> MaxBodyBytes (HTTP (cfg gw))"
    using fits by (simp_all add: gateway_fits_def)
  obtain tok exp rnd w1 w2 w3 where login: "Handle s (request OpLogin [] (marshal_LoginBody \<lparr>lb_Username = name, lb_Password = pw\<rparr>)) w =
      (Inr (marshal_LoginResult \<lparr>lr_Token = tok, lr_ExpiresAt = exp, lr_User = ?u\<rparr>), w1)"
    and me: "Handle s (request OpGetProfile tok []) w1 = (Inr (marshal_UserProfile ?u), w2)"
    and out: "\<And>b. Handle s (request OpLogout tok b) w2 = (Inr ''{}'', w3)"
    and refused: "fst (Handle s (request OpGetProfile tok []) w3) = Inl (Sentinel ErrUnauthorized)"
    and tok: "Issue rnd (tokens s) uid (wd_clock w) = Inr (tok, exp)" "\<forall>b. rnd 16 = Inr b \<longrightarrow> length b = 16"
    and uid: "uid < 2 ^ 64" "int64_range exp"
    by (rule session_run [OF s db sv row v time]) blast
  have safe: "cookie_safe tok" "TrimSpace tok \<noteq> []" "length tok \<le> 1200"
    using token_cookie_safe [OF tok(1)] token_TrimSpace [OF tok(1)] token_size [OF tok(1) _ uid] tok(2) by simp_all
  have "row_ok uid row" using db row(1) by (auto simp: db_ok_def users_ok_def)
  note size = session_sizes [OF fits this safe(3) uid(2)]
  obtain b1 where s1: "ServeHTTP ?net gw (http_req ''POST'' ''/api/login'' [] (marshal_LoginBody \<lparr>lb_Username = name, lb_Password = pw\<rparr>)) (n, b) =
      (Inr (Inr (writeJSON (SetCookie (session_cookie gw tok (Some exp) 0)) StatusOK
        (marshal_LoginResult \<lparr>lr_Token = tok, lr_ExpiresAt = exp, lr_User = ?u\<rparr>))), (n + 1, b1))" "bk_w b1 = w1"
    using login_over_http [OF m v bd size(5) login [folded b] size(2), of "[]" n] size(1) uid(2) token_valid [OF safe(1)] by auto
  have fit: "reply_fits ?M (Inr (marshal_UserProfile ?u))" "reply_fits ?M (Inl (Sentinel ErrUnauthorized))"
    using size(3,4) by (simp_all add: reply_fits_def byte_of_def)
  obtain b2 where s2: "ServeHTTP ?net gw (http_req ''GET'' ''/api/me'' [cookie_line (CookieName (HTTP (cfg gw))) tok] []) (n + 1, b1) =
      (Inr (Inr (writeJSON [] StatusOK (marshal_UserProfile ?u))), (n + 1 + 1, b2))" "bk_w b2 = w2"
    using me_over_http [OF m ck safe size(4) me [folded s1(2)] _ fit(1), of "n + 1"] by (auto simp: profile_outcome [OF size(1)])
  obtain b3 where s3: "ServeHTTP ?net gw (http_req ''POST'' ''/api/logout'' [cookie_line (CookieName (HTTP (cfg gw))) tok] []) (n + 1 + 1, b2) =
      (Inr (Inr (writeJSON (SetCookie (session_cookie gw [] None (-1))) StatusOK ok_text)), (n + 1 + 1 + 1, b3))" "bk_w b3 = w3"
    using logout_over_http [OF m ck safe size(4) out [folded s2(2)], of "n + 1 + 1"] by auto
  obtain w4 where w4: "Handle s (request OpGetProfile tok []) w3 = (Inl (Sentinel ErrUnauthorized), w4)"
    using refused by (metis prod.collapse)
  obtain b4 where s4: "ServeHTTP ?net gw (http_req ''GET'' ''/api/me'' [cookie_line (CookieName (HTTP (cfg gw))) tok] []) (n + 1 + 1 + 1, b3) =
      (Inr (Inr (writeError (RemoteErr ''unauthorized'' ''Authentication failed.''))), (n + 1 + 1 + 1 + 1, b4))"
    using me_over_http [OF m ck safe size(4) w4 [folded s3(2)] _ fit(2), of "n + 1 + 1 + 1"] by (auto simp: call_outcome_def)
  show ?thesis
    using s1(1) s2(1) s3(1) s4 ck sanitize_safe [OF safe(1)]
    by (intro exI [of _ tok] exI conjI)
      (assumption | simp add: writeJSON_def SetCookie_def session_cookie_def status_defs writeError_def writeProtocolError_def statusFor_def)+
qed

text \<open>A gateway before the sample deployment, and a form parser that knows one file.\<close>

definition sample_form :: "string \<Rightarrow> reader \<Rightarrow> multipart_form result" where
  "sample_form ct r = Inr (\<lambda>key. if key = ''picture''
     then [\<lparr>fp_Filename = ''a.gif'', fp_ContentType = [], fp_Open = Inr \<lparr>rd_buf = ''GIF89a'', rd_end = Sentinel EOF\<rparr>\<rparr>] else [])"

definition sample_gateway :: Server where
  "sample_gateway = NewServer sample_cfg (NewTCPClient sample_cfg) sample_form"

lemma sample_gateway_fields [simp]:
  "HTTP (cfg sample_gateway) = HTTP Default" "maxFrameBytes (client sample_gateway) = 8388608" "isToken ''session_token''"
  "CookieName (HTTP Default) = ''session_token''" "MaxBodyBytes (HTTP Default) = 4194304" "MaxFrameBytes (TCP sample_cfg) = 8388608"
  by (simp_all add: sample_gateway_def NewServer_def NewTCPClient_def sample_cfg_def Default_def isToken_def token_char_def
      is_digit_def byte_of_def)

theorem http_session_lifecycle_witness:
  "\<exists>s tok resp4 g3 g4. ref_service no_ext sample_redis (s :: world Service) \<and>
     ServeHTTP (backend_net (TCP sample_cfg) s) sample_gateway
       (http_req ''GET'' ''/api/me'' [cookie_line ''session_token'' tok] []) g3 = (Inr (Inr resp4), g4) \<and> hp_Status resp4 = 401"
proof -
  obtain s :: "world Service" where s: "ref_service no_ext sample_redis s"
    "tokens s = \<lparr>secret = replicate 32 CHR ''z'', ttl = 86400 * Second\<rparr>" "profilePictureBaseURL s = ''/profile-pictures''"
    by (rule sample_running)
  have "length (marshal_LoginBody \<lparr>lb_Username = ''ann'', lb_Password = ''pw''\<rparr>) \<le> 200"
    using login_size [of "\<lparr>lb_Username = ''ann'', lb_Password = ''pw''\<rparr>"] by simp
  then have "gateway_fits sample_gateway (TCP sample_cfg) s sample_row ''ann'' ''pw''"
    using s(3) by (simp add: gateway_fits_def sample_row_def sample_user_def byte_of_def)
  from http_session_lifecycle [OF s(1) sample_world_ok sample_account_row _ _ _ this, of "\<lparr>bk_in = [], bk_w = sample_world\<rparr>" 0]
    sample_time s(1,2)
  show ?thesis by simp blast
qed

end
