(* ===== verification/HttpSpec.thy ===== *)
theory HttpSpec
  imports HttpApi
begin

text \<open>
  What the gateway of \<^verbatim>\<open>internal/httpapi/server.go\<close> does whatever the network and the backend behind it do.
\<close>

subsection \<open>Routing\<close>

lemma routes_clean: "(m, p, e) \<in> set routes \<Longrightarrow> cleanPath p = p"
proof -
  have "list_all (\<lambda>(m, p, e). cleanPath p = p) routes" by code_simp
  then show "(m, p, e) \<in> set routes \<Longrightarrow> cleanPath p = p" by (auto simp: list_all_iff)
qed

lemma routes_distinct:
  assumes "(m1, p, e1) \<in> set routes" "(m2, p, e2) \<in> set routes" "method_ok m1 m" "method_ok m2 m"
  shows "e1 = e2"
  using assms by (auto simp: routes_def method_ok_def)

text \<open>
  A request is handled by the endpoint registered for its method and path and by no other: the routes
  do not shadow each other, each is reachable, and a request outside of them reaches no handler.
\<close>

theorem route_sound: "route m p = Handled e \<longleftrightarrow> (\<exists>pm. (pm, p, e) \<in> set routes \<and> method_ok pm m)"
proof
  assume "route m p = Handled e"
  then show "\<exists>pm. (pm, p, e) \<in> set routes \<and> method_ok pm m"
    by (auto simp: route_def find_Some_iff split: if_splits option.splits) (metis nth_mem)+
next
  assume "\<exists>pm. (pm, p, e) \<in> set routes \<and> method_ok pm m"
  then obtain pm where pm: "(pm, p, e) \<in> set routes" "method_ok pm m" by blast
  show "route m p = Handled e"
  proof (cases "List.find (\<lambda>(pm, pp, e). pp = p \<and> method_ok pm m) routes")
    case None
    then show ?thesis using pm by (auto simp: find_None_iff)
  next
    case (Some x)
    obtain m' p' e' where x: "x = (m', p', e')" by (cases x)
    with Some have "(m', p, e') \<in> set routes" "method_ok m' m" "p' = p" by (auto simp: find_Some_iff) (metis nth_mem)+
    then have "e' = e" using routes_distinct pm by blast
    then show ?thesis using Some x routes_clean [OF pm(1)] by (simp add: route_def)
  qed
qed

subsection \<open>Sessions\<close>

definition protected_endpoints :: "endpoint set" where
  "protected_endpoints = {Me, GetPicture, PutNickname, PostPicture}"

text \<open>
  Without a session cookie, or with a blank one, a protected endpoint answers 401 at once: no request
  reaches the backend and no body is read.
\<close>

theorem http_requires_cookie:
  assumes "e \<in> protected_endpoints"
    and "\<forall>v. request_Cookie (hq_Cookies r) (CookieName (HTTP (cfg s))) = Some v \<longrightarrow> TrimSpace v = []"
  shows "run_endpoint net s e r g = (Inr (writeProtocolError 401 ''unauthorized'' ''Authentication required.''), g)"
proof -
  have "tokenFromCookie s r = Inl (writeProtocolError 401 ''unauthorized'' ''Authentication required.'')"
    using assms(2) by (auto simp: tokenFromCookie_def status_defs split: option.split)
  then show ?thesis
    using assms(1) by (auto simp: protected_endpoints_def run_endpoint_def http_me_def http_getProfilePicture_def
        http_updateNickname_def http_uploadProfilePicture_def)
qed

definition plain_request :: http_request where
  "plain_request = \<lparr>hq_Method = ''GET'', hq_Path = ''/api/me'', hq_Cookies = [''theme=dark''], hq_ContentType = [],
     hq_Body = \<lparr>rd_buf = [], rd_end = Sentinel EOF\<rparr>, hq_Remaining = None\<rparr>"

definition plain_gateway :: Server where
  "plain_gateway = NewServer Default (NewTCPClient Default) (\<lambda>_ _. Inl (Errorf ''not multipart''))"

definition no_net :: "unit tcp_net" where
  "no_net = \<lparr>net_dial = (\<lambda>_. fail_io (Errorf ''connection refused'')), net_write = (\<lambda>_. return_io ()),
     net_recv = (\<lambda>w. (([], Sentinel EOF), w)), net_SetDeadline = (\<lambda>_ w. w)\<rparr>"

theorem http_requires_cookie_witness:
  "run_endpoint no_net plain_gateway Me plain_request (0, ()) =
     (Inr (writeProtocolError 401 ''unauthorized'' ''Authentication required.''), (0, ()))"
proof -
  have "request_Cookie (hq_Cookies plain_request) (CookieName (HTTP (cfg plain_gateway))) = None" by code_simp
  with http_requires_cookie [of Me plain_request plain_gateway no_net "(0, ())"] show ?thesis
    by (simp add: protected_endpoints_def)
qed

lemma error_status: "hp_Status (writeError err) \<noteq> 200"
  by (auto simp: writeError_def writeProtocolError_def writeJSON_def statusFor_def status_defs split: option.split)

lemma try_io_run: "try_io m g = (Inr r, g1) \<Longrightarrow> m g = (r, g1) \<and> \<not> is_panic r"
  by (auto simp: try_io_def split: prod.splits sum.splits go_error.splits)



text \<open>
  Logging out cannot fail for the user: whatever the cookie is and whatever becomes of the backend's
  call, the response is 200 and deletes the session cookie.
\<close>

theorem http_logout_clears:
  assumes "http_logout net s r g = (Inr resp, g1)"
  shows "hp_Status resp = 200 \<and> hp_SetCookie resp = SetCookie \<lparr>ck_Name = CookieName (HTTP (cfg s)), ck_Value = [], ck_Path = ''/'',
    ck_Expires = None, ck_MaxAge = -1, ck_HttpOnly = True, ck_Lax = True\<rparr>"
  using assms by (auto simp: http_logout_def bind_io_Inr_iff writeJSON_def status_defs session_cookie_def)

theorem http_logout_clears_witness:
  "\<exists>resp g1. http_logout no_net plain_gateway (plain_request\<lparr>hq_Cookies := [''session_token=abc'']\<rparr>) (0, ()) = (Inr resp, g1) \<and>
     hp_Status resp = 200"
proof -
  let ?r = "plain_request\<lparr>hq_Cookies := [''session_token=abc'']\<rparr>"
  have "request_Cookie (hq_Cookies ?r) (CookieName (HTTP (cfg plain_gateway))) = Some ''abc''" by code_simp
  then obtain resp g1 where "http_logout no_net plain_gateway ?r (0, ()) = (Inr resp, g1)"
    unfolding http_logout_def
    by (simp add: Call_def client_call_def no_net_def outside_def bind_io_def try_io_def plain_request_def)
  with http_logout_clears [OF this] show ?thesis by blast
qed

subsection \<open>Uploads\<close>

text \<open>
  C34: an uploaded file reaches the backend with exactly its bytes when it is within the body limit, and is
  refused when it is larger. The limit may be any number below the largest \<^verbatim>\<open>int64\<close>; for that one, one
  more is negative and every file is passed on as an empty one.
\<close>

theorem uploadBody_exact:
  assumes "rd_end file = Sentinel EOF" and "0 \<le> MaxBodyBytes (HTTP (cfg s))" and "MaxBodyBytes (HTTP (cfg s)) < 2 ^ 63"
  shows "uploadBody s file h =
    (if MaxBodyBytes (HTTP (cfg s)) = 2 ^ 63 - 1
     then Inr \<lparr>ub_FileName = fp_Filename h,
       ub_ContentType = (if fp_ContentType h = [] then DetectContentType [] else fp_ContentType h), ub_DataBase64 = []\<rparr>
     else if int (length (rd_buf file)) \<le> MaxBodyBytes (HTTP (cfg s))
     then Inr \<lparr>ub_FileName = fp_Filename h,
       ub_ContentType = (if fp_ContentType h = [] then DetectContentType (rd_buf file) else fp_ContentType h),
       ub_DataBase64 = EncodeToString StdEncoding (rd_buf file)\<rparr>
     else Inl (Errorf ''uploaded file is too large''))"
proof -
  let ?mx = "MaxBodyBytes (HTTP (cfg s))"
  consider (top) "?mx = 2 ^ 63 - 1" | (below) "?mx < 2 ^ 63 - 1" using assms(3) by linarith
  then show ?thesis
  proof cases
    case top
    then have "int64_wrap (?mx + 1) = - (2 ^ 63)" by (simp add: int64_wrap_def)
    moreover have "read_limited file (- (2 ^ 63)) = Inr []" by (simp add: read_limited_def)
    ultimately show ?thesis using top by (simp add: uploadBody_def EncodeToString_def)
  next
    case below
    then have "int64_wrap (?mx + 1) = ?mx + 1" using assms(2) by (simp add: int64_wrap_def)
    then show ?thesis using below assms(1,2) by (auto simp: uploadBody_def read_limited_def min_def)
  qed
qed

theorem uploadBody_exact_witness:
  "uploadBody plain_gateway \<lparr>rd_buf = ''GIF89a'', rd_end = Sentinel EOF\<rparr>
     \<lparr>fp_Filename = ''a.gif'', fp_ContentType = ''image/gif'', fp_Open = Inl (Errorf [])\<rparr> =
   Inr \<lparr>ub_FileName = ''a.gif'', ub_ContentType = ''image/gif'', ub_DataBase64 = EncodeToString StdEncoding ''GIF89a''\<rparr>"
  using uploadBody_exact [of "\<lparr>rd_buf = ''GIF89a'', rd_end = Sentinel EOF\<rparr>" plain_gateway
      "\<lparr>fp_Filename = ''a.gif'', fp_ContentType = ''image/gif'', fp_Open = Inl (Errorf [])\<rparr>"]
  by (simp add: plain_gateway_def NewServer_def Default_def)

end
