(* ===== verification/Kube.thy ===== *)
theory Kube
  imports GoIO GoStrings "HOL-Library.Char_ord" "HOL-Library.List_Lexorder"
begin

text \<open>
  The Kubernetes objects both controllers handle, with the fields their code reads or writes, and
  the contract of the API they call. The Kubernetes libraries and the API server are not part of
  the repository: their operations are parameters of the controllers' definitions, and what the
  controllers rely on is the locale \<open>pod_store\<close>.
\<close>

subsection \<open>Go maps from strings to strings\<close>

text \<open>
  A \<^verbatim>\<open>map[string]string\<close> is the list of its entries in the order of the keys, the order
  \<^verbatim>\<open>encoding/json\<close> writes them in; equality of the lists is \<^verbatim>\<open>reflect.DeepEqual\<close>. Reading a missing
  key gives the empty string.
\<close>

type_synonym gomap = "(string \<times> string) list"

definition map_put :: "string \<Rightarrow> string \<Rightarrow> gomap \<Rightarrow> gomap" where
  "map_put k v m = insort_key fst (k, v) (filter (\<lambda>e. fst e \<noteq> k) m)"

definition map_lit :: "(string \<times> string) list \<Rightarrow> gomap" where
  "map_lit kvs = fold (\<lambda>(k, v). map_put k v) kvs []"

definition map_get :: "gomap \<Rightarrow> string \<Rightarrow> string" where
  "map_get m k = (case map_of m k of None \<Rightarrow> [] | Some v \<Rightarrow> v)"

lemma map_of_insort_key:
  "fst e \<notin> fst ` set m \<Longrightarrow> map_of (insort_key fst e m) = (map_of m)(fst e \<mapsto> snd e)"
  by (induction m) (auto simp: fun_eq_iff)

lemma map_of_map_put [simp]: "map_of (map_put k v m) = (map_of m)(k \<mapsto> v)"
proof -
  have "map_of (filter (\<lambda>e. fst e \<noteq> k) m) = (map_of m)(k := None)"
    by (induction m) (auto simp: fun_eq_iff)
  moreover have "k \<notin> fst ` set (filter (\<lambda>e. fst e \<noteq> k) m)" by auto
  ultimately show ?thesis by (simp add: map_put_def map_of_insort_key)
qed

lemma map_of_fold_put: "map_of (fold (\<lambda>(k, v). map_put k v) kvs m) = map_of m ++ map_of (rev kvs)"
  by (induction kvs arbitrary: m) (auto simp: map_add_def fun_eq_iff split: option.split)

lemma map_of_map_lit: "distinct (map fst kvs) \<Longrightarrow> map_of (map_lit kvs) = map_of kvs"
  using map_of_inject_set [of "rev kvs" kvs] by (simp add: map_lit_def map_of_fold_put flip: rev_map)

lemma set_map_lit: "distinct (map fst kvs) \<Longrightarrow> set (map_lit kvs) = set kvs"
proof -
  have "set (fold (\<lambda>(k, v). map_put k v) kvs m) = set kvs \<union> set m"
    if "distinct (map fst kvs)" "fst ` set kvs \<inter> fst ` set m = {}" for m
    using that
  proof (induction kvs arbitrary: m)
    case (Cons e kvs)
    have "filter (\<lambda>e'. fst e' \<noteq> fst e) m = m"
      using Cons.prems(2) by (intro filter_True) (auto simp: image_iff)
    then have "set (map_put (fst e) (snd e) m) = insert e (set m)"
      by (simp add: map_put_def set_insort_key)
    with Cons show ?case by (auto simp: case_prod_beta)
  qed simp
  then show "distinct (map fst kvs) \<Longrightarrow> set (map_lit kvs) = set kvs" by (simp add: map_lit_def)
qed

lemma map_get_put: "map_get (map_put k v m) k' = (if k' = k then v else map_get m k')"
  by (simp add: map_get_def)

lemma map_get_lit:
  "distinct (map fst kvs) \<Longrightarrow> (k, v) \<in> set kvs \<Longrightarrow> map_get (map_lit kvs) k = v"
  by (simp add: map_get_def map_of_map_lit)

subsection \<open>Objects\<close>

record OwnerReference =
  or_APIVersion :: string
  or_Kind :: string
  or_Name :: string
  or_UID :: string
  or_Controller :: "bool option"
  or_BlockOwnerDeletion :: "bool option"

text \<open>Timestamps are seconds; a nil timestamp is \<^const>\<open>None\<close>.\<close>

record ObjectMeta =
  Name :: string
  GenerateName :: string
  Namespace :: string
  UID :: string
  Labels :: gomap
  Annotations :: gomap
  OwnerReferences :: "OwnerReference list"
  Finalizers :: "string list"
  CreationTimestamp :: int
  DeletionTimestamp :: "int option"

definition meta :: "string \<Rightarrow> string \<Rightarrow> ObjectMeta" where
  "meta ns n = \<lparr>Name = n, GenerateName = [], Namespace = ns, UID = [], Labels = [], Annotations = [],
     OwnerReferences = [], Finalizers = [], CreationTimestamp = 0, DeletionTimestamp = None\<rparr>"

text \<open>
  A resource quantity is represented by its canonical text, which is what its JSON encoding prints.
\<close>

record ResourceRequirements =
  rr_Requests :: gomap
  rr_Limits :: gomap
  rr_Claims :: gomap

record Probe =
  HTTPGetPath :: string
  HTTPGetPort :: string
  InitialDelaySeconds :: int
  PeriodSeconds :: int

record ContainerPort =
  cp_Name :: string
  cp_ContainerPort :: int
  cp_Protocol :: string

record Container =
  ct_Name :: string
  ct_Image :: string
  ImagePullPolicy :: string
  ct_Ports :: "ContainerPort list"
  EnvFrom :: "string list"   \<comment> \<open>names of config maps\<close>
  ReadinessProbe :: Probe
  LivenessProbe :: Probe
  ct_Resources :: ResourceRequirements

record PodSpec =
  RestartPolicy :: string
  Containers :: "Container list"

record Pod =
  pod_meta :: ObjectMeta
  pod_Spec :: PodSpec
  Phase :: string

record ConfigMap =
  cm_meta :: ObjectMeta
  cm_Data :: gomap

record ServicePort =
  sp_Name :: string
  sp_Protocol :: string
  sp_Port :: int
  sp_TargetPort :: string

text \<open>Of the fields the API server fills in itself, \<open>ClusterIP\<close> stands for them all.\<close>

record ServiceSpec =
  Type :: string
  Selector :: gomap
  Ports :: "ServicePort list"
  ClusterIP :: string

record KService =
  svc_meta :: ObjectMeta
  svc_Spec :: ServiceSpec

abbreviation pod_name :: "Pod \<Rightarrow> string" where
  "pod_name p \<equiv> Name (pod_meta p)"

abbreviation pod_labels :: "Pod \<Rightarrow> gomap" where
  "pod_labels p \<equiv> Labels (pod_meta p)"

text \<open>The phases \<^verbatim>\<open>corev1.PodFailed\<close> and \<^verbatim>\<open>corev1.PodSucceeded\<close>.\<close>

definition terminated :: "Pod \<Rightarrow> bool" where
  "terminated p \<longleftrightarrow> Phase p = ''Failed'' \<or> Phase p = ''Succeeded''"

text \<open>An equality-based label selector: every label it names is there with that value.\<close>

definition selects :: "gomap \<Rightarrow> gomap \<Rightarrow> bool" where
  "selects sel ls \<longleftrightarrow> list_all (\<lambda>(k, v). map_of ls k = Some v) sel"

lemma selects_lit:
  "distinct (map fst kvs) \<Longrightarrow> selects (map_lit kvs) ls \<longleftrightarrow> (\<forall>(k, v) \<in> set kvs. map_of ls k = Some v)"
  by (simp add: selects_def list_all_iff set_map_lit)

text \<open>\<^verbatim>\<open>if err != nil && !apierrors.IsNotFound(err) { return err }\<close> after a deletion.\<close>

definition unless_missing :: "(go_error \<Rightarrow> bool) \<Rightarrow> ('w, unit) io \<Rightarrow> ('w, unit) io" where
  "unless_missing notFound m =
     bind_io (try_io m) (\<lambda>r. case r of
         Inl e \<Rightarrow> if notFound e then return_io () else fail_io e
       | Inr _ \<Rightarrow> return_io ())"

lemma unless_missing_Inr:
  "unless_missing nf m w = (Inr (), w') \<longleftrightarrow>
     m w = (Inr (), w') \<or> (\<exists>e. m w = (Inl e, w') \<and> nf e \<and> \<not> panics e)"
  by (auto simp: unless_missing_def bind_io_try split: prod.splits sum.splits go_error.splits)

lemma bind_io_eq: "m w = (res, w1) \<Longrightarrow> bind_io m f w = (case res of Inl e \<Rightarrow> (Inl e, w1) | Inr x \<Rightarrow> f x w1)"
  by (simp add: bind_io_def)

subsection \<open>What the controllers rely on\<close>

text \<open>
  Pods as the API server keeps them. \<open>active w\<close> maps namespace and name to the pods that exist and
  are not being deleted: a deletion marks a pod at once, whether its containers have stopped or
  not. Listing returns the pods a selector matches (those being deleted among them) and changes
  nothing; a deletion that succeeds or reports that there is no such pod leaves that name
  inactive; a creation gives the pod a fresh name and keeps its labels and specification. While a
  controller works, nobody else changes the pods.
\<close>

locale pod_store =
  fixes list_pods :: "string \<Rightarrow> gomap \<Rightarrow> ('w, Pod list) io"
    and create_pod :: "Pod \<Rightarrow> ('w, Pod) io"
    and delete_pod :: "string \<Rightarrow> string \<Rightarrow> ('w, unit) io"
    and not_found :: "go_error \<Rightarrow> bool"
    and active :: "'w \<Rightarrow> string \<times> string \<Rightarrow> Pod option"
  assumes active_name: "active w (ns, n) = Some p \<Longrightarrow> pod_name p = n \<and> DeletionTimestamp (pod_meta p) = None"
    and list_keeps: "active (snd (list_pods ns sel w)) = active w"
    and list_pods: "list_pods ns sel w = (Inr ps, w') \<Longrightarrow> distinct (map pod_name ps) \<and>
      {p \<in> set ps. DeletionTimestamp (pod_meta p) = None} =
        {p. \<exists>n. active w (ns, n) = Some p \<and> selects sel (pod_labels p)}"
    and delete_pod: "delete_pod ns n w = (r, w') \<Longrightarrow> (\<And>e. r = Inl e \<Longrightarrow> not_found e) \<Longrightarrow>
      active w' = (active w)((ns, n) := None)"
    and create_pod: "create_pod p w = (Inr q, w') \<Longrightarrow> active w (Namespace (pod_meta p), pod_name q) = None \<and>
      active w' = (active w)((Namespace (pod_meta p), pod_name q) \<mapsto> q) \<and>
      pod_labels q = pod_labels p \<and> pod_Spec q = pod_Spec p \<and> \<not> terminated q"

text \<open>An API server that answers: the calls a controller makes for its pods go through.\<close>

locale pod_store_up = pod_store +
  assumes list_up: "\<exists>ps w'. list_pods ns sel w = (Inr ps, w')"
    and delete_up: "\<exists>w'. delete_pod ns n w = (Inr (), w') \<or>
      (\<exists>e. delete_pod ns n w = (Inl e, w') \<and> not_found e \<and> \<not> panics e)"
    and create_up: "\<exists>q w'. create_pod p w = (Inr q, w')"
begin

lemma delete_goes_on: "\<exists>w'. unless_missing not_found (delete_pod ns n) w = (Inr (), w')"
  using delete_up [of ns n w] by (auto simp: unless_missing_Inr)

end

context pod_store
begin

lemma deleted:
  assumes "unless_missing not_found (delete_pod ns n) w = (Inr (), w')"
  shows "active w' = (active w)((ns, n) := None)"
  using assms by (auto simp: unless_missing_Inr dest: delete_pod)

end

end
