(* ===== verification/Operator.thy ===== *)
theory Operator
  imports Kube JsonObject Crypto
begin

text \<open>
  The operator: the \<^verbatim>\<open>DbcpEntryService\<close> resource of \<^verbatim>\<open>operator/api/v1alpha1\<close> and its reconciler in
  \<^verbatim>\<open>operator/internal/controller/dbcpentryservice_controller.go\<close>. The controller-runtime client, the
  helpers of \<^verbatim>\<open>controllerutil\<close>, the JSON encoding of Kubernetes resource lists and \<^verbatim>\<open>sort.Slice\<close> (which
  may order equal elements either way) are the fields of the record \<open>client\<close>.
\<close>

subsection \<open>The resource\<close>

record EntryConfig =
  ec_TargetDB :: string
  ec_TargetRedis :: string
  ec_ServiceExportPort :: "32 word"

record EntryService =
  es_Image :: string
  es_Replicas :: "32 word"
  es_Resources :: ResourceRequirements

record DbcpEntryServiceSpec =
  spec_Config :: EntryConfig
  spec_Service :: EntryService

record DbcpEntryService =
  entry_meta :: ObjectMeta
  entry_Spec :: DbcpEntryServiceSpec

definition GroupVersion :: string where
  "GroupVersion = ''dbcp.shopee.io/v1alpha1''"

definition appHTTPPort :: int where "appHTTPPort = 8080"
definition appGatewayPort :: int where "appGatewayPort = 8081"
definition appTCPPort :: int where "appTCPPort = 9000"

definition labelName :: string where "labelName = ''app.kubernetes.io/name''"
definition labelInstance :: string where "labelInstance = ''app.kubernetes.io/instance''"
definition labelManagedBy :: string where "labelManagedBy = ''app.kubernetes.io/managed-by''"
definition labelCRName :: string where "labelCRName = ''dbcp.shopee.io/cr-name''"
definition labelSpecHash :: string where "labelSpecHash = ''dbcp.shopee.io/spec-hash''"

definition appName :: string where "appName = ''dbcp-entry-service''"
definition controllerID :: string where "controllerID = ''dbcp-entry-controller''"
definition finalizer :: string where "finalizer = ''dbcp.shopee.io/dbcp-entry-service-finalizer''"

text \<open>In nanoseconds.\<close>

definition defaultSyncInterval :: int where "defaultSyncInterval = 5 * 1000000000"

lemmas label_defs = labelName_def labelInstance_def labelManagedBy_def labelCRName_def
  labelSpecHash_def appName_def controllerID_def

subsection \<open>The client\<close>

text \<open>
  \<^verbatim>\<open>Delete\<close> addresses an object by its namespace and name. \<^verbatim>\<open>CreateOrUpdate\<close> is given the object with
  its name only and the function that brings it into the desired state.
\<close>

record 'w client =
  Get_Entry :: "string \<Rightarrow> string \<Rightarrow> ('w, DbcpEntryService) io"
  Update_Entry :: "DbcpEntryService \<Rightarrow> ('w, unit) io"
  List_Pods :: "string \<Rightarrow> gomap \<Rightarrow> ('w, Pod list) io"
  Create_Pod :: "Pod \<Rightarrow> ('w, Pod) io"
  Delete_Pod :: "string \<Rightarrow> string \<Rightarrow> ('w, unit) io"
  Delete_Service :: "string \<Rightarrow> string \<Rightarrow> ('w, unit) io"
  Delete_ConfigMap :: "string \<Rightarrow> string \<Rightarrow> ('w, unit) io"
  CreateOrUpdate_ConfigMap :: "ConfigMap \<Rightarrow> (ConfigMap \<Rightarrow> ConfigMap result) \<Rightarrow> ('w, unit) io"
  CreateOrUpdate_Service :: "KService \<Rightarrow> (KService \<Rightarrow> KService result) \<Rightarrow> ('w, unit) io"
  IsNotFound :: "go_error \<Rightarrow> bool"
  ContainsFinalizer :: "DbcpEntryService \<Rightarrow> string \<Rightarrow> bool"
  AddFinalizer :: "DbcpEntryService \<Rightarrow> string \<Rightarrow> DbcpEntryService"
  RemoveFinalizer :: "DbcpEntryService \<Rightarrow> string \<Rightarrow> DbcpEntryService"
  SetControllerReference :: "DbcpEntryService \<Rightarrow> ObjectMeta \<Rightarrow> ObjectMeta result"
  Marshal_Resources :: "ResourceRequirements \<Rightarrow> string result"
  sort_Slice :: "(Pod \<Rightarrow> Pod \<Rightarrow> bool) \<Rightarrow> Pod list \<Rightarrow> Pod list"

subsection \<open>Labels, data and hashes\<close>

definition managedLabels :: "string \<Rightarrow> gomap" where
  "managedLabels crName =
     map_lit [(labelName, appName), (labelInstance, crName), (labelManagedBy, controllerID),
              (labelCRName, crName)]"

definition configMapName :: "string \<Rightarrow> string" where
  "configMapName crName = crName @ ''-config''"

definition managedSet :: "string \<Rightarrow> gomap" where
  "managedSet crName = map_lit [(labelManagedBy, controllerID), (labelCRName, crName)]"

definition stableTokenSecret :: "DbcpEntryService \<Rightarrow> string" where
  "stableTokenSecret entry =
     (let m = entry_meta entry;
          seed = Namespace m @ ''/'' @ Name m @ ''/'' @ UID m
      in hex_EncodeToString (Sum256 seed))"

definition desiredConfigData :: "DbcpEntryService \<Rightarrow> gomap" where
  "desiredConfigData entry =
     (let cfg = spec_Config (entry_Spec entry) in
      map_lit [
        (''DBCP_TARGET_DB'', ec_TargetDB cfg),
        (''DBCP_TARGET_REDIS'', ec_TargetRedis cfg),
        (''DBCP_SERVICE_EXPORT_PORT'', Itoa (sint (ec_ServiceExportPort cfg))),
        (''APP_TCP_ADDR'', ''127.0.0.1:9000''),
        (''APP_HTTP_ADDR'', ''127.0.0.1:8081''),
        (''APP_HTTP_TCP_ADDR'', ''127.0.0.1:9000''),
        (''APP_PROFILE_PICTURE_DIR'', ''/app/runtime/profile-pictures''),
        (''APP_PROFILE_PICTURE_BASE_URL'', ''/api/me/profile-picture''),
        (''APP_REDIS_KEY_PREFIX'', ''go-entry-task''),
        (''APP_TOKEN_SECRET'', stableTokenSecret entry),
        (''APP_DB_MAX_OPEN_CONNS'', ''128''),
        (''APP_DB_MAX_IDLE_CONNS'', ''32''),
        (''APP_TCP_WORKERS'', ''64''),
        (''APP_TCP_QUEUE_SIZE'', ''2048''),
        (''APP_TCP_MAX_FRAME_BYTES'', ''8388608''),
        (''APP_HTTP_MAX_BODY_BYTES'', ''4194304''),
        (''APP_UPLOAD_MAX_BYTES'', ''2097152''),
        (''APP_SESSION_TTL'', ''24h''),
        (''APP_DB_CONN_MAX_LIFETIME'', ''5m''),
        (''APP_REDIS_DIAL_TIMEOUT'', ''2s''),
        (''APP_REDIS_IO_TIMEOUT'', ''2s''),
        (''APP_PROFILE_PICTURE_CACHE_SCOPE'', ''redis'')])"

definition enc_map :: "gomap \<Rightarrow> string" where
  "enc_map m = enc_object (map (\<lambda>(k, v). (k, json_string v)) m)"

text \<open>\<^verbatim>\<open>encoding/json\<close> writes the keys of a map in order, whatever order they were put in.\<close>

definition hash_input :: "DbcpEntryService \<Rightarrow> string \<Rightarrow> string" where
  "hash_input entry resources =
     enc_object [
       (''configMap'', enc_map (desiredConfigData entry)),
       (''image'', json_string (es_Image (spec_Service (entry_Spec entry)))),
       (''owner'', enc_map [(''apiVersion'', GroupVersion), (''kind'', ''DbcpEntryService'')]),
       (''ports'', enc_object [(''http'', Itoa appHTTPPort), (''httpGateway'', Itoa appGatewayPort),
          (''service'', Itoa (sint (ec_ServiceExportPort (spec_Config (entry_Spec entry))))),
          (''tcpBackend'', Itoa appTCPPort)]),
       (''resources'', resources)]"

definition calculateSpecHash :: "'w client \<Rightarrow> DbcpEntryService \<Rightarrow> string result" where
  "calculateSpecHash r entry =
     (case Marshal_Resources r (es_Resources (spec_Service (entry_Spec entry))) of
        Inl e \<Rightarrow> Inl (Wrapped ''failed to marshal spec hash data: '' e)
      | Inr resources \<Rightarrow> Inr (take 12 (hex_EncodeToString (Sum256 (hash_input entry resources)))))"

subsection \<open>Owned objects\<close>

definition cleanup_pods :: "'w client \<Rightarrow> string \<Rightarrow> Pod list \<Rightarrow> ('w, unit) io" where
  "cleanup_pods r ns pods =
     foldr (\<lambda>pod rest. bind_io (unless_missing (IsNotFound r) (Delete_Pod r ns (pod_name pod))) (\<lambda>_. rest))
       pods (return_io ())"

definition cleanupOwnedResources :: "'w client \<Rightarrow> DbcpEntryService \<Rightarrow> ('w, unit) io" where
  "cleanupOwnedResources r entry =
     (let ns = Namespace (entry_meta entry); n = Name (entry_meta entry) in
      bind_io (List_Pods r ns (managedSet n)) (\<lambda>podList.
      bind_io (cleanup_pods r ns podList) (\<lambda>_.
      bind_io (unless_missing (IsNotFound r) (Delete_Service r ns n)) (\<lambda>_.
      unless_missing (IsNotFound r) (Delete_ConfigMap r ns (configMapName n))))))"

definition desired_ConfigMap :: "'w client \<Rightarrow> DbcpEntryService \<Rightarrow> ConfigMap \<Rightarrow> ConfigMap result" where
  "desired_ConfigMap r entry cm =
     bindE (SetControllerReference r entry ((cm_meta cm)\<lparr>Labels := managedLabels (Name (entry_meta entry))\<rparr>))
       (\<lambda>m. Inr (cm\<lparr>cm_meta := m, cm_Data := desiredConfigData entry\<rparr>))"

definition ensureConfigMap :: "'w client \<Rightarrow> DbcpEntryService \<Rightarrow> ('w, unit) io" where
  "ensureConfigMap r entry =
     CreateOrUpdate_ConfigMap r
       \<lparr>cm_meta = meta (Namespace (entry_meta entry)) (configMapName (Name (entry_meta entry))), cm_Data = []\<rparr>
       (desired_ConfigMap r entry)"

definition service_spec :: "DbcpEntryService \<Rightarrow> ServiceSpec" where
  "service_spec entry =
     \<lparr>Type = ''ClusterIP'', Selector = managedLabels (Name (entry_meta entry)),
      Ports = [\<lparr>sp_Name = ''http'', sp_Protocol = ''TCP'',
        sp_Port = sint (ec_ServiceExportPort (spec_Config (entry_Spec entry))), sp_TargetPort = ''http''\<rparr>],
      ClusterIP = []\<rparr>"

definition desired_Service :: "'w client \<Rightarrow> DbcpEntryService \<Rightarrow> KService \<Rightarrow> KService result" where
  "desired_Service r entry svc =
     bindE (SetControllerReference r entry ((svc_meta svc)\<lparr>Labels := managedLabels (Name (entry_meta entry))\<rparr>))
       (\<lambda>m. Inr (svc\<lparr>svc_meta := m, svc_Spec := service_spec entry\<rparr>))"

definition zero_ServiceSpec :: ServiceSpec where
  "zero_ServiceSpec = \<lparr>Type = [], Selector = [], Ports = [], ClusterIP = []\<rparr>"

definition ensureService :: "'w client \<Rightarrow> DbcpEntryService \<Rightarrow> ('w, unit) io" where
  "ensureService r entry =
     CreateOrUpdate_Service r
       \<lparr>svc_meta = meta (Namespace (entry_meta entry)) (Name (entry_meta entry)), svc_Spec = zero_ServiceSpec\<rparr>
       (desired_Service r entry)"

definition health_probe :: "int \<Rightarrow> int \<Rightarrow> Probe" where
  "health_probe delay period =
     \<lparr>HTTPGetPath = ''/api/health'', HTTPGetPort = ''http'', InitialDelaySeconds = delay, PeriodSeconds = period\<rparr>"

definition pod_container :: "DbcpEntryService \<Rightarrow> Container" where
  "pod_container entry =
     \<lparr>ct_Name = ''dbcp-entry-service'', ct_Image = es_Image (spec_Service (entry_Spec entry)),
      ImagePullPolicy = ''IfNotPresent'',
      ct_Ports = [
        \<lparr>cp_Name = ''http'', cp_ContainerPort = appHTTPPort, cp_Protocol = ''TCP''\<rparr>,
        \<lparr>cp_Name = ''gateway'', cp_ContainerPort = appGatewayPort, cp_Protocol = ''TCP''\<rparr>,
        \<lparr>cp_Name = ''tcp-backend'', cp_ContainerPort = appTCPPort, cp_Protocol = ''TCP''\<rparr>],
      EnvFrom = [configMapName (Name (entry_meta entry))],
      ReadinessProbe = health_probe 5 5, LivenessProbe = health_probe 15 10,
      ct_Resources = es_Resources (spec_Service (entry_Spec entry))\<rparr>"

text \<open>An error of \<^verbatim>\<open>SetControllerReference\<close> is logged and the pod stays without an owner.\<close>

definition desiredPod :: "'w client \<Rightarrow> DbcpEntryService \<Rightarrow> string \<Rightarrow> Pod" where
  "desiredPod r entry specHash =
     (let m = (meta (Namespace (entry_meta entry)) [])\<lparr>
            GenerateName := Name (entry_meta entry) @ ''-'',
            Labels := map_put labelSpecHash specHash (managedLabels (Name (entry_meta entry))),
            Annotations := [(labelSpecHash, specHash)]\<rparr>
      in \<lparr>pod_meta = (case SetControllerReference r entry m of Inl _ \<Rightarrow> m | Inr m' \<Rightarrow> m'),
          pod_Spec = \<lparr>RestartPolicy = ''Always'', Containers = [pod_container entry]\<rparr>,
          Phase = []\<rparr>)"

subsection \<open>Pods\<close>

text \<open>
  The first loop: pods already being deleted are passed over, those that have terminated or carry
  another hash are deleted, the others are collected.
\<close>

fun current_pods :: "'w client \<Rightarrow> string \<Rightarrow> string \<Rightarrow> Pod list \<Rightarrow> ('w, Pod list) io" where
  "current_pods r ns specHash [] = return_io []"
| "current_pods r ns specHash (pod # pods) =
     (if DeletionTimestamp (pod_meta pod) \<noteq> None then current_pods r ns specHash pods
      else if terminated pod then
        bind_io (unless_missing (IsNotFound r) (Delete_Pod r ns (pod_name pod)))
          (\<lambda>_. current_pods r ns specHash pods)
      else if map_get (pod_labels pod) labelSpecHash \<noteq> specHash then
        bind_io (unless_missing (IsNotFound r) (Delete_Pod r ns (pod_name pod)))
          (\<lambda>_. current_pods r ns specHash pods)
      else bind_io (current_pods r ns specHash pods) (\<lambda>current. return_io (pod # current)))"

definition created_before :: "Pod \<Rightarrow> Pod \<Rightarrow> bool" where
  "created_before p q \<longleftrightarrow> CreationTimestamp (pod_meta p) < CreationTimestamp (pod_meta q)"

text \<open>
  Indexing an empty slice panics, which happens for a negative number of replicas.
\<close>

function scale_down :: "'w client \<Rightarrow> string \<Rightarrow> int \<Rightarrow> Pod list \<Rightarrow> ('w, Pod list) io" where
  "scale_down r ns desired current =
     (if int (length current) > desired then
        if current = [] then fail_io (Panic ''index out of range [-1]'')
        else bind_io (unless_missing (IsNotFound r) (Delete_Pod r ns (pod_name (last current))))
               (\<lambda>_. scale_down r ns desired (butlast current))
      else return_io current)"
  by pat_completeness auto
termination
  by (relation "measure (\<lambda>(_, _, _, current). length current)") auto

function scale_up :: "'w client \<Rightarrow> Pod \<Rightarrow> int \<Rightarrow> Pod list \<Rightarrow> ('w, Pod list) io" where
  "scale_up r pod desired current =
     (if int (length current) < desired then
        bind_io (Create_Pod r pod) (\<lambda>created. scale_up r pod desired (current @ [created]))
      else return_io current)"
  by pat_completeness auto
termination
  by (relation "measure (\<lambda>(_, _, desired, current). nat (desired - int (length current)))") auto

declare scale_down.simps [simp del] scale_up.simps [simp del]

definition reconcilePods :: "'w client \<Rightarrow> DbcpEntryService \<Rightarrow> string \<Rightarrow> ('w, unit) io" where
  "reconcilePods r entry specHash =
     (let ns = Namespace (entry_meta entry);
          desiredReplicas = sint (es_Replicas (spec_Service (entry_Spec entry))) in
      bind_io (List_Pods r ns (managedSet (Name (entry_meta entry)))) (\<lambda>podList.
      bind_io (current_pods r ns specHash podList) (\<lambda>current.
      bind_io (scale_down r ns desiredReplicas (sort_Slice r created_before current)) (\<lambda>current.
      bind_io (scale_up r (desiredPod r entry specHash) desiredReplicas current) (\<lambda>_.
      return_io ())))))"

subsection \<open>Reconcile\<close>

record Result =
  RequeueAfter :: int

definition zero_time :: int where
  "zero_time = -62135596800"

definition IsZero :: "int option \<Rightarrow> bool" where
  "IsZero t \<longleftrightarrow> t = None \<or> t = Some zero_time"

definition Reconcile :: "'w client \<Rightarrow> string \<Rightarrow> string \<Rightarrow> ('w, Result) io" where
  "Reconcile r ns n =
     bind_io (try_io (Get_Entry r ns n)) (\<lambda>got.
     case got of
       Inl err \<Rightarrow> if IsNotFound r err then return_io \<lparr>RequeueAfter = 0\<rparr> else fail_io err
     | Inr entry \<Rightarrow>
         if \<not> IsZero (DeletionTimestamp (entry_meta entry)) then
           bind_io (cleanupOwnedResources r entry) (\<lambda>_.
           if ContainsFinalizer r entry finalizer then
             bind_io (Update_Entry r (RemoveFinalizer r entry finalizer)) (\<lambda>_.
             return_io \<lparr>RequeueAfter = 0\<rparr>)
           else return_io \<lparr>RequeueAfter = 0\<rparr>)
         else if \<not> ContainsFinalizer r entry finalizer then
           bind_io (Update_Entry r (AddFinalizer r entry finalizer)) (\<lambda>_.
           return_io \<lparr>RequeueAfter = 0\<rparr>)
         else
           bind_io (lift_io (calculateSpecHash r entry)) (\<lambda>specHash.
           bind_io (ensureConfigMap r entry) (\<lambda>_.
           bind_io (ensureService r entry) (\<lambda>_.
           bind_io (reconcilePods r entry specHash) (\<lambda>_.
           return_io \<lparr>RequeueAfter = defaultSyncInterval\<rparr>)))))"

end
