(* ===== verification/OperatorPods.thy ===== *)
theory OperatorPods
  imports Operator "HOL-Library.Multiset"
begin

text \<open>
  Convergence of the operator's pods: whatever pods a resource has, one successful pass of
  \<^const>\<open>reconcilePods\<close> leaves it with exactly the desired number of running, up-to-date pods, keeps the
  oldest ones, and touches no pod of anybody else.
\<close>

definition fresh :: "string \<Rightarrow> Pod \<Rightarrow> bool" where
  "fresh h p \<longleftrightarrow> DeletionTimestamp (pod_meta p) = None \<and> \<not> terminated p \<and> map_get (pod_labels p) labelSpecHash = h"

definition stale :: "string \<Rightarrow> Pod \<Rightarrow> bool" where
  "stale h p \<longleftrightarrow> DeletionTimestamp (pod_meta p) = None \<and> \<not> fresh h p"

text \<open>The pods that belong to a resource: those its selector finds and that are not going away.\<close>

definition managed :: "('w \<Rightarrow> string \<times> string \<Rightarrow> Pod option) \<Rightarrow> DbcpEntryService \<Rightarrow> 'w \<Rightarrow> Pod set" where
  "managed active entry w =
     {p. \<exists>n. active w (Namespace (entry_meta entry), n) = Some p \<and>
           selects (managedSet (Name (entry_meta entry))) (pod_labels p)}"

text \<open>
  The contract of the client as the pod loops use it: the pod store, a sort that really sorts, and
  an owner reference that changes nothing but the owner references.
\<close>

locale operator_api = pods: pod_store "List_Pods r" "Create_Pod r" "Delete_Pod r" "IsNotFound r" active
  for r :: "'w client" and active +
  assumes sort_perm: "mset (sort_Slice r created_before ps) = mset ps"
    and sort_oldest_first: "sorted_wrt (\<lambda>p q. \<not> created_before q p) (sort_Slice r created_before ps)"
    and owner_only: "SetControllerReference r entry m = Inr m' \<Longrightarrow> m' = m\<lparr>OwnerReferences := OwnerReferences m'\<rparr>"
begin

lemma current_pods_run:
  assumes "current_pods r ns h ps w = (Inr cur, w')"
  shows "cur = filter (fresh h) ps \<and>
    active w' = active w |` (- ({ns} \<times> pod_name ` set (filter (stale h) ps)))"
  using assms
proof (induction ps arbitrary: w cur)
  case Nil
  then show ?case by (simp add: restrict_map_def)
next
  case (Cons p ps)
  show ?case
  proof (cases "fresh h p \<or> DeletionTimestamp (pod_meta p) \<noteq> None")
    case True
    with Cons.prems obtain cur' where "current_pods r ns h ps w = (Inr cur', w')"
      "cur = (if fresh h p then p # cur' else cur')"
      by (auto simp: fresh_def bind_io_Inr_iff split: if_splits)
    with True Cons.IH show ?thesis by (auto simp: stale_def)
  next
    case False
    with Cons.prems obtain w1 where d: "unless_missing (IsNotFound r) (Delete_Pod r ns (pod_name p)) w = (Inr (), w1)"
      and rest: "current_pods r ns h ps w1 = (Inr cur, w')"
      by (auto simp: fresh_def bind_io_Inr_iff split: if_splits)
    have "stale h p" using False by (simp add: stale_def)
    then show ?thesis
      using False Cons.IH [OF rest] pods.deleted [OF d] by (auto simp: restrict_map_def fun_eq_iff)
  qed
qed

lemma scale_down_run:
  assumes "scale_down r ns d cur w = (Inr cur', w')"
  shows "0 \<le> d \<and> cur' = take (nat d) cur \<and>
    active w' = active w |` (- ({ns} \<times> pod_name ` set (drop (nat d) cur)))"
  using assms
proof (induction "length cur" arbitrary: cur w)
  case 0
  then show ?case by (auto simp: scale_down.simps [of r ns d] restrict_map_def split: if_splits)
next
  case (Suc n)
  show ?case
  proof (cases "int (length cur) > d")
    case False
    with Suc.prems show ?thesis by (auto simp: scale_down.simps [of r ns d] restrict_map_def)
  next
    case True
    obtain xs x where cur: "cur = xs @ [x]" using Suc.hyps(2) by (cases cur rule: rev_cases) auto
    with True Suc.prems obtain w1 where
      d: "unless_missing (IsNotFound r) (Delete_Pod r ns (pod_name x)) w = (Inr (), w1)"
      and rest: "scale_down r ns d xs w1 = (Inr cur', w')"
      by (auto simp: scale_down.simps [of r ns d "xs @ [x]"] bind_io_Inr_iff)
    have "n = length xs" using Suc.hyps(2) cur by simp
    note IH = Suc.hyps(1) [OF this rest]
    moreover have "nat d \<le> length xs" using True cur IH by auto
    ultimately show ?thesis
      using cur pods.deleted [OF d] by (auto simp: restrict_map_def fun_eq_iff)
  qed
qed

lemma scale_up_run:
  assumes "scale_up r pod d cur w = (Inr cur', w')"
  shows "\<exists>qs. length qs = nat d - length cur \<and> distinct (map pod_name qs) \<and>
    (\<forall>q \<in> set qs. active w (Namespace (pod_meta pod), pod_name q) = None \<and>
       pod_labels q = pod_labels pod \<and> \<not> terminated q) \<and>
    active w' = active w ++ map_of (map (\<lambda>q. ((Namespace (pod_meta pod), pod_name q), q)) qs)"
  using assms
proof (induction "nat d - length cur" arbitrary: cur w)
  case 0
  then have "\<not> int (length cur) < d" by auto
  with 0 show ?case by (auto simp: scale_up.simps [of r pod d])
next
  case (Suc n)
  then have "int (length cur) < d" by auto
  with Suc.prems obtain q w1 where c: "Create_Pod r pod w = (Inr q, w1)"
    and rest: "scale_up r pod d (cur @ [q]) w1 = (Inr cur', w')"
    by (auto simp: scale_up.simps [of r pod d cur] bind_io_Inr_iff)
  have "n = nat d - length (cur @ [q])" using Suc.hyps(2) by simp
  from Suc.hyps(1) [OF this rest] obtain qs where qs: "length qs = nat d - length (cur @ [q])"
    "distinct (map pod_name qs)"
    "\<forall>q' \<in> set qs. active w1 (Namespace (pod_meta pod), pod_name q') = None \<and>
       pod_labels q' = pod_labels pod \<and> \<not> terminated q'"
    "active w' = active w1 ++ map_of (map (\<lambda>q. ((Namespace (pod_meta pod), pod_name q), q)) qs)" by blast
  note cr = pods.create_pod [OF c]
  have new: "pod_name q \<notin> pod_name ` set qs" using qs(3) cr by auto
  have "active w' = active w ++ map_of (map (\<lambda>q. ((Namespace (pod_meta pod), pod_name q), q)) (qs @ [q]))"
    using qs(4) cr by (simp add: map_add_assoc)
  moreover have "distinct (map pod_name (qs @ [q]))" using qs(2) new by simp
  moreover have "\<forall>q' \<in> set (qs @ [q]). active w (Namespace (pod_meta pod), pod_name q') = None \<and>
       pod_labels q' = pod_labels pod \<and> \<not> terminated q'"
    using qs(3) cr new by (auto split: if_splits)
  moreover have "length (qs @ [q]) = nat d - length cur" using qs(1) Suc.hyps(2) by simp
  ultimately show ?case by blast
qed

lemma desired_labels:
  "pod_labels (desiredPod r entry h) = map_put labelSpecHash h (managedLabels (Name (entry_meta entry)))"
  "Namespace (pod_meta (desiredPod r entry h)) = Namespace (entry_meta entry)"
proof -
  define m where "m = (meta (Namespace (entry_meta entry)) [])\<lparr>
    GenerateName := Name (entry_meta entry) @ ''-'',
    Labels := map_put labelSpecHash h (managedLabels (Name (entry_meta entry))),
    Annotations := [(labelSpecHash, h)]\<rparr>"
  obtain os where "pod_meta (desiredPod r entry h) = m\<lparr>OwnerReferences := os\<rparr>"
  proof (cases "SetControllerReference r entry m")
    case (Inl e)
    then have "pod_meta (desiredPod r entry h) = m\<lparr>OwnerReferences := OwnerReferences m\<rparr>"
      by (simp add: desiredPod_def Let_def flip: m_def)
    then show ?thesis by (rule that)
  next
    case (Inr m')
    then have "pod_meta (desiredPod r entry h) = m\<lparr>OwnerReferences := OwnerReferences m'\<rparr>"
      using owner_only [OF Inr] by (simp add: desiredPod_def Let_def flip: m_def)
    then show ?thesis by (rule that)
  qed
  then show "pod_labels (desiredPod r entry h) = map_put labelSpecHash h (managedLabels (Name (entry_meta entry)))"
    "Namespace (pod_meta (desiredPod r entry h)) = Namespace (entry_meta entry)"
    by (simp_all add: m_def meta_def)
qed

end

text \<open>The labels of a new pod are found by the selector and carry the hash.\<close>

lemma managedSet_selects:
  "selects (managedSet n) ls \<longleftrightarrow> map_of ls labelManagedBy = Some controllerID \<and> map_of ls labelCRName = Some n"
  by (simp add: managedSet_def selects_lit label_defs)

lemma managedLabels_get:
  "map_of (managedLabels n) = [labelName \<mapsto> appName, labelInstance \<mapsto> n, labelManagedBy \<mapsto> controllerID, labelCRName \<mapsto> n]"
  by (simp add: managedLabels_def map_of_map_lit label_defs fun_eq_iff)

lemma new_pod_labels:
  "selects (managedSet n) (map_put labelSpecHash h (managedLabels n))"
  "map_get (map_put labelSpecHash h (managedLabels n)) labelSpecHash = h"
  by (simp_all add: managedSet_selects managedLabels_get map_get_def) (simp add: label_defs)

lemma managed_restrict:
  assumes "active w' = active w |` (- ({Namespace (entry_meta entry)} \<times> N))"
    and "\<And>n p. active w (Namespace (entry_meta entry), n) = Some p \<Longrightarrow> pod_name p = n"
  shows "managed active entry w' = {p \<in> managed active entry w. pod_name p \<notin> N}"
  using assms by (auto simp: managed_def restrict_map_def split: if_splits)

lemma managed_add:
  assumes w': "active w' = active w ++ map_of (map (\<lambda>q. ((Namespace (entry_meta entry), pod_name q), q)) qs)"
    and qs: "distinct (map pod_name qs)" "\<forall>q \<in> set qs. active w (Namespace (entry_meta entry), pod_name q) = None
      \<and> selects (managedSet (Name (entry_meta entry))) (pod_labels q)"
  shows "managed active entry w' = managed active entry w \<union> set qs"
proof -
  let ?ns = "Namespace (entry_meta entry)" and ?m = "map (\<lambda>q. ((Namespace (entry_meta entry), pod_name q), q)) qs"
  have d: "distinct (map fst ?m)" using qs(1) by (simp add: comp_def distinct_map inj_on_def)
  have "active w' (?ns, n) = Some p \<longleftrightarrow> p \<in> set qs \<and> n = pod_name p \<or> active w (?ns, n) = Some p" for n p
  proof (cases "map_of ?m (?ns, n)")
    case None
    then have "\<not> (p \<in> set qs \<and> n = pod_name p)" by (auto simp: map_of_eq_None_iff image_image)
    with None show ?thesis unfolding w' map_add_def by simp blast
  next
    case (Some q)
    then have q: "q \<in> set qs" "n = pod_name q" by (auto dest: map_of_SomeD)
    then have "p \<in> set qs \<and> n = pod_name p \<longleftrightarrow> p = q"
      using qs(1) by (auto simp: distinct_map inj_on_def)
    moreover have "active w (?ns, n) = None" using q qs(2) by simp
    ultimately show ?thesis using Some by (auto simp: w' map_add_def)
  qed
  then show ?thesis using qs(2) by (auto simp: managed_def)
qed

context operator_api
begin

text \<open>One pass, loop by loop: \<open>S\<close> are the up-to-date pods, oldest first, \<open>qs\<close> the created ones.\<close>

lemma reconcilePods_run:
  assumes "reconcilePods r entry h w = (Inr (), w')"
  obtains S qs d w3 where
    "d = nat (sint (es_Replicas (spec_Service (entry_Spec entry))))"
    "int d = sint (es_Replicas (spec_Service (entry_Spec entry)))"
    "distinct (map pod_name S)" "set S = {p \<in> managed active entry w. fresh h p}"
    "sorted_wrt (\<lambda>p q. \<not> created_before q p) S"
    "active w3 = active w |` (- ({Namespace (entry_meta entry)} \<times>
       pod_name ` ({p \<in> managed active entry w. stale h p} \<union> set (drop d S))))"
    "length qs = d - length (take d S)" "distinct (map pod_name qs)"
    "\<forall>q \<in> set qs. active w3 (Namespace (entry_meta entry), pod_name q) = None \<and>
       pod_labels q = map_put labelSpecHash h (managedLabels (Name (entry_meta entry))) \<and> \<not> terminated q"
    "active w' = active w3 ++ map_of (map (\<lambda>q. ((Namespace (entry_meta entry), pod_name q), q)) qs)"
proof -
  let ?ns = "Namespace (entry_meta entry)" and ?sel = "managedSet (Name (entry_meta entry))"
    and ?d = "sint (es_Replicas (spec_Service (entry_Spec entry)))"
  obtain ps w1 cur w2 cur2 w3 cur3 where
    l: "List_Pods r ?ns ?sel w = (Inr ps, w1)" and c: "current_pods r ?ns h ps w1 = (Inr cur, w2)"
    and sd: "scale_down r ?ns ?d (sort_Slice r created_before cur) w2 = (Inr cur2, w3)"
    and su: "scale_up r (desiredPod r entry h) ?d cur2 w3 = (Inr cur3, w')"
    using assms by (auto simp: reconcilePods_def Let_def bind_io_Inr_iff)
  let ?S = "sort_Slice r created_before cur"
  have w1: "active w1 = active w" using pods.list_keeps [of ?ns ?sel w] l by simp
  have ps: "distinct (map pod_name ps)" "{p \<in> set ps. DeletionTimestamp (pod_meta p) = None} = managed active entry w"
    using pods.list_pods [OF l] by (auto simp: managed_def)
  note cr = current_pods_run [OF c] and sdr = scale_down_run [OF sd]
  have mS: "mset ?S = mset (filter (fresh h) ps)" using sort_perm cr by simp
  have setS: "set ?S = {p \<in> managed active entry w. fresh h p}"
    using mset_eq_setD [OF mS] ps(2) by (auto simp: fresh_def)
  have stale: "set (filter (stale h) ps) = {p \<in> managed active entry w. stale h p}"
    using ps(2) by (auto simp: stale_def)
  have "mset (map pod_name ?S) = mset (map pod_name (filter (fresh h) ps))"
    using mS by simp
  then have dS: "distinct (map pod_name ?S)"
    using ps(1) by (metis distinct_map_filter mset_eq_imp_distinct_iff)
  have w3: "active w3 = active w |` (- ({?ns} \<times>
       pod_name ` ({p \<in> managed active entry w. stale h p} \<union> set (drop (nat ?d) ?S))))"
    using cr sdr w1 stale by (auto simp: restrict_map_def fun_eq_iff)
  from scale_up_run [OF su] obtain qs where
    "length qs = nat ?d - length cur2" "distinct (map pod_name qs)"
    "\<forall>q \<in> set qs. active w3 (?ns, pod_name q) = None \<and>
       pod_labels q = map_put labelSpecHash h (managedLabels (Name (entry_meta entry))) \<and> \<not> terminated q"
    "active w' = active w3 ++ map_of (map (\<lambda>q. ((?ns, pod_name q), q)) qs)"
    by (auto simp: desired_labels)
  then show ?thesis
    using that [of "nat ?d" ?S w3 qs] sdr dS setS sort_oldest_first w3 by simp
qed

lemma managed_after:
  assumes "reconcilePods r entry h w = (Inr (), w')"
  obtains S qs d where "int d = sint (es_Replicas (spec_Service (entry_Spec entry)))"
    "distinct (map pod_name S)" "set S = {p \<in> managed active entry w. fresh h p}"
    "sorted_wrt (\<lambda>p q. \<not> created_before q p) S"
    "managed active entry w' = set (take d S) \<union> set qs" "distinct qs" "set (take d S) \<inter> set qs = {}"
    "length qs = d - length S"
    "\<forall>q \<in> set qs. map_get (pod_labels q) labelSpecHash = h \<and> \<not> terminated q"
  using assms
proof (rule reconcilePods_run)
  fix S qs d w3
  let ?ns = "Namespace (entry_meta entry)" and ?M = "managed active entry"
  assume d: "int d = sint (es_Replicas (spec_Service (entry_Spec entry)))"
    and S: "distinct (map pod_name S)" "set S = {p \<in> ?M w. fresh h p}" "sorted_wrt (\<lambda>p q. \<not> created_before q p) S"
    and w3: "active w3 = active w |` (- ({?ns} \<times> pod_name ` ({p \<in> ?M w. stale h p} \<union> set (drop d S))))"
    and qs: "length qs = d - length (take d S)" "distinct (map pod_name qs)"
      "\<forall>q \<in> set qs. active w3 (?ns, pod_name q) = None \<and>
       pod_labels q = map_put labelSpecHash h (managedLabels (Name (entry_meta entry))) \<and> \<not> terminated q"
    and w': "active w' = active w3 ++ map_of (map (\<lambda>q. ((?ns, pod_name q), q)) qs)"
  have name: "active v (?ns, n) = Some p \<Longrightarrow> pod_name p = n" for v n p using pods.active_name by blast
  have inj: "p = q" if "p \<in> ?M w" "q \<in> ?M w" "pod_name p = pod_name q" for p q
    using that name by (auto simp: managed_def)
  have "distinct S" using S(1) by (simp add: distinct_map)
  then have tl: "set (take d S) \<inter> set (drop d S) = {}" and un: "set S = set (take d S) \<union> set (drop d S)"
    by (metis append_take_drop_id distinct_append, metis append_take_drop_id set_append)
  have ex: "stale h p \<longleftrightarrow> \<not> fresh h p" if "p \<in> ?M w" for p
    using that pods.active_name by (auto simp: managed_def stale_def)
  have "pod_name p \<notin> pod_name ` ({p \<in> ?M w. stale h p} \<union> set (drop d S)) \<longleftrightarrow> p \<in> set (take d S)"
    if p: "p \<in> ?M w" for p
  proof -
    have "{p \<in> ?M w. stale h p} \<union> set (drop d S) = {p \<in> ?M w. p \<notin> set (take d S)}"
      using ex tl un S(2) by auto
    then show ?thesis using p inj by (auto simp: image_iff)
  qed
  moreover have "set (take d S) \<subseteq> ?M w" using S(2) un by auto
  moreover have "?M w3 = {p \<in> ?M w. pod_name p \<notin> pod_name ` ({p \<in> ?M w. stale h p} \<union> set (drop d S))}"
    using managed_restrict [OF w3 name] by simp
  ultimately have M3: "?M w3 = set (take d S)" by auto
  have "?M w' = set (take d S) \<union> set qs"
    using managed_add [OF w' qs(2)] qs(3) new_pod_labels M3 by simp
  moreover have "set (take d S) \<inter> set qs = {}"
    unfolding M3 [symmetric] using qs(3) name by (force simp: managed_def)
  moreover have "\<forall>q \<in> set qs. map_get (pod_labels q) labelSpecHash = h \<and> \<not> terminated q"
    using qs(3) new_pod_labels by simp
  moreover have "length qs = d - length S" "distinct qs" using qs(1,2) by (simp_all add: distinct_map)
  ultimately show ?thesis using d S by (intro that [of d S qs])
qed

lemma pods_converge:
  assumes "reconcilePods r entry h w = (Inr (), w')"
  shows "finite (managed active entry w') \<and>
    int (card (managed active entry w')) = sint (es_Replicas (spec_Service (entry_Spec entry))) \<and>
    (\<forall>p \<in> managed active entry w'. fresh h p) \<and>
    (\<forall>p \<in> managed active entry w'. \<forall>q \<in> managed active entry w.
       fresh h q \<and> q \<notin> managed active entry w' \<longrightarrow> p \<in> managed active entry w \<and> \<not> created_before q p)"
  using assms
proof (rule managed_after)
  fix S qs d
  let ?M = "managed active entry"
  assume d: "int d = sint (es_Replicas (spec_Service (entry_Spec entry)))"
    and S: "distinct (map pod_name S)" "set S = {p \<in> ?M w. fresh h p}" "sorted_wrt (\<lambda>p q. \<not> created_before q p) S"
    and M': "?M w' = set (take d S) \<union> set qs" "distinct qs" "set (take d S) \<inter> set qs = {}" "length qs = d - length S"
    and qs: "\<forall>q \<in> set qs. map_get (pod_labels q) labelSpecHash = h \<and> \<not> terminated q"
  have "card (?M w') = length (take d S) + length qs"
    unfolding M'(1) using S(1) M'(2,3) by (simp add: card_Un_disjoint distinct_card distinct_map)
  then have card: "card (?M w') = d" using M'(4) by simp
  have del: "DeletionTimestamp (pod_meta p) = None" if "p \<in> ?M w'" for p
    using that pods.active_name by (auto simp: managed_def)
  have fr: "fresh h p" if p: "p \<in> ?M w'" for p
  proof (cases "p \<in> set qs")
    case True
    with qs del [OF p] show ?thesis by (simp add: fresh_def)
  next
    case False
    with p M'(1) S(2) show ?thesis by (auto dest: in_set_takeD)
  qed
  have old: "p \<in> ?M w \<and> \<not> created_before q p"
    if p: "p \<in> ?M w'" and q: "q \<in> ?M w" "fresh h q" "q \<notin> ?M w'" for p q
  proof -
    have "q \<in> set S" "q \<notin> set (take d S)" using q S(2) M'(1) by auto
    then have "q \<in> set (drop d S)" by (metis Un_iff append_take_drop_id set_append)
    then have "qs = []" using M'(4) by (cases "length S \<le> d") auto
    then have "p \<in> set (take d S)" using p M'(1) by simp
    moreover have "sorted_wrt (\<lambda>p q. \<not> created_before q p) (take d S @ drop d S)" using S(3) by simp
    ultimately show ?thesis
      using \<open>q \<in> set (drop d S)\<close> S(2) by (auto simp only: sorted_wrt_append dest: in_set_takeD)
  qed
  show ?thesis using card d fr old M'(1) by auto
qed

text \<open>Nobody else's pods: those in another namespace, and those the selector does not find.\<close>

lemma pods_frame:
  assumes run: "reconcilePods r entry h w = (Inr (), w')"
    and other: "ns \<noteq> Namespace (entry_meta entry) \<or> (\<exists>p. active w (ns, n) = Some p \<and> p \<notin> managed active entry w)"
  shows "active w' (ns, n) = active w (ns, n)"
  using run
proof (rule reconcilePods_run)
  fix S qs d w3
  let ?ns = "Namespace (entry_meta entry)" and ?M = "managed active entry"
  assume S: "set S = {p \<in> ?M w. fresh h p}"
    and w3: "active w3 = active w |` (- ({?ns} \<times> pod_name ` ({p \<in> ?M w. stale h p} \<union> set (drop d S))))"
    and qs: "\<forall>q \<in> set qs. active w3 (?ns, pod_name q) = None \<and>
       pod_labels q = map_put labelSpecHash h (managedLabels (Name (entry_meta entry))) \<and> \<not> terminated q"
    and w': "active w' = active w3 ++ map_of (map (\<lambda>q. ((?ns, pod_name q), q)) qs)"
  have "(ns, n) \<notin> {?ns} \<times> pod_name ` ?M w"
  proof
    assume a: "(ns, n) \<in> {?ns} \<times> pod_name ` ?M w"
    then obtain p where "p \<in> ?M w" "n = pod_name p" "ns = ?ns" by auto
    moreover then have "active w (ns, n) = Some p" using pods.active_name by (auto simp: managed_def)
    ultimately show False using other by auto
  qed
  moreover have "{p \<in> ?M w. stale h p} \<union> set (drop d S) \<subseteq> ?M w" using S by (auto dest: in_set_dropD)
  ultimately have 3: "active w3 (ns, n) = active w (ns, n)" unfolding w3 by (auto simp: restrict_map_def)
  have "map_of (map (\<lambda>q. ((?ns, pod_name q), q)) qs) (ns, n) = None"
  proof (rule ccontr)
    assume "\<not> ?thesis"
    then obtain y where "map_of (map (\<lambda>q. ((?ns, pod_name q), q)) qs) (ns, n) = Some y" by blast
    then obtain q where "q \<in> set qs" "ns = ?ns" "n = pod_name q"
      using map_of_SomeD [of _ "(ns, n)" y] by fastforce
    with qs 3 other show False by auto
  qed
  with 3 show ?thesis unfolding w' map_add_def by simp
qed

end

text \<open>
  With an API server that answers, the loops come to an end by themselves: every pass of the
  scale-down loop shortens the list, every pass of the scale-up loop lengthens it.
\<close>

locale operator_up = operator_api r active +
    up: pod_store_up "List_Pods r" "Create_Pod r" "Delete_Pod r" "IsNotFound r" active
  for r :: "'w client" and active
begin

lemma current_pods_ends: "\<exists>cur w'. current_pods r ns h ps w = (Inr cur, w')"
proof (induction ps arbitrary: w)
  case (Cons p ps)
  obtain w1 where d: "unless_missing (IsNotFound r) (Delete_Pod r ns (pod_name p)) w = (Inr (), w1)"
    using up.delete_goes_on by blast
  show ?case using Cons [of w] Cons [of w1] d by (auto simp: bind_io_def)
qed simp

lemma scale_down_ends:
  "\<exists>res w'. scale_down r ns d cur w = (res, w') \<and>
     (if 0 \<le> d then \<exists>cur'. res = Inr cur' else res = Inl (Panic ''index out of range [-1]''))"
proof (induction "length cur" arbitrary: cur w)
  case 0
  then show ?case by (simp add: scale_down.simps)
next
  case (Suc n)
  then obtain w1 where d: "unless_missing (IsNotFound r) (Delete_Pod r ns (pod_name (last cur))) w = (Inr (), w1)"
    using up.delete_goes_on by blast
  have n: "n = length (butlast cur)" "cur \<noteq> []" using Suc.hyps(2) by auto
  show ?case using Suc.hyps(1) [OF n(1), of w1] d n(2)
    by (subst scale_down.simps) (auto simp: bind_io_def)
qed

lemma scale_up_ends: "\<exists>cur' w'. scale_up r pod d cur w = (Inr cur', w')"
proof (induction "nat d - length cur" arbitrary: cur w)
  case 0
  then have "\<not> int (length cur) < d" by auto
  then show ?case by (simp add: scale_up.simps)
next
  case (Suc n)
  obtain q w1 where c: "Create_Pod r pod w = (Inr q, w1)" using up.create_up by blast
  have "n = nat d - length (cur @ [q])" using Suc.hyps(2) by simp
  from Suc.hyps(1) [OF this, of w1] show ?case using c Suc.hyps(2)
    by (subst scale_up.simps) (auto simp: bind_io_def)
qed

lemma reconcilePods_ends:
  "if 0 \<le> sint (es_Replicas (spec_Service (entry_Spec entry)))
   then \<exists>w'. reconcilePods r entry h w = (Inr (), w')
   else \<exists>w'. reconcilePods r entry h w = (Inl (Panic ''index out of range [-1]''), w')"
proof -
  let ?ns = "Namespace (entry_meta entry)" and ?d = "sint (es_Replicas (spec_Service (entry_Spec entry)))"
  obtain ps w1 where l: "List_Pods r ?ns (managedSet (Name (entry_meta entry))) w = (Inr ps, w1)"
    using up.list_up by blast
  obtain cur w2 where c: "current_pods r ?ns h ps w1 = (Inr cur, w2)" using current_pods_ends by blast
  obtain res w3 where sd: "scale_down r ?ns ?d (sort_Slice r created_before cur) w2 = (res, w3)"
    "if 0 \<le> ?d then \<exists>cur'. res = Inr cur' else res = Inl (Panic ''index out of range [-1]'')"
    using scale_down_ends by blast
  obtain cur3 w4 where su: "scale_up r (desiredPod r entry h) ?d (projr res) w3 = (Inr cur3, w4)"
    using scale_up_ends by blast
  show ?thesis using l c sd su by (auto simp: reconcilePods_def Let_def bind_io_def)
qed

end

end
