(* ===== verification/OperatorCluster.thy ===== *)
theory OperatorCluster
  imports OperatorPods
begin

text \<open>
  The whole reconciler against the whole cluster: besides the pods, the services, config maps and
  the resources themselves. The locale \<open>kube_cluster\<close> says what each call does to the objects of its
  own kind and that it leaves the others alone.
\<close>

type_synonym 'a objects = "string \<times> string \<Rightarrow> 'a option"

record cluster =
  c_pods :: "Pod objects"
  c_services :: "KService objects"
  c_configmaps :: "ConfigMap objects"
  c_entries :: "DbcpEntryService objects"

abbreviation entry_key :: "DbcpEntryService \<Rightarrow> string \<times> string" where
  "entry_key e \<equiv> (Namespace (entry_meta e), Name (entry_meta e))"

text \<open>
  An update stores the resource, and an update that takes the last finalizer off a resource under
  deletion removes it.
\<close>

definition stored_entry :: "DbcpEntryService \<Rightarrow> DbcpEntryService option" where
  "stored_entry e =
     (if DeletionTimestamp (entry_meta e) \<noteq> None \<and> Finalizers (entry_meta e) = [] then None else Some e)"

text \<open>
  A service as the API server keeps it may differ from the one sent in the fields the server fills
  in.
\<close>

definition same_service :: "KService \<Rightarrow> KService \<Rightarrow> bool" where
  "same_service s t \<longleftrightarrow> svc_meta s = svc_meta t \<and> Type (svc_Spec s) = Type (svc_Spec t) \<and>
     Selector (svc_Spec s) = Selector (svc_Spec t) \<and> Ports (svc_Spec s) = Ports (svc_Spec t)"

locale kube_cluster = operator_api r "\<lambda>w. c_pods (view w)" for r :: "'w client" and view :: "'w \<Rightarrow> cluster" +
  assumes get_entry: "Get_Entry r ns n w = (got, w') \<Longrightarrow> view w' = view w \<and>
      (\<forall>e. got = Inr e \<longrightarrow> c_entries (view w) (ns, n) = Some e \<and> entry_key e = (ns, n)) \<and>
      (\<forall>err. got = Inl err \<and> IsNotFound r err \<longrightarrow> c_entries (view w) (ns, n) = None)"
    and update_entry: "Update_Entry r e w = (Inr (), w') \<Longrightarrow>
      view w' = (view w)\<lparr>c_entries := (c_entries (view w))(entry_key e := stored_entry e)\<rparr>"
    and update_entry_fails: "Update_Entry r e w = (Inl err, w') \<Longrightarrow> view w' = view w"
    and list_view: "view (snd (List_Pods r ns sel w)) = view w"
    and create_view: "view (snd (Create_Pod r p w)) = (view w)\<lparr>c_pods := c_pods (view (snd (Create_Pod r p w)))\<rparr>"
    and delete_view: "view (snd (Delete_Pod r ns n w)) = (view w)\<lparr>c_pods := c_pods (view (snd (Delete_Pod r ns n w)))\<rparr>"
    and delete_service: "Delete_Service r ns n w = (res, w') \<Longrightarrow>
      view w' = (view w)\<lparr>c_services := c_services (view w')\<rparr> \<and>
      ((\<forall>e. res = Inl e \<longrightarrow> IsNotFound r e) \<longrightarrow> c_services (view w') = (c_services (view w))((ns, n) := None))"
    and delete_configmap: "Delete_ConfigMap r ns n w = (res, w') \<Longrightarrow>
      view w' = (view w)\<lparr>c_configmaps := c_configmaps (view w')\<rparr> \<and>
      ((\<forall>e. res = Inl e \<longrightarrow> IsNotFound r e) \<longrightarrow> c_configmaps (view w') = (c_configmaps (view w))((ns, n) := None))"
    and ensure_configmap: "CreateOrUpdate_ConfigMap r cm0 f w = (Inr (), w') \<Longrightarrow>
      \<exists>cm. f (case c_configmaps (view w) (Namespace (cm_meta cm0), Name (cm_meta cm0)) of
             None \<Rightarrow> cm0 | Some found \<Rightarrow> found) = Inr cm \<and>
        view w' = (view w)\<lparr>c_configmaps :=
          (c_configmaps (view w))((Namespace (cm_meta cm0), Name (cm_meta cm0)) \<mapsto> cm)\<rparr>"
    and ensure_service: "CreateOrUpdate_Service r svc0 g w = (Inr (), w') \<Longrightarrow>
      \<exists>svc svc'. g (case c_services (view w) (Namespace (svc_meta svc0), Name (svc_meta svc0)) of
             None \<Rightarrow> svc0 | Some found \<Rightarrow> found) = Inr svc \<and> same_service svc' svc \<and>
        view w' = (view w)\<lparr>c_services :=
          (c_services (view w))((Namespace (svc_meta svc0), Name (svc_meta svc0)) \<mapsto> svc')\<rparr>"
    and contains_finalizer: "ContainsFinalizer r e fin \<longleftrightarrow> fin \<in> set (Finalizers (entry_meta e))"
    and remove_finalizer: "RemoveFinalizer r e fin =
      e\<lparr>entry_meta := (entry_meta e)\<lparr>Finalizers := removeAll fin (Finalizers (entry_meta e))\<rparr>\<rparr>"
    and add_finalizer: "AddFinalizer r e fin =
      (if fin \<in> set (Finalizers (entry_meta e)) then e
       else e\<lparr>entry_meta := (entry_meta e)\<lparr>Finalizers := Finalizers (entry_meta e) @ [fin]\<rparr>\<rparr>)"
begin

abbreviation pods_of :: "'w \<Rightarrow> Pod objects" where
  "pods_of w \<equiv> c_pods (view w)"

text \<open>What a call on pods leaves alone.\<close>

definition only_pods :: "'w \<Rightarrow> 'w \<Rightarrow> bool" where
  "only_pods w w' \<longleftrightarrow> view w' = (view w)\<lparr>c_pods := c_pods (view w')\<rparr>"

lemma only_pods_refl: "reflp only_pods"
  by (simp add: only_pods_def reflp_def)

lemma only_pods_trans: "transp only_pods"
proof (rule transpI)
  fix u v w assume "only_pods u v" "only_pods v w"
  then show "only_pods u w" unfolding only_pods_def by (metis cluster.update_convs(1) cluster.surjective)
qed

lemma keeps_delete: "keeps only_pods (unless_missing nf (Delete_Pod r ns n))"
  unfolding unless_missing_def
proof (intro keeps_bind [OF only_pods_trans] keeps_try)
  show "keeps only_pods (Delete_Pod r ns n)" using delete_view by (simp add: keeps_def only_pods_def)
next
  fix x show "keeps only_pods (case x of Inl e \<Rightarrow> if nf e then return_io () else fail_io e | Inr _ \<Rightarrow> return_io ())"
    using only_pods_refl by (auto split: sum.split)
qed

lemmas pods_keeps = keeps_run [OF only_pods_refl] keeps_bind [OF only_pods_trans] keeps_if keeps_delete

lemma keeps_current: "keeps only_pods (current_pods r ns h ps)"
  by (induction ps) (simp_all only: current_pods.simps, (intro pods_keeps | assumption)+)

lemma keeps_scale_down: "keeps only_pods (scale_down r ns d cur)"
proof (induction "length cur" arbitrary: cur)
  case 0
  then have "scale_down r ns d cur = (if d < 0 then fail_io (Panic ''index out of range [-1]'') else return_io [])"
    by (subst scale_down.simps) auto
  then show ?case by (simp only:) (intro pods_keeps)
next
  case (Suc n)
  then have "n = length (butlast cur)" by simp
  note IH = Suc.hyps(1) [OF this]
  show ?case by (subst scale_down.simps) (intro pods_keeps IH)
qed

lemma keeps_scale_up: "keeps only_pods (scale_up r pod d cur)"
proof (induction "nat d - length cur" arbitrary: cur)
  case 0
  then have "\<not> int (length cur) < d" by auto
  then show ?case by (subst scale_up.simps) (simp only: if_False, intro pods_keeps)
next
  case (Suc n)
  have "keeps only_pods (Create_Pod r pod)" using create_view by (simp add: keeps_def only_pods_def)
  moreover have "keeps only_pods (scale_up r pod d (cur @ [q]))" for q
    using Suc.hyps(1) [of "cur @ [q]"] Suc.hyps(2) by simp
  ultimately show ?case by (subst scale_up.simps) (intro pods_keeps)
qed

lemma keeps_list: "keeps only_pods (List_Pods r ns sel)"
  using list_view by (simp add: keeps_def only_pods_def)

lemma keeps_reconcilePods: "keeps only_pods (reconcilePods r entry h)"
  unfolding reconcilePods_def Let_def
  by (intro pods_keeps keeps_list keeps_current keeps_scale_down keeps_scale_up)

lemma keeps_cleanup_pods: "keeps only_pods (cleanup_pods r ns ps)"
  unfolding cleanup_pods_def
  by (induction ps) (simp_all only: foldr.simps o_apply id_apply, (intro pods_keeps | assumption)+)

subsection \<open>Deletion\<close>

lemma cleanup_pods_run:
  assumes "cleanup_pods r ns ps w = (Inr (), w')"
  shows "pods_of w' = pods_of w |` (- ({ns} \<times> pod_name ` set ps))"
  using assms
proof (induction ps arbitrary: w)
  case Nil
  then show ?case by (simp add: cleanup_pods_def restrict_map_def)
next
  case (Cons p ps)
  then obtain w1 where d: "unless_missing (IsNotFound r) (Delete_Pod r ns (pod_name p)) w = (Inr (), w1)"
    and rest: "cleanup_pods r ns ps w1 = (Inr (), w')"
    by (auto simp: cleanup_pods_def bind_io_Inr_iff)
  show ?case using Cons.IH [OF rest] pods.deleted [OF d] by (auto simp: restrict_map_def fun_eq_iff)
qed

definition same_entries :: "'w \<Rightarrow> 'w \<Rightarrow> bool" where
  "same_entries w w' \<longleftrightarrow> c_entries (view w') = c_entries (view w)"

lemma same_entries_rules:
  "reflp same_entries" "transp same_entries"
  by (auto simp: same_entries_def reflp_def transp_def)

lemma only_pods_entries: "keeps only_pods m \<Longrightarrow> keeps same_entries m"
  by (auto simp: keeps_def only_pods_def same_entries_def) (metis cluster.select_convs(4) cluster.surjective cluster.update_convs(1))

lemma keeps_unless_missing:
  assumes "transp R" "reflp R" "keeps R m"
  shows "keeps R (unless_missing nf m)"
  unfolding unless_missing_def
proof (intro keeps_bind [OF assms(1)] keeps_try assms(3))
  fix x show "keeps R (case x of Inl e \<Rightarrow> if nf e then return_io () else fail_io e | Inr _ \<Rightarrow> return_io ())"
    using assms(2) by (auto split: sum.split)
qed

lemma keeps_delete_others:
  "keeps same_entries (Delete_Service r ns n)" "keeps same_entries (Delete_ConfigMap r ns n)"
proof -
  have "c_entries (view (snd (Delete_Service r ns n w))) = c_entries (view w)" for w
    using delete_service [of ns n w "fst (Delete_Service r ns n w)"] by (metis cluster.select_convs(4) cluster.surjective cluster.update_convs(2) prod.collapse)
  moreover have "c_entries (view (snd (Delete_ConfigMap r ns n w))) = c_entries (view w)" for w
    using delete_configmap [of ns n w "fst (Delete_ConfigMap r ns n w)"] by (metis cluster.select_convs(4) cluster.surjective cluster.update_convs(3) prod.collapse)
  ultimately show "keeps same_entries (Delete_Service r ns n)" "keeps same_entries (Delete_ConfigMap r ns n)"
    by (simp_all add: keeps_def same_entries_def)
qed

lemma cleanup_entries: "keeps same_entries (cleanupOwnedResources r entry)"
  unfolding cleanupOwnedResources_def Let_def
  by (intro keeps_bind [OF same_entries_rules(2)] only_pods_entries [OF keeps_list]
      only_pods_entries [OF keeps_cleanup_pods] keeps_unless_missing same_entries_rules keeps_delete_others)

text \<open>After a cleanup nothing the resource owns is left.\<close>

definition nothing_owned :: "DbcpEntryService \<Rightarrow> 'w \<Rightarrow> bool" where
  "nothing_owned entry w \<longleftrightarrow> managed pods_of entry w = {} \<and> c_services (view w) (entry_key entry) = None \<and>
     c_configmaps (view w) (Namespace (entry_meta entry), configMapName (Name (entry_meta entry))) = None"

lemma missing_or_done:
  "unless_missing nf m w = (Inr (), w') \<Longrightarrow> \<exists>res. m w = (res, w') \<and> (\<forall>e. res = Inl e \<longrightarrow> nf e)"
  by (auto simp: unless_missing_Inr)

lemma cleanup_run:
  assumes "cleanupOwnedResources r entry w = (Inr (), w')"
  shows "nothing_owned entry w'"
proof -
  let ?ns = "Namespace (entry_meta entry)" and ?n = "Name (entry_meta entry)"
  obtain ps w1 w2 w3 where l: "List_Pods r ?ns (managedSet ?n) w = (Inr ps, w1)"
    and p: "cleanup_pods r ?ns ps w1 = (Inr (), w2)"
    and s: "unless_missing (IsNotFound r) (Delete_Service r ?ns ?n) w2 = (Inr (), w3)"
    and c: "unless_missing (IsNotFound r) (Delete_ConfigMap r ?ns (configMapName ?n)) w3 = (Inr (), w')"
    using assms by (auto simp: cleanupOwnedResources_def Let_def bind_io_Inr_iff)
  have v1: "view w1 = view w" using list_view [of ?ns "managedSet ?n" w] l by simp
  have "managed pods_of entry w = {p \<in> set ps. DeletionTimestamp (pod_meta p) = None}"
    using pods.list_pods [OF l] by (simp add: managed_def)
  moreover have "managed pods_of entry w2 = {p \<in> managed pods_of entry w. pod_name p \<notin> pod_name ` set ps}"
    using cleanup_pods_run [OF p] v1 pods.active_name by (intro managed_restrict) simp_all
  ultimately have "managed pods_of entry w2 = {}" by auto
  moreover obtain rs where rs: "Delete_Service r ?ns ?n w2 = (rs, w3)" "\<forall>e. rs = Inl e \<longrightarrow> IsNotFound r e"
    using missing_or_done [OF s] by blast
  obtain rc where rc: "Delete_ConfigMap r ?ns (configMapName ?n) w3 = (rc, w')" "\<forall>e. rc = Inl e \<longrightarrow> IsNotFound r e"
    using missing_or_done [OF c] by blast
  have v3: "view w3 = (view w2)\<lparr>c_services := (c_services (view w2))((?ns, ?n) := None)\<rparr>"
    using delete_service [OF rs(1)] rs(2) by metis
  have v': "view w' = (view w3)\<lparr>c_configmaps := (c_configmaps (view w3))((?ns, configMapName ?n) := None)\<rparr>"
    using delete_configmap [OF rc(1)] rc(2) by metis
  ultimately show ?thesis by (simp add: nothing_owned_def managed_def v' v3)
qed

text \<open>
  The finalizer comes off only when nothing is left: whatever a reconciliation of a resource under
  deletion returns, the resource is as it was or nothing it owned exists any more.
\<close>

lemma deletion_safe:
  assumes entry: "c_entries (view w) (ns, n) = Some entry" and del: "\<not> IsZero (DeletionTimestamp (entry_meta entry))"
    and run: "Reconcile r ns n w = (res, w')" and changed: "c_entries (view w') \<noteq> c_entries (view w)"
  shows "nothing_owned entry w'"
proof -
  obtain got w1 where g: "Get_Entry r ns n w = (got, w1)" by fastforce
  note ge = get_entry [OF g]
  obtain rc w2 where c: "cleanupOwnedResources r entry w1 = (rc, w2)" by fastforce
  have e2: "c_entries (view w2) = c_entries (view w)"
    using cleanup_entries [of entry] c ge by (auto simp: keeps_def same_entries_def dest: spec [of _ w1])
  show ?thesis
  proof (cases got)
    case (Inl err)
    then have "w' = w1" using run g
      by (auto simp: Reconcile_def bind_io_try split: go_error.splits if_splits)
    with ge changed show ?thesis by simp
  next
    case (Inr e)
    then have e: "e = entry" "entry_key entry = (ns, n)" using ge entry by auto
    from run g Inr e del c have R: "(case rc of Inl er \<Rightarrow> (Inl er, w2) | Inr _ \<Rightarrow>
        (if ContainsFinalizer r entry finalizer then
          bind_io (Update_Entry r (RemoveFinalizer r entry finalizer)) (\<lambda>_. return_io \<lparr>RequeueAfter = 0\<rparr>)
         else return_io \<lparr>RequeueAfter = 0\<rparr>) w2) = (res, w')"
      by (simp add: Reconcile_def bind_io_try bind_io_eq [of "cleanupOwnedResources r entry", OF c])
    have rc: "rc = Inr ()"
    proof (cases rc)
      case (Inl er)
      with R e2 changed show ?thesis by simp
    qed simp
    note clean = cleanup_run [OF c [unfolded rc]]
    obtain ru w3 where u: "Update_Entry r (RemoveFinalizer r entry finalizer) w2 = (ru, w3)" by fastforce
    have "w' = w2 \<or> w' = w3"
      using R rc by (cases ru) (auto simp: bind_io_eq [of "Update_Entry r _", OF u] split: if_splits)
    moreover obtain X where X: "view w3 = (view w2)\<lparr>c_entries := X\<rparr>"
    proof (cases ru)
      case (Inl er)
      with update_entry_fails u have "view w3 = (view w2)\<lparr>c_entries := c_entries (view w2)\<rparr>" by simp
      then show ?thesis by (rule that)
    next
      case (Inr x)
      with update_entry u show ?thesis by (intro that) simp
    qed
    then have "nothing_owned entry w3" using clean by (simp add: nothing_owned_def managed_def)
    ultimately show ?thesis using clean by blast
  qed
qed

subsection \<open>A live resource\<close>

lemma ensureConfigMap_run:
  assumes "ensureConfigMap r entry w = (Inr (), w')"
  obtains cm where "cm_Data cm = desiredConfigData entry" "Labels (cm_meta cm) = managedLabels (Name (entry_meta entry))"
    "view w' = (view w)\<lparr>c_configmaps := (c_configmaps (view w))
       ((Namespace (entry_meta entry), configMapName (Name (entry_meta entry))) \<mapsto> cm)\<rparr>"
proof -
  obtain cm0 cm where cm: "desired_ConfigMap r entry cm0 = Inr cm"
    "view w' = (view w)\<lparr>c_configmaps := (c_configmaps (view w))
       ((Namespace (entry_meta entry), configMapName (Name (entry_meta entry))) \<mapsto> cm)\<rparr>"
    using ensure_configmap [OF assms [unfolded ensureConfigMap_def]] by (auto simp: meta_def)
  obtain m where m: "SetControllerReference r entry ((cm_meta cm0)\<lparr>Labels := managedLabels (Name (entry_meta entry))\<rparr>) = Inr m"
    "cm = cm0\<lparr>cm_meta := m, cm_Data := desiredConfigData entry\<rparr>"
    using cm(1) by (auto simp: desired_ConfigMap_def result_simps)
  have "Labels m = managedLabels (Name (entry_meta entry))"
    using owner_only [OF m(1)] by (metis ObjectMeta.select_convs(5) ObjectMeta.surjective ObjectMeta.update_convs(5,7))
  with m(2) cm(2) show ?thesis by (intro that [of cm]) simp_all
qed

lemma ensureService_run:
  assumes "ensureService r entry w = (Inr (), w')"
  obtains svc where "Selector (svc_Spec svc) = managedLabels (Name (entry_meta entry))"
    "Ports (svc_Spec svc) = Ports (service_spec entry)"
    "view w' = (view w)\<lparr>c_services := (c_services (view w))(entry_key entry \<mapsto> svc)\<rparr>"
proof -
  obtain svc0 svc svc' where svc: "desired_Service r entry svc0 = Inr svc" "same_service svc' svc"
    "view w' = (view w)\<lparr>c_services := (c_services (view w))(entry_key entry \<mapsto> svc')\<rparr>"
    using ensure_service [OF assms [unfolded ensureService_def]] by (auto simp: meta_def)
  have "svc_Spec svc = service_spec entry" using svc(1) by (auto simp: desired_Service_def result_simps)
  with svc(2,3) show ?thesis by (intro that [of svc']) (simp_all add: same_service_def service_spec_def)
qed

lemma reconcile_live:
  assumes entry: "c_entries (view w) (ns, n) = Some entry" and live: "IsZero (DeletionTimestamp (entry_meta entry))"
    and fin: "finalizer \<in> set (Finalizers (entry_meta entry))" and run: "Reconcile r ns n w = (Inr res, w')"
  obtains h w1 cm svc where "RequeueAfter res = defaultSyncInterval" "calculateSpecHash r entry = Inr h"
    "c_configmaps (view w') (ns, configMapName n) = Some cm" "cm_Data cm = desiredConfigData entry"
    "c_services (view w') (ns, n) = Some svc" "Selector (svc_Spec svc) = managedLabels n"
    "Ports (svc_Spec svc) = Ports (service_spec entry)"
    "pods_of w1 = pods_of w" "reconcilePods r entry h w1 = (Inr (), w')"
    "c_entries (view w') = c_entries (view w)"
    "\<And>k. k \<noteq> (ns, configMapName n) \<Longrightarrow> c_configmaps (view w') k = c_configmaps (view w) k"
    "\<And>k. k \<noteq> (ns, n) \<Longrightarrow> c_services (view w') k = c_services (view w) k"
    "entry_key entry = (ns, n)"
proof -
  obtain got w0 where g: "Get_Entry r ns n w = (got, w0)" by fastforce
  note ge = get_entry [OF g]
  have got: "got = Inr entry"
  proof (cases got)
    case (Inl err)
    with run g have "IsNotFound r err" by (auto simp: Reconcile_def bind_io_try split: go_error.splits if_splits)
    with ge Inl entry show ?thesis by simp
  next
    case (Inr e)
    with ge entry show ?thesis by simp
  qed
  then have key: "entry_key entry = (ns, n)" using ge by simp
  from run g got live fin obtain h w1 w2 where h: "calculateSpecHash r entry = Inr h"
    and c: "ensureConfigMap r entry w0 = (Inr (), w1)" and s: "ensureService r entry w1 = (Inr (), w2)"
    and p: "reconcilePods r entry h w2 = (Inr (), w')" and res: "res = \<lparr>RequeueAfter = defaultSyncInterval\<rparr>"
    by (auto simp: Reconcile_def bind_io_try contains_finalizer bind_io_Inr_iff lift_io_def)
  obtain cm where cm: "cm_Data cm = desiredConfigData entry"
    "view w1 = (view w0)\<lparr>c_configmaps := (c_configmaps (view w0))((ns, configMapName n) \<mapsto> cm)\<rparr>"
    using ensureConfigMap_run [OF c] key by (metis prod.inject)
  obtain svc where svc: "Selector (svc_Spec svc) = managedLabels n" "Ports (svc_Spec svc) = Ports (service_spec entry)"
    "view w2 = (view w1)\<lparr>c_services := (c_services (view w1))((ns, n) \<mapsto> svc)\<rparr>"
    using ensureService_run [OF s] key by (metis prod.inject)
  have "view w' = (view w2)\<lparr>c_pods := c_pods (view w')\<rparr>"
    using keeps_reconcilePods [of entry h] p by (auto simp: keeps_def only_pods_def dest: spec [of _ w2])
  then obtain P where P: "view w' = (view w2)\<lparr>c_pods := P\<rparr>" by blast
  show ?thesis
    using that [OF _ h _ cm(1) _ svc(1,2) _ p] res cm(2) svc(3) P ge key by simp
qed

end

end
