(* ===== verification/KubeReference.thy ===== *)
theory KubeReference
  imports OperatorCluster
begin

text \<open>
  A small cluster in memory that keeps the contract of \<open>kube_cluster\<close>: the reconciler runs against it,
  so its properties are about programs that exist.
\<close>

record kube_world =
  kw_pods :: "((string \<times> string) \<times> Pod) list"
  kw_services :: "((string \<times> string) \<times> KService) list"
  kw_configmaps :: "((string \<times> string) \<times> ConfigMap) list"
  kw_entries :: "((string \<times> string) \<times> DbcpEntryService) list"
  kw_now :: int

definition stored_pod :: "string \<times> string \<Rightarrow> Pod \<Rightarrow> Pod" where
  "stored_pod k p =
     p\<lparr>pod_meta := (pod_meta p)\<lparr>Name := snd k, Namespace := fst k, DeletionTimestamp := None\<rparr>\<rparr>"

definition named_entry :: "string \<times> string \<Rightarrow> DbcpEntryService \<Rightarrow> DbcpEntryService" where
  "named_entry k e = e\<lparr>entry_meta := (entry_meta e)\<lparr>Name := snd k, Namespace := fst k\<rparr>\<rparr>"

definition view_of :: "kube_world \<Rightarrow> cluster" where
  "view_of w = \<lparr>c_pods = \<lambda>k. map_option (stored_pod k) (map_of (kw_pods w) k),
     c_services = map_of (kw_services w), c_configmaps = map_of (kw_configmaps w),
     c_entries = \<lambda>k. map_option (named_entry k) (map_of (kw_entries w) k)\<rparr>"

definition without :: "'k \<Rightarrow> ('k \<times> 'v) list \<Rightarrow> ('k \<times> 'v) list" where
  "without k m = filter (\<lambda>e. fst e \<noteq> k) m"

lemma map_of_without [simp]: "map_of (without k m) = (map_of m)(k := None)"
  unfolding without_def by (induction m) (auto simp: fun_eq_iff)

definition missing :: go_error where
  "missing = Errorf ''not found''"

definition mem_list :: "string \<Rightarrow> gomap \<Rightarrow> (kube_world, Pod list) io" where
  "mem_list ns sel w =
     (Inr (filter (\<lambda>p. selects sel (pod_labels p))
       (map (\<lambda>k. stored_pod k (the (map_of (kw_pods w) k)))
         (filter (\<lambda>k. fst k = ns) (remdups (map fst (kw_pods w)))))), w)"

text \<open>A name no pod has: longer than all of them.\<close>

definition new_name :: "string \<Rightarrow> string list \<Rightarrow> string" where
  "new_name gen names = gen @ replicate (Suc (sum_list (map length names))) (CHR ''x'')"

definition mem_create :: "Pod \<Rightarrow> (kube_world, Pod) io" where
  "mem_create p w =
     (let ns = Namespace (pod_meta p);
          n = new_name (GenerateName (pod_meta p)) (map (snd \<circ> fst) (kw_pods w));
          q = stored_pod (ns, n) (p\<lparr>pod_meta := (pod_meta p)\<lparr>CreationTimestamp := kw_now w\<rparr>, Phase := ''Pending''\<rparr>)
      in (Inr q, w\<lparr>kw_pods := ((ns, n), q) # kw_pods w\<rparr>))"

definition mem_delete :: "string \<Rightarrow> string \<Rightarrow> (kube_world, unit) io" where
  "mem_delete ns n w =
     (if map_of (kw_pods w) (ns, n) = None then (Inl missing, w)
      else (Inr (), w\<lparr>kw_pods := without (ns, n) (kw_pods w)\<rparr>))"

definition mem_get_entry :: "string \<Rightarrow> string \<Rightarrow> (kube_world, DbcpEntryService) io" where
  "mem_get_entry ns n w =
     (case map_of (kw_entries w) (ns, n) of None \<Rightarrow> (Inl missing, w) | Some e \<Rightarrow> (Inr (named_entry (ns, n) e), w))"

definition mem_update_entry :: "DbcpEntryService \<Rightarrow> (kube_world, unit) io" where
  "mem_update_entry e w =
     (if map_of (kw_entries w) (entry_key e) = None then (Inl missing, w)
      else (Inr (), w\<lparr>kw_entries := (case stored_entry e of None \<Rightarrow> without (entry_key e) (kw_entries w)
              | Some e' \<Rightarrow> (entry_key e, e') # kw_entries w)\<rparr>))"

definition mem_delete_service :: "string \<Rightarrow> string \<Rightarrow> (kube_world, unit) io" where
  "mem_delete_service ns n w =
     (if map_of (kw_services w) (ns, n) = None then (Inl missing, w)
      else (Inr (), w\<lparr>kw_services := without (ns, n) (kw_services w)\<rparr>))"

definition mem_delete_configmap :: "string \<Rightarrow> string \<Rightarrow> (kube_world, unit) io" where
  "mem_delete_configmap ns n w =
     (if map_of (kw_configmaps w) (ns, n) = None then (Inl missing, w)
      else (Inr (), w\<lparr>kw_configmaps := without (ns, n) (kw_configmaps w)\<rparr>))"

definition mem_configmap :: "ConfigMap \<Rightarrow> (ConfigMap \<Rightarrow> ConfigMap result) \<Rightarrow> (kube_world, unit) io" where
  "mem_configmap cm0 f w =
     (let k = (Namespace (cm_meta cm0), Name (cm_meta cm0)) in
      case f (case map_of (kw_configmaps w) k of None \<Rightarrow> cm0 | Some found \<Rightarrow> found) of
        Inl e \<Rightarrow> (Inl e, w) | Inr cm \<Rightarrow> (Inr (), w\<lparr>kw_configmaps := (k, cm) # kw_configmaps w\<rparr>))"

definition with_ip :: "KService \<Rightarrow> KService" where
  "with_ip svc = svc\<lparr>svc_Spec := (svc_Spec svc)\<lparr>ClusterIP := ''10.0.0.1''\<rparr>\<rparr>"

definition mem_service :: "KService \<Rightarrow> (KService \<Rightarrow> KService result) \<Rightarrow> (kube_world, unit) io" where
  "mem_service svc0 g w =
     (let k = (Namespace (svc_meta svc0), Name (svc_meta svc0)) in
      case g (case map_of (kw_services w) k of None \<Rightarrow> svc0 | Some found \<Rightarrow> found) of
        Inl e \<Rightarrow> (Inl e, w) | Inr svc \<Rightarrow> (Inr (), w\<lparr>kw_services := (k, with_ip svc) # kw_services w\<rparr>))"

fun insert_before :: "('a \<Rightarrow> 'a \<Rightarrow> bool) \<Rightarrow> 'a \<Rightarrow> 'a list \<Rightarrow> 'a list" where
  "insert_before lt x [] = [x]"
| "insert_before lt x (y # ys) = (if lt y x then y # insert_before lt x ys else x # y # ys)"

definition insertion_sort :: "('a \<Rightarrow> 'a \<Rightarrow> bool) \<Rightarrow> 'a list \<Rightarrow> 'a list" where
  "insertion_sort lt xs = foldr (insert_before lt) xs []"

definition mem_owner :: "DbcpEntryService \<Rightarrow> ObjectMeta \<Rightarrow> ObjectMeta result" where
  "mem_owner e m = Inr (m\<lparr>OwnerReferences := [\<lparr>or_APIVersion = GroupVersion, or_Kind = ''DbcpEntryService'',
     or_Name = Name (entry_meta e), or_UID = UID (entry_meta e), or_Controller = Some True,
     or_BlockOwnerDeletion = Some True\<rparr>]\<rparr>)"

definition mem_resources :: "ResourceRequirements \<Rightarrow> string result" where
  "mem_resources rr =
     Inr (enc_object (omitempty ''limits'' (rr_Limits rr = []) (enc_map (rr_Limits rr))
                   @ omitempty ''requests'' (rr_Requests rr = []) (enc_map (rr_Requests rr))))"

definition ref_client :: "kube_world client" where
  "ref_client = \<lparr>
     Get_Entry = mem_get_entry, Update_Entry = mem_update_entry, List_Pods = mem_list,
     Create_Pod = mem_create, Delete_Pod = mem_delete, Delete_Service = mem_delete_service,
     Delete_ConfigMap = mem_delete_configmap, CreateOrUpdate_ConfigMap = mem_configmap,
     CreateOrUpdate_Service = mem_service, IsNotFound = (\<lambda>e. e = missing),
     ContainsFinalizer = (\<lambda>e f. f \<in> set (Finalizers (entry_meta e))),
     AddFinalizer = (\<lambda>e f. if f \<in> set (Finalizers (entry_meta e)) then e
        else e\<lparr>entry_meta := (entry_meta e)\<lparr>Finalizers := Finalizers (entry_meta e) @ [f]\<rparr>\<rparr>),
     RemoveFinalizer = (\<lambda>e f. e\<lparr>entry_meta := (entry_meta e)\<lparr>Finalizers := removeAll f (Finalizers (entry_meta e))\<rparr>\<rparr>),
     SetControllerReference = mem_owner, Marshal_Resources = mem_resources,
     sort_Slice = insertion_sort\<rparr>"

lemma ref_client_simps [simp]:
  "Get_Entry ref_client = mem_get_entry" "Update_Entry ref_client = mem_update_entry"
  "List_Pods ref_client = mem_list" "Create_Pod ref_client = mem_create" "Delete_Pod ref_client = mem_delete"
  "Delete_Service ref_client = mem_delete_service" "Delete_ConfigMap ref_client = mem_delete_configmap"
  "CreateOrUpdate_ConfigMap ref_client = mem_configmap" "CreateOrUpdate_Service ref_client = mem_service"
  "IsNotFound ref_client e \<longleftrightarrow> e = missing"
  "SetControllerReference ref_client = mem_owner" "Marshal_Resources ref_client = mem_resources"
  "sort_Slice ref_client = insertion_sort"
  by (simp_all add: ref_client_def)

lemma view_of_simps [simp]:
  "c_pods (view_of w) k = map_option (stored_pod k) (map_of (kw_pods w) k)"
  "c_services (view_of w) = map_of (kw_services w)"
  "c_configmaps (view_of w) = map_of (kw_configmaps w)"
  "c_entries (view_of w) k = map_option (named_entry k) (map_of (kw_entries w) k)"
  by (simp_all add: view_of_def)

lemma view_of_eq:
  "view_of w' = v \<longleftrightarrow> c_pods (view_of w') = c_pods v \<and> c_services (view_of w') = c_services v \<and>
     c_configmaps (view_of w') = c_configmaps v \<and> c_entries (view_of w') = c_entries v"
  by (cases v) (auto simp: view_of_def)

lemma stored_pod_simps [simp]:
  "Name (pod_meta (stored_pod k p)) = snd k" "Namespace (pod_meta (stored_pod k p)) = fst k"
  "DeletionTimestamp (pod_meta (stored_pod k p)) = None" "pod_labels (stored_pod k p) = pod_labels p"
  "pod_Spec (stored_pod k p) = pod_Spec p" "Phase (stored_pod k p) = Phase p"
  "stored_pod k (stored_pod k p) = stored_pod k p"
  by (simp_all add: stored_pod_def)

lemma insertion_sort_mset: "mset (insertion_sort lt xs) = mset xs"
proof -
  have "mset (insert_before lt x ys) = add_mset x (mset ys)" for x ys
    by (induction ys) (auto simp: add_mset_commute)
  then show ?thesis by (induction xs) (simp_all add: insertion_sort_def)
qed

lemma insertion_sort_sorted: "sorted_wrt (\<lambda>p q. \<not> created_before q p) (insertion_sort created_before ps)"
proof -
  have set: "set (insert_before lt x ys) = insert x (set ys)" for lt and x :: Pod and ys
    by (induction ys) auto
  have "sorted_wrt (\<lambda>p q. \<not> created_before q p) (insert_before created_before x ys)"
    if "sorted_wrt (\<lambda>p q. \<not> created_before q p) ys" for x ys
    using that by (induction ys) (auto simp: set created_before_def)
  then show ?thesis by (induction ps) (simp_all add: insertion_sort_def)
qed

lemma new_name_fresh: "new_name gen ns \<notin> set ns"
proof
  assume "new_name gen ns \<in> set ns"
  then have "length (new_name gen ns) \<le> sum_list (map length ns)" by (simp add: member_le_sum_list)
  then show False by (simp add: new_name_def)
qed

lemma mem_list_run:
  assumes "mem_list ns sel w = (Inr ps, w')"
  shows "distinct (map pod_name ps) \<and> {p \<in> set ps. DeletionTimestamp (pod_meta p) = None} =
        {p. \<exists>n. c_pods (view_of w) (ns, n) = Some p \<and> selects sel (pod_labels p)}"
proof -
  let ?ks = "filter (\<lambda>k. fst k = ns) (remdups (map fst (kw_pods w)))"
    and ?f = "\<lambda>k. stored_pod k (the (map_of (kw_pods w) k))"
  have ps: "ps = filter (\<lambda>p. selects sel (pod_labels p)) (map ?f ?ks)" using assms by (auto simp: mem_list_def)
  have "distinct (map snd ?ks)" by (auto simp: distinct_map inj_on_def)
  then have "distinct (map pod_name (map ?f ?ks))" by (simp add: comp_def)
  then have "distinct (map pod_name ps)" unfolding ps by (rule distinct_map_filter)
  moreover have dom: "k \<in> fst ` set (kw_pods w) \<longleftrightarrow> (\<exists>q. map_of (kw_pods w) k = Some q)" for k
    by (metis dom_map_of_conv_image_fst domIff not_None_eq)
  have "p \<in> set ps \<longleftrightarrow> (\<exists>n q. map_of (kw_pods w) (ns, n) = Some q \<and> p = stored_pod (ns, n) q \<and> selects sel (pod_labels q))" for p
  proof -
    have "p \<in> set ps \<longleftrightarrow> (\<exists>k. fst k = ns \<and> k \<in> fst ` set (kw_pods w) \<and> p = ?f k \<and> selects sel (pod_labels p))"
    proof -
      have "set ps = {p \<in> ?f ` {k. fst k = ns \<and> k \<in> fst ` set (kw_pods w)}. selects sel (pod_labels p)}"
        unfolding ps by (auto simp del: stored_pod_simps)
      then show ?thesis by blast
    qed
    also have "\<dots> \<longleftrightarrow> (\<exists>n. (ns, n) \<in> fst ` set (kw_pods w) \<and> p = ?f (ns, n) \<and> selects sel (pod_labels p))"
      by (metis fst_conv surjective_pairing)
    also have "\<dots> \<longleftrightarrow> (\<exists>n q. map_of (kw_pods w) (ns, n) = Some q \<and> p = stored_pod (ns, n) q \<and> selects sel (pod_labels q))"
      unfolding dom by (metis option.sel stored_pod_simps(4))
    finally show ?thesis .
  qed
  then have "{p \<in> set ps. DeletionTimestamp (pod_meta p) = None} =
        {p. \<exists>n. c_pods (view_of w) (ns, n) = Some p \<and> selects sel (pod_labels p)}"
    by auto blast
  ultimately show ?thesis by simp
qed

lemma mem_create_run:
  assumes "mem_create p w = (Inr q, w')"
  shows "c_pods (view_of w) (Namespace (pod_meta p), pod_name q) = None \<and>
      c_pods (view_of w') = (c_pods (view_of w))((Namespace (pod_meta p), pod_name q) \<mapsto> q) \<and>
      pod_labels q = pod_labels p \<and> pod_Spec q = pod_Spec p \<and> \<not> terminated q"
proof -
  let ?names = "map (snd \<circ> fst) (kw_pods w)"
  define n where "n = new_name (GenerateName (pod_meta p)) ?names"
  have "map_of (kw_pods w) (Namespace (pod_meta p), n) = None"
    using new_name_fresh [of "GenerateName (pod_meta p)" ?names]
    by (force simp: map_of_eq_None_iff n_def)
  then show ?thesis using assms
    by (auto simp: mem_create_def Let_def n_def terminated_def fun_eq_iff)
qed

lemma mem_deletes:
  "mem_delete_service ns n w = (res, w') \<Longrightarrow> view_of w' = (view_of w)\<lparr>c_services := c_services (view_of w')\<rparr> \<and>
     ((\<forall>e. res = Inl e \<longrightarrow> e = missing) \<longrightarrow> c_services (view_of w') = (c_services (view_of w))((ns, n) := None))"
  "mem_delete_configmap ns n w = (res, w') \<Longrightarrow> view_of w' = (view_of w)\<lparr>c_configmaps := c_configmaps (view_of w')\<rparr> \<and>
     ((\<forall>e. res = Inl e \<longrightarrow> e = missing) \<longrightarrow> c_configmaps (view_of w') = (c_configmaps (view_of w))((ns, n) := None))"
  by (auto simp: mem_delete_service_def mem_delete_configmap_def view_of_eq fun_eq_iff split: if_splits)

lemma mem_configmap_run:
  assumes "mem_configmap cm0 f w = (Inr (), w')"
  shows "\<exists>cm. f (case c_configmaps (view_of w) (Namespace (cm_meta cm0), Name (cm_meta cm0)) of
      None \<Rightarrow> cm0 | Some found \<Rightarrow> found) = Inr cm \<and>
    view_of w' = (view_of w)\<lparr>c_configmaps := (c_configmaps (view_of w))((Namespace (cm_meta cm0), Name (cm_meta cm0)) \<mapsto> cm)\<rparr>"
  using assms by (auto simp: mem_configmap_def Let_def view_of_eq fun_eq_iff split: sum.splits)

lemma mem_get_entry_run:
  assumes "mem_get_entry ns n w = (got, w')"
  shows "view_of w' = view_of w \<and>
      (\<forall>e. got = Inr e \<longrightarrow> c_entries (view_of w) (ns, n) = Some e \<and> entry_key e = (ns, n)) \<and>
      (\<forall>err. got = Inl err \<and> err = missing \<longrightarrow> c_entries (view_of w) (ns, n) = None)"
  using assms by (auto simp: mem_get_entry_def named_entry_def split: option.splits)

lemma mem_views:
  "view_of (snd (mem_list ns sel w)) = view_of w"
  "view_of (snd (mem_create p w)) = (view_of w)\<lparr>c_pods := c_pods (view_of (snd (mem_create p w)))\<rparr>"
  "view_of (snd (mem_delete ns n w)) = (view_of w)\<lparr>c_pods := c_pods (view_of (snd (mem_delete ns n w)))\<rparr>"
  "mem_update_entry e w = (Inl err, w') \<Longrightarrow> view_of w' = view_of w"
  by (auto simp: mem_list_def mem_create_def mem_delete_def mem_update_entry_def view_of_eq Let_def split: if_splits)

interpretation mem: kube_cluster ref_client view_of
proof
  fix w ns n p
  show "c_pods (view_of w) (ns, n) = Some p \<Longrightarrow> pod_name p = n \<and> DeletionTimestamp (pod_meta p) = None"
    by auto
next
  fix w w' ns n and res :: "unit result"
  show "c_pods (view_of w') = (c_pods (view_of w))((ns, n) := None)"
    if "Delete_Pod ref_client ns n w = (res, w')" "\<And>e. res = Inl e \<Longrightarrow> IsNotFound ref_client e"
    using that by (auto simp: mem_delete_def fun_eq_iff split: if_splits)
next
  fix e w w' assume u: "Update_Entry ref_client e w = (Inr (), w')"
  have "named_entry (entry_key e) e = e" by (simp add: named_entry_def)
  with u show "view_of w' = (view_of w)\<lparr>c_entries := (c_entries (view_of w))(entry_key e := stored_entry e)\<rparr>"
    by (auto simp: view_of_eq mem_update_entry_def stored_entry_def fun_eq_iff split: if_splits option.splits)
next
  fix e m m' assume "SetControllerReference ref_client e m = Inr m'"
  then show "m' = m\<lparr>OwnerReferences := OwnerReferences m'\<rparr>" by (auto simp: mem_owner_def)
next
  fix svc0 g w w' assume c: "CreateOrUpdate_Service ref_client svc0 g w = (Inr (), w')"
  let ?found = "case c_services (view_of w) (Namespace (svc_meta svc0), Name (svc_meta svc0)) of None \<Rightarrow> svc0 | Some found \<Rightarrow> found"
  obtain svc where "g ?found = Inr svc"
    "w' = w\<lparr>kw_services := ((Namespace (svc_meta svc0), Name (svc_meta svc0)), with_ip svc) # kw_services w\<rparr>"
    using c by (auto simp: mem_service_def Let_def split: sum.splits)
  moreover have "same_service (with_ip svc) svc" by (simp add: same_service_def with_ip_def)
  ultimately have "g ?found = Inr svc \<and> same_service (with_ip svc) svc \<and>
      view_of w' = (view_of w)\<lparr>c_services :=
        (c_services (view_of w))((Namespace (svc_meta svc0), Name (svc_meta svc0)) \<mapsto> with_ip svc)\<rparr>"
    by (simp add: view_of_eq fun_eq_iff)
  then show "\<exists>svc svc'. g ?found = Inr svc \<and> same_service svc' svc \<and>
      view_of w' = (view_of w)\<lparr>c_services :=
        (c_services (view_of w))((Namespace (svc_meta svc0), Name (svc_meta svc0)) \<mapsto> svc')\<rparr>" by blast
next
  fix ns n w got w' assume "Get_Entry ref_client ns n w = (got, w')"
  then show "view_of w' = view_of w \<and>
      (\<forall>e. got = Inr e \<longrightarrow> c_entries (view_of w) (ns, n) = Some e \<and> entry_key e = (ns, n)) \<and>
      (\<forall>err. got = Inl err \<and> IsNotFound ref_client err \<longrightarrow> c_entries (view_of w) (ns, n) = None)"
    unfolding ref_client_simps by (rule mem_get_entry_run)
qed (unfold ref_client_simps, (erule mem_list_run mem_create_run mem_deletes mem_configmap_run mem_views(4)
     | rule mem_views(1-3) insertion_sort_mset insertion_sort_sorted
     | (simp add: ref_client_def mem_list_def; fail))+)

interpretation mem_up: operator_up ref_client "\<lambda>w. c_pods (view_of w)"
proof
  fix ns n w
  show "\<exists>w'. Delete_Pod ref_client ns n w = (Inr (), w') \<or>
      (\<exists>e. Delete_Pod ref_client ns n w = (Inl e, w') \<and> IsNotFound ref_client e \<and> \<not> panics e)"
    by (simp add: mem_delete_def missing_def)
qed (simp_all add: mem_list_def mem_create_def Let_def)

text \<open>On this cluster a live resource is always reconciled.\<close>

lemma ref_Reconcile:
  assumes e: "mem_get_entry ns n w = (Inr entry, w)" and live: "DeletionTimestamp (entry_meta entry) = None"
    and fin: "finalizer \<in> set (Finalizers (entry_meta entry))"
    and reps: "0 \<le> sint (es_Replicas (spec_Service (entry_Spec entry)))"
  shows "\<exists>w'. Reconcile ref_client ns n w = (Inr \<lparr>RequeueAfter = defaultSyncInterval\<rparr>, w')"
proof -
  obtain h where h: "calculateSpecHash ref_client entry = Inr h" by (simp add: calculateSpecHash_def mem_resources_def)
  obtain w1 where c: "ensureConfigMap ref_client entry w = (Inr (), w1)"
    by (simp add: ensureConfigMap_def mem_configmap_def desired_ConfigMap_def mem_owner_def Let_def)
  obtain w2 where s: "ensureService ref_client entry w1 = (Inr (), w2)"
    by (simp add: ensureService_def mem_service_def desired_Service_def mem_owner_def Let_def)
  obtain w3 where p: "reconcilePods ref_client entry h w2 = (Inr (), w3)"
    using mem_up.reconcilePods_ends [of entry h w2] reps by auto
  show ?thesis using e live fin h c s p
    by (simp add: Reconcile_def bind_io_try mem.contains_finalizer IsZero_def bind_io_Inr)
qed

subsection \<open>Examples\<close>

definition pod_sample :: "string \<Rightarrow> string \<Rightarrow> int \<Rightarrow> string \<Rightarrow> Pod" where
  "pod_sample cr h created phase =
     \<lparr>pod_meta = (meta ''prod'' [])\<lparr>Labels := map_put labelSpecHash h (managedLabels cr), CreationTimestamp := created\<rparr>,
      pod_Spec = \<lparr>RestartPolicy = ''Always'', Containers = []\<rparr>, Phase = phase\<rparr>"

definition entry_sample :: "int option \<Rightarrow> 32 word \<Rightarrow> DbcpEntryService" where
  "entry_sample deleted replicas =
     \<lparr>entry_meta = (meta ''prod'' ''web'')\<lparr>UID := ''u1'', Finalizers := [finalizer], DeletionTimestamp := deleted\<rparr>,
      entry_Spec = \<lparr>spec_Config = \<lparr>ec_TargetDB = ''db'', ec_TargetRedis = ''redis:6379'', ec_ServiceExportPort = 80\<rparr>,
        spec_Service = \<lparr>es_Image = ''web:1'', es_Replicas = replicas,
          es_Resources = \<lparr>rr_Requests = [], rr_Limits = [], rr_Claims = []\<rparr>\<rparr>\<rparr>\<rparr>"

definition cluster_sample :: "int option \<Rightarrow> kube_world" where
  "cluster_sample deleted =
     \<lparr>kw_pods = [((''prod'', ''web-a''), pod_sample ''web'' ''h1'' 5 ''Running''),
        ((''prod'', ''web-b''), pod_sample ''web'' ''h1'' 3 ''Running''),
        ((''prod'', ''web-c''), pod_sample ''web'' ''h0'' 1 ''Running''),
        ((''prod'', ''api-a''), pod_sample ''api'' ''h0'' 2 ''Failed'')],
      kw_services = [], kw_configmaps = [],
      kw_entries = [((''prod'', ''web''), entry_sample deleted 1)], kw_now = 9\<rparr>"

lemma cluster_sample_run:
  "map fst (kw_pods (snd (reconcilePods ref_client (entry_sample None 1) ''h1'' (cluster_sample None)))) =
     [(''prod'', ''web-b''), (''prod'', ''api-a'')]"
  by code_simp

subsection \<open>Properties\<close>

text \<open>
  C10: one successful pass over the pods of a resource leaves exactly the desired number of pods,
  each of them up to date and not terminated. Of the up-to-date pods it found, the ones it kept
  are no younger than any it removed, and a removal of an up-to-date pod never goes with a
  creation. Pods in other namespaces, and pods that are not the resource's own, are not touched.
\<close>

theorem operator_pods_converge:
  assumes "operator_api r active" and "reconcilePods r entry h w = (Inr (), w')"
  shows "finite (managed active entry w') \<and>
    int (card (managed active entry w')) = sint (es_Replicas (spec_Service (entry_Spec entry))) \<and>
    (\<forall>p \<in> managed active entry w'. fresh h p) \<and>
    (\<forall>p \<in> managed active entry w'. \<forall>q \<in> managed active entry w.
       fresh h q \<and> q \<notin> managed active entry w' \<longrightarrow> p \<in> managed active entry w \<and> \<not> created_before q p) \<and>
    (\<forall>ns n. ns \<noteq> Namespace (entry_meta entry) \<or> (\<exists>p. active w (ns, n) = Some p \<and> p \<notin> managed active entry w) \<longrightarrow>
       active w' (ns, n) = active w (ns, n))"
  using operator_api.pods_converge [OF assms] operator_api.pods_frame [OF assms] by blast

theorem operator_pods_converge_witness:
  "card (managed (\<lambda>w. c_pods (view_of w)) (entry_sample None 1)
     (snd (reconcilePods ref_client (entry_sample None 1) ''h1'' (cluster_sample None)))) = 1"
proof -
  obtain w' where r: "reconcilePods ref_client (entry_sample None 1) ''h1'' (cluster_sample None) = (Inr (), w')"
    using mem_up.reconcilePods_ends [of "entry_sample None 1" "''h1''" "cluster_sample None"]
    by (auto simp: entry_sample_def)
  show ?thesis
    using operator_pods_converge [OF mem.operator_api_axioms r] r by (simp add: entry_sample_def)
qed

text \<open>
  With an API server that answers, a pass over the pods comes to an end. For a number of
  replicas that is not negative it succeeds, so that the desired state is reached; for a negative
  one (which the resource definition excludes) it panics.
\<close>

theorem operator_pods_end:
  assumes "operator_up r active"
  shows "if 0 \<le> sint (es_Replicas (spec_Service (entry_Spec entry)))
    then \<exists>w'. reconcilePods r entry h w = (Inr (), w') \<and>
      int (card (managed active entry w')) = sint (es_Replicas (spec_Service (entry_Spec entry)))
    else \<exists>w'. reconcilePods r entry h w = (Inl (Panic ''index out of range [-1]''), w')"
proof -
  have api: "operator_api r active" using assms by (simp add: operator_up_def)
  show ?thesis
    using operator_up.reconcilePods_ends [OF assms, of entry h w]
    by (auto dest: operator_api.pods_converge [OF api] split: if_splits)
qed

theorem operator_pods_end_witness:
  "\<exists>w'. reconcilePods ref_client (entry_sample None 1) ''h1'' (cluster_sample None) = (Inr (), w') \<and>
     int (card (managed (\<lambda>w. c_pods (view_of w)) (entry_sample None 1) w')) = 1"
  using operator_pods_end [OF mem_up.operator_up_axioms, of "entry_sample None 1" "''h1''" "cluster_sample None"]
  by (simp add: entry_sample_def)

text \<open>
  C11: the finalizer protects the cleanup. Whatever a reconciliation of a resource under deletion
  returns (success, or the error of any call on the way), if the resource itself was changed then
  no pod of it is active and its service and its config map are gone.
\<close>

theorem operator_deletion_safe:
  assumes "kube_cluster r view" and "c_entries (view w) (ns, n) = Some entry"
    and "\<not> IsZero (DeletionTimestamp (entry_meta entry))" and "Reconcile r ns n w = (res, w')"
    and "c_entries (view w') \<noteq> c_entries (view w)"
  shows "managed (\<lambda>w. c_pods (view w)) entry w' = {} \<and> c_services (view w') (entry_key entry) = None \<and>
    c_configmaps (view w') (Namespace (entry_meta entry), configMapName (Name (entry_meta entry))) = None"
  using kube_cluster.deletion_safe [OF assms] by (simp add: kube_cluster.nothing_owned_def [OF assms(1)])

theorem operator_deletion_safe_witness:
  "managed (\<lambda>w. c_pods (view_of w)) (entry_sample (Some 8) 1)
     (snd (Reconcile ref_client ''prod'' ''web'' (cluster_sample (Some 8)))) = {}"
proof -
  let ?w = "cluster_sample (Some 8)" and ?e = "entry_sample (Some 8) 1"
  have e: "c_entries (view_of ?w) (''prod'', ''web'') = Some ?e"
    by (simp add: cluster_sample_def entry_sample_def named_entry_def meta_def)
  have d: "\<not> IsZero (DeletionTimestamp (entry_meta ?e))"
    by (simp add: entry_sample_def IsZero_def zero_time_def)
  obtain res w' where r: "Reconcile ref_client ''prod'' ''web'' ?w = (res, w')" by fastforce
  have "map_of (kw_entries (snd (Reconcile ref_client ''prod'' ''web'' ?w))) (''prod'', ''web'') = None"
    by code_simp
  then have none: "c_entries (view_of w') (''prod'', ''web'') = None" unfolding r by simp
  have "c_entries (view_of w') \<noteq> c_entries (view_of ?w)"
  proof
    assume "c_entries (view_of w') = c_entries (view_of ?w)"
    with none e show False by (simp only: option.distinct)
  qed
  from operator_deletion_safe [OF mem.kube_cluster_axioms e d r this] show ?thesis unfolding r snd_conv by (rule conjunct1)
qed

text \<open>
  On every such cluster, a successful reconciliation of a live resource leaves its config map with the desired data,
  its service with the selector and ports of the resource, and exactly the desired number of
  up-to-date pods; the resource itself is not changed, and the next pass is due after the sync
  interval.
\<close>

theorem operator_reconciled:
  assumes "kube_cluster r view" and "c_entries (view w) (ns, n) = Some entry"
    and "IsZero (DeletionTimestamp (entry_meta entry))" and "finalizer \<in> set (Finalizers (entry_meta entry))"
    and "Reconcile r ns n w = (Inr res, w')"
  shows "RequeueAfter res = defaultSyncInterval \<and> c_entries (view w') = c_entries (view w) \<and>
    (\<exists>cm. c_configmaps (view w') (ns, configMapName n) = Some cm \<and> cm_Data cm = desiredConfigData entry) \<and>
    (\<exists>svc. c_services (view w') (ns, n) = Some svc \<and> Selector (svc_Spec svc) = managedLabels n \<and>
       Ports (svc_Spec svc) = Ports (service_spec entry)) \<and>
    (\<exists>h. calculateSpecHash r entry = Inr h \<and> (\<forall>p \<in> managed (\<lambda>w. c_pods (view w)) entry w'. fresh h p)) \<and>
    int (card (managed (\<lambda>w. c_pods (view w)) entry w')) = sint (es_Replicas (spec_Service (entry_Spec entry)))"
proof -
  have api: "operator_api r (\<lambda>w. c_pods (view w))" using assms(1) by (simp add: kube_cluster_def)
  from assms show ?thesis
  proof (rule kube_cluster.reconcile_live)
    fix h w1 cm svc
    assume a: "RequeueAfter res = defaultSyncInterval" "calculateSpecHash r entry = Inr h"
      "c_configmaps (view w') (ns, configMapName n) = Some cm" "cm_Data cm = desiredConfigData entry"
      "c_services (view w') (ns, n) = Some svc" "Selector (svc_Spec svc) = managedLabels n"
      "Ports (svc_Spec svc) = Ports (service_spec entry)" "c_entries (view w') = c_entries (view w)"
      and p: "reconcilePods r entry h w1 = (Inr (), w')"
    show ?thesis using a operator_api.pods_converge [OF api p] by blast
  qed
qed

theorem operator_reconciled_witness:
  "\<exists>w'. Reconcile ref_client ''prod'' ''web'' (cluster_sample None) = (Inr \<lparr>RequeueAfter = 5000000000\<rparr>, w') \<and>
     card (managed (\<lambda>w. c_pods (view_of w)) (entry_sample None 1) w') = 1"
proof -
  let ?w = "cluster_sample None" and ?e = "entry_sample None 1"
  have g: "mem_get_entry ''prod'' ''web'' ?w = (Inr ?e, ?w)"
    by (simp add: mem_get_entry_def cluster_sample_def entry_sample_def named_entry_def meta_def)
  have e: "c_entries (view_of ?w) (''prod'', ''web'') = Some ?e"
    by (simp add: cluster_sample_def entry_sample_def named_entry_def meta_def)
  have l: "DeletionTimestamp (entry_meta ?e) = None" "IsZero (DeletionTimestamp (entry_meta ?e))"
    "finalizer \<in> set (Finalizers (entry_meta ?e))" "sint (es_Replicas (spec_Service (entry_Spec ?e))) = 1"
    by (simp_all add: entry_sample_def IsZero_def)
  obtain w' where r: "Reconcile ref_client ''prod'' ''web'' ?w = (Inr \<lparr>RequeueAfter = defaultSyncInterval\<rparr>, w')"
    using ref_Reconcile [OF g l(1,3)] l(4) by auto
  show ?thesis
    using operator_reconciled [OF mem.kube_cluster_axioms e l(2,3) r] r l(4) by (simp add: defaultSyncInterval_def)
qed

end
