(* ===== verification/Deployment.thy ===== *)
theory Deployment
  imports KubeReference Config Token
begin

text \<open>
  The operator and the program it deploys, together: the environment a pod gets from the config map
  makes the program start with the targets of the resource, whatever configuration file is in the
  image; every resource has a signing key of its own; and the hash that decides on a rollout covers
  what the pods depend on and nothing else.
\<close>

subsection \<open>The environment of a pod\<close>

definition pod_env :: "DbcpEntryService \<Rightarrow> environ" where
  "pod_env entry = map_get (desiredConfigData entry)"

lemma pod_env_get:
  "pod_env entry k = (case map_of [
        (''DBCP_TARGET_DB'', ec_TargetDB (spec_Config (entry_Spec entry))),
        (''DBCP_TARGET_REDIS'', ec_TargetRedis (spec_Config (entry_Spec entry))),
        (''DBCP_SERVICE_EXPORT_PORT'', Itoa (sint (ec_ServiceExportPort (spec_Config (entry_Spec entry))))),
        (''APP_TCP_ADDR'', ''127.0.0.1:9000''),
        (''APP_HTTP_ADDR'', ''127.0.0.1:8081''),
        (''APP_HTTP_TCP_ADDR'', ''127.0.0.1:9000''),
        (''APP_PROFILE_PICTURE_DIR'', ''/app/runtime/profile-pictures''),
        (''APP_PROFILE_PICTURE_BASE_URL'', ''/api/me/profile-picture''),
        (''APP_REDIS_KEY_PREFIX'', ''go-entry-task''),
        (''APP_TOKEN_SECRET'', stableTokenSecret entry),
        (''APP_DB_MAX_OPEN_CONNS'', ''128''),
        (''APP_DB_MAX_IDLE_CONNS'', ''32''),
        (''APP_TCP_WORKERS'', ''64''),
        (''APP_TCP_QUEUE_SIZE'', ''2048''),
        (''APP_TCP_MAX_FRAME_BYTES'', ''8388608''),
        (''APP_HTTP_MAX_BODY_BYTES'', ''4194304''),
        (''APP_UPLOAD_MAX_BYTES'', ''2097152''),
        (''APP_SESSION_TTL'', ''24h''),
        (''APP_DB_CONN_MAX_LIFETIME'', ''5m''),
        (''APP_REDIS_DIAL_TIMEOUT'', ''2s''),
        (''APP_REDIS_IO_TIMEOUT'', ''2s''),
        (''APP_PROFILE_PICTURE_CACHE_SCOPE'', ''redis'')] k of None \<Rightarrow> [] | Some v \<Rightarrow> v)"
  unfolding pod_env_def map_get_def desiredConfigData_def Let_def by (subst map_of_map_lit) simp_all

lemma secret_ok: "stableTokenSecret entry \<noteq> []" "\<exists>m. NewTokenManager (stableTokenSecret entry) t = Inr m"
  by (simp_all add: stableTokenSecret_def Let_def NewTokenManager_def)

lemma port_range: "Atoi (Itoa (sint (p :: 32 word))) = Inr (sint p)"
proof -
  have "- (2 ^ 31) \<le> sint p" "sint p < 2 ^ 31" using sint_ge [of p] sint_lt [of p] by simp_all
  then show ?thesis by (intro Atoi_Itoa) simp_all
qed

lemma numerals: "ParseUint ''8388608'' 32 = Inr 8388608" "ParseInt ''2097152'' 64 = Inr 2097152"
  "ParseInt ''4194304'' 64 = Inr 4194304" "Atoi ''64'' = Inr 64" "Atoi ''2048'' = Inr 2048"
  by (simp_all add: ParseUint_def ParseInt_def Atoi_def digits_val_def is_digit_def digit_val_def byte_of_def Let_def)

lemma pod_env_values:
  "pod_env entry ''DBCP_TARGET_DB'' = ec_TargetDB (spec_Config (entry_Spec entry))"
  "pod_env entry ''DBCP_TARGET_REDIS'' = ec_TargetRedis (spec_Config (entry_Spec entry))"
  "pod_env entry ''DBCP_SERVICE_EXPORT_PORT'' = Itoa (sint (ec_ServiceExportPort (spec_Config (entry_Spec entry))))"
  "pod_env entry ''APP_TCP_ADDR'' = ''127.0.0.1:9000''" "pod_env entry ''APP_HTTP_ADDR'' = ''127.0.0.1:8081''"
  "pod_env entry ''APP_HTTP_TCP_ADDR'' = ''127.0.0.1:9000''"
  "pod_env entry ''APP_PROFILE_PICTURE_DIR'' = ''/app/runtime/profile-pictures''"
  "pod_env entry ''APP_TOKEN_SECRET'' = stableTokenSecret entry" "pod_env entry ''APP_TCP_MAX_FRAME_BYTES'' = ''8388608''"
  "pod_env entry ''APP_HTTP_MAX_BODY_BYTES'' = ''4194304''" "pod_env entry ''APP_UPLOAD_MAX_BYTES'' = ''2097152''"
  "pod_env entry ''APP_SESSION_TTL'' = ''24h''"
  by (simp_all add: pod_env_get)

lemma applyEnv_fields:
  "TargetDB (DBCP (applyEnv env c)) = setString env ''DBCP_TARGET_DB'' (TargetDB (DBCP c))"
  "TargetRedis (DBCP (applyEnv env c)) = setString env ''DBCP_TARGET_REDIS'' (TargetRedis (DBCP c))"
  "ServiceExportPort (DBCP (applyEnv env c)) = setInt env ''DBCP_SERVICE_EXPORT_PORT'' (ServiceExportPort (DBCP c))"
  "tcp_Addr (TCP (applyEnv env c)) = setString env ''APP_TCP_ADDR'' (tcp_Addr (TCP c))"
  "MaxFrameBytes (TCP (applyEnv env c)) = setUint32 env ''APP_TCP_MAX_FRAME_BYTES'' (MaxFrameBytes (TCP c))"
  "http_Addr (HTTP (applyEnv env c)) = setString env ''APP_HTTP_ADDR'' (http_Addr (HTTP c))"
  "TCPAddr (HTTP (applyEnv env c)) = setString env ''APP_HTTP_TCP_ADDR'' (TCPAddr (HTTP c))"
  "MaxBodyBytes (HTTP (applyEnv env c)) = setInt64 env ''APP_HTTP_MAX_BODY_BYTES'' (MaxBodyBytes (HTTP c))"
  "TokenSecret (Security (applyEnv env c)) = setString env ''APP_TOKEN_SECRET'' (TokenSecret (Security c))"
  "SessionTTL (Security (applyEnv env c)) = setDuration env ''APP_SESSION_TTL'' (SessionTTL (Security c))"
  "ProfilePictureDir (Upload (applyEnv env c)) = setString env ''APP_PROFILE_PICTURE_DIR'' (ProfilePictureDir (Upload c))"
  "MaxBytes (Upload (applyEnv env c)) = setInt64 env ''APP_UPLOAD_MAX_BYTES'' (MaxBytes (Upload c))"
  by (simp_all add: applyEnv_def)

lemmas pod_config = applyEnv_fields setString_def setInt_def setInt64_def setUint32_def setDuration_def
  pod_env_values numerals port_range ParseDuration_24h secret_ok

lemma pod_config_loads:
  assumes "ec_TargetDB (spec_Config (entry_Spec entry)) \<noteq> []"
    and "path = [] \<or> bindE (readFile path) (\<lambda>data. unmarshal_Config data Default) = Inr c0"
  shows "\<exists>c m. Load (pod_env entry) readFile path = Inr c \<and>
    DSN (Database c) = ec_TargetDB (spec_Config (entry_Spec entry)) \<and>
    (ec_TargetRedis (spec_Config (entry_Spec entry)) \<noteq> [] \<longrightarrow>
       redis_Addr (Redis c) = ec_TargetRedis (spec_Config (entry_Spec entry))) \<and>
    TCPAddr (HTTP c) = tcp_Addr (TCP c) \<and> MaxFrameBytes (TCP c) = 8388608 \<and>
    MaxBodyBytes (HTTP c) = 4194304 \<and> MaxBytes (Upload c) = 2097152 \<and>
    SessionTTL (Security c) = 24 * 3600 * Second \<and>
    ServiceExportPort (DBCP c) = sint (ec_ServiceExportPort (spec_Config (entry_Spec entry))) \<and>
    ProfilePictureDirAbs getwd c = Inr ''/app/runtime/profile-pictures'' \<and>
    NewTokenManager (TokenSecret (Security c)) (SessionTTL (Security c)) = Inr m"
proof -
  let ?cfg = "spec_Config (entry_Spec entry)" and ?env = "pod_env entry"
  define c1 where "c1 = applyDBCP (if path = [] then Default else c0)"
  define c where "c = applyEnv ?env c1"
  have tcp: "tcp_Addr (TCP c) = ''127.0.0.1:9000''" "MaxFrameBytes (TCP c) = 8388608"
    by (simp_all add: c_def pod_config Second_def)
  have http: "http_Addr (HTTP c) = ''127.0.0.1:8081''" "TCPAddr (HTTP c) = ''127.0.0.1:9000''" "MaxBodyBytes (HTTP c) = 4194304"
    by (simp_all add: c_def pod_config Second_def)
  have dbcp: "TargetDB (DBCP c) = ec_TargetDB ?cfg" "ServiceExportPort (DBCP c) = sint (ec_ServiceExportPort ?cfg)"
    "ec_TargetRedis ?cfg \<noteq> [] \<Longrightarrow> TargetRedis (DBCP c) = ec_TargetRedis ?cfg"
    using assms(1) by (simp_all add: c_def pod_config Second_def)
  have sec: "TokenSecret (Security c) = stableTokenSecret entry" "SessionTTL (Security c) = 24 * 3600 * Second"
    by (simp_all add: c_def pod_config Second_def)
  have up: "ProfilePictureDir (Upload c) = ''/app/runtime/profile-pictures''" "MaxBytes (Upload c) = 2097152"
    by (simp_all add: c_def pod_config Second_def)
  have t: "targets_in_use c" by (simp add: c_def applyEnv_targets)
  then have db: "DSN (Database c) = ec_TargetDB ?cfg" using dbcp(1) assms(1) by (simp add: targets_in_use_def)
  have rd: "ec_TargetRedis ?cfg \<noteq> [] \<longrightarrow> redis_Addr (Redis c) = ec_TargetRedis ?cfg"
    using t dbcp(3) by (auto simp: targets_in_use_def)
  have "Validate c = Inr ()" using tcp http db sec up assms(1) secret_ok by (simp add: Validate_Inr)
  then have "Load ?env readFile path = Inr c"
    using assms(2) by (auto simp: Load_def Let_def c_def c1_def)
  moreover have "ProfilePictureDirAbs getwd c = Inr ''/app/runtime/profile-pictures''"
    by (simp add: ProfilePictureDirAbs_def up IsAbs_def)
  moreover obtain m where "NewTokenManager (TokenSecret (Security c)) (SessionTTL (Security c)) = Inr m"
    using secret_ok(2) sec(1) by metis
  ultimately show ?thesis using tcp http dbcp(2) db rd sec(2) up by auto
qed

text \<open>
  C21: a pod of a resource with a target database starts with its environment, whatever readable
  configuration file the image has (or with none): the configuration loads, the database and the
  Redis server in use are the resource's, the gateway talks to the port the backend listens on,
  the limits are those of the config map, and the token secret is accepted.
\<close>

theorem deployed_config_loads:
  assumes "ec_TargetDB (spec_Config (entry_Spec entry)) \<noteq> []"
    and "path = [] \<or> bindE (readFile path) (\<lambda>data. unmarshal_Config data Default) = Inr c0"
  shows "\<exists>c m. Load (pod_env entry) readFile path = Inr c \<and>
    DSN (Database c) = ec_TargetDB (spec_Config (entry_Spec entry)) \<and>
    (ec_TargetRedis (spec_Config (entry_Spec entry)) \<noteq> [] \<longrightarrow>
       redis_Addr (Redis c) = ec_TargetRedis (spec_Config (entry_Spec entry))) \<and>
    TCPAddr (HTTP c) = tcp_Addr (TCP c) \<and> MaxFrameBytes (TCP c) = 8388608 \<and>
    MaxBodyBytes (HTTP c) = 4194304 \<and> MaxBytes (Upload c) = 2097152 \<and>
    SessionTTL (Security c) = 24 * 3600 * Second \<and>
    ServiceExportPort (DBCP c) = sint (ec_ServiceExportPort (spec_Config (entry_Spec entry))) \<and>
    ProfilePictureDirAbs getwd c = Inr ''/app/runtime/profile-pictures'' \<and>
    NewTokenManager (TokenSecret (Security c)) (SessionTTL (Security c)) = Inr m"
  using assms by (rule pod_config_loads)

theorem deployed_config_loads_witness:
  "\<exists>c m. Load (pod_env (entry_sample None 1)) (\<lambda>_. Inl missing) [] = Inr c \<and> DSN (Database c) = ''db'' \<and>
     NewTokenManager (TokenSecret (Security c)) (SessionTTL (Security c)) = Inr m"
proof -
  have "ec_TargetDB (spec_Config (entry_Spec (entry_sample None 1))) = ''db''" by (simp add: entry_sample_def)
  then show ?thesis
    using deployed_config_loads [of "entry_sample None 1" "[]" "\<lambda>_. Inl missing"] by fastforce
qed

subsection \<open>Signing keys\<close>

text \<open>
  Two resources sign their tokens with the same key only if SHA-256 maps their identities
  (namespace, name and UID joined by slashes) to the same hash, and different resources have
  different identities: neither a namespace nor a name contains a slash.
\<close>

theorem token_secret_per_resource:
  assumes "CHR ''/'' \<notin> set (Namespace (entry_meta e)) \<union> set (Name (entry_meta e))"
    and "CHR ''/'' \<notin> set (Namespace (entry_meta e')) \<union> set (Name (entry_meta e'))"
  shows "(stableTokenSecret e = stableTokenSecret e' \<longleftrightarrow>
      Sum256 (join_with (CHR ''/'') [Namespace (entry_meta e), Name (entry_meta e), UID (entry_meta e)]) =
      Sum256 (join_with (CHR ''/'') [Namespace (entry_meta e'), Name (entry_meta e'), UID (entry_meta e')])) \<and>
    (join_with (CHR ''/'') [Namespace (entry_meta e), Name (entry_meta e), UID (entry_meta e)] =
       join_with (CHR ''/'') [Namespace (entry_meta e'), Name (entry_meta e'), UID (entry_meta e')] \<longrightarrow>
     entry_key e = entry_key e' \<and> UID (entry_meta e) = UID (entry_meta e'))"
proof -
  have split: "x = x' \<and> y = y'" if "x @ c # y = x' @ c # y'" "c \<notin> set x" "c \<notin> set x'" for x y x' y' and c :: char
    using that by (metis list.inject same_append_eq split_on_append)
  have inj: "hex_EncodeToString x = hex_EncodeToString y \<longleftrightarrow> x = y" for x y
    by (metis hex_round_trip sum.inject(2))
  show ?thesis using assms
    by (auto simp: stableTokenSecret_def Let_def inj dest!: split)
qed

theorem token_secret_per_resource_witness:
  "join_with (CHR ''/'') [''a'', ''b'', ''c''] \<noteq> join_with (CHR ''/'') [''a'', ''bb'', ''c''] \<and>
   (stableTokenSecret ((entry_sample None 1)\<lparr>entry_meta := (meta ''a'' ''b'')\<lparr>UID := ''c''\<rparr>\<rparr>) =
    stableTokenSecret ((entry_sample None 1)\<lparr>entry_meta := (meta ''a'' ''bb'')\<lparr>UID := ''c''\<rparr>\<rparr>) \<longleftrightarrow>
      Sum256 ''a/b/c'' = Sum256 ''a/bb/c'')"
  using token_secret_per_resource [of "(entry_sample None 1)\<lparr>entry_meta := (meta ''a'' ''b'')\<lparr>UID := ''c''\<rparr>\<rparr>"
      "(entry_sample None 1)\<lparr>entry_meta := (meta ''a'' ''bb'')\<lparr>UID := ''c''\<rparr>\<rparr>"]
  by (simp add: meta_def)

subsection \<open>Rollouts\<close>

lemma enc_object_inject:
  assumes "enc_object ms = enc_object ns" "ms \<noteq> []" "ns \<noteq> []"
    and "\<forall>(k, v) \<in> set ms. json_text d v" "\<forall>(k, v) \<in> set ns. json_text d v"
  shows "map (\<lambda>(k, v). (coerce_utf8 k, v)) ms = map (\<lambda>(k, v). (coerce_utf8 k, v)) ns"
proof -
  have "scan_members d (enc_members ms @ CHR ''}'' # []) = scan_members d (enc_members ns @ CHR ''}'' # [])"
    using assms(1) by (simp add: enc_object_def)
  then show ?thesis
    using scan_members_enc [OF assms(2,4), of "[]"] scan_members_enc [OF assms(3,5), of "[]"] by simp
qed

lemma enc_map_text: "json_text (Suc d) (enc_map m)"
  unfolding enc_map_def by (intro json_text_object) auto

lemma json_string_inject: "ValidString s \<Longrightarrow> ValidString t \<Longrightarrow> json_string s = json_string t \<longleftrightarrow> s = t"
  by (metis coerce_valid dec_string_enc sum.inject(2))

lemma hex_valid: "ValidString (hex_EncodeToString b)"
proof -
  have "byte_of (hex_digit n) < 128" if "n < 16" for n using that by (simp add: hex_digit_def)
  moreover have "byte_of c div 16 < 16" for c using byte_of_lt [of c] by (simp add: less_mult_imp_div_less)
  ultimately show ?thesis by (induction b) (simp_all add: hex_EncodeToString_def)
qed

lemma desired_data_inject:
  assumes "enc_map (desiredConfigData e) = enc_map (desiredConfigData e')"
  shows "json_string (ec_TargetDB (spec_Config (entry_Spec e))) = json_string (ec_TargetDB (spec_Config (entry_Spec e'))) \<and>
    json_string (ec_TargetRedis (spec_Config (entry_Spec e))) = json_string (ec_TargetRedis (spec_Config (entry_Spec e'))) \<and>
    json_string (stableTokenSecret e) = json_string (stableTokenSecret e')"
proof -
  let ?enc = "\<lambda>m. map (\<lambda>(k, v). (k, json_string v)) m"
  have ne: "?enc (desiredConfigData x) \<noteq> []" for x
    by (simp add: desiredConfigData_def map_lit_def map_put_def Let_def)
  have "map (\<lambda>(k, v). (coerce_utf8 k, v)) (?enc (desiredConfigData e)) =
      map (\<lambda>(k, v). (coerce_utf8 k, v)) (?enc (desiredConfigData e'))"
    by (rule enc_object_inject [where d = 0, OF assms [unfolded enc_map_def] ne ne]) auto
  then show ?thesis by (simp add: desiredConfigData_def map_lit_def map_put_def Let_def)
qed

text \<open>
  C37: what is hashed for a rollout determines, and is determined by, the image, the targets, the
  exported port, the identity behind the signing key and the resources: a change of any of them
  gives other bytes to hash, and nothing else (the number of replicas in particular) does.
\<close>

theorem spec_hash_covers:
  assumes "\<forall>x \<in> {e, e'}. ValidString (es_Image (spec_Service (entry_Spec x))) \<and>
      ValidString (ec_TargetDB (spec_Config (entry_Spec x))) \<and> ValidString (ec_TargetRedis (spec_Config (entry_Spec x)))"
    and "json_text (Suc d) res" and "json_text (Suc d) res'"
  shows "hash_input e res = hash_input e' res' \<longleftrightarrow>
    es_Image (spec_Service (entry_Spec e)) = es_Image (spec_Service (entry_Spec e')) \<and>
    ec_TargetDB (spec_Config (entry_Spec e)) = ec_TargetDB (spec_Config (entry_Spec e')) \<and>
    ec_TargetRedis (spec_Config (entry_Spec e)) = ec_TargetRedis (spec_Config (entry_Spec e')) \<and>
    ec_ServiceExportPort (spec_Config (entry_Spec e)) = ec_ServiceExportPort (spec_Config (entry_Spec e')) \<and>
    stableTokenSecret e = stableTokenSecret e' \<and> res = res'" (is "?l \<longleftrightarrow> ?r")
proof
  assume ?r
  then show ?l by (simp add: hash_input_def desiredConfigData_def Let_def)
next
  assume l: ?l
  let ?port = "\<lambda>x. Itoa (sint (ec_ServiceExportPort (spec_Config (entry_Spec x))))"
  let ?ports = "\<lambda>x. [(''http'', Itoa appHTTPPort), (''httpGateway'', Itoa appGatewayPort),
          (''service'', ?port x), (''tcpBackend'', Itoa appTCPPort)]"
  have pt: "json_text (Suc d) (enc_object (?ports x))" for x by (intro json_text_object) simp
  have m: "enc_map (desiredConfigData e) = enc_map (desiredConfigData e') \<and>
      json_string (es_Image (spec_Service (entry_Spec e))) = json_string (es_Image (spec_Service (entry_Spec e'))) \<and>
      enc_object (?ports e) = enc_object (?ports e') \<and> res = res'"
    using enc_object_inject [OF l [unfolded hash_input_def], of "Suc d"] assms(2,3)
    by (simp add: enc_map_text pt)
  then have "map (\<lambda>(k, v). (coerce_utf8 k, v)) (?ports e) = map (\<lambda>(k, v). (coerce_utf8 k, v)) (?ports e')"
    by (intro enc_object_inject [where d = 0]) simp_all
  then have "ec_ServiceExportPort (spec_Config (entry_Spec e)) = ec_ServiceExportPort (spec_Config (entry_Spec e'))"
    by (simp add: signed_word_eqI)
  moreover have "stableTokenSecret e = stableTokenSecret e'"
    using desired_data_inject [OF conjunct1 [OF m]] json_string_inject hex_valid
    by (simp add: stableTokenSecret_def Let_def)
  ultimately show ?r
    using m desired_data_inject [OF conjunct1 [OF m]] assms(1) by (simp add: json_string_inject)
qed

theorem spec_hash_covers_witness:
  "hash_input (entry_sample None 1) ''{}'' = hash_input (entry_sample None 7) ''{}''"
proof -
  have v: "ValidString ''web:1''" "ValidString ''db''" "ValidString ''redis:6379''"
    by (simp_all add: byte_of_def)
  have t: "json_text (Suc 0) ''{}''" using json_text_object [of "[]" 0] by (simp add: enc_object_def)
  show ?thesis
    by (subst spec_hash_covers [OF _ t t]) (simp_all add: entry_sample_def v stableTokenSecret_def)
qed

subsection \<open>The service and its pods\<close>

text \<open>
  C38: the service of a resource reaches the pods created for it: its selector matches their labels,
  the port it forwards to is the name of a port of their container, the one the probes use, and
  the selector matches no pod made for another resource.
\<close>

theorem service_reaches_pods:
  assumes "operator_api r active"
  shows "selects (Selector (service_spec e)) (pod_labels (desiredPod r e h)) \<and>
    (\<forall>p \<in> set (Ports (service_spec e)). \<exists>c \<in> set (Containers (pod_Spec (desiredPod r e h))).
       sp_TargetPort p = HTTPGetPort (ReadinessProbe c) \<and> (\<exists>q \<in> set (ct_Ports c). cp_Name q = sp_TargetPort p \<and> cp_ContainerPort q = 8080)) \<and>
    (selects (Selector (service_spec e)) (pod_labels (desiredPod r e' h')) \<longrightarrow> Name (entry_meta e) = Name (entry_meta e'))"
proof -
  have sel: "selects (managedLabels n) ls \<longleftrightarrow> map_of ls labelName = Some appName \<and> map_of ls labelInstance = Some n \<and>
      map_of ls labelManagedBy = Some controllerID \<and> map_of ls labelCRName = Some n" for n ls
    by (simp add: managedLabels_def selects_lit label_defs)
  show ?thesis
    by (simp add: operator_api.desired_labels(1) [OF assms] sel managedLabels_get service_spec_def)
      (simp add: label_defs desiredPod_def Let_def pod_container_def health_probe_def appHTTPPort_def)
qed

theorem service_reaches_pods_witness:
  "selects (managedLabels ''web'') (pod_labels (desiredPod ref_client (entry_sample None 1) ''h''))"
  using service_reaches_pods [OF mem.operator_api_axioms, of "entry_sample None 1" "''h''"]
  by (simp add: service_spec_def entry_sample_def meta_def)

end
