(* ===== verification/Controllers.thy ===== *)
theory Controllers
  imports Deployment
begin

text \<open>
  The first controller of the repository, \<^verbatim>\<open>cloud_native_entry_task/controllers/internal/controller\<close>: it
  polls the resources with the dynamic client, reads their specification field by field out of the
  untyped object, and keeps config map, service and pods in step. The Kubernetes clients, the
  accessors of \<^verbatim>\<open>unstructured\<close> and the quantity parser are parameters.
\<close>

subsection \<open>controller.go: the resource and the clients\<close>

definition group :: string where "group = ''dbcp.shopee.io''"
definition version :: string where "version = ''v1alpha1''"
definition crResource :: string where "crResource = ''dbcp-entry-services''"
definition finalizer :: string where "finalizer = ''dbcp.shopee.io/dbcp-entry-service-finalizer''"
definition defaultSync :: int where "defaultSync = 5 * 1000000000"

text \<open>
  An \<^verbatim>\<open>unstructured.Unstructured\<close>: its metadata, and what \<^verbatim>\<open>NestedString\<close> and its relatives find in it
  under a path of fields: nothing, a value, or an error for a value of another type.
\<close>

record Unstructured =
  cr_meta :: ObjectMeta
  NestedString :: "string list \<Rightarrow> string option result"
  NestedInt64 :: "string list \<Rightarrow> int option result"
  NestedStringMap :: "string list \<Rightarrow> gomap option result"

abbreviation GetName :: "Unstructured \<Rightarrow> string" where "GetName cr \<equiv> Name (cr_meta cr)"
abbreviation GetNamespace :: "Unstructured \<Rightarrow> string" where "GetNamespace cr \<equiv> Namespace (cr_meta cr)"
abbreviation GetFinalizers :: "Unstructured \<Rightarrow> string list" where "GetFinalizers cr \<equiv> Finalizers (cr_meta cr)"

record 'w kube =
  CR_List :: "string \<Rightarrow> ('w, Unstructured list) io"
  CR_Update :: "string \<Rightarrow> Unstructured \<Rightarrow> ('w, Unstructured) io"
  Pods_List :: "string \<Rightarrow> string \<Rightarrow> ('w, Pod list) io"
  Pods_Create :: "string \<Rightarrow> Pod \<Rightarrow> ('w, Pod) io"
  Pods_Delete :: "string \<Rightarrow> string \<Rightarrow> ('w, unit) io"
  Services_Get :: "string \<Rightarrow> string \<Rightarrow> ('w, KService) io"
  Services_Create :: "string \<Rightarrow> KService \<Rightarrow> ('w, KService) io"
  Services_Update :: "string \<Rightarrow> KService \<Rightarrow> ('w, KService) io"
  Services_Delete :: "string \<Rightarrow> string \<Rightarrow> ('w, unit) io"
  ConfigMaps_Get :: "string \<Rightarrow> string \<Rightarrow> ('w, ConfigMap) io"
  ConfigMaps_Create :: "string \<Rightarrow> ConfigMap \<Rightarrow> ('w, ConfigMap) io"
  ConfigMaps_Update :: "string \<Rightarrow> ConfigMap \<Rightarrow> ('w, ConfigMap) io"
  ConfigMaps_Delete :: "string \<Rightarrow> string \<Rightarrow> ('w, unit) io"
  errors_IsNotFound :: "go_error \<Rightarrow> bool"
  ParseQuantity :: "string \<Rightarrow> string result"
  json_Resources :: "ResourceRequirements \<Rightarrow> string result"
  pods_sort :: "(Pod \<Rightarrow> Pod \<Rightarrow> bool) \<Rightarrow> Pod list \<Rightarrow> Pod list"

record 'w Controller =
  ctl_kube :: "'w kube"
  ctl_namespace :: string
  ctl_resync :: int

definition New :: "'w kube \<Rightarrow> string \<Rightarrow> int \<Rightarrow> 'w Controller" where
  "New kube ns resync =
     \<lparr>ctl_kube = kube, ctl_namespace = ns, ctl_resync = (if resync \<le> 0 then defaultSync else resync)\<rparr>"

subsection \<open>spec.go\<close>

type_synonym EntrySpec = DbcpEntryServiceSpec

definition required :: "'a option result \<Rightarrow> ('a \<Rightarrow> bool) \<Rightarrow> string \<Rightarrow> 'a result" where
  "required r ok msg = (case r of Inr (Some v) \<Rightarrow> if ok v then Inr v else Inl (Errorf msg) | _ \<Rightarrow> Inl (Errorf msg))"

text \<open>
  Go visits the entries of a map in no particular order; when several quantities are malformed, the
  error names one of them.
\<close>

fun parse_quantities :: "'w kube \<Rightarrow> string \<Rightarrow> gomap \<Rightarrow> gomap \<Rightarrow> gomap result" where
  "parse_quantities k field [] out = Inr out"
| "parse_quantities k field ((n, v) # values) out =
     (case ParseQuantity k v of
        Inl e \<Rightarrow> Inl (Wrapped (''spec.service.resources.'' @ field @ ''.'' @ n @ '': '') e)
      | Inr quantity \<Rightarrow> parse_quantities k field values (map_put n quantity out))"

definition parseResourceList :: "'w kube \<Rightarrow> Unstructured \<Rightarrow> string \<Rightarrow> gomap result" where
  "parseResourceList k cr field =
     (case NestedStringMap cr [''spec'', ''service'', ''resources'', field] of
        Inl e \<Rightarrow> Inl e
      | Inr None \<Rightarrow> Inr []
      | Inr (Some values) \<Rightarrow> parse_quantities k field values [])"

definition parseResources :: "'w kube \<Rightarrow> Unstructured \<Rightarrow> ResourceRequirements result" where
  "parseResources k cr =
     bindE (parseResourceList k cr ''requests'') (\<lambda>requests.
     bindE (parseResourceList k cr ''limits'') (\<lambda>limits.
     Inr \<lparr>rr_Requests = requests, rr_Limits = limits, rr_Claims = []\<rparr>))"

text \<open>The conversions \<^verbatim>\<open>int32(port)\<close> and \<^verbatim>\<open>int32(replicas)\<close> keep the low 32 bits.\<close>

definition parseSpec :: "'w kube \<Rightarrow> Unstructured \<Rightarrow> EntrySpec result" where
  "parseSpec k cr =
     bindE (required (NestedString cr [''spec'', ''config'', ''targetDB'']) (\<lambda>s. s \<noteq> [])
       ''spec.config.targetDB is required'') (\<lambda>targetDB.
     bindE (required (NestedString cr [''spec'', ''config'', ''targetRedis'']) (\<lambda>s. s \<noteq> [])
       ''spec.config.targetRedis is required'') (\<lambda>targetRedis.
     bindE (required (NestedInt64 cr [''spec'', ''config'', ''serviceExportPort'']) (\<lambda>port. 1 \<le> port \<and> port \<le> 65535)
       ''spec.config.serviceExportPort must be between 1 and 65535'') (\<lambda>port.
     bindE (required (NestedString cr [''spec'', ''service'', ''image'']) (\<lambda>s. s \<noteq> [])
       ''spec.service.image is required'') (\<lambda>image.
     bindE (required (NestedInt64 cr [''spec'', ''service'', ''replicas'']) (\<lambda>replicas. 1 \<le> replicas)
       ''spec.service.replicas must be greater than zero'') (\<lambda>replicas.
     bindE (parseResources k cr) (\<lambda>resources.
     Inr \<lparr>spec_Config = \<lparr>ec_TargetDB = targetDB, ec_TargetRedis = targetRedis, ec_ServiceExportPort = word_of_int port\<rparr>,
          spec_Service = \<lparr>es_Image = image, es_Replicas = word_of_int replicas, es_Resources = resources\<rparr>\<rparr>))))))"

definition stableTokenSecret :: "Unstructured \<Rightarrow> string" where
  "stableTokenSecret cr =
     (let seed = GetNamespace cr @ ''/'' @ GetName cr @ ''/'' @ UID (cr_meta cr)
      in hex_EncodeToString (Sum256 seed))"

definition desiredConfigData :: "Unstructured \<Rightarrow> EntrySpec \<Rightarrow> gomap" where
  "desiredConfigData cr spec =
     map_lit [
        (''DBCP_TARGET_DB'', ec_TargetDB (spec_Config spec)),
        (''DBCP_TARGET_REDIS'', ec_TargetRedis (spec_Config spec)),
        (''DBCP_SERVICE_EXPORT_PORT'', Itoa (sint (ec_ServiceExportPort (spec_Config spec)))),
        (''APP_TCP_ADDR'', ''127.0.0.1:9000''),
        (''APP_HTTP_ADDR'', ''127.0.0.1:8081''),
        (''APP_HTTP_TCP_ADDR'', ''127.0.0.1:9000''),
        (''APP_PROFILE_PICTURE_DIR'', ''/app/runtime/profile-pictures''),
        (''APP_PROFILE_PICTURE_BASE_URL'', ''/api/me/profile-picture''),
        (''APP_REDIS_KEY_PREFIX'', ''go-entry-task''),
        (''APP_TOKEN_SECRET'', stableTokenSecret cr),
        (''APP_DB_MAX_OPEN_CONNS'', ''128''),
        (''APP_DB_MAX_IDLE_CONNS'', ''32''),
        (''APP_TCP_WORKERS'', ''64''),
        (''APP_TCP_QUEUE_SIZE'', ''2048''),
        (''APP_TCP_MAX_FRAME_BYTES'', ''8388608''),
        (''APP_HTTP_MAX_BODY_BYTES'', ''4194304''),
        (''APP_UPLOAD_MAX_BYTES'', ''2097152''),
        (''APP_SESSION_TTL'', ''24h''),
        (''APP_DB_CONN_MAX_LIFETIME'', ''5m''),
        (''APP_REDIS_DIAL_TIMEOUT'', ''2s''),
        (''APP_REDIS_IO_TIMEOUT'', ''2s''),
        (''APP_PROFILE_PICTURE_CACHE_SCOPE'', ''redis'')]"

definition dbcpAPIVersion :: string where "dbcpAPIVersion = group @ ''/'' @ version"
definition dbcpKind :: string where "dbcpKind = ''DbcpEntryService''"

definition appHTTPPort :: int where "appHTTPPort = 8080"
definition appGatewayPort :: int where "appGatewayPort = 8081"
definition appTCPPort :: int where "appTCPPort = 9000"

text \<open>A struct is written in the order of its fields, the maps in it in the order of their keys.\<close>

definition hash_input :: "Unstructured \<Rightarrow> EntrySpec \<Rightarrow> string \<Rightarrow> string" where
  "hash_input cr spec resources =
     enc_object [
       (''configMap'', enc_map (desiredConfigData cr spec)),
       (''image'', json_string (es_Image (spec_Service spec))),
       (''resources'', resources),
       (''owner'', enc_map [(''apiVersion'', dbcpAPIVersion), (''kind'', dbcpKind)]),
       (''ports'', enc_object [(''http'', Itoa appHTTPPort), (''httpGateway'', Itoa appGatewayPort),
          (''service'', Itoa (sint (ec_ServiceExportPort (spec_Config spec)))),
          (''tcpBackend'', Itoa appTCPPort)])]"

text \<open>An error of \<^verbatim>\<open>json.Marshal\<close> is dropped: then nothing is hashed.\<close>

definition desiredSpecHash :: "'w kube \<Rightarrow> Unstructured \<Rightarrow> EntrySpec \<Rightarrow> string" where
  "desiredSpecHash k cr spec =
     take 12 (hex_EncodeToString (Sum256
       (case json_Resources k (es_Resources (spec_Service spec)) of
          Inl _ \<Rightarrow> [] | Inr resources \<Rightarrow> hash_input cr spec resources)))"

subsection \<open>resources.go\<close>

definition labelName :: string where "labelName = ''app.kubernetes.io/name''"
definition labelInstance :: string where "labelInstance = ''app.kubernetes.io/instance''"
definition labelManagedBy :: string where "labelManagedBy = ''app.kubernetes.io/managed-by''"
definition labelCRName :: string where "labelCRName = ''dbcp.shopee.io/cr-name''"
definition labelSpecHash :: string where "labelSpecHash = ''dbcp.shopee.io/spec-hash''"
definition appName :: string where "appName = ''dbcp-entry-service''"
definition controllerID :: string where "controllerID = ''dbcp-entry-controller''"
definition containerName :: string where "containerName = ''dbcp-entry-service''"

definition managedLabels :: "string \<Rightarrow> gomap" where
  "managedLabels crName =
     map_lit [(labelName, appName), (labelInstance, crName), (labelManagedBy, controllerID),
              (labelCRName, crName)]"

definition managedSelector :: "string \<Rightarrow> string" where
  "managedSelector crName = labelManagedBy @ ''='' @ controllerID @ '','' @ labelCRName @ ''='' @ crName"

definition configMapName :: "string \<Rightarrow> string" where
  "configMapName crName = crName @ ''-config''"

definition ownerUID :: "Unstructured \<Rightarrow> string" where
  "ownerUID cr = UID (cr_meta cr)"

definition ownerRefs :: "Unstructured \<Rightarrow> OwnerReference list" where
  "ownerRefs cr = [\<lparr>or_APIVersion = dbcpAPIVersion, or_Kind = dbcpKind, or_Name = GetName cr,
     or_UID = ownerUID cr, or_Controller = Some True, or_BlockOwnerDeletion = None\<rparr>]"

text \<open>A read that may find nothing: the error of a missing object leads to a creation.\<close>

definition get_or_create :: "(go_error \<Rightarrow> bool) \<Rightarrow> ('w, 'a) io \<Rightarrow> ('w, unit) io \<Rightarrow> ('a \<Rightarrow> ('w, unit) io) \<Rightarrow> ('w, unit) io" where
  "get_or_create notFound m create_new cont =
     bind_io (try_io m) (\<lambda>got. case got of
         Inl err \<Rightarrow> if notFound err then create_new else fail_io err
       | Inr existing \<Rightarrow> cont existing)"

definition ensureConfigMap :: "'w kube \<Rightarrow> Unstructured \<Rightarrow> EntrySpec \<Rightarrow> ('w, unit) io" where
  "ensureConfigMap k cr spec =
     (let ns = GetNamespace cr; n = configMapName (GetName cr);
          desiredData = desiredConfigData cr spec; desiredLabels = managedLabels (GetName cr);
          desiredOwnerRefs = ownerRefs cr in
      get_or_create (errors_IsNotFound k) (ConfigMaps_Get k ns n)
        (bind_io (ConfigMaps_Create k ns
           \<lparr>cm_meta = (meta ns n)\<lparr>Labels := desiredLabels, OwnerReferences := desiredOwnerRefs\<rparr>,
            cm_Data = desiredData\<rparr>) (\<lambda>_. return_io ()))
        (\<lambda>existing.
           if cm_Data existing = desiredData \<and> Labels (cm_meta existing) = desiredLabels
              \<and> OwnerReferences (cm_meta existing) = desiredOwnerRefs then return_io ()
           else bind_io (ConfigMaps_Update k ns
             \<lparr>cm_meta = (cm_meta existing)\<lparr>Labels := desiredLabels, OwnerReferences := desiredOwnerRefs\<rparr>,
              cm_Data = desiredData\<rparr>) (\<lambda>_. return_io ())))"

definition desired_ports :: "EntrySpec \<Rightarrow> ServicePort list" where
  "desired_ports spec = [\<lparr>sp_Name = ''http'', sp_Protocol = ''TCP'',
     sp_Port = sint (ec_ServiceExportPort (spec_Config spec)), sp_TargetPort = ''http''\<rparr>]"

definition ensureService :: "'w kube \<Rightarrow> Unstructured \<Rightarrow> EntrySpec \<Rightarrow> ('w, unit) io" where
  "ensureService k cr spec =
     (let ns = GetNamespace cr; desiredLabels = managedLabels (GetName cr); desiredOwnerRefs = ownerRefs cr;
          desiredSelector = managedLabels (GetName cr); desiredPorts = desired_ports spec in
      get_or_create (errors_IsNotFound k) (Services_Get k ns (GetName cr))
        (bind_io (Services_Create k ns
           \<lparr>svc_meta = (meta ns (GetName cr))\<lparr>Labels := desiredLabels, OwnerReferences := desiredOwnerRefs\<rparr>,
            svc_Spec = \<lparr>Type = ''ClusterIP'', Selector = desiredSelector, Ports = desiredPorts, ClusterIP = []\<rparr>\<rparr>)
           (\<lambda>_. return_io ()))
        (\<lambda>existing.
           let updated =
             \<lparr>svc_meta = (svc_meta existing)\<lparr>Labels := desiredLabels, OwnerReferences := desiredOwnerRefs\<rparr>,
              svc_Spec = (svc_Spec existing)\<lparr>Selector := desiredSelector, Ports := desiredPorts, Type := ''ClusterIP''\<rparr>\<rparr>
           in if Labels (svc_meta existing) = Labels (svc_meta updated)
                 \<and> OwnerReferences (svc_meta existing) = OwnerReferences (svc_meta updated)
                 \<and> Selector (svc_Spec existing) = Selector (svc_Spec updated)
                 \<and> Ports (svc_Spec existing) = Ports (svc_Spec updated)
                 \<and> Type (svc_Spec existing) = Type (svc_Spec updated) then return_io ()
              else bind_io (Services_Update k ns updated) (\<lambda>_. return_io ())))"

definition httpProbe :: "string \<Rightarrow> int \<Rightarrow> int \<Rightarrow> Probe" where
  "httpProbe path initialDelay period =
     \<lparr>HTTPGetPath = path, HTTPGetPort = ''http'', InitialDelaySeconds = initialDelay, PeriodSeconds = period\<rparr>"

definition desiredPod :: "Unstructured \<Rightarrow> EntrySpec \<Rightarrow> string \<Rightarrow> Pod" where
  "desiredPod cr spec specHash =
     \<lparr>pod_meta = (meta (GetNamespace cr) [])\<lparr>
        GenerateName := GetName cr @ ''-'',
        Labels := map_put labelSpecHash specHash (managedLabels (GetName cr)),
        Annotations := [(labelSpecHash, specHash)],
        OwnerReferences := ownerRefs cr\<rparr>,
      pod_Spec = \<lparr>RestartPolicy = ''Always'', Containers = [
        \<lparr>ct_Name = containerName, ct_Image = es_Image (spec_Service spec), ImagePullPolicy = ''IfNotPresent'',
         ct_Ports = [
           \<lparr>cp_Name = ''http'', cp_ContainerPort = appHTTPPort, cp_Protocol = ''TCP''\<rparr>,
           \<lparr>cp_Name = ''gateway'', cp_ContainerPort = appGatewayPort, cp_Protocol = ''TCP''\<rparr>,
           \<lparr>cp_Name = ''tcp-backend'', cp_ContainerPort = appTCPPort, cp_Protocol = ''TCP''\<rparr>],
         EnvFrom = [configMapName (GetName cr)],
         ReadinessProbe = httpProbe ''/api/health'' 5 5, LivenessProbe = httpProbe ''/api/health'' 15 10,
         ct_Resources = es_Resources (spec_Service spec)\<rparr>]\<rparr>,
      Phase = []\<rparr>"

fun current_pods :: "'w kube \<Rightarrow> string \<Rightarrow> string \<Rightarrow> Pod list \<Rightarrow> ('w, Pod list) io" where
  "current_pods k ns specHash [] = return_io []"
| "current_pods k ns specHash (pod # pods) =
     (if DeletionTimestamp (pod_meta pod) \<noteq> None then current_pods k ns specHash pods
      else if terminated pod then
        bind_io (unless_missing (errors_IsNotFound k) (Pods_Delete k ns (pod_name pod)))
          (\<lambda>_. current_pods k ns specHash pods)
      else if map_get (pod_labels pod) labelSpecHash \<noteq> specHash then
        bind_io (unless_missing (errors_IsNotFound k) (Pods_Delete k ns (pod_name pod)))
          (\<lambda>_. current_pods k ns specHash pods)
      else bind_io (current_pods k ns specHash pods) (\<lambda>current. return_io (pod # current)))"

function scale_down :: "'w kube \<Rightarrow> string \<Rightarrow> int \<Rightarrow> Pod list \<Rightarrow> ('w, Pod list) io" where
  "scale_down k ns replicas current =
     (if int (length current) > replicas then
        if current = [] then fail_io (Panic ''index out of range [-1]'')
        else bind_io (unless_missing (errors_IsNotFound k) (Pods_Delete k ns (pod_name (last current))))
               (\<lambda>_. scale_down k ns replicas (butlast current))
      else return_io current)"
  by pat_completeness auto
termination
  by (relation "measure (\<lambda>(_, _, _, current). length current)") auto

function scale_up :: "'w kube \<Rightarrow> string \<Rightarrow> Pod \<Rightarrow> int \<Rightarrow> Pod list \<Rightarrow> ('w, Pod list) io" where
  "scale_up k ns pod replicas current =
     (if int (length current) < replicas then
        bind_io (Pods_Create k ns pod) (\<lambda>created. scale_up k ns pod replicas (current @ [created]))
      else return_io current)"
  by pat_completeness auto
termination
  by (relation "measure (\<lambda>(_, _, _, replicas, current). nat (replicas - int (length current)))") auto

declare scale_down.simps [simp del] scale_up.simps [simp del]

definition reconcilePods :: "'w kube \<Rightarrow> Unstructured \<Rightarrow> EntrySpec \<Rightarrow> string \<Rightarrow> ('w, unit) io" where
  "reconcilePods k cr spec specHash =
     bind_io (Pods_List k (GetNamespace cr) (managedSelector (GetName cr))) (\<lambda>pods.
     bind_io (current_pods k (GetNamespace cr) specHash pods) (\<lambda>current.
     bind_io (scale_down k (GetNamespace cr) (sint (es_Replicas (spec_Service spec)))
                (pods_sort k created_before current)) (\<lambda>current.
     bind_io (scale_up k (GetNamespace cr) (desiredPod cr spec specHash)
                (sint (es_Replicas (spec_Service spec))) current) (\<lambda>_.
     return_io ()))))"

subsection \<open>controller.go: reconciliation\<close>

definition hasFinalizer :: "Unstructured \<Rightarrow> string \<Rightarrow> bool" where
  "hasFinalizer cr v \<longleftrightarrow> list_ex (\<lambda>item. item = v) (GetFinalizers cr)"

definition SetFinalizers :: "Unstructured \<Rightarrow> string list \<Rightarrow> Unstructured" where
  "SetFinalizers cr fs = cr\<lparr>cr_meta := (cr_meta cr)\<lparr>Finalizers := fs\<rparr>\<rparr>"

definition addFinalizer :: "'w kube \<Rightarrow> Unstructured \<Rightarrow> ('w, Unstructured) io" where
  "addFinalizer k cr = CR_Update k (GetNamespace cr) (SetFinalizers cr (GetFinalizers cr @ [finalizer]))"

definition removeFinalizer :: "'w kube \<Rightarrow> Unstructured \<Rightarrow> ('w, unit) io" where
  "removeFinalizer k cr =
     bind_io (CR_Update k (GetNamespace cr) (SetFinalizers cr (filter (\<lambda>item. item \<noteq> finalizer) (GetFinalizers cr))))
       (\<lambda>_. return_io ())"

definition cleanup_pods :: "'w kube \<Rightarrow> string \<Rightarrow> Pod list \<Rightarrow> ('w, unit) io" where
  "cleanup_pods k ns pods =
     foldr (\<lambda>pod rest. bind_io (unless_missing (errors_IsNotFound k) (Pods_Delete k ns (pod_name pod))) (\<lambda>_. rest))
       pods (return_io ())"

definition cleanupOwnedResources :: "'w kube \<Rightarrow> Unstructured \<Rightarrow> ('w, unit) io" where
  "cleanupOwnedResources k cr =
     (let ns = GetNamespace cr in
      bind_io (Pods_List k ns (managedSelector (GetName cr))) (\<lambda>pods.
      bind_io (cleanup_pods k ns pods) (\<lambda>_.
      bind_io (unless_missing (errors_IsNotFound k) (Services_Delete k ns (GetName cr))) (\<lambda>_.
      unless_missing (errors_IsNotFound k) (ConfigMaps_Delete k ns (configMapName (GetName cr)))))))"

definition ensure_all :: "'w kube \<Rightarrow> Unstructured \<Rightarrow> ('w, unit) io" where
  "ensure_all k cr =
     bind_io (lift_io (parseSpec k cr)) (\<lambda>spec.
     let specHash = desiredSpecHash k cr spec in
     bind_io (ensureConfigMap k cr spec) (\<lambda>_.
     bind_io (ensureService k cr spec) (\<lambda>_.
     reconcilePods k cr spec specHash)))"

definition reconcileCR :: "'w kube \<Rightarrow> Unstructured \<Rightarrow> ('w, unit) io" where
  "reconcileCR k cr =
     (if DeletionTimestamp (cr_meta cr) \<noteq> None then
        bind_io (cleanupOwnedResources k cr) (\<lambda>_.
        if hasFinalizer cr finalizer then removeFinalizer k cr else return_io ())
      else
        bind_io (if \<not> hasFinalizer cr finalizer then addFinalizer k cr else return_io cr)
          (ensure_all k))"

text \<open>The error of one resource is logged and the next one is taken.\<close>

fun reconcile_each :: "'w kube \<Rightarrow> Unstructured list \<Rightarrow> ('w, unit) io" where
  "reconcile_each k [] = return_io ()"
| "reconcile_each k (cr # crs) = bind_io (try_io (reconcileCR k cr)) (\<lambda>_. reconcile_each k crs)"

definition reconcileAll :: "'w Controller \<Rightarrow> ('w, unit) io" where
  "reconcileAll c = bind_io (CR_List (ctl_kube c) (ctl_namespace c)) (reconcile_each (ctl_kube c))"

text \<open>
  The loop of \<^verbatim>\<open>Run\<close>, as far as the given outcomes of its \<^verbatim>\<open>select\<close> reach: a tick of the timer (\<^const>\<open>False\<close>)
  starts the next pass, the end of the context (\<^const>\<open>True\<close>) makes it return. \<^const>\<open>None\<close> stands for a
  loop still waiting.
\<close>

fun Run :: "'w Controller \<Rightarrow> bool list \<Rightarrow> ('w, go_error option) io" where
  "Run c events =
     bind_io (try_io (reconcileAll c)) (\<lambda>_.
     case events of
       [] \<Rightarrow> return_io None
     | done # rest \<Rightarrow> if done then return_io (Some (Sentinel ContextCanceled)) else Run c rest)"

declare Run.simps [simp del]

end
