(* ===== verification/ControllersSpec.thy ===== *)
theory ControllersSpec
  imports Controllers
begin

text \<open>
  The first controller against the operator: they are the same program over the pods and give them
  the same environment, but they never agree on the rollout hash. Reading a specification, the
  overflow it lets through, the steady state, and the isolation of the resources from each other.
\<close>

subsection \<open>The same program over the pods\<close>

lemma names_eq:
  "Controllers.labelName = Operator.labelName" "Controllers.labelInstance = Operator.labelInstance"
  "Controllers.labelManagedBy = Operator.labelManagedBy" "Controllers.labelCRName = Operator.labelCRName"
  "Controllers.labelSpecHash = Operator.labelSpecHash" "Controllers.appName = Operator.appName"
  "Controllers.controllerID = Operator.controllerID" "Controllers.finalizer = Operator.finalizer"
  "Controllers.appHTTPPort = Operator.appHTTPPort" "Controllers.appGatewayPort = Operator.appGatewayPort"
  "Controllers.appTCPPort = Operator.appTCPPort" "dbcpAPIVersion = GroupVersion"
  "Controllers.configMapName = Operator.configMapName"
  by (simp_all add: Controllers.labelName_def Operator.labelName_def Controllers.labelInstance_def
      Operator.labelInstance_def Controllers.labelManagedBy_def Operator.labelManagedBy_def
      Controllers.labelCRName_def Operator.labelCRName_def Controllers.labelSpecHash_def
      Operator.labelSpecHash_def Controllers.appName_def Operator.appName_def Controllers.controllerID_def
      Operator.controllerID_def Controllers.finalizer_def Operator.finalizer_def
      Controllers.appHTTPPort_def Operator.appHTTPPort_def Controllers.appGatewayPort_def
      Operator.appGatewayPort_def Controllers.appTCPPort_def Operator.appTCPPort_def
      dbcpAPIVersion_def group_def version_def GroupVersion_def
      Controllers.configMapName_def Operator.configMapName_def fun_eq_iff)

lemma managedLabels_eq: "Controllers.managedLabels = Operator.managedLabels"
  by (simp add: fun_eq_iff Controllers.managedLabels_def Operator.managedLabels_def names_eq)

text \<open>
  The typed resource an untyped one stands for, and a client of the operator that makes the calls
  of the controller's clients.
\<close>

definition entry_of :: "Unstructured \<Rightarrow> EntrySpec \<Rightarrow> DbcpEntryService" where
  "entry_of cr spec = \<lparr>entry_meta = cr_meta cr, entry_Spec = spec\<rparr>"

definition same_api :: "'w client \<Rightarrow> 'w kube \<Rightarrow> Unstructured \<Rightarrow> EntrySpec \<Rightarrow> bool" where
  "same_api r k cr spec \<longleftrightarrow>
     List_Pods r (GetNamespace cr) (managedSet (GetName cr)) = Pods_List k (GetNamespace cr) (managedSelector (GetName cr)) \<and>
     (\<forall>p. Namespace (pod_meta p) = GetNamespace cr \<longrightarrow> Create_Pod r p = Pods_Create k (GetNamespace cr) p) \<and>
     Delete_Pod r = Pods_Delete k \<and> IsNotFound r = errors_IsNotFound k \<and> sort_Slice r = pods_sort k \<and>
     (\<forall>m. SetControllerReference r (entry_of cr spec) m = Inr (m\<lparr>OwnerReferences := ownerRefs cr\<rparr>))"

lemma desiredPod_eq:
  assumes "same_api r k cr spec"
  shows "Operator.desiredPod r (entry_of cr spec) h = Controllers.desiredPod cr spec h"
  using assms
  by (simp add: same_api_def Operator.desiredPod_def Controllers.desiredPod_def entry_of_def Let_def
      pod_container_def health_probe_def httpProbe_def names_eq managedLabels_eq containerName_def)

lemma current_pods_eq:
  assumes "Delete_Pod r = Pods_Delete k" "IsNotFound r = errors_IsNotFound k"
  shows "Operator.current_pods r ns h ps = Controllers.current_pods k ns h ps"
  by (induction ps) (simp_all only: Operator.current_pods.simps Controllers.current_pods.simps assms names_eq)

lemma scale_down_eq:
  assumes "Delete_Pod r = Pods_Delete k" "IsNotFound r = errors_IsNotFound k"
  shows "Operator.scale_down r ns d cur = Controllers.scale_down k ns d cur"
proof (induction "length cur" arbitrary: cur)
  case 0
  then show ?case by (simp add: Operator.scale_down.simps Controllers.scale_down.simps)
next
  case (Suc n)
  then have "Operator.scale_down r ns d (butlast cur) = Controllers.scale_down k ns d (butlast cur)" by simp
  then show ?case
    by (subst Operator.scale_down.simps, subst Controllers.scale_down.simps) (simp only: assms)
qed

lemma scale_up_eq:
  assumes "Create_Pod r pod = Pods_Create k ns pod"
  shows "Operator.scale_up r pod d cur = Controllers.scale_up k ns pod d cur"
proof (induction "nat d - length cur" arbitrary: cur)
  case 0
  then have "\<not> int (length cur) < d" by auto
  then show ?case by (simp add: Operator.scale_up.simps Controllers.scale_up.simps)
next
  case (Suc n)
  then have "Operator.scale_up r pod d (cur @ [q]) = Controllers.scale_up k ns pod d (cur @ [q])" for q by simp
  then show ?case
    by (subst Operator.scale_up.simps, subst Controllers.scale_up.simps) (simp only: assms)
qed

lemma reconcilePods_eq:
  assumes "same_api r k cr spec"
  shows "Controllers.reconcilePods k cr spec h = Operator.reconcilePods r (entry_of cr spec) h"
proof -
  note a = assms [unfolded same_api_def]
  have ns: "Namespace (pod_meta (Controllers.desiredPod cr spec h)) = GetNamespace cr"
    by (simp add: Controllers.desiredPod_def meta_def)
  have up: "Operator.scale_up r (Controllers.desiredPod cr spec h) d cur =
      Controllers.scale_up k (GetNamespace cr) (Controllers.desiredPod cr spec h) d cur" for d cur
    using a ns by (intro scale_up_eq) simp
  have cur: "Operator.current_pods r ns' h ps = Controllers.current_pods k ns' h ps" for ns' ps
    using a by (intro current_pods_eq) simp_all
  have down: "Operator.scale_down r ns' d cur = Controllers.scale_down k ns' d cur" for ns' d cur
    using a by (intro scale_down_eq) simp_all
  show ?thesis
    using a desiredPod_eq [OF assms, of h]
    by (simp add: Controllers.reconcilePods_def Operator.reconcilePods_def Let_def up cur down entry_of_def)
qed

text \<open>A cluster that serves both.\<close>

definition list_selected :: "string \<Rightarrow> string \<Rightarrow> (kube_world, Pod list) io" where
  "list_selected ns sel = mem_list ns (managedSet (drop (length (managedSelector [])) sel))"

definition ref_kube :: "Unstructured \<Rightarrow> kube_world kube" where
  "ref_kube cr = \<lparr>
     CR_List = (\<lambda>_. return_io [cr]), CR_Update = (\<lambda>_ x. return_io x), Pods_List = list_selected,
     Pods_Create = (\<lambda>_. mem_create), Pods_Delete = mem_delete,
     Services_Get = (\<lambda>ns n w. case map_of (kw_services w) (ns, n) of None \<Rightarrow> (Inl missing, w) | Some s \<Rightarrow> (Inr s, w)),
     Services_Create = (\<lambda>ns s w. (Inr s, w\<lparr>kw_services := ((ns, Name (svc_meta s)), s) # kw_services w\<rparr>)),
     Services_Update = (\<lambda>ns s w. (Inr s, w\<lparr>kw_services := ((ns, Name (svc_meta s)), s) # kw_services w\<rparr>)),
     Services_Delete = mem_delete_service,
     ConfigMaps_Get = (\<lambda>ns n w. case map_of (kw_configmaps w) (ns, n) of None \<Rightarrow> (Inl missing, w) | Some c \<Rightarrow> (Inr c, w)),
     ConfigMaps_Create = (\<lambda>ns c w. (Inr c, w\<lparr>kw_configmaps := ((ns, Name (cm_meta c)), c) # kw_configmaps w\<rparr>)),
     ConfigMaps_Update = (\<lambda>ns c w. (Inr c, w\<lparr>kw_configmaps := ((ns, Name (cm_meta c)), c) # kw_configmaps w\<rparr>)),
     ConfigMaps_Delete = mem_delete_configmap,
     errors_IsNotFound = (\<lambda>e. e = missing), ParseQuantity = Inr, json_Resources = mem_resources,
     pods_sort = insertion_sort\<rparr>"

lemma ref_kube_simps:
  "CR_List (ref_kube cr) ns = return_io [cr]" "Pods_List (ref_kube cr) = list_selected"
  "Services_Get (ref_kube cr) ns n w = (case map_of (kw_services w) (ns, n) of None \<Rightarrow> (Inl missing, w) | Some s \<Rightarrow> (Inr s, w))"
  "ConfigMaps_Get (ref_kube cr) ns n w = (case map_of (kw_configmaps w) (ns, n) of None \<Rightarrow> (Inl missing, w) | Some c \<Rightarrow> (Inr c, w))"
  "pods_sort (ref_kube cr) = insertion_sort"
  by (simp_all add: ref_kube_def)

definition ref_client_of :: "Unstructured \<Rightarrow> kube_world client" where
  "ref_client_of cr = ref_client\<lparr>SetControllerReference := \<lambda>_ m. Inr (m\<lparr>OwnerReferences := ownerRefs cr\<rparr>)\<rparr>"

lemma selector_name: "drop (length (managedSelector [])) (managedSelector n) = n"
  by (simp add: managedSelector_def Controllers.labelManagedBy_def Controllers.controllerID_def
      Controllers.labelCRName_def)

lemma ref_same_api: "same_api (ref_client_of cr) (ref_kube cr) cr spec"
  by (simp add: same_api_def ref_client_of_def ref_kube_def list_selected_def selector_name ref_client_def)

interpretation ctl: operator_up "ref_client_of cr" "\<lambda>w. c_pods (view_of w)"
proof -
  have api: "List_Pods (ref_client_of cr) = mem_list" "Create_Pod (ref_client_of cr) = mem_create"
    "Delete_Pod (ref_client_of cr) = mem_delete" "IsNotFound (ref_client_of cr) = IsNotFound ref_client"
    "sort_Slice (ref_client_of cr) = sort_Slice ref_client"
    by (simp_all add: ref_client_of_def ref_client_def)
  have p: "pod_store_up mem_list mem_create mem_delete (IsNotFound ref_client) (\<lambda>w. c_pods (view_of w))"
    using mem_up.up.pod_store_up_axioms by simp
  then have q: "pod_store mem_list mem_create mem_delete (IsNotFound ref_client) (\<lambda>w. c_pods (view_of w))"
    by (simp add: pod_store_up_def)
  show "operator_up (ref_client_of cr) (\<lambda>w. c_pods (view_of w))"
    unfolding operator_up_def operator_api_def operator_api_axioms_def api
    using p q mem.sort_perm mem.sort_oldest_first by (simp add: ref_client_of_def)
qed


definition cr_sample :: "int \<Rightarrow> Unstructured" where
  "cr_sample replicas =
     \<lparr>cr_meta = (meta ''prod'' ''web'')\<lparr>UID := ''u1'', Finalizers := [Controllers.finalizer]\<rparr>,
      NestedString = (\<lambda>p. Inr (map_of [([''spec'', ''config'', ''targetDB''], ''db''),
        ([''spec'', ''config'', ''targetRedis''], ''redis:6379''), ([''spec'', ''service'', ''image''], ''web:1'')] p)),
      NestedInt64 = (\<lambda>p. Inr (map_of [([''spec'', ''config'', ''serviceExportPort''], 80),
        ([''spec'', ''service'', ''replicas''], replicas)] p)),
      NestedStringMap = (\<lambda>_. Inr None)\<rparr>"


subsection \<open>The environment agrees, the hash does not\<close>

text \<open>
  The controller and the operator give the pods of a resource the same environment, but what
  they hash for a rollout is never the same text, whatever the resources: the operator writes the
  members of its map in the order of the keys, the controller those of its struct in the order
  they are declared in.
\<close>

theorem controllers_hash_differs:
  assumes "json_text (Suc d) res" and "json_text (Suc d) res'"
  shows "Controllers.desiredConfigData cr spec = Operator.desiredConfigData (entry_of cr spec) \<and>
    Controllers.hash_input cr spec res \<noteq> Operator.hash_input e res'"
proof
  show "Controllers.desiredConfigData cr spec = Operator.desiredConfigData (entry_of cr spec)"
    by (simp add: Controllers.desiredConfigData_def Operator.desiredConfigData_def entry_of_def
        Controllers.stableTokenSecret_def Operator.stableTokenSecret_def Let_def)
  have ports: "json_text (Suc d) (enc_object [(a, Itoa i), (b, Itoa j), (c, Itoa l), (f, Itoa m)])" for a b c f i j l m
    by (intro json_text_object) simp
  have keys: "coerce_utf8 ''resources'' = ''resources''" "coerce_utf8 ''owner'' = ''owner''"
    by (intro coerce_valid; simp add: byte_of_def)+
  show "Controllers.hash_input cr spec res \<noteq> Operator.hash_input e res'"
  proof
    assume l: "Controllers.hash_input cr spec res = Operator.hash_input e res'"
    show False
      using enc_object_inject [OF l [unfolded Controllers.hash_input_def Operator.hash_input_def], of "Suc d"] assms
      by (simp add: enc_map_text ports keys)
  qed
qed

theorem controllers_hash_differs_witness:
  "Controllers.hash_input (cr_sample 1) (entry_Spec (entry_sample None 1)) ''{}'' \<noteq>
     Operator.hash_input (entry_sample None 1) ''{}''"
proof -
  have t: "json_text (Suc 0) ''{}''" using json_text_object [of "[]" 0] by (simp add: enc_object_def)
  show ?thesis using controllers_hash_differs [OF t t] by blast
qed

subsection \<open>Reading a specification\<close>

lemma required_Inr: "required x ok msg = Inr v \<longleftrightarrow> x = Inr (Some v) \<and> ok v"
  by (auto simp: required_def split: sum.splits option.splits if_splits)

lemma parseSpec_Inr:
  assumes "parseSpec k cr = Inr spec"
  obtains port reps where
    "NestedString cr [''spec'', ''config'', ''targetDB''] = Inr (Some (ec_TargetDB (spec_Config spec)))" "ec_TargetDB (spec_Config spec) \<noteq> []"
    "NestedString cr [''spec'', ''config'', ''targetRedis''] = Inr (Some (ec_TargetRedis (spec_Config spec)))" "ec_TargetRedis (spec_Config spec) \<noteq> []"
    "NestedInt64 cr [''spec'', ''config'', ''serviceExportPort''] = Inr (Some port)" "1 \<le> port" "port \<le> 65535"
    "ec_ServiceExportPort (spec_Config spec) = word_of_int port"
    "NestedString cr [''spec'', ''service'', ''image''] = Inr (Some (es_Image (spec_Service spec)))" "es_Image (spec_Service spec) \<noteq> []"
    "NestedInt64 cr [''spec'', ''service'', ''replicas''] = Inr (Some reps)" "1 \<le> reps"
    "es_Replicas (spec_Service spec) = word_of_int reps"
    "parseResources k cr = Inr (es_Resources (spec_Service spec))"
  using assms by (auto simp: parseSpec_def result_simps required_Inr)

lemma sint_word32: "sint (word_of_int i :: 32 word) = signed_take_bit 31 i"
  by (simp add: signed_of_int)

lemma sint_small: "0 \<le> i \<Longrightarrow> i < 2 ^ 31 \<Longrightarrow> sint (word_of_int i :: 32 word) = i"
  by (simp add: sint_word32 signed_take_bit_int_eq_self)

lemma sint_large:
  assumes "2 ^ 31 \<le> i" "i < 2 ^ 32"
  shows "sint (word_of_int i :: 32 word) = i - 2 ^ 32"
proof -
  have "signed_take_bit 31 i = signed_take_bit 31 (i - 2 ^ 32)"
    by (simp add: signed_take_bit_eq_iff_take_bit_eq take_bit_eq_mod)
  then show ?thesis using assms by (simp add: sint_word32 signed_take_bit_int_eq_self)
qed

text \<open>
  A specification that is read has every required field, each as it stands in the object: the
  texts are not empty, the port is between 1 and 65535 and unchanged by the conversion to 32 bits,
  and the number of replicas is at least one and, below two to the 31, unchanged as well. The
  config map made from it lets the program load its configuration.
\<close>

theorem parseSpec_sound:
  assumes "parseSpec k cr = Inr spec"
  shows "NestedString cr [''spec'', ''config'', ''targetDB''] = Inr (Some (ec_TargetDB (spec_Config spec))) \<and>
    NestedString cr [''spec'', ''config'', ''targetRedis''] = Inr (Some (ec_TargetRedis (spec_Config spec))) \<and>
    NestedString cr [''spec'', ''service'', ''image''] = Inr (Some (es_Image (spec_Service spec))) \<and>
    [] \<notin> {ec_TargetDB (spec_Config spec), ec_TargetRedis (spec_Config spec), es_Image (spec_Service spec)} \<and>
    NestedInt64 cr [''spec'', ''config'', ''serviceExportPort''] = Inr (Some (sint (ec_ServiceExportPort (spec_Config spec)))) \<and>
    sint (ec_ServiceExportPort (spec_Config spec)) \<in> {1..65535} \<and>
    (\<exists>n \<ge> 1. NestedInt64 cr [''spec'', ''service'', ''replicas''] = Inr (Some n) \<and>
       (n < 2 ^ 31 \<longrightarrow> sint (es_Replicas (spec_Service spec)) = n)) \<and>
    (\<exists>c. Load (map_get (Controllers.desiredConfigData cr spec)) readFile [] = Inr c \<and>
       DSN (Database c) = ec_TargetDB (spec_Config spec) \<and> redis_Addr (Redis c) = ec_TargetRedis (spec_Config spec))"
  using assms
proof (rule parseSpec_Inr)
  fix port reps
  assume a: "NestedString cr [''spec'', ''config'', ''targetDB''] = Inr (Some (ec_TargetDB (spec_Config spec)))" "ec_TargetDB (spec_Config spec) \<noteq> []"
    "NestedString cr [''spec'', ''config'', ''targetRedis''] = Inr (Some (ec_TargetRedis (spec_Config spec)))" "ec_TargetRedis (spec_Config spec) \<noteq> []"
    "NestedInt64 cr [''spec'', ''config'', ''serviceExportPort''] = Inr (Some port)" "1 \<le> port" "port \<le> 65535"
    "ec_ServiceExportPort (spec_Config spec) = word_of_int port"
    "NestedString cr [''spec'', ''service'', ''image''] = Inr (Some (es_Image (spec_Service spec)))" "es_Image (spec_Service spec) \<noteq> []"
    "NestedInt64 cr [''spec'', ''service'', ''replicas''] = Inr (Some reps)" "1 \<le> reps"
    "es_Replicas (spec_Service spec) = word_of_int reps"
  have port: "sint (ec_ServiceExportPort (spec_Config spec)) = port" using a(6,7,8) by (simp add: sint_small)
  have data: "map_get (Controllers.desiredConfigData cr spec) = pod_env (entry_of cr spec)"
    by (simp add: pod_env_def Controllers.desiredConfigData_def Operator.desiredConfigData_def entry_of_def
        Controllers.stableTokenSecret_def Operator.stableTokenSecret_def Let_def)
  obtain c where "Load (pod_env (entry_of cr spec)) readFile [] = Inr c"
    "DSN (Database c) = ec_TargetDB (spec_Config spec)" "redis_Addr (Redis c) = ec_TargetRedis (spec_Config spec)"
    using pod_config_loads [of "entry_of cr spec" "[]" readFile] a(2,4) by (auto simp: entry_of_def)
  moreover have "reps < 2 ^ 31 \<longrightarrow> sint (es_Replicas (spec_Service spec)) = reps"
    using a(12,13) by (simp add: sint_small)
  ultimately show ?thesis using a port data by auto
qed

theorem parseSpec_sound_witness:
  "\<exists>spec. parseSpec (ref_kube (cr_sample 3)) (cr_sample 3) = Inr spec \<and> sint (ec_ServiceExportPort (spec_Config spec)) \<in> {1..65535}"
proof -
  obtain spec where s: "parseSpec (ref_kube (cr_sample 3)) (cr_sample 3) = Inr spec"
    by (simp add: parseSpec_def required_def cr_sample_def parseResources_def parseResourceList_def)
  with parseSpec_sound [OF s] show ?thesis by blast
qed



subsection \<open>Steady state\<close>

lemma current_pods_steady:
  assumes "\<forall>p \<in> set ps. DeletionTimestamp (pod_meta p) = None \<longrightarrow> fresh h p"
  shows "Controllers.current_pods k ns h ps w = (Inr (filter (fresh h) ps), w)"
  using assms
proof (induction ps)
  case (Cons p ps)
  then show ?case by (cases "fresh h p") (auto simp: fresh_def names_eq bind_io_Inr)
qed simp

text \<open>
  C29: in the desired state a pass changes nothing and writes nothing. When the config map and the
  service are as desired (in what the controller looks at) and the pods that are not being deleted
  are up to date and as many as desired, a pass over the resource makes its reads and returns with
  the world as it was.
\<close>

theorem controllers_steady:
  assumes "DeletionTimestamp (cr_meta cr) = None" and "Controllers.finalizer \<in> set (GetFinalizers cr)"
    and "parseSpec k cr = Inr spec"
    and "ConfigMaps_Get k (GetNamespace cr) (Controllers.configMapName (GetName cr)) w = (Inr cm, w)"
    and "cm_Data cm = Controllers.desiredConfigData cr spec" and "Labels (cm_meta cm) = Controllers.managedLabels (GetName cr)"
    and "OwnerReferences (cm_meta cm) = ownerRefs cr"
    and "Services_Get k (GetNamespace cr) (GetName cr) w = (Inr svc, w)"
    and "Labels (svc_meta svc) = Controllers.managedLabels (GetName cr)" and "OwnerReferences (svc_meta svc) = ownerRefs cr"
    and "Selector (svc_Spec svc) = Controllers.managedLabels (GetName cr)" and "Ports (svc_Spec svc) = desired_ports spec"
    and "Type (svc_Spec svc) = ''ClusterIP''"
    and "Pods_List k (GetNamespace cr) (managedSelector (GetName cr)) w = (Inr ps, w)"
    and "\<forall>p \<in> set ps. DeletionTimestamp (pod_meta p) = None \<longrightarrow> fresh (desiredSpecHash k cr spec) p"
    and "int (length (filter (\<lambda>p. DeletionTimestamp (pod_meta p) = None) ps)) = sint (es_Replicas (spec_Service spec))"
    and "\<And>qs. mset (pods_sort k created_before qs) = mset qs"
  shows "reconcileCR k cr w = (Inr (), w)"
proof -
  let ?h = "desiredSpecHash k cr spec" and ?d = "sint (es_Replicas (spec_Service spec))"
  have cm: "Controllers.ensureConfigMap k cr spec w = (Inr (), w)"
    using assms(4-7) by (simp add: Controllers.ensureConfigMap_def Let_def get_or_create_def bind_io_try)
  have svc: "Controllers.ensureService k cr spec w = (Inr (), w)"
    using assms(8-13) by (simp add: Controllers.ensureService_def Let_def get_or_create_def bind_io_try)
  let ?cur = "pods_sort k created_before (filter (fresh ?h) ps)"
  have "filter (fresh ?h) ps = filter (\<lambda>p. DeletionTimestamp (pod_meta p) = None) ps"
    using assms(15) by (intro filter_cong) (auto simp: fresh_def)
  then have len: "int (length ?cur) = ?d" using assms(16) assms(17) by (metis size_mset)
  have down: "Controllers.scale_down k (GetNamespace cr) ?d ?cur w = (Inr ?cur, w)"
    using len by (simp add: Controllers.scale_down.simps)
  have up: "Controllers.scale_up k (GetNamespace cr) pod ?d ?cur w = (Inr ?cur, w)" for pod
    using len by (simp add: Controllers.scale_up.simps)
  have pods: "Controllers.reconcilePods k cr spec ?h w = (Inr (), w)"
    using assms(14) current_pods_steady [OF assms(15), of k "GetNamespace cr" w] down up
    by (simp add: Controllers.reconcilePods_def bind_io_Inr)
  have fin: "hasFinalizer cr Controllers.finalizer" using assms(2) by (simp add: hasFinalizer_def list_ex_iff)
  show ?thesis
    using assms(1,3) fin cm svc pods by (simp add: reconcileCR_def ensure_all_def Let_def bind_io_Inr)
qed

definition steady_spec :: EntrySpec where
  "steady_spec = entry_Spec (entry_sample None 1)"

abbreviation steady_meta :: "string \<Rightarrow> ObjectMeta" where
  "steady_meta n \<equiv> (meta ''prod'' n)\<lparr>Labels := Controllers.managedLabels ''web'', OwnerReferences := ownerRefs (cr_sample 1)\<rparr>"

definition steady_world :: kube_world where
  "steady_world =
     \<lparr>kw_pods = [((''prod'', ''web-a''), pod_sample ''web'' (desiredSpecHash (ref_kube (cr_sample 1)) (cr_sample 1) steady_spec) 5 ''Running'')],
      kw_services = [((''prod'', ''web''), \<lparr>svc_meta = steady_meta ''web'', svc_Spec = \<lparr>Type = ''ClusterIP'',
        Selector = Controllers.managedLabels ''web'', Ports = desired_ports steady_spec, ClusterIP = ''10.0.0.7''\<rparr>\<rparr>)],
      kw_configmaps = [((''prod'', ''web-config''), \<lparr>cm_meta = steady_meta ''web-config'',
        cm_Data = Controllers.desiredConfigData (cr_sample 1) steady_spec\<rparr>)],
      kw_entries = [], kw_now = 9\<rparr>"

theorem controllers_steady_witness:
  "reconcileCR (ref_kube (cr_sample 1)) (cr_sample 1) steady_world = (Inr (), steady_world)"
proof -
  let ?cr = "cr_sample 1" and ?k = "ref_kube (cr_sample 1)" and ?w = steady_world
  let ?p = "stored_pod (''prod'', ''web-a'') (pod_sample ''web'' (desiredSpecHash ?k ?cr steady_spec) 5 ''Running'')"
  have names: "GetNamespace ?cr = ''prod''" "GetName ?cr = ''web''" "DeletionTimestamp (cr_meta ?cr) = None"
    "Controllers.finalizer \<in> set (GetFinalizers ?cr)" "Controllers.configMapName ''web'' = ''web-config''"
    by (simp_all add: cr_sample_def meta_def Controllers.configMapName_def)
  have spec: "parseSpec ?k ?cr = Inr steady_spec"
    by (simp add: parseSpec_def required_def cr_sample_def parseResources_def parseResourceList_def
        steady_spec_def entry_sample_def)
  have lab: "pod_labels ?p = map_put Operator.labelSpecHash (desiredSpecHash ?k ?cr steady_spec) (Operator.managedLabels ''web'')"
    by (simp add: pod_sample_def)
  have pods: "Pods_List ?k ''prod'' (managedSelector ''web'') ?w = (Inr [?p], ?w)"
    using new_pod_labels(1) [of "''web''"]
    by (simp add: ref_kube_simps list_selected_def selector_name mem_list_def steady_world_def pod_sample_def)
  have fr: "fresh (desiredSpecHash ?k ?cr steady_spec) ?p"
    using new_pod_labels(2) lab by (simp add: fresh_def terminated_def pod_sample_def)
  show ?thesis
    by (rule controllers_steady [OF names(3,4) spec, unfolded names, where ps = "[?p]"
        and cm = "snd (hd (kw_configmaps ?w))" and svc = "snd (hd (kw_services ?w))"])
      (use fr pods in \<open>simp_all add: ref_kube_simps steady_world_def insertion_sort_mset\<close>,
       simp add: steady_spec_def entry_sample_def)
qed

subsection \<open>Isolation\<close>

text \<open>The resources are taken one after the other without a panic.\<close>

fun unpanicked :: "'w kube \<Rightarrow> Unstructured list \<Rightarrow> 'w \<Rightarrow> bool" where
  "unpanicked k [] w \<longleftrightarrow> True"
| "unpanicked k (cr # crs) w \<longleftrightarrow> \<not> is_panic (fst (reconcileCR k cr w)) \<and> unpanicked k crs (snd (reconcileCR k cr w))"

lemma reconcile_each_run:
  assumes "unpanicked k crs w"
  shows "reconcile_each k (crs @ rest) w = reconcile_each k rest (fold (\<lambda>cr w. snd (reconcileCR k cr w)) crs w)"
  using assms
proof (induction crs arbitrary: w)
  case (Cons cr crs)
  obtain res w1 where r: "reconcileCR k cr w = (res, w1)" by fastforce
  with Cons.prems have "try_io (reconcileCR k cr) w = (Inr res, w1)" by (simp add: try_io_eq)
  with Cons r show ?case by (simp add: bind_io_Inr)
qed simp

text \<open>
  One resource cannot hold up another by failing. A pass over the resources takes every one of
  them in order, whatever errors the others end with, and returns no error itself once they are
  listed. Only a panic ends it: the resources after the panicking one are not reached.
\<close>

theorem reconcileAll_isolates:
  assumes "CR_List (ctl_kube c) (ctl_namespace c) w = (Inr crs, w1)"
    and "crs = before @ rest" and "unpanicked (ctl_kube c) before w1"
    and "v = fold (\<lambda>cr v. snd (reconcileCR (ctl_kube c) cr v)) before w1"
  shows "(rest = [] \<longrightarrow> reconcileAll c w = (Inr (), v)) \<and>
    (\<forall>cr later p w2. rest = cr # later \<and> reconcileCR (ctl_kube c) cr v = (Inl (Panic p), w2) \<longrightarrow>
       reconcileAll c w = (Inl (Panic p), w2))"
proof -
  have "reconcileAll c w = reconcile_each (ctl_kube c) rest v"
    using reconcile_each_run [OF assms(3), of rest] assms(1,2,4) by (simp add: reconcileAll_def bind_io_Inr)
  then show ?thesis by (auto simp: bind_io_try)
qed

definition bad_cr :: Unstructured where
  "bad_cr = (cr_sample 1)\<lparr>NestedString := \<lambda>_. Inr None\<rparr>"

lemma bad_cr_fails:
  "reconcileCR (ref_kube bad_cr) bad_cr w = (Inl (Errorf ''spec.config.targetDB is required''), w)"
  by (simp add: reconcileCR_def hasFinalizer_def ensure_all_def parseSpec_def required_def bad_cr_def cr_sample_def meta_def)

lemma bad_cr_pass: "reconcileAll (Controllers.New (ref_kube bad_cr) ns t) w = (Inr (), w)"
  by (simp add: reconcileAll_def Controllers.New_def ref_kube_simps bind_io_try bad_cr_fails)

theorem reconcileAll_isolates_witness:
  "fst (reconcileCR (ref_kube bad_cr) bad_cr (cluster_sample None)) = Inl (Errorf ''spec.config.targetDB is required'') \<and>
   reconcileAll (Controllers.New (ref_kube bad_cr) ''prod'' 0) (cluster_sample None) = (Inr (), cluster_sample None)"
proof -
  let ?c = "Controllers.New (ref_kube bad_cr) ''prod'' 0" and ?w = "cluster_sample None"
  have k: "ctl_kube ?c = ref_kube bad_cr" by (simp add: Controllers.New_def)
  have l: "CR_List (ctl_kube ?c) (ctl_namespace ?c) ?w = (Inr [bad_cr], ?w)"
    by (simp add: Controllers.New_def ref_kube_simps)
  show ?thesis
    using reconcileAll_isolates [OF l, of "[bad_cr]" "[]"] bad_cr_fails k by simp
qed

text \<open>
  The loop of the controller runs until its context ends, one pass per tick, and then returns
  the error of the context: neither an error of a pass nor of a listing stops it.
\<close>

theorem Run_stops:
  assumes "\<forall>v. \<not> is_panic (fst (reconcileAll c v))"
  shows "Run c (replicate n False @ True # later) w =
    (Inr (Some (Sentinel ContextCanceled)), ((\<lambda>v. snd (reconcileAll c v)) ^^ Suc n) w)"
proof (induction n arbitrary: w)
  case 0
  have "try_io (reconcileAll c) w = (Inr (fst (reconcileAll c w)), snd (reconcileAll c w))"
    using assms by (intro try_io_eq) simp_all
  then show ?case by (simp add: Run.simps [of c "True # later"] bind_io_Inr)
next
  case (Suc n)
  have "try_io (reconcileAll c) w = (Inr (fst (reconcileAll c w)), snd (reconcileAll c w))"
    using assms by (intro try_io_eq) simp_all
  then have "Run c (replicate (Suc n) False @ True # later) w =
      Run c (replicate n False @ True # later) (snd (reconcileAll c w))"
    by (simp add: Run.simps [of c "False # _"] bind_io_Inr)
  also have "\<dots> = (Inr (Some (Sentinel ContextCanceled)), ((\<lambda>v. snd (reconcileAll c v)) ^^ Suc n) (snd (reconcileAll c w)))"
    by (rule Suc)
  finally show ?case by (simp only: funpow_Suc_right [of "Suc n"] o_apply)
qed

theorem Run_stops_witness:
  "Run (Controllers.New (ref_kube bad_cr) ''prod'' 0) [False, True] (cluster_sample None) =
     (Inr (Some (Sentinel ContextCanceled)), cluster_sample None)"
proof -
  let ?c = "Controllers.New (ref_kube bad_cr) ''prod'' 0"
  show ?thesis using Run_stops [of ?c 1 "[]" "cluster_sample None"] bad_cr_pass by simp
qed

end
