(* ===== verification/GoFlag.thy ===== *)
theory GoFlag
  imports GoIO GoDuration
begin

text \<open>
  The part of Go's \<^verbatim>\<open>flag\<close> and \<^verbatim>\<open>strconv\<close> packages the programs use for their command lines, and the ways a
  program ends. A flag is \<^verbatim>\<open>-name value\<close>, \<^verbatim>\<open>-name=value\<close> or, for a Boolean one, \<^verbatim>\<open>-name\<close>, with one dash or two;
  the first argument that is no flag, or \<^verbatim>\<open>--\<close>, ends the flags.
\<close>

subsection \<open>Values\<close>

definition ParseBool :: "string \<Rightarrow> bool result" where
  "ParseBool s =
     (if s \<in> set [''1'', ''t'', ''T'', ''true'', ''TRUE'', ''True''] then Inr True
      else if s \<in> set [''0'', ''f'', ''F'', ''false'', ''FALSE'', ''False''] then Inr False
      else Inl err_syntax)"

text \<open>\<^verbatim>\<open>strconv.ParseInt(s, 0, 64)\<close>: the base is read off the prefix, underscores may separate digits.\<close>

definition lower_byte :: "char \<Rightarrow> nat" where
  "lower_byte c = (if 0x41 \<le> byte_of c \<and> byte_of c \<le> 0x5A then byte_of c + 0x20 else byte_of c)"

definition any_digit :: "char \<Rightarrow> nat option" where
  "any_digit c =
     (if is_digit c then Some (digit_val c)
      else if 0x61 \<le> lower_byte c \<and> lower_byte c \<le> 0x7A then Some (lower_byte c - 0x61 + 10) else None)"

definition base_prefix :: "string \<Rightarrow> nat \<times> string" where
  "base_prefix s =
     (if s = [] \<or> hd s \<noteq> CHR ''0'' then (10, s)
      else if 3 \<le> length s \<and> lower_byte (s ! 1) = 0x62 then (2, drop 2 s)
      else if 3 \<le> length s \<and> lower_byte (s ! 1) = 0x6F then (8, drop 2 s)
      else if 3 \<le> length s \<and> lower_byte (s ! 1) = 0x78 then (16, drop 2 s)
      else (8, drop 1 s))"

fun base_val :: "nat \<Rightarrow> string \<Rightarrow> nat \<Rightarrow> nat option" where
  "base_val b [] n = Some n"
| "base_val b (c # s) n =
     (if c = CHR ''_'' then base_val b s n
      else case any_digit c of
          None \<Rightarrow> None
        | Some d \<Rightarrow> if d < b then base_val b s (n * b + d) else None)"

text \<open>
  The state of the scan is what the last character was: the start, a digit (or the prefix of a base),
  an underscore, or anything else.
\<close>

datatype seen = SawStart | SawDigit | SawUnderscore | SawOther

fun underscores_ok :: "bool \<Rightarrow> seen \<Rightarrow> string \<Rightarrow> bool" where
  "underscores_ok hex i [] = (i \<noteq> SawUnderscore)"
| "underscores_ok hex i (c # s) =
     (if is_digit c \<or> hex \<and> 0x61 \<le> lower_byte c \<and> lower_byte c \<le> 0x66 then underscores_ok hex SawDigit s
      else if c = CHR ''_'' then i = SawDigit \<and> underscores_ok hex SawUnderscore s
      else i \<noteq> SawUnderscore \<and> underscores_ok hex SawOther s)"

definition underscoreOK :: "string \<Rightarrow> bool" where
  "underscoreOK s =
     (if 2 \<le> length s \<and> hd s = CHR ''0'' \<and> lower_byte (s ! 1) \<in> {0x62, 0x6F, 0x78}
      then underscores_ok (lower_byte (s ! 1) = 0x78) SawDigit (drop 2 s)
      else underscores_ok False SawStart s)"

definition ParseInt0 :: "string \<Rightarrow> int result" where
  "ParseInt0 s =
     (if s = [] then Inl err_syntax
      else
        let neg = (hd s = CHR ''-'');
            t = (if hd s = CHR ''-'' \<or> hd s = CHR ''+'' then tl s else s);
            (b, digits) = base_prefix t in
        if t = [] \<or> CHR ''_'' \<in> set digits \<and> \<not> underscoreOK t then Inl err_syntax
        else case base_val b digits 0 of
            None \<Rightarrow> Inl err_syntax
          | Some n \<Rightarrow>
              if neg then (if n \<le> 2 ^ 63 then Inr (- int n) else Inl err_range)
              else if n < 2 ^ 63 then Inr (int n) else Inl err_range)"

lemma ParseInt0_range: "ParseInt0 s = Inr i \<Longrightarrow> - (2 ^ 63) \<le> i \<and> i < 2 ^ 63"
  by (auto simp: ParseInt0_def Let_def split: if_splits option.splits prod.splits)

subsection \<open>The command line\<close>

datatype 'v flag = BoolFlag "bool \<Rightarrow> 'v \<Rightarrow> 'v" | ValueFlag "string \<Rightarrow> 'v \<Rightarrow> 'v result"

text \<open>\<^verbatim>\<open>flag.StringVar\<close>.\<close>

definition string_flag :: "(string \<Rightarrow> 'v \<Rightarrow> 'v) \<Rightarrow> 'v flag" where
  "string_flag upd = ValueFlag (\<lambda>x v. Inr (upd x v))"

datatype flag_error = ErrHelp | FlagError string

fun split_value :: "string \<Rightarrow> string \<times> string option" where
  "split_value [] = ([], None)"
| "split_value (c # s) =
     (if c = CHR ''='' then ([], Some s) else (case split_value s of (n, v) \<Rightarrow> (c # n, v)))"

definition flag_text :: "string \<Rightarrow> string" where
  "flag_text s = (if s ! 1 = CHR ''-'' then drop 2 s else drop 1 s)"

text \<open>The name an argument gives when it is read as a flag.\<close>

definition flag_name :: "string \<Rightarrow> string" where
  "flag_name s = fst (split_value (flag_text s))"

definition set_value :: "string \<Rightarrow> (string \<Rightarrow> 'v \<Rightarrow> 'v result) \<Rightarrow> string \<Rightarrow> 'v \<Rightarrow> flag_error + 'v" where
  "set_value name set_flag x v =
     (case set_flag x v of Inl _ \<Rightarrow> Inl (FlagError (''invalid value for flag -'' @ name)) | Inr v1 \<Rightarrow> Inr v1)"

definition set_bool :: "string \<Rightarrow> (bool \<Rightarrow> 'v \<Rightarrow> 'v) \<Rightarrow> string option \<Rightarrow> 'v \<Rightarrow> flag_error + 'v" where
  "set_bool name set_flag x v =
     (case x of
        None \<Rightarrow> Inr (set_flag True v)
      | Some t \<Rightarrow>
          (case ParseBool t of
             Inl _ \<Rightarrow> Inl (FlagError (''invalid boolean value for -'' @ name))
           | Inr b \<Rightarrow> Inr (set_flag b v)))"

text \<open>
  \<^verbatim>\<open>parseOne\<close>: \<^const>\<open>None\<close> when the arguments \<open>s # args\<close> begin with no flag, otherwise the values with the flag set and
  the arguments after it. The name may not start with \<^verbatim>\<open>=\<close>, so its first character is never the separator.
\<close>

definition parseOne :: "(string \<Rightarrow> 'v flag option) \<Rightarrow> string \<Rightarrow> string list \<Rightarrow> 'v \<Rightarrow> flag_error + ('v \<times> string list) option" where
  "parseOne formal s args v =
     (if length s < 2 \<or> hd s \<noteq> CHR ''-'' \<or> s = ''--'' then Inr None
      else
        let text = flag_text s in
        if text = [] \<or> hd text = CHR ''-'' \<or> hd text = CHR ''='' then Inl (FlagError (''bad flag syntax: '' @ s))
        else
          let (name, given) = split_value text in
          case formal name of
            None \<Rightarrow> Inl (if name = ''help'' \<or> name = ''h'' then ErrHelp
                          else FlagError (''flag provided but not defined: -'' @ name))
          | Some (BoolFlag set_flag) \<Rightarrow> map_sum (\<lambda>e. e) (\<lambda>v1. Some (v1, args)) (set_bool name set_flag given v)
          | Some (ValueFlag set_flag) \<Rightarrow>
              (case given of
                 Some x \<Rightarrow> map_sum (\<lambda>e. e) (\<lambda>v1. Some (v1, args)) (set_value name set_flag x v)
               | None \<Rightarrow>
                   (case args of
                      [] \<Rightarrow> Inl (FlagError (''flag needs an argument: -'' @ name))
                    | x # rest \<Rightarrow> map_sum (\<lambda>e. e) (\<lambda>v1. Some (v1, rest)) (set_value name set_flag x v))))"

lemma parseOne_rest: "parseOne formal s args v = Inr (Some (v1, rest)) \<Longrightarrow> length rest \<le> length args"
  by (auto simp: parseOne_def Let_def map_sum_def split: if_splits option.splits flag.splits sum.splits list.splits prod.splits)

function parse_flags :: "(string \<Rightarrow> 'v flag option) \<Rightarrow> string list \<Rightarrow> 'v \<Rightarrow> flag_error + 'v" where
  "parse_flags formal [] v = Inr v"
| "parse_flags formal (s # args) v =
     (case parseOne formal s args v of
        Inl e \<Rightarrow> Inl e
      | Inr None \<Rightarrow> Inr v
      | Inr (Some (v1, rest)) \<Rightarrow> parse_flags formal rest v1)"
  by pat_completeness auto
termination
  by (relation "measure (\<lambda>(formal, args, v). length args)") (auto dest: parseOne_rest)

text \<open>\<^verbatim>\<open>flag.Parse\<close> on the program's own flags ends the program itself.\<close>

fun flag_exit :: "flag_error \<Rightarrow> int" where
  "flag_exit ErrHelp = 0"
| "flag_exit (FlagError _) = 2"

text \<open>
  A property of the values that every flag named among the arguments keeps holds of the values after the flags.
\<close>

definition keeps_flag :: "('v \<Rightarrow> bool) \<Rightarrow> 'v flag \<Rightarrow> bool" where
  "keeps_flag P f \<longleftrightarrow>
     (case f of BoolFlag g \<Rightarrow> \<forall>b v. P v \<longrightarrow> P (g b v) | ValueFlag g \<Rightarrow> \<forall>x v v1. P v \<and> g x v = Inr v1 \<longrightarrow> P v1)"

lemma parseOne_keeps:
  assumes "parseOne formal s args v = Inr (Some (v1, rest))" "P v" "\<And>f. formal (flag_name s) = Some f \<Longrightarrow> keeps_flag P f"
  shows "P v1" "set rest \<subseteq> set args"
proof -
  obtain name given where n: "split_value (flag_text s) = (name, given)" by fastforce
  then have f: "formal name = Some f \<Longrightarrow> keeps_flag P f" for f using assms(3) by (simp add: flag_name_def)
  show "P v1"
    using assms(1,2) f n
    by (auto simp: parseOne_def Let_def map_sum_def set_value_def set_bool_def keeps_flag_def
        split: if_splits option.splits flag.splits sum.splits list.splits)
  show "set rest \<subseteq> set args"
    using assms(1) n by (auto simp: parseOne_def Let_def map_sum_def split: if_splits option.splits flag.splits sum.splits list.splits)
qed

lemma parse_flags_keeps:
  assumes "parse_flags formal args v = Inr v'" "P v"
    and "\<And>a f. a \<in> set args \<Longrightarrow> formal (flag_name a) = Some f \<Longrightarrow> keeps_flag P f"
  shows "P v'"
  using assms
proof (induction formal args v rule: parse_flags.induct)
  case (2 formal s args v)
  show ?case
  proof (cases "parseOne formal s args v")
    case (Inr r)
    show ?thesis
    proof (cases r)
      case (Some p)
      obtain v1 rest where p: "p = (v1, rest)" by fastforce
      have "P v1" "set rest \<subseteq> set args" using parseOne_keeps [of formal s args v v1 rest P] 2(3,4) Inr Some p by auto
      moreover have "parse_flags formal rest v1 = Inr v'" using 2(2) Inr Some p by simp
      ultimately show ?thesis using 2(1) [of r p v1 rest] 2(4) Inr Some p by (meson list.set_intros(2) subsetD)
    qed (use 2 Inr in simp)
  qed (use 2 in simp)
qed simp

subsection \<open>How a program ends\<close>

text \<open>
  A program exits with a code, or comes to serve. \<open>or_exit\<close> is the \<^verbatim>\<open>if err != nil\<close> of a main function, whose
  branch logs and ends the program; a panic ends it on its own.
\<close>

datatype 'r outcome = Exited int | Serving 'r

definition or_exit :: "int \<Rightarrow> ('w, 'a) io \<Rightarrow> ('a \<Rightarrow> ('w, 'r outcome) io) \<Rightarrow> ('w, 'r outcome) io" where
  "or_exit code m k =
     bind_io (try_io m) (\<lambda>res. case res of Inl _ \<Rightarrow> return_io (Exited code) | Inr x \<Rightarrow> k x)"

definition with_flags :: "(string \<Rightarrow> 'v flag option) \<Rightarrow> string list \<Rightarrow> 'v \<Rightarrow> ('v \<Rightarrow> ('w, 'r outcome) io) \<Rightarrow> ('w, 'r outcome) io" where
  "with_flags formal args v k =
     (case parse_flags formal args v of Inl e \<Rightarrow> return_io (Exited (flag_exit e)) | Inr v1 \<Rightarrow> k v1)"

lemma or_exit_Serving [simp]:
  "or_exit code m k w = (Inr (Serving r), w2) \<longleftrightarrow> (\<exists>x w1. m w = (Inr x, w1) \<and> k x w1 = (Inr (Serving r), w2))"
  by (auto simp: or_exit_def bind_io_try split: prod.split sum.split go_error.split)

lemma with_flags_Serving [simp]:
  "with_flags formal args v k w = (Inr (Serving r), w2) \<longleftrightarrow>
     (\<exists>v1. parse_flags formal args v = Inr v1 \<and> k v1 w = (Inr (Serving r), w2))"
  by (auto simp: with_flags_def split: sum.split)

lemma or_exit_Inr: "m w = (Inr x, w1) \<Longrightarrow> or_exit code m k w = k x w1"
  by (simp add: or_exit_def bind_io_try)

lemma or_exit_Inl: "m w = (Inl e, w1) \<Longrightarrow> \<not> panics e \<Longrightarrow> or_exit code m k w = (Inr (Exited code), w1)"
  by (cases e) (simp_all add: or_exit_def bind_io_try)

end
