(* ===== verification/Launch.thy ===== *)
theory Launch
  imports ControllersSpec GoFlag GoPath
begin

text \<open>
  The programs that run on Kubernetes: \<^verbatim>\<open>operator/cmd/main.go\<close>, which hands the reconciler to a manager of
  controller-runtime, and \<^verbatim>\<open>cmd/dbcp-controller/main.go\<close>, which runs the polling controller. The manager, the
  certificate watchers and the clients are libraries and are parameters.
\<close>

subsection \<open>The operator: flags\<close>

record operator_flags =
  metricsAddr :: string
  metricsCertPath :: string
  metricsCertName :: string
  metricsCertKey :: string
  webhookCertPath :: string
  webhookCertName :: string
  webhookCertKey :: string
  enableLeaderElection :: bool
  probeAddr :: string
  secureMetrics :: bool
  enableHTTP2 :: bool

definition operator_defaults :: operator_flags where
  "operator_defaults = \<lparr>metricsAddr = ''0'', metricsCertPath = [], metricsCertName = ''tls.crt'', metricsCertKey = ''tls.key'',
     webhookCertPath = [], webhookCertName = ''tls.crt'', webhookCertKey = ''tls.key'', enableLeaderElection = False,
     probeAddr = '':8081'', secureMetrics = True, enableHTTP2 = False\<rparr>"

definition operator_flag :: "string \<Rightarrow> operator_flags flag option" where
  "operator_flag = map_of [
     (''metrics-bind-address'', string_flag (\<lambda>x v. v\<lparr>metricsAddr := x\<rparr>)),
     (''health-probe-bind-address'', string_flag (\<lambda>x v. v\<lparr>probeAddr := x\<rparr>)),
     (''leader-elect'', BoolFlag (\<lambda>b v. v\<lparr>enableLeaderElection := b\<rparr>)),
     (''metrics-secure'', BoolFlag (\<lambda>b v. v\<lparr>secureMetrics := b\<rparr>)),
     (''webhook-cert-path'', string_flag (\<lambda>x v. v\<lparr>webhookCertPath := x\<rparr>)),
     (''webhook-cert-name'', string_flag (\<lambda>x v. v\<lparr>webhookCertName := x\<rparr>)),
     (''webhook-cert-key'', string_flag (\<lambda>x v. v\<lparr>webhookCertKey := x\<rparr>)),
     (''metrics-cert-path'', string_flag (\<lambda>x v. v\<lparr>metricsCertPath := x\<rparr>)),
     (''metrics-cert-name'', string_flag (\<lambda>x v. v\<lparr>metricsCertName := x\<rparr>)),
     (''metrics-cert-key'', string_flag (\<lambda>x v. v\<lparr>metricsCertKey := x\<rparr>)),
     (''enable-http2'', BoolFlag (\<lambda>b v. v\<lparr>enableHTTP2 := b\<rparr>))]"

text \<open>The flags \<^verbatim>\<open>opts.BindFlags\<close> of zap adds set values of their own.\<close>

fun flag_on_fst :: "'v flag \<Rightarrow> ('v \<times> 'z) flag" where
  "flag_on_fst (BoolFlag f) = BoolFlag (\<lambda>b (v, z). (f b v, z))"
| "flag_on_fst (ValueFlag f) = ValueFlag (\<lambda>x (v, z). bindE (f x v) (\<lambda>v1. Inr (v1, z)))"

fun flag_on_snd :: "'z flag \<Rightarrow> ('v \<times> 'z) flag" where
  "flag_on_snd (BoolFlag f) = BoolFlag (\<lambda>b (v, z). (v, f b z))"
| "flag_on_snd (ValueFlag f) = ValueFlag (\<lambda>x (v, z). bindE (f x z) (\<lambda>z1. Inr (v, z1)))"

definition with_zap :: "(string \<Rightarrow> 'z flag option) \<Rightarrow> string \<Rightarrow> (operator_flags \<times> 'z) flag option" where
  "with_zap zap name =
     (case operator_flag name of
        Some f \<Rightarrow> Some (flag_on_fst f)
      | None \<Rightarrow> map_option flag_on_snd (zap name))"

subsection \<open>The operator: servers\<close>

text \<open>
  The fields of \<^verbatim>\<open>tls.Config\<close> the options set. \<open>'c\<close> is the type of certificate watchers; a server takes its
  certificates from one when \<^verbatim>\<open>GetCertificate\<close> is its method.
\<close>

record 'c tls_Config =
  NextProtos :: "string list"
  GetCertificate :: "'c option"

type_synonym 'c tls_opt = "'c tls_Config \<Rightarrow> 'c tls_Config"

text \<open>The options are applied in their order.\<close>

definition apply_opts :: "'c tls_opt list \<Rightarrow> 'c tls_Config \<Rightarrow> 'c tls_Config" where
  "apply_opts opts tls = fold (\<lambda>f t. f t) opts tls"

definition disableHTTP2 :: "'c tls_opt" where
  "disableHTTP2 t = t\<lparr>NextProtos := [''http/1.1'']\<rparr>"

definition use_watcher :: "'c \<Rightarrow> 'c tls_opt" where
  "use_watcher c t = t\<lparr>GetCertificate := Some c\<rparr>"

record 'c metrics_Options =
  BindAddress :: string
  SecureServing :: bool
  metrics_TLSOpts :: "'c tls_opt list"
  FilterProvider :: bool

record 'c manager_Options =
  Metrics :: "'c metrics_Options"
  webhook_TLSOpts :: "'c tls_opt list"
  HealthProbeBindAddress :: string
  LeaderElection :: bool
  LeaderElectionID :: string

text \<open>
  \<open>FilterProvider\<close> tells whether requests go through \<^verbatim>\<open>filters.WithAuthenticationAndAuthorization\<close>. The options of the
  two servers start as one slice; appending to it makes a new one each time, since it is full.
\<close>

definition tlsOpts :: "operator_flags \<Rightarrow> 'c tls_opt list" where
  "tlsOpts fl = (if enableHTTP2 fl then [] else [disableHTTP2])"

definition cert_watcher :: "(string \<Rightarrow> string \<Rightarrow> ('w, 'c) io) \<Rightarrow> string \<Rightarrow> string \<Rightarrow> string \<Rightarrow> ('w, 'c option) io" where
  "cert_watcher newWatcher path cert key =
     (if length path > 0
      then bind_io (newWatcher (Join [path, cert]) (Join [path, key])) (\<lambda>c. return_io (Some c))
      else return_io None)"

definition watcher_opts :: "'c option \<Rightarrow> 'c tls_opt list" where
  "watcher_opts c = (case c of None \<Rightarrow> [] | Some x \<Rightarrow> [use_watcher x])"

definition manager_options :: "operator_flags \<Rightarrow> 'c option \<Rightarrow> 'c option \<Rightarrow> 'c manager_Options" where
  "manager_options fl webhookCertWatcher metricsCertWatcher =
     \<lparr>Metrics = \<lparr>BindAddress = metricsAddr fl, SecureServing = secureMetrics fl,
        metrics_TLSOpts = tlsOpts fl @ watcher_opts metricsCertWatcher, FilterProvider = secureMetrics fl\<rparr>,
      webhook_TLSOpts = tlsOpts fl @ watcher_opts webhookCertWatcher,
      HealthProbeBindAddress = probeAddr fl, LeaderElection = enableLeaderElection fl, LeaderElectionID = ''86dfc35e.shopee.io''\<rparr>"

subsection \<open>The operator: start\<close>

text \<open>
  What main asks of controller-runtime: the configuration of the cluster, a manager with the given options,
  the controller on it, certificate watchers and checks added to it, and its run until the signal.
\<close>

record ('w, 'c) manager =
  mgr_GetConfigOrDie :: "('w, unit) io"
  mgr_NewManager :: "'c manager_Options \<Rightarrow> ('w, unit) io"
  mgr_SetupWithManager :: "('w, unit) io"
  mgr_Add :: "'c \<Rightarrow> ('w, unit) io"
  mgr_AddHealthzCheck :: "string \<Rightarrow> ('w, unit) io"
  mgr_AddReadyzCheck :: "string \<Rightarrow> ('w, unit) io"
  mgr_Start :: "('w, unit) io"

definition add_watcher :: "('w, 'c) manager \<Rightarrow> 'c option \<Rightarrow> ('w, unit) io" where
  "add_watcher mgr c = (case c of None \<Rightarrow> return_io () | Some x \<Rightarrow> mgr_Add mgr x)"

definition run_manager ::
    "('w, 'c) manager \<Rightarrow> operator_flags \<Rightarrow> 'c option \<Rightarrow> 'c option \<Rightarrow> ('w, unit outcome) io" where
  "run_manager mgr fl webhookCertWatcher metricsCertWatcher =
     or_exit 1 (mgr_GetConfigOrDie mgr) (\<lambda>_.
     or_exit 1 (mgr_NewManager mgr (manager_options fl webhookCertWatcher metricsCertWatcher)) (\<lambda>_.
     or_exit 1 (mgr_SetupWithManager mgr) (\<lambda>_.
     or_exit 1 (add_watcher mgr metricsCertWatcher) (\<lambda>_.
     or_exit 1 (add_watcher mgr webhookCertWatcher) (\<lambda>_.
     or_exit 1 (mgr_AddHealthzCheck mgr ''healthz'') (\<lambda>_.
     or_exit 1 (mgr_AddReadyzCheck mgr ''readyz'') (\<lambda>_.
     or_exit 1 (mgr_Start mgr) (\<lambda>_.
     return_io (Exited 0)))))))))"

definition operator_main ::
    "('w, 'c) manager \<Rightarrow> (string \<Rightarrow> string \<Rightarrow> ('w, 'c) io) \<Rightarrow> (string \<Rightarrow> 'z flag option) \<Rightarrow> 'z \<Rightarrow> string list \<Rightarrow> ('w, unit outcome) io" where
  "operator_main mgr newWatcher zap z args =
     with_flags (with_zap zap) args (operator_defaults, z) (\<lambda>(fl, _).
     or_exit 1 (cert_watcher newWatcher (webhookCertPath fl) (webhookCertName fl) (webhookCertKey fl)) (\<lambda>webhookCertWatcher.
     or_exit 1 (cert_watcher newWatcher (metricsCertPath fl) (metricsCertName fl) (metricsCertKey fl)) (\<lambda>metricsCertWatcher.
     run_manager mgr fl webhookCertWatcher metricsCertWatcher)))"

subsection \<open>The servers of the operator\<close>

definition http1_only :: "'c tls_opt list \<Rightarrow> bool" where
  "http1_only opts \<longleftrightarrow> (\<forall>t. NextProtos (apply_opts opts t) = [''http/1.1''])"

definition hardened :: "string list \<Rightarrow> 'c manager_Options \<Rightarrow> bool" where
  "hardened args o' \<longleftrightarrow>
     (''enable-http2'' \<notin> flag_name ` set args \<longrightarrow>
        http1_only (metrics_TLSOpts (Metrics o')) \<and> http1_only (webhook_TLSOpts o')) \<and>
     (''metrics-secure'' \<notin> flag_name ` set args \<longrightarrow> SecureServing (Metrics o')) \<and>
     FilterProvider (Metrics o') = SecureServing (Metrics o')"

lemma tlsOpts_http1: "\<not> enableHTTP2 fl \<Longrightarrow> http1_only (tlsOpts fl @ watcher_opts c)"
  by (simp add: http1_only_def apply_opts_def tlsOpts_def watcher_opts_def disableHTTP2_def use_watcher_def split: option.split)

lemma on_fst_keeps: "keeps_flag P f \<Longrightarrow> keeps_flag (\<lambda>v. P (fst v)) (flag_on_fst f)"
  by (cases f) (auto simp: keeps_flag_def result_simps)

lemma on_snd_keeps: "keeps_flag (\<lambda>v. P (fst v)) (flag_on_snd f)"
  by (cases f) (auto simp: keeps_flag_def result_simps)

lemma with_zap_keeps:
  assumes "parse_flags (with_zap zap) args (operator_defaults, z) = Inr (fl, z1)" "P operator_defaults"
    and "\<And>a f. a \<in> set args \<Longrightarrow> operator_flag (flag_name a) = Some f \<Longrightarrow> keeps_flag P f"
  shows "P fl"
proof -
  have "P (fst (fl, z1))"
  proof (rule parse_flags_keeps [OF assms(1), where P = "\<lambda>v. P (fst v)"])
    fix a g
    assume "a \<in> set args" "with_zap zap (flag_name a) = Some g"
    then show "keeps_flag (\<lambda>v. P (fst v)) g"
      using assms(3) by (auto simp: with_zap_def on_fst_keeps on_snd_keeps split: option.splits)
  qed (simp add: assms(2))
  then show ?thesis by simp
qed

lemma operator_flag_keeps:
  assumes "operator_flag n = Some f"
  shows "n \<noteq> ''enable-http2'' \<Longrightarrow> keeps_flag (\<lambda>fl. \<not> enableHTTP2 fl) f"
    and "n \<noteq> ''metrics-secure'' \<Longrightarrow> keeps_flag secureMetrics f"
  using assms by (auto simp: operator_flag_def string_flag_def keeps_flag_def split: if_splits)

text \<open>
  C23: The servers of the operator are hardened whatever its arguments, up to the two flags that say otherwise.
  The manager is only ever created with options under which the metrics and the webhook server speak HTTP/1.1
  only unless the command line names \<^verbatim>\<open>enable-http2\<close>, the metrics are served over TLS unless it names
  \<^verbatim>\<open>metrics-secure\<close>, and metrics served over TLS are served to authenticated and authorized clients only: a manager
  that panics on any other options makes no difference to the program.
\<close>

theorem operator_hardened:
  fixes mgr :: "('w, 'c) manager"
  shows "operator_main (mgr\<lparr>mgr_NewManager := \<lambda>o'. if hardened args o' then mgr_NewManager mgr o' else fail_io (Panic m)\<rparr>)
     newWatcher zap z args = operator_main mgr newWatcher zap z args"
proof (cases "parse_flags (with_zap zap) args (operator_defaults, z)")
  case (Inr v)
  obtain fl z1 where v: "v = (fl, z1)" by fastforce
  note fl = Inr [unfolded v]
  have named: "n \<notin> flag_name ` set args \<Longrightarrow> a \<in> set args \<Longrightarrow> flag_name a \<noteq> n" for n a by blast
  have "\<not> enableHTTP2 fl" if "''enable-http2'' \<notin> flag_name ` set args"
    by (rule with_zap_keeps [OF fl, where P = "\<lambda>fl. \<not> enableHTTP2 fl"])
      (simp add: operator_defaults_def, erule operator_flag_keeps(1), rule named [OF that])
  moreover have "secureMetrics fl" if "''metrics-secure'' \<notin> flag_name ` set args"
    by (rule with_zap_keeps [OF fl, where P = secureMetrics])
      (simp add: operator_defaults_def, erule operator_flag_keeps(2), rule named [OF that])
  ultimately have "hardened args (manager_options fl a b)" for a b :: "'c option"
    by (simp add: hardened_def manager_options_def tlsOpts_http1)
  moreover have "add_watcher (mgr\<lparr>mgr_NewManager := f\<rparr>) x = add_watcher mgr x" for f x
    by (simp add: add_watcher_def split: option.split)
  ultimately show ?thesis by (simp add: operator_main_def with_flags_def fl run_manager_def)
qed (simp add: operator_main_def with_flags_def)

subsection \<open>The polling controller\<close>

text \<open>
  The outside of \<^verbatim>\<open>dbcp-controller\<close>: \<open>'k\<close> is the type of cluster configurations, \<open>'a\<close> and \<open>'b\<close> those of the two
  clients, from which the controller's view of the cluster is made.
\<close>

record ('w, 'k, 'a, 'b) kube_tools =
  BuildConfigFromFlags :: "string \<Rightarrow> ('w, 'k) io"
  InClusterConfig :: "('w, 'k) io"
  UserHomeDir :: "string result"
  os_Stat :: "string \<Rightarrow> ('w, unit) io"
  kubernetes_NewForConfig :: "'k \<Rightarrow> ('w, 'a) io"
  dynamic_NewForConfig :: "'k \<Rightarrow> ('w, 'b) io"
  clients :: "'a \<Rightarrow> 'b \<Rightarrow> 'w kube"

definition buildKubeConfig :: "('w, 'k, 'a, 'b) kube_tools \<Rightarrow> string \<Rightarrow> ('w, 'k) io" where
  "buildKubeConfig t kubeconfig =
     (if kubeconfig \<noteq> [] then BuildConfigFromFlags t kubeconfig
      else bind_io (try_io (InClusterConfig t)) (\<lambda>res.
        case res of
          Inr c \<Rightarrow> return_io c
        | Inl _ \<Rightarrow>
            (case UserHomeDir t of
               Inr home \<Rightarrow>
                 let defaultPath = Join [home, ''.kube'', ''config''] in
                 bind_io (try_io (os_Stat t defaultPath)) (\<lambda>st.
                   case st of
                     Inr _ \<Rightarrow> BuildConfigFromFlags t defaultPath
                   | Inl _ \<Rightarrow> InClusterConfig t)
             | Inl _ \<Rightarrow> InClusterConfig t)))"

record controller_flags =
  cf_kubeconfig :: string
  cf_namespace :: string
  cf_resync :: int

definition controller_flag :: "string \<Rightarrow> controller_flags flag option" where
  "controller_flag = map_of [
     (''kubeconfig'', string_flag (\<lambda>x v. v\<lparr>cf_kubeconfig := x\<rparr>)),
     (''namespace'', string_flag (\<lambda>x v. v\<lparr>cf_namespace := x\<rparr>)),
     (''resync'', ValueFlag (\<lambda>x v. bindE (ParseDuration x) (\<lambda>d. Inr (v\<lparr>cf_resync := d\<rparr>))))]"

text \<open>\<^verbatim>\<open>time.NewTicker\<close> panics on an interval that is not positive.\<close>

definition NewTicker :: "int \<Rightarrow> unit result" where
  "NewTicker d = (if d \<le> 0 then Inl (Panic ''non-positive interval for NewTicker'') else Inr ())"

definition controller_main ::
    "('w, 'k, 'a, 'b) kube_tools \<Rightarrow> environ \<Rightarrow> string list \<Rightarrow> bool list \<Rightarrow> ('w, 'w Controller outcome) io" where
  "controller_main t getenv args events =
     with_flags controller_flag args
       \<lparr>cf_kubeconfig = [], cf_namespace = getenv ''WATCH_NAMESPACE'', cf_resync = 5 * Second\<rparr> (\<lambda>fl.
     or_exit 1 (buildKubeConfig t (cf_kubeconfig fl)) (\<lambda>c.
     or_exit 1 (kubernetes_NewForConfig t c) (\<lambda>kc.
     or_exit 1 (dynamic_NewForConfig t c) (\<lambda>dc.
     let ctrl = Controllers.New (clients t kc dc) (cf_namespace fl) (cf_resync fl) in
     bind_io (lift_io (NewTicker (ctl_resync ctrl))) (\<lambda>_.
     bind_io (Run ctrl events) (\<lambda>ret.
       case ret of
         None \<Rightarrow> return_io (Serving ctrl)
       | Some err \<Rightarrow> return_io (Exited (if errors_Is err ContextCanceled then 0 else 1))))))))"

text \<open>
  C30: The polling controller, once its clients are made, cannot be stopped by an error: for every interval given
  on the command line, also zero or a negative one, the ticker starts, the controller makes one pass at once and one per
  tick whatever the passes return, and on the signal the program exits with code 0. Before that, it takes the
  cluster configuration of the given file alone if there is one, and otherwise the in-cluster one before that of
  the home directory.
\<close>

theorem controller_runs:
  assumes "parse_flags controller_flag args \<lparr>cf_kubeconfig = [], cf_namespace = getenv ''WATCH_NAMESPACE'', cf_resync = 5 * Second\<rparr> = Inr fl"
    and "cf_kubeconfig fl \<noteq> [] \<and> BuildConfigFromFlags t (cf_kubeconfig fl) w = (Inr c, w1) \<or>
      cf_kubeconfig fl = [] \<and> InClusterConfig t w = (Inr c, w1)"
    and "kubernetes_NewForConfig t c w1 = (Inr kc, w2)" and "dynamic_NewForConfig t c w2 = (Inr dc, w3)"
    and "\<forall>v. \<not> is_panic (fst (reconcileAll (Controllers.New (clients t kc dc) (cf_namespace fl) (cf_resync fl)) v))"
  shows "controller_main t getenv args (replicate n False @ [True]) w =
    (Inr (Exited 0), ((\<lambda>v. snd (reconcileAll (Controllers.New (clients t kc dc) (cf_namespace fl) (cf_resync fl)) v)) ^^ Suc n) w3)"
proof -
  let ?c = "Controllers.New (clients t kc dc) (cf_namespace fl) (cf_resync fl)"
  have pos: "0 < ctl_resync ?c" by (simp add: Controllers.New_def defaultSync_def)
  have "buildKubeConfig t (cf_kubeconfig fl) w = (Inr c, w1)"
    using assms(2) by (auto simp: buildKubeConfig_def bind_io_try)
  moreover have "NewTicker (ctl_resync ?c) = Inr ()"
    using pos by (simp add: NewTicker_def)
  moreover have "Run ?c (replicate n False @ [True]) w3 =
      (Inr (Some (Sentinel ContextCanceled)), ((\<lambda>v. snd (reconcileAll ?c v)) ^^ Suc n) w3)"
    by (rule Run_stops [OF assms(5)])
  ultimately show ?thesis using assms(1,3,4)
    by (simp add: controller_main_def with_flags_def or_exit_Inr Let_def bind_io_Inr del: funpow.simps)
qed

theorem controller_runs_witness:
  "controller_main \<lparr>BuildConfigFromFlags = (\<lambda>_. fail_io (Errorf ''no file'')), InClusterConfig = return_io (), UserHomeDir = Inr ''/root'',
       os_Stat = (\<lambda>_. return_io ()), kubernetes_NewForConfig = return_io, dynamic_NewForConfig = return_io,
       clients = (\<lambda>(_ :: unit) (_ :: unit). ref_kube bad_cr)\<rparr>
     (\<lambda>_. ''prod'') [''-resync=0''] [False, False, True] (cluster_sample None) = (Inr (Exited 0), cluster_sample None)"
proof -
  let ?t = "\<lparr>BuildConfigFromFlags = (\<lambda>_. fail_io (Errorf ''no file'')), InClusterConfig = return_io (), UserHomeDir = Inr ''/root'',
       os_Stat = (\<lambda>_. return_io ()), kubernetes_NewForConfig = return_io, dynamic_NewForConfig = return_io,
       clients = (\<lambda>(_ :: unit) (_ :: unit). ref_kube bad_cr)\<rparr>"
  let ?fl = "\<lparr>cf_kubeconfig = [], cf_namespace = ''prod'', cf_resync = 0\<rparr>"
  have d: "ParseDuration ''0'' = Inr 0" by (simp add: ParseDuration_def)
  have fl: "parse_flags controller_flag [''-resync=0'']
      \<lparr>cf_kubeconfig = [], cf_namespace = (\<lambda>_. ''prod'') ''WATCH_NAMESPACE'', cf_resync = 5 * Second\<rparr> = Inr ?fl"
    by (simp add: parseOne_def flag_text_def controller_flag_def string_flag_def set_value_def d)
  show ?thesis
    using controller_runs [OF fl, of ?t "cluster_sample None" "()" "cluster_sample None" "()" "cluster_sample None" "()" "cluster_sample None" 2] bad_cr_pass
    by (simp add: numeral_2_eq_2)
qed

end
