(* ===== verification/Isolation.thy ===== *)
theory Isolation
  imports System TcpLive
begin

text \<open>
  What a request can change in the table of users: at most the row of the user its token names, and of
  that row neither the name nor the password. The locale states it for every service whose parts keep to
  their interfaces; the deployment of \<open>System\<close> is an instance, and the invariant carries over to every run of
  the concurrent server.
\<close>

subsection \<open>Changes to the table\<close>

text \<open>The part of a row no request may change.\<close>

definition account :: "user_row \<Rightarrow> string \<times> bytes \<times> bytes \<times> int" where
  "account r = (ur_username r, ur_salt r, ur_hash r, ur_iter r)"

definition accounts :: "users \<Rightarrow> nat \<Rightarrow> (string \<times> bytes \<times> bytes \<times> int) option" where
  "accounts us u = map_option account (us u)"

text \<open>A change that stays within the rows of \<open>A\<close>, from a good world to a good one.\<close>

definition within :: "('w \<Rightarrow> users) \<Rightarrow> ('w \<Rightarrow> bool) \<Rightarrow> nat set \<Rightarrow> 'w \<Rightarrow> 'w \<Rightarrow> bool" where
  "within users good A w w' \<longleftrightarrow>
     (good w \<longrightarrow> good w' \<and> accounts (users w') = accounts (users w) \<and> (\<forall>u. u \<notin> A \<longrightarrow> users w' u = users w u))"

lemma within_refl [simp]: "reflp (within users good A)"
  by (simp add: reflp_def within_def)

lemma within_trans [simp]: "transp (within users good A)"
  by (auto simp: transp_def within_def)

lemma within_mono: "within users good A w w' \<Longrightarrow> A \<subseteq> B \<Longrightarrow> within users good B w w'"
  by (auto simp: within_def)

lemma keeps_within_mono: "keeps (within users good A) m \<Longrightarrow> A \<subseteq> B \<Longrightarrow> keeps (within users good B) m"
  by (auto simp: keeps_def intro: within_mono)

text \<open>The operations that write.\<close>

definition writing :: "string set" where
  "writing = {OpUpdateNickname, OpUploadProfilePicture}"

named_theorems within_rules \<open>calls that stay within rows of the table\<close>

lemma within_bind [within_rules]:
  "keeps (within users good A) m \<Longrightarrow> (\<And>x. keeps (within users good A) (f x)) \<Longrightarrow> keeps (within users good A) (bind_io m f)"
  by (rule keeps_bind) simp_all

lemma within_run [within_rules]:
  "keeps (within users good A) (return_io x)" "keeps (within users good A) (fail_io e)" "keeps (within users good A) (lift_io r)"
  by simp_all

lemma within_try [within_rules]: "keeps (within users good A) m \<Longrightarrow> keeps (within users good A) (try_io m)"
  by (rule keeps_try)

lemma within_cases [within_rules]:
  "keeps R t \<Longrightarrow> keeps R u \<Longrightarrow> keeps R (if b then t else u)"
  "(x = None \<Longrightarrow> keeps R m) \<Longrightarrow> (\<And>y. x = Some y \<Longrightarrow> keeps R (f y)) \<Longrightarrow> keeps R (case x of None \<Rightarrow> m | Some y \<Rightarrow> f y)"
  "(\<And>a b. keeps R (g a b)) \<Longrightarrow> keeps R (case p of (a, b) \<Rightarrow> g a b)"
  "(\<And>e. keeps R (h e)) \<Longrightarrow> (\<And>v. keeps R (k v)) \<Longrightarrow> keeps R (case r of Inl e \<Rightarrow> h e | Inr v \<Rightarrow> k v)"
  by (cases x; cases p; cases r; simp)+

subsection \<open>Every handler\<close>

locale isolated =
  fixes s :: "'w Service" and users :: "'w \<Rightarrow> users" and good :: "'w \<Rightarrow> bool"
  assumes env_within: "keeps (within users good {}) (env_Now (sv_env s))" "keeps (within users good {}) (env_Rand (sv_env s) n)"
      "keeps (within users good {}) (env_MkdirAll (sv_env s) p)" "keeps (within users good {}) (env_WriteFile (sv_env s) p d)"
      "keeps (within users good {}) (env_Remove (sv_env s) p)" "keeps (within users good {}) (env_ReadFile (sv_env s) p)"
    and read_within: "keeps (within users good {}) (us_GetUserAuthByUsername (store s) name)"
      "keeps (within users good {}) (us_GetUserProfileByID (store s) u)"
    and write_within: "keeps (within users good {u}) (us_UpdateNickname (store s) u nick)"
      "keeps (within users good {u}) (us_UpdateProfilePicture (store s) u path mime sz)"
    and session_within: "sessions s = Some ss \<Longrightarrow> keeps (within users good {}) (ss_SaveSession ss tok u life)"
      "sessions s = Some ss \<Longrightarrow> keeps (within users good {}) (ss_GetSession ss tok)"
      "sessions s = Some ss \<Longrightarrow> keeps (within users good {}) (ss_DeleteSession ss tok)"
    and cache_within: "pictureCache s = Some pc \<Longrightarrow> keeps (within users good {}) (pc_SaveProfilePicture pc u v mime d)"
      "pictureCache s = Some pc \<Longrightarrow> keeps (within users good {}) (pc_GetProfilePicture pc u v)"
      "pictureCache s = Some pc \<Longrightarrow> keeps (within users good {}) (pc_DeleteProfilePicture pc u v)"
begin

lemma parts_any [within_rules]:
  "keeps (within users good A) (env_Now (sv_env s))" "keeps (within users good A) (env_Rand (sv_env s) n)"
  "keeps (within users good A) (env_MkdirAll (sv_env s) p)" "keeps (within users good A) (env_WriteFile (sv_env s) p d)"
  "keeps (within users good A) (env_Remove (sv_env s) p)" "keeps (within users good A) (env_ReadFile (sv_env s) p)"
  "keeps (within users good A) (us_GetUserAuthByUsername (store s) p)"
  "keeps (within users good A) (us_GetUserProfileByID (store s) u)"
  "sessions s = Some ss \<Longrightarrow> keeps (within users good A) (ss_SaveSession ss p u life)"
  "sessions s = Some ss \<Longrightarrow> keeps (within users good A) (ss_GetSession ss p)"
  "sessions s = Some ss \<Longrightarrow> keeps (within users good A) (ss_DeleteSession ss p)"
  "pictureCache s = Some pc \<Longrightarrow> keeps (within users good A) (pc_SaveProfilePicture pc u v p d)"
  "pictureCache s = Some pc \<Longrightarrow> keeps (within users good A) (pc_GetProfilePicture pc u v)"
  "pictureCache s = Some pc \<Longrightarrow> keeps (within users good A) (pc_DeleteProfilePicture pc u v)"
  by (rule keeps_within_mono [where A = "{}"], rule env_within read_within session_within cache_within, assumption?, simp)+

declare write_within [within_rules]

lemma within_helpers [within_rules]:
  "keeps (within users good A) m \<Longrightarrow> keeps (within users good A) (translated m)"
  "keeps (within users good A) m \<Longrightarrow> keeps (within users good A) (marshal enc m)"
  unfolding translated_def marshal_def by (intro within_rules; assumption)+

lemma within_auth [within_rules]:
  "keeps (within users good A) (requireUser s tok)" "keeps (within users good A) (Logout s tok)"
  "keeps (within users good A) (find_account s name)" "keeps (within users good A) (issue_token s u now)"
  "keeps (within users good A) (save_session s tok u exp)"
  unfolding requireUser_def Logout_def find_account_def issue_token_def save_session_def
  by (intro within_rules; assumption)+

lemma within_Login [within_rules]: "keeps (within users good A) (Login s b)"
  unfolding Login_def Let_def by (intro within_rules)

lemma within_pictures [within_rules]:
  "keeps (within users good A) (refresh_cache s u old p mt d)" "keeps (within users good A) (cached_picture s u v)"
  "keeps (within users good A) (read_picture s q)" "keeps (within users good A) (fill_cache s u v mt d)"
  unfolding refresh_cache_def cached_picture_def read_picture_def fill_cache_def
  by (intro within_rules; assumption)+

lemma within_reads [within_rules]:
  "keeps (within users good A) (GetProfile s u)" "keeps (within users good A) (Service_GetProfilePicture s u)"
  unfolding GetProfile_def Service_GetProfilePicture_def Let_def by (intro within_rules)+

lemma within_writes [within_rules]:
  "keeps (within users good {u}) (Service_UpdateNickname s u n)" "keeps (within users good {u}) (UploadProfilePicture s u b)"
  unfolding Service_UpdateNickname_def UploadProfilePicture_def Let_def by (intro within_rules)+

text \<open>The two operations that write go through the check of the token first.\<close>

lemma bind_user:
  assumes "\<And>u. keeps (within users good {u}) (f u)" "good w" "bind_io (requireUser s tok) f w = (res, w')"
  shows "within users good {u. \<exists>v. requireUser s tok w = (Inr u, v)} w w'"
proof -
  obtain r w1 where r: "requireUser s tok w = (r, w1)" by fastforce
  have a: "within users good A w w1" for A using within_auth(1) [of A tok] r by (metis keeps_def snd_conv)
  show ?thesis
  proof (cases r)
    case (Inl e)
    then show ?thesis using assms(3) r a by (simp add: bind_io_Inl)
  next
    case (Inr u)
    then have "f u w1 = (res, w')" using assms(3) r by (simp add: bind_io_Inr)
    then have "within users good {u} w1 w'" using assms(1) [of u] by (metis keeps_def snd_conv)
    then have "within users good {u} w w'" using a within_trans by (metis transpD)
    then show ?thesis using r Inr by (auto elim: within_mono)
  qed
qed

lemma Handle_reads: "rq_Op req \<notin> writing \<Longrightarrow> keeps (within users good {}) (Handle s req)"
  unfolding Handle_def writing_def by (auto intro!: within_rules)

lemma Handle_writes:
  assumes "rq_Op req \<in> writing"
  obtains f where "Handle s req = bind_io (requireUser s (rq_Token req)) f" "\<And>u. keeps (within users good {u}) (f u)"
proof (cases "rq_Op req = OpUpdateNickname")
  case True
  then have "Handle s req = bind_io (requireUser s (rq_Token req)) (\<lambda>userID.
        bind_io (lift_io (body_error ''Invalid nickname body.''
          (decodeBody (dec_NicknameBody False) (rq_Body req) zero_NicknameBody))) (\<lambda>body.
        marshal marshal_UserProfile (Service_UpdateNickname s userID (nb_Nickname body))))"
    by (simp add: Handle_def op_defs)
  then show ?thesis by (rule that) (intro within_rules)
next
  case False
  then have "Handle s req = bind_io (requireUser s (rq_Token req)) (\<lambda>userID.
        bind_io (lift_io (body_error ''Invalid upload body.''
          (decodeBody dec_UploadBody (rq_Body req) zero_UploadBody))) (\<lambda>body.
        marshal marshal_UserProfile (UploadProfilePicture s userID body)))"
    using assms by (simp add: Handle_def op_defs writing_def)
  then show ?thesis by (rule that) (intro within_rules)
qed

lemma Handle_within:
  assumes "good w" "Handle s req w = (res, w')"
  shows "within users good {u. rq_Op req \<in> writing \<and> (\<exists>v. requireUser s (rq_Token req) w = (Inr u, v))} w w'"
proof (cases "rq_Op req \<in> writing")
  case False
  then show ?thesis using Handle_reads [of req] assms(2) by (metis (mono_tags, lifting) empty_subsetI keeps_def snd_conv within_mono)
next
  case True
  from Handle_writes [OF True]
  obtain f where f: "Handle s req = bind_io (requireUser s (rq_Token req)) f" "\<And>u. keeps (within users good {u}) (f u)"
    by metis
  from bind_user [OF f(2) assms(1)] assms(2) f(1) True show ?thesis by simp
qed

end

subsection \<open>The deployment keeps to the interfaces\<close>

lemma command_keeps:
  assumes "reflp R" "transp R" "\<And>a. keeps R (net_dial net a)" "\<And>b. keeps R (net_write net b)" "\<And>w. R w (snd (net_recv net w))"
  shows "keeps R (command net cfg args)"
proof -
  have a: "keeps R (write_args net xs)" for xs
  proof (induction xs)
    case (Cons x xs)
    then show ?case using assms by (simp add: keeps_bind)
  qed (use assms(1) in \<open>simp add: keeps_def reflp_def return_io_def\<close>)
  have "keeps R (await_reply net r)" for r
    unfolding keeps_def await_reply_def using assms(5) by (auto split: prod.split sum.split) (metis snd_conv)+
  then have e: "keeps R (exchange net xs r)" for xs r
    unfolding exchange_def writeCommand_def using assms a by (intro keeps_bind) auto
  have f: "keeps R (auth_step net cfg r)" "keeps R (select_step net cfg r)" for r
    unfolding auth_step_def select_step_def using assms(1,2) e by (auto intro!: keeps_bind split: prod.split)
  show ?thesis
    unfolding command_def using assms e f by (auto intro!: keeps_bind split: prod.split)
qed

abbreviation table_kept :: "nat set \<Rightarrow> 'a world_scheme \<Rightarrow> 'a world_scheme \<Rightarrow> bool" where
  "table_kept A \<equiv> within wd_users db_ok A"

lemma same_table: "wd_users w' = wd_users w \<Longrightarrow> wd_next w' = wd_next w \<Longrightarrow> table_kept A w w'"
  by (simp add: within_def db_ok_def)

lemma exec_table: "wd_users (snd (exec args v)) = wd_users v \<and> wd_next (snd (exec args v)) = wd_next v"
  for v :: "'a world_scheme"
  by (auto simp: exec_def exec_data_def put_def split: list.splits sum.splits)

lemma serve_table: "wd_users (snd (serve n w)) = wd_users w \<and> wd_next (snd (serve n w)) = wd_next w"
  for w :: "'a world_scheme"
proof (induction n arbitrary: w)
  case (Suc n)
  show ?case
  proof (cases "parse_command (rw_in w)")
    case (Some p)
    obtain args rest where p: "p = (args, rest)" by fastforce
    obtain rep w1 where e: "exec args (w\<lparr>rw_in := rest\<rparr>) = (rep, w1)" by fastforce
    have "wd_users w1 = wd_users w \<and> wd_next w1 = wd_next w" using exec_table [of args "w\<lparr>rw_in := rest\<rparr>"] e by simp
    with Suc.IH [of w1] Some p e show ?thesis by (cases "serve n w1") simp
  qed simp
qed simp

lemma redis_command_kept: "keeps (table_kept A) (command redis_net cfg args)"
proof (rule command_keeps)
  show "table_kept A w (snd (net_recv redis_net w))" for w :: "'a world_scheme"
    using serve_table [of "length (rw_in w)" w]
    by (cases "serve (length (rw_in w)) w") (auto simp: redis_net_def intro: same_table)
qed (auto simp: redis_net_def keeps_def intro: same_table)

lemma reply_kept [within_rules]:
  "(\<And>e. keeps R (h e)) \<Longrightarrow> (\<And>v. keeps R (k v)) \<Longrightarrow> (\<And>n. keeps R (j n)) \<Longrightarrow>
    keeps R (case r of Inl e \<Rightarrow> h e | Inr (RString v) \<Rightarrow> k v | Inr (RInt n) \<Rightarrow> j n)"
  by (auto split: sum.split reply.split)

lemma redis_ops_kept:
  "keeps (table_kept A) (SaveSession redis_net cfg tok u life)" "keeps (table_kept A) (GetSession redis_net cfg tok)"
  "keeps (table_kept A) (DeleteSession redis_net cfg tok)" "keeps (table_kept A) (SaveProfilePicture redis_net cfg u v mime d)"
  "keeps (table_kept A) (GetProfilePicture redis_net cfg u v)" "keeps (table_kept A) (DeleteProfilePicture redis_net cfg u v)"
  unfolding SaveSession_def GetSession_def DeleteSession_def SaveProfilePicture_def GetProfilePicture_def
    DeleteProfilePicture_def Let_def
  by (intro within_rules redis_command_kept)+

text \<open>An update of a row within the limits of the columns keeps the account of the row.\<close>

lemma update_row_kept:
  assumes "\<And>r. row_ok u r \<Longrightarrow> wd_users w u = Some r \<Longrightarrow> row_ok u (f r) \<and> account (f r) = account r"
  shows "table_kept {u} w (snd (update_row u f w))"
proof (cases "wd_users w u")
  case (Some r)
  show ?thesis unfolding within_def
  proof (intro impI)
    assume db: "db_ok w"
    then have ok: "row_ok u (f r)" "account (f r) = account r" using assms [of r] Some by (auto simp: db_ok_def users_ok_def)
    then have "db_ok (w\<lparr>wd_users := (wd_users w)(u \<mapsto> f r)\<rparr>)"
      using db Some by (intro db_ok_upd [of w u r]) (auto simp: account_def)
    then show "db_ok (snd (update_row u f w)) \<and> accounts (wd_users (snd (update_row u f w))) = accounts (wd_users w) \<and>
        (\<forall>v. v \<notin> {u} \<longrightarrow> wd_users (snd (update_row u f w)) v = wd_users w v)"
      using Some ok(2) by (auto simp: update_row_def accounts_def)
  qed
qed (simp add: update_row_def same_table)

lemma ref_exec_kept:
  "keeps (table_kept {u}) (ref_exec q_nickname [SqlBytes n, SqlInt (int u)])"
  "keeps (table_kept {u}) (ref_exec q_picture [SqlBytes p, SqlBytes m, SqlInt (int sz), SqlInt (int u)])"
  by (auto simp: keeps_def ref_exec_def same_table row_ok_def account_def intro!: update_row_kept split: option.splits)

lemma ref_query_kept: "keeps (table_kept A) (ref_query q args)"
  by (auto simp: keeps_def ref_query_def intro: same_table)

lemma ref_db_fields [simp]: "QueryRow ref_db = ref_query" "Exec ref_db = ref_exec"
  by (simp_all add: ref_db_def)

lemma store_kept:
  "keeps (table_kept A) (GetUserAuthByUsername ref_db name)" "keeps (table_kept A) (GetUserProfileByID ref_db u)"
  "keeps (table_kept {u}) (UpdateNickname ref_db u nick)" "keeps (table_kept {u}) (UpdateProfilePicture ref_db u p m sz)"
  unfolding GetUserAuthByUsername_def GetUserProfileByID_def UpdateNickname_def UpdateProfilePicture_def query_one_def ref_db_fields
  by (intro within_rules ref_query_kept ref_exec_kept)+

lemma ref_env_kept:
  "keeps (table_kept A) (env_Now (ref_env ext))" "keeps (table_kept A) (env_Rand (ref_env ext) n)"
  "keeps (table_kept A) (env_MkdirAll (ref_env ext) p)" "keeps (table_kept A) (env_WriteFile (ref_env ext) p d)"
  "keeps (table_kept A) (env_Remove (ref_env ext) p)" "keeps (table_kept A) (env_ReadFile (ref_env ext) p)"
  by (auto simp: keeps_def ref_env_def time_Now_def rand_Read_def return_io_def intro: same_table)

text \<open>
  The service on the reference servers, with Redis for the sessions and the pictures or without.
\<close>

definition on_servers :: "(string \<Rightarrow> string list result) \<Rightarrow> RedisConfig \<Rightarrow> 'a world_scheme Service \<Rightarrow> bool" where
  "on_servers ext rcfg s \<longleftrightarrow> sv_env s = ref_env ext \<and> store s = mysql_store ref_db \<and>
     sessions s \<in> {None, Some (redis_sessions redis_net rcfg)} \<and> pictureCache s \<in> {None, Some (redis_pictures redis_net rcfg)}"

lemma ref_on_servers: "ref_service ext rcfg s \<Longrightarrow> on_servers ext rcfg s"
  by (simp add: ref_service_def on_servers_def)

interpretation ref_rows: isolated
    "s\<lparr>sv_env := ref_env ext, store := mysql_store ref_db,
       sessions := if b then Some (redis_sessions redis_net rcfg) else None,
       pictureCache := if c then Some (redis_pictures redis_net rcfg) else None\<rparr>"
    wd_users db_ok for s :: "'a world_scheme Service" and ext rcfg b c
  by unfold_locales
    (auto simp: mysql_store_def redis_sessions_def redis_pictures_def split: if_splits intro: ref_env_kept store_kept redis_ops_kept)

lemma on_servers_parts:
  assumes "on_servers ext rcfg s"
  shows "s\<lparr>sv_env := ref_env ext, store := mysql_store ref_db,
       sessions := if sessions s \<noteq> None then Some (redis_sessions redis_net rcfg) else None,
       pictureCache := if pictureCache s \<noteq> None then Some (redis_pictures redis_net rcfg) else None\<rparr> = s"
  using assms by (cases s) (auto simp: on_servers_def)

lemma Handle_kept:
  assumes "on_servers ext rcfg s" "db_ok w" "Handle s req w = (res, w')"
  shows "table_kept {u. rq_Op req \<in> writing \<and> (\<exists>v. requireUser s (rq_Token req) w = (Inr u, v))} w w'"
  using ref_rows.Handle_within [where s = s and ext = ext and rcfg = rcfg and b = "sessions s \<noteq> None" and c = "pictureCache s \<noteq> None"]
    assms unfolding on_servers_parts [OF assms(1)] by blast

subsection \<open>What a request can change\<close>


definition unsigned_request :: Request where
  "unsigned_request = \<lparr>rq_Version = 1, rq_RequestID = ''7'', rq_Op = OpUpdateNickname, rq_Token = [], rq_Body = ''{}''\<rparr>"

lemma no_token: "requireUser s [] w = (Inl (Sentinel ErrUnauthorized), w)"
proof -
  have "TrimSpace [] = []" by code_simp
  then show ?thesis by (simp add: requireUser_def)
qed

lemma unsigned_refused: "Handle s unsigned_request w = (Inl (Sentinel ErrUnauthorized), w)"
  using no_token [of s w] by (simp add: Handle_def unsigned_request_def op_defs bind_io_Inl)


text \<open>The same of a run of the server, in which each handler is one step on the shared world.\<close>

lemma step_kept:
  assumes "on_servers ext rcfg s" "step cfg s st st'"
  shows "table_kept UNIV (ts_world st) (ts_world st')"
  using assms(2)
proof (cases rule: step.cases)
  case (handle k job res w')
  then show ?thesis using Handle_kept [OF assms(1) _ handle(5)] by (auto simp: within_def set_worker_def)
next
  case (handler_panics k job p w')
  then show ?thesis using Handle_kept [OF assms(1) _ handler_panics(5)] by (auto simp: within_def)
qed (simp_all add: within_def set_conn_def set_worker_def)

lemma table_invariant:
  assumes "on_servers ext rcfg s" "db_ok (ts_world st)" "(step cfg s)\<^sup>*\<^sup>* st st'"
  shows "db_ok (ts_world st') \<and> accounts (wd_users (ts_world st')) = accounts (wd_users (ts_world st))"
  using assms(3)
proof (induction rule: rtranclp_induct)
  case (step y z)
  then show ?case using step_kept [OF assms(1) step(2)] by (simp add: within_def)
qed (simp add: assms(2))

end
