(* ===== verification/Seed.thy ===== *)
theory Seed
  imports MysqlStore Config Password "HOL-Library.Multiset"
begin

text \<open>
  \<^verbatim>\<open>cmd/seed/main.go\<close>: users are generated and inserted in batches by several workers. A batch is
  worked on as a whole; \<open>order\<close> is the order in which the workers get to them. \<open>rand\<close> is
  \<^verbatim>\<open>crypto/rand\<close>.
\<close>

subsection \<open>One batch\<close>

definition zero_pad :: "nat \<Rightarrow> string \<Rightarrow> string" where
  "zero_pad n s = replicate (n - length s) CHR ''0'' @ s"

text \<open>\<^verbatim>\<open>fmt.Sprintf("%08d", id)\<close>\<close>

definition Sprintf_08d :: "int \<Rightarrow> string" where
  "Sprintf_08d i = (if i < 0 then CHR ''-'' # zero_pad 7 (FormatUint (nat (- i))) else zero_pad 8 (FormatUint (nat i)))"

definition seed_user :: "int \<Rightarrow> bytes \<Rightarrow> bytes \<Rightarrow> int \<Rightarrow> SeedUser" where
  "seed_user i salt hash iterations =
     \<lparr>su_Username = ''user'' @ Sprintf_08d i, su_Nickname = ''User '' @ Sprintf_08d i, su_PasswordSalt = salt,
      su_PasswordHash = hash, su_PasswordIter = iterations\<rparr>"

definition hash_password :: "(nat \<Rightarrow> ('w, bytes) io) \<Rightarrow> bytes \<Rightarrow> int \<Rightarrow> ('w, bytes \<times> bytes) io" where
  "hash_password rand password iterations =
     (if iterations \<le> 0 then lift_io (HashPassword (\<lambda>_. Inr []) password iterations)
      else bind_io (rand saltBytes) (\<lambda>salt. lift_io (HashPassword (\<lambda>_. Inr salt) password iterations)))"

fun makeUsers :: "(nat \<Rightarrow> ('w, bytes) io) \<Rightarrow> int \<Rightarrow> nat \<Rightarrow> int \<Rightarrow> bytes \<Rightarrow> ('w, SeedUser list) io" where
  "makeUsers rand i 0 iterations password = return_io []"
| "makeUsers rand i (Suc n) iterations password =
     bind_io (hash_password rand password iterations) (\<lambda>(salt, hash).
     bind_io (makeUsers rand (i + 1) n iterations password) (\<lambda>users.
     return_io (seed_user i salt hash iterations # users)))"

definition batch_size :: "Config \<Rightarrow> int" where
  "batch_size cfg = (if BatchSize (Seed cfg) \<le> 0 then 1000 else BatchSize (Seed cfg))"

definition size_from :: "Config \<Rightarrow> int \<Rightarrow> int \<Rightarrow> int" where
  "size_from cfg cnt startID = min (batch_size cfg) (cnt - startID + 1)"

text \<open>What a worker adds to \<^verbatim>\<open>done\<close> for a batch: an error is logged and the batch not counted.\<close>

definition seed_job :: "'w sqldb \<Rightarrow> (nat \<Rightarrow> ('w, bytes) io) \<Rightarrow> Config \<Rightarrow> int \<Rightarrow> int \<Rightarrow> ('w, int) io" where
  "seed_job db rand cfg cnt startID =
     bind_io (try_io (makeUsers rand startID (nat (size_from cfg cnt startID)) (PasswordIterations (Security cfg))
        (DefaultPassword (Seed cfg)))) (\<lambda>res.
     case res of
       Inl _ \<Rightarrow> return_io 0
     | Inr users \<Rightarrow>
         bind_io (try_io (InsertSeedUsers db users)) (\<lambda>res.
           return_io (case res of Inl _ \<Rightarrow> 0 | Inr _ \<Rightarrow> size_from cfg cnt startID)))"

subsection \<open>All batches\<close>

text \<open>\<^verbatim>\<open>for startID := 1; startID <= count; startID += batchSize\<close>; the sum may wrap around.\<close>

partial_function (option) seed_starts :: "int \<Rightarrow> int \<Rightarrow> int \<Rightarrow> int list option" where
  "seed_starts cnt batch s =
     (if s \<le> cnt
      then Option.bind (seed_starts cnt batch (int64_wrap (s + batch))) (\<lambda>rest. Some (s # rest))
      else Some [])"

fun seed_jobs :: "'w sqldb \<Rightarrow> (nat \<Rightarrow> ('w, bytes) io) \<Rightarrow> Config \<Rightarrow> int \<Rightarrow> int list \<Rightarrow> ('w, int) io" where
  "seed_jobs db rand cfg cnt [] = return_io 0"
| "seed_jobs db rand cfg cnt (s # ss) =
     bind_io (seed_job db rand cfg cnt s) (\<lambda>n.
     bind_io (seed_jobs db rand cfg cnt ss) (\<lambda>m. return_io (n + m)))"

text \<open>\<^const>\<open>None\<close> for a loop over the batches that does not end.\<close>

definition seed ::
    "'w sqldb \<Rightarrow> (nat \<Rightarrow> ('w, bytes) io) \<Rightarrow> (int list \<Rightarrow> int list) \<Rightarrow> Config \<Rightarrow> int \<Rightarrow> ('w, unit) io option" where
  "seed db rand order cfg cnt =
     (if cnt \<le> 0 then Some (return_io ())
      else map_option (\<lambda>starts.
        bind_io (seed_jobs db rand cfg cnt (order starts)) (\<lambda>tot.
          if tot < cnt then fail_io (Errorf (''seed inserted '' @ Itoa tot @ '' of '' @ Itoa cnt @ '' users''))
          else return_io ())) (seed_starts cnt (batch_size cfg) 1))"

text \<open>The number of users the program is asked for.\<close>

definition seed_count :: "Config \<Rightarrow> int \<Rightarrow> int" where
  "seed_count cfg countFlag = (if countFlag > 0 then countFlag else seed_Count (Seed cfg))"

subsection \<open>The batches cover all users\<close>

lemma batch_size_pos: "0 < batch_size cfg"
  by (simp add: batch_size_def)

definition batch_ids :: "Config \<Rightarrow> int \<Rightarrow> int \<Rightarrow> int list" where
  "batch_ids cfg cnt s = [s .. s + size_from cfg cnt s - 1]"

lemma upto_split: "a \<le> b + 1 \<Longrightarrow> b \<le> c \<Longrightarrow> [a .. b] @ [b + 1 .. c] = [a .. c]" for a b c :: int
proof (induction "nat (b + 1 - a)" arbitrary: a)
  case 0
  then have "a = b + 1" by simp
  then show ?case by simp
next
  case (Suc n)
  then have "a \<le> b" "n = nat (b + 1 - (a + 1))" by linarith+
  with Suc.hyps(1) [of "a + 1"] Suc.prems show ?case by (simp add: upto_rec1 [of a b] upto_rec1 [of a c])
qed

lemma seed_starts_Some:
  assumes "1 \<le> s" "cnt + batch_size cfg < 2 ^ 63"
  shows "\<exists>starts. seed_starts cnt (batch_size cfg) s = Some starts \<and>
    concat (map (batch_ids cfg cnt) starts) = [s .. cnt] \<and> (\<forall>x \<in> set starts. s \<le> x \<and> x \<le> cnt)"
  using assms
proof (induction "nat (cnt + 1 - s)" arbitrary: s rule: less_induct)
  case less
  show ?case
  proof (cases "s \<le> cnt")
    case False
    then show ?thesis by (subst seed_starts.simps) simp
  next
    case True
    let ?t = "s + batch_size cfg"
    have w: "int64_wrap ?t = ?t" using True less.prems batch_size_pos [of cfg] by simp
    have "nat (cnt + 1 - ?t) < nat (cnt + 1 - s)" using True batch_size_pos [of cfg] by linarith
    from less.hyps [OF this] less.prems batch_size_pos [of cfg] obtain rest where
      rest: "seed_starts cnt (batch_size cfg) ?t = Some rest" "concat (map (batch_ids cfg cnt) rest) = [?t .. cnt]"
        "\<forall>x \<in> set rest. ?t \<le> x \<and> x \<le> cnt"
      by (meson add_increasing2 less_imp_le order_trans)
    have "batch_ids cfg cnt s @ [?t .. cnt] = [s .. cnt]"
    proof (cases "?t \<le> cnt")
      case True
      then have "size_from cfg cnt s = batch_size cfg" by (simp add: size_from_def)
      then show ?thesis using upto_split [of s "?t - 1" cnt] True batch_size_pos [of cfg] by (simp add: batch_ids_def)
    next
      case False
      then have "size_from cfg cnt s = cnt - s + 1" by (simp add: size_from_def)
      then show ?thesis using False by (simp add: batch_ids_def)
    qed
    then show ?thesis using True rest w batch_size_pos [of cfg]
      by (subst seed_starts.simps) (auto intro: order_trans [of _ ?t])
  qed
qed


subsection \<open>What a batch inserts\<close>

definition user_name :: "int \<Rightarrow> string" where
  "user_name i = ''user'' @ Sprintf_08d i"

definition salted :: "(nat \<Rightarrow> ('w, bytes) io) \<Rightarrow> bool" where
  "salted rand \<longleftrightarrow> (\<forall>v b v'. rand saltBytes v = (Inr b, v') \<longrightarrow> length b = saltBytes)"

lemma hash_password_verifies:
  assumes "hash_password rand pw it v = (Inr (salt, hash), v')" "salted rand"
  shows "VerifyPassword pw salt hash it = Inr True"
proof -
  have "0 < it" using assms(1) by (auto simp: hash_password_def HashPassword_def split: if_splits)
  then obtain v1 where v1: "rand saltBytes v = (Inr salt, v1)" and h: "pbkdf2_Key pw salt (nat it) hashBytes = Inr hash"
    using assms(1) by (auto simp: hash_password_def bind_io_Inr_iff dest!: HashPassword_Inr)
  have "length salt = saltBytes" using v1 assms(2) by (auto simp: salted_def)
  moreover have "length hash = hashBytes" using h by (rule length_pbkdf2_Key)
  ultimately show ?thesis using h \<open>0 < it\<close> by (auto simp: VerifyPassword_True saltBytes_def hashBytes_def)
qed

lemma makeUsers_Inr:
  assumes "makeUsers rand i n it pw v = (Inr users, v')" "salted rand"
  shows "map su_Username users = map user_name [i .. i + int n - 1] \<and>
    (\<forall>u \<in> set users. su_PasswordIter u = it \<and> VerifyPassword pw (su_PasswordSalt u) (su_PasswordHash u) it = Inr True)"
  using assms(1)
proof (induction n arbitrary: i v users)
  case 0
  then show ?case by simp
next
  case (Suc n)
  then obtain salt hash v1 us where h: "hash_password rand pw it v = (Inr (salt, hash), v1)"
    and us: "makeUsers rand (i + 1) n it pw v1 = (Inr us, v')" "users = seed_user i salt hash it # us"
    by (auto simp: bind_io_Inr_iff)
  have "i + 1 + int n - 1 = i + int (Suc n) - 1" by simp
  with Suc.IH [OF us(1)] hash_password_verifies [OF h assms(2)] us(2) show ?case
    by (simp add: upto_rec1 [of i] seed_user_def user_name_def)
qed

text \<open>A batch that counts has been inserted.\<close>

definition inserted :: "'w sqldb \<Rightarrow> (nat \<Rightarrow> ('w, bytes) io) \<Rightarrow> Config \<Rightarrow> int list \<Rightarrow> bool" where
  "inserted db rand cfg ids \<longleftrightarrow> (\<exists>users v v'. InsertSeedUsers db users v = (Inr (), v') \<and>
     map su_Username users = map user_name ids \<and>
     (\<forall>u \<in> set users. VerifyPassword (DefaultPassword (Seed cfg)) (su_PasswordSalt u) (su_PasswordHash u) (su_PasswordIter u) = Inr True))"

lemma seed_job_Inr:
  assumes "seed_job db rand cfg cnt s v = (Inr k, v')" "salted rand" "s \<le> cnt"
  shows "k = 0 \<or> k = size_from cfg cnt s \<and> inserted db rand cfg (batch_ids cfg cnt s)"
proof -
  let ?m = "makeUsers rand s (nat (size_from cfg cnt s)) (PasswordIterations (Security cfg)) (DefaultPassword (Seed cfg))"
  have pos: "0 < size_from cfg cnt s" using assms(3) batch_size_pos [of cfg] by (simp add: size_from_def)
  from assms(1) obtain res v1 where res: "try_io ?m v = (Inr res, v1)"
    and k: "(case res of Inl _ \<Rightarrow> return_io 0 | Inr users \<Rightarrow> bind_io (try_io (InsertSeedUsers db users)) (\<lambda>res.
           return_io (case res of Inl _ \<Rightarrow> 0 | Inr _ \<Rightarrow> size_from cfg cnt s))) v1 = (Inr k, v')"
    by (auto simp: seed_job_def bind_io_Inr_iff)
  show ?thesis
  proof (cases res)
    case (Inl e)
    then show ?thesis using k by simp
  next
    case (Inr users)
    have "?m v = (Inr users, v1)" using res Inr by (auto simp: try_io_def split: prod.splits sum.splits go_error.splits)
    from makeUsers_Inr [OF this assms(2)] pos have u: "map su_Username users = map user_name (batch_ids cfg cnt s)"
      "\<forall>u \<in> set users. VerifyPassword (DefaultPassword (Seed cfg)) (su_PasswordSalt u) (su_PasswordHash u) (su_PasswordIter u) = Inr True"
      by (auto simp: batch_ids_def)
    from k Inr obtain r v2 where r: "try_io (InsertSeedUsers db users) v1 = (Inr r, v2)"
      and kr: "k = (case r of Inl _ \<Rightarrow> 0 | Inr _ \<Rightarrow> size_from cfg cnt s)" by (auto simp: bind_io_Inr_iff)
    show ?thesis
    proof (cases r)
      case (Inl e)
      then show ?thesis using kr by simp
    next
      case r': (Inr x)
      then have "InsertSeedUsers db users v1 = (Inr (), v2)"
        using r by (auto simp: try_io_def split: prod.splits sum.splits go_error.splits)
      with u kr r' show ?thesis unfolding inserted_def by auto
    qed
  qed
qed

lemma seed_jobs_all:
  assumes "seed_jobs db rand cfg cnt ss v = (Inr tot, v')" "salted rand" "\<forall>s \<in> set ss. s \<le> cnt"
  shows "tot \<le> sum_list (map (size_from cfg cnt) ss) \<and>
    (tot = sum_list (map (size_from cfg cnt) ss) \<longrightarrow> (\<forall>s \<in> set ss. inserted db rand cfg (batch_ids cfg cnt s)))"
  using assms(1,3)
proof (induction ss arbitrary: v tot)
  case (Cons s ss)
  then obtain k m v1 where k: "seed_job db rand cfg cnt s v = (Inr k, v1)"
    and m: "seed_jobs db rand cfg cnt ss v1 = (Inr m, v')" "tot = k + m"
    by (auto simp: bind_io_Inr_iff)
  have pos: "0 < size_from cfg cnt s" using Cons.prems(2) batch_size_pos [of cfg] by (simp add: size_from_def)
  have "k = 0 \<or> k = size_from cfg cnt s \<and> inserted db rand cfg (batch_ids cfg cnt s)"
    using seed_job_Inr [OF k assms(2)] Cons.prems(2) by simp
  with Cons.IH [OF m(1)] Cons.prems(2) m(2) pos show ?case by auto
qed simp

lemma sizes_sum:
  assumes "concat (map (batch_ids cfg cnt) ss) = [1 .. cnt]" "\<forall>s \<in> set ss. s \<le> cnt" "0 \<le> cnt"
  shows "sum_list (map (size_from cfg cnt) ss) = cnt"
proof -
  have "map (size_from cfg cnt) ss = map (\<lambda>s. int (length (batch_ids cfg cnt s))) ss"
    using assms(2) batch_size_pos [of cfg] by (auto simp: batch_ids_def size_from_def)
  then have "sum_list (map (size_from cfg cnt) ss) = int (length (concat (map (batch_ids cfg cnt) ss)))"
    by (induction ss) (simp_all add: batch_ids_def)
  then show ?thesis using assms(1,3) by simp
qed

text \<open>
  C33: seeding ends, and when it reports success every user from 1 to the count has been inserted, each in
  exactly one batch and with a hash the default password verifies against, whatever the batch size and
  whichever workers get to the batches in which order.
\<close>

theorem seed_complete:
  assumes "0 < cnt" and "cnt + batch_size cfg < 2 ^ 63" and "salted rand" and "\<forall>xs. mset (order xs) = mset xs"
  shows "\<exists>m starts. seed db rand order cfg cnt = Some m \<and>
    concat (map (batch_ids cfg cnt) starts) = [1 .. cnt] \<and>
    (\<forall>w w'. m w = (Inr (), w') \<longrightarrow> (\<forall>s \<in> set starts. inserted db rand cfg (batch_ids cfg cnt s)))"
proof -
  obtain starts where st: "seed_starts cnt (batch_size cfg) 1 = Some starts"
    "concat (map (batch_ids cfg cnt) starts) = [1 .. cnt]" "\<forall>x \<in> set starts. x \<le> cnt"
    using seed_starts_Some [of 1 cnt cfg] assms(2) by auto
  have perm: "set (order starts) = set starts" "sum_list (map (size_from cfg cnt) (order starts)) = cnt"
    using assms(1,4) sizes_sum [OF st(2,3)]
    by (metis mset_eq_setD, metis less_imp_le mset_map sum_mset_sum_list)
  let ?m = "bind_io (seed_jobs db rand cfg cnt (order starts)) (\<lambda>tot.
          if tot < cnt then fail_io (Errorf (''seed inserted '' @ Itoa tot @ '' of '' @ Itoa cnt @ '' users''))
          else return_io ())"
  have "\<forall>s \<in> set starts. inserted db rand cfg (batch_ids cfg cnt s)" if ok: "?m w = (Inr (), w')" for w w'
  proof -
    from ok obtain tot w1 where t: "seed_jobs db rand cfg cnt (order starts) w = (Inr tot, w1)" "cnt \<le> tot"
      by (auto simp: bind_io_Inr_iff split: if_splits)
    with seed_jobs_all [OF t(1) assms(3)] perm st(3) show ?thesis by auto
  qed
  then show ?thesis using st assms(1) by (intro exI [of _ ?m] exI [of _ starts]) (simp add: seed_def)
qed

definition full_db :: "unit sqldb" where
  "full_db = \<lparr>QueryRow = (\<lambda>_ _. fail_io (Sentinel SqlErrNoRows)), Exec = (\<lambda>_ _. return_io (Inr 1))\<rparr>"

theorem seed_complete_witness:
  "\<exists>m starts. seed full_db (\<lambda>n. return_io (replicate n CHR ''s'')) rev Default 2500 = Some m \<and>
     concat (map (batch_ids Default 2500) starts) = [1 .. 2500]"
proof -
  have "salted (\<lambda>n. return_io (replicate n CHR ''s'') :: (unit, bytes) io)" by (simp add: salted_def)
  moreover have "2500 + batch_size Default < 2 ^ 63" by (simp add: batch_size_def Default_def)
  ultimately show ?thesis
    using seed_complete [of 2500 Default "\<lambda>n. return_io (replicate n CHR ''s'')" rev full_db] by auto
qed

end
