(* ===== verification/Startup.thy ===== *)
theory Startup
  imports Isolation TcpClient HttpApi Seed GoFlag
begin

text \<open>
  The programs of \<^verbatim>\<open>cmd\<close>: \<^verbatim>\<open>tcpd\<close>, \<^verbatim>\<open>httpd\<close>, \<^verbatim>\<open>migrate\<close> and \<^verbatim>\<open>seed\<close>, from the command line to the point where they serve
  or exit. Logging is left out; \<^verbatim>\<open>log.Fatal\<close> and \<^verbatim>\<open>os.Exit(1)\<close> both end the program with code 1.
\<close>

subsection \<open>The database pool\<close>

text \<open>
  \<^verbatim>\<open>sql.DB\<close> as \<^verbatim>\<open>database/sql\<close> sets it up: a count of idle connections of zero means two, a negative one none,
  and no setting leaves more idle connections than open ones are allowed.
\<close>

record pool =
  maxOpen :: int
  maxIdleCount :: int
  maxLifetime :: int

record 'w DB =
  db_conn :: "'w sqldb"
  db_Ping :: "('w, unit) io"
  db_pool :: pool

definition maxIdleConns :: "pool \<Rightarrow> int" where
  "maxIdleConns p = (if maxIdleCount p = 0 then 2 else if maxIdleCount p < 0 then 0 else maxIdleCount p)"

definition SetMaxIdleConns :: "int \<Rightarrow> pool \<Rightarrow> pool" where
  "SetMaxIdleConns n p =
     (let q = p\<lparr>maxIdleCount := if 0 < n then n else -1\<rparr> in
      if 0 < maxOpen q \<and> maxOpen q < maxIdleConns q then q\<lparr>maxIdleCount := maxOpen q\<rparr> else q)"

definition SetMaxOpenConns :: "int \<Rightarrow> pool \<Rightarrow> pool" where
  "SetMaxOpenConns n p =
     (let q = p\<lparr>maxOpen := max n 0\<rparr> in
      if 0 < maxOpen q \<and> maxOpen q < maxIdleConns q then SetMaxIdleConns n q else q)"

definition SetConnMaxLifetime :: "int \<Rightarrow> pool \<Rightarrow> pool" where
  "SetConnMaxLifetime d p = p\<lparr>maxLifetime := max d 0\<rparr>"

text \<open>\<^verbatim>\<open>mysqlstore.Open\<close>, over \<^verbatim>\<open>sql.Open(\"mysql\", dsn)\<close>.\<close>

definition mysqlstore_Open :: "(string \<Rightarrow> ('w, 'w DB) io) \<Rightarrow> string \<Rightarrow> int \<Rightarrow> int \<Rightarrow> int \<Rightarrow> ('w, 'w DB) io" where
  "mysqlstore_Open sqlOpen dsn open_max idle_max life =
     bind_io (sqlOpen dsn) (\<lambda>db.
       return_io (db\<lparr>db_pool := SetConnMaxLifetime life (SetMaxIdleConns idle_max (SetMaxOpenConns open_max (db_pool db)))\<rparr>))"

definition Open :: "(string \<Rightarrow> ('w, 'w DB) io) \<Rightarrow> DatabaseConfig \<Rightarrow> ('w, 'w DB) io" where
  "Open sqlOpen d = mysqlstore_Open sqlOpen (DSN d) (MaxOpenConns d) (MaxIdleConns d) (ConnMaxLifetime d)"

subsection \<open>What a program starts with\<close>

record 'w process =
  os_Getenv :: environ
  os_ReadFile :: "string \<Rightarrow> bytes result"
  os_Getwd :: "string result"
  os_env :: "'w sysenv"
  sql_Open :: "string \<Rightarrow> ('w, 'w DB) io"
  redis_dial :: "'w net"
  net_Listen :: "string \<Rightarrow> unit result"

subsection \<open>tcpd\<close>

definition config_flag :: "string \<Rightarrow> string flag option" where
  "config_flag = [''config'' \<mapsto> string_flag (\<lambda>x _. x)]"

definition default_config :: string where
  "default_config = ''config/config.json''"

record 'w tcpd =
  td_config :: Config
  td_service :: "'w Service"
  td_server :: "'w TCPServer"

definition tcpd_main :: "'w process \<Rightarrow> string list \<Rightarrow> ('w, 'w tcpd outcome) io" where
  "tcpd_main p args =
     with_flags config_flag args default_config (\<lambda>configPath.
     or_exit 1 (lift_io (Load (os_Getenv p) (os_ReadFile p) configPath)) (\<lambda>c.
     or_exit 1 (Open (sql_Open p) (Database c)) (\<lambda>db.
     or_exit 1 (db_Ping db) (\<lambda>_.
     or_exit 1 (tcpd_service (os_env p) (os_Getwd p) (db_conn db) (redis_dial p) c) (\<lambda>svc.
     or_exit 1 (\<lambda>w. (bindE (NewTCPServer (TCP c) w) (start_workers (TCP c) (net_Listen p (tcp_Addr (TCP c)))), w)) (\<lambda>st.
     return_io (Serving \<lparr>td_config = c, td_service = svc, td_server = st\<rparr>)))))))"

subsection \<open>httpd\<close>

text \<open>
  How \<^verbatim>\<open>ListenAndServe\<close> of \<^verbatim>\<open>net/http\<close> ended: with \<^verbatim>\<open>http.ErrServerClosed\<close> after the shutdown the end of the context starts, or
  with another error. \<open>http_serve\<close> gives \<^const>\<open>None\<close> as long as it serves on the address.
\<close>

datatype http_end = ErrServerClosed | ServeError go_error

definition http_ListenAndServe :: "http_end \<Rightarrow> unit result" where
  "http_ListenAndServe err = (case err of ErrServerClosed \<Rightarrow> Inr () | ServeError e \<Rightarrow> Inl e)"

definition httpd_main ::
    "'w process \<Rightarrow> (string \<Rightarrow> reader \<Rightarrow> multipart_form result) \<Rightarrow> (string \<Rightarrow> http_end option) \<Rightarrow> string list
     \<Rightarrow> ('w, Server outcome) io" where
  "httpd_main p mp http_serve args =
     with_flags config_flag args default_config (\<lambda>configPath.
     or_exit 1 (lift_io (Load (os_Getenv p) (os_ReadFile p) configPath)) (\<lambda>c.
     let s = NewServer c (NewTCPClient c) mp in
     case http_serve (http_Addr (HTTP c)) of
       None \<Rightarrow> return_io (Serving s)
     | Some err \<Rightarrow> or_exit 1 (lift_io (http_ListenAndServe err)) (\<lambda>_. return_io (Exited 0))))"

subsection \<open>migrate and seed\<close>

definition migrate_flags :: "string \<Rightarrow> (string \<times> string) flag option" where
  "migrate_flags = [''config'' \<mapsto> string_flag (\<lambda>x v. (x, snd v)), ''schema'' \<mapsto> string_flag (\<lambda>x v. (fst v, x))]"

definition migrate_main :: "'w process \<Rightarrow> string list \<Rightarrow> ('w, unit outcome) io" where
  "migrate_main p args =
     with_flags migrate_flags args (default_config, ''db/schema.sql'') (\<lambda>(configPath, schemaPath).
     or_exit 1 (lift_io (Load (os_Getenv p) (os_ReadFile p) configPath)) (\<lambda>c.
     or_exit 1 (Open (sql_Open p) (Database c)) (\<lambda>db.
     or_exit 1 (db_Ping db) (\<lambda>_.
     or_exit 1 (Migrate (\<lambda>path. lift_io (os_ReadFile p path)) (db_conn db) schemaPath) (\<lambda>_.
     return_io (Exited 0))))))"

definition seed_flags :: "string \<Rightarrow> (string \<times> int) flag option" where
  "seed_flags = [''config'' \<mapsto> string_flag (\<lambda>x v. (x, snd v)),
     ''count'' \<mapsto> ValueFlag (\<lambda>x v. bindE (ParseInt0 x) (\<lambda>n. Inr (fst v, n)))]"

text \<open>The random source and the order in which the workers take the batches are the outside world's. A loop over the
  batches that does not end leaves the program running.\<close>

definition seed_main :: "'w process \<Rightarrow> (int list \<Rightarrow> int list) \<Rightarrow> string list \<Rightarrow> ('w, unit outcome) io" where
  "seed_main p order args =
     with_flags seed_flags args (default_config, 0) (\<lambda>(configPath, countFlag).
     or_exit 1 (lift_io (Load (os_Getenv p) (os_ReadFile p) configPath)) (\<lambda>c.
     or_exit 1 (Open (sql_Open p) (Database c)) (\<lambda>db.
     case seed (db_conn db) (env_Rand (os_env p)) order c (seed_count c countFlag) of
       None \<Rightarrow> return_io (Serving ())
     | Some m \<Rightarrow>
         or_exit 1 m (\<lambda>_.
         or_exit 1 (CountUsers (db_conn db)) (\<lambda>_.
         return_io (Exited 0))))))"

subsection \<open>The pool stays within its limit\<close>

lemma SetMaxIdleConns_le: "0 < maxOpen p \<Longrightarrow> maxIdleConns (SetMaxIdleConns n p) \<le> maxOpen p"
  by (simp add: SetMaxIdleConns_def maxIdleConns_def Let_def)

lemma pool_fields [simp]:
  "maxOpen (SetMaxIdleConns n p) = maxOpen p" "maxOpen (SetMaxOpenConns n p) = max n 0"
  "maxOpen (SetConnMaxLifetime d p) = maxOpen p" "maxIdleConns (SetConnMaxLifetime d p) = maxIdleConns p"
  "maxLifetime (SetConnMaxLifetime d p) = max d 0"
  by (simp_all add: SetMaxIdleConns_def SetMaxOpenConns_def SetConnMaxLifetime_def maxIdleConns_def Let_def)

lemma Open_pool:
  assumes "Open sqlOpen d w = (Inr db, w')"
  shows "maxOpen (db_pool db) = max (MaxOpenConns d) 0"
    "0 < MaxOpenConns d \<Longrightarrow> maxIdleConns (db_pool db) \<le> MaxOpenConns d"
proof -
  obtain pl where pl: "db_pool db = SetConnMaxLifetime (ConnMaxLifetime d)
      (SetMaxIdleConns (MaxIdleConns d) (SetMaxOpenConns (MaxOpenConns d) pl))"
    using assms by (auto simp: Open_def mysqlstore_Open_def bind_io_Inr_iff)
  show "maxOpen (db_pool db) = max (MaxOpenConns d) 0" by (simp add: pl)
  show "maxIdleConns (db_pool db) \<le> MaxOpenConns d" if "0 < MaxOpenConns d"
    using SetMaxIdleConns_le [of "SetMaxOpenConns (MaxOpenConns d) pl"] that by (simp add: pl)
qed

subsection \<open>A started backend\<close>

text \<open>The process on the reference servers: MySQL answers pings and executes the statements.\<close>

definition ref_process :: "(string \<Rightarrow> string list result) \<Rightarrow> 'a world_scheme process \<Rightarrow> bool" where
  "ref_process ext p \<longleftrightarrow> os_env p = ref_env ext \<and> redis_dial p = redis_net \<and>
     (\<forall>dsn w. \<exists>pool. sql_Open p dsn w = (Inr \<lparr>db_conn = ref_db, db_Ping = return_io (), db_pool = pool\<rparr>, w))"

lemma ref_Open:
  assumes "ref_process ext p" "Open (sql_Open p) d w = (Inr db, w')"
  shows "db_conn db = ref_db" "db_Ping db = return_io ()" "w' = w"
proof -
  obtain pl where "sql_Open p (DSN d) w = (Inr \<lparr>db_conn = ref_db, db_Ping = return_io (), db_pool = pl\<rparr>, w)"
    using assms(1) by (auto simp: ref_process_def)
  with assms(2) show "db_conn db = ref_db" "db_Ping db = return_io ()" "w' = w"
    by (auto simp: Open_def mysqlstore_Open_def bind_io_Inr_iff)
qed

lemma tcpd_service_kept:
  fixes w :: "'a world_scheme"
  assumes "tcpd_service (ref_env ext) wd ref_db redis_net c w = (Inr svc, w')"
  shows "on_servers ext (Redis c) svc" "table_kept {} w w'"
proof -
  define ask :: "('a world_scheme, bool) io" where "ask = (if redis_Addr (Redis c) \<noteq> []
      then bind_io (try_io (Ping redis_net (Redis c))) (\<lambda>res. return_io (res = Inr ())) else return_io False)"
  have "keeps (table_kept {}) (Ping redis_net (Redis c) :: ('a world_scheme, unit) io)"
    unfolding Ping_def by (intro within_rules redis_command_kept)
  then have k: "keeps (table_kept {}) ask" unfolding ask_def by (intro within_rules)
  from assms obtain up where up: "ask w = (Inr up, w')"
    and new: "Service.New (ref_env ext) wd (mysql_store ref_db) c
       (if up then Some (redis_sessions redis_net (Redis c)) else None)
       (if up then Some (redis_pictures redis_net (Redis c)) else None) = Inr svc"
    unfolding tcpd_service_def ask_def [symmetric] bind_io_Inr_iff by auto
  from new show "on_servers ext (Redis c) svc"
    by (auto simp: Service.New_def result_simps on_servers_def)
  from k up show "table_kept {} w w'" by (metis keeps_def snd_conv)
qed

lemma tcpd_started:
  assumes "tcpd_main p args w = (Inr (Serving t), w')"
  obtains path db w1 w2 where "parse_flags config_flag args default_config = Inr path"
    "Load (os_Getenv p) (os_ReadFile p) path = Inr (td_config t)" "Open (sql_Open p) (Database (td_config t)) w = (Inr db, w1)"
    "db_Ping db w1 = (Inr (), w2)"
    "tcpd_service (os_env p) (os_Getwd p) (db_conn db) (redis_dial p) (td_config t) w2 = (Inr (td_service t), w')"
    "reachable (TCP (td_config t)) (td_service t) (td_server t)" "ts_world (td_server t) = w'"
proof -
  from assms obtain path db w1 w2 s0 where *: "parse_flags config_flag args default_config = Inr path"
    "Load (os_Getenv p) (os_ReadFile p) path = Inr (td_config t)" "Open (sql_Open p) (Database (td_config t)) w = (Inr db, w1)"
    "db_Ping db w1 = (Inr (), w2)"
    "tcpd_service (os_env p) (os_Getwd p) (db_conn db) (redis_dial p) (td_config t) w2 = (Inr (td_service t), w')"
    and s0: "NewTCPServer (TCP (td_config t)) w' = Inr s0"
      "start_workers (TCP (td_config t)) (net_Listen p (tcp_Addr (TCP (td_config t)))) s0 = Inr (td_server t)"
    by (auto simp: tcpd_main_def result_simps)
  from s0(2) have "start_workers (TCP (td_config t)) (Inr ()) s0 = Inr (td_server t)"
    by (auto simp: start_workers_def result_simps)
  with s0(1) have "reachable (TCP (td_config t)) (td_service t) (td_server t)" by (rule reachable.start)
  moreover have "ts_world (td_server t) = w'"
    using s0 by (cases "td_server t") (auto simp: NewTCPServer_def start_workers_def result_simps Let_def split: if_splits)
  ultimately show ?thesis using that * by blast
qed


definition sample_environ :: environ where
  "sample_environ k = (if k = ''APP_TOKEN_SECRET'' then replicate 32 CHR ''z'' else if k = ''DBCP_TARGET_DB'' then ''dsn'' else [])"

definition sample_process :: "world process" where
  "sample_process = \<lparr>os_Getenv = sample_environ, os_ReadFile = (\<lambda>_. Inl (Sentinel OsErrNotExist)), os_Getwd = Inr ''/srv'',
     os_env = ref_env no_ext,
     sql_Open = (\<lambda>_. return_io \<lparr>db_conn = ref_db, db_Ping = return_io (),
       db_pool = \<lparr>maxOpen = 0, maxIdleCount = 0, maxLifetime = 0\<rparr>\<rparr>),
     redis_dial = redis_net, net_Listen = (\<lambda>_. Inr ())\<rparr>"

lemma sample_loads:
  "\<exists>c. Load sample_environ (\<lambda>_. Inl (Sentinel OsErrNotExist)) [] = Inr c \<and>
     TokenSecret (Security c) = replicate 32 CHR ''z'' \<and> 0 \<le> QueueSize (TCP c)"
  by (simp add: Load_def Let_def result_simps Validate_Inr applyEnv_def applyDBCP_def Default_def
      sample_environ_def setters_empty setString_def)

lemma sample_starts:
  "\<exists>t w'. tcpd_main sample_process [''-config=''] sample_world = (Inr (Serving t), w')"
proof -
  obtain c where c: "Load sample_environ (\<lambda>_. Inl (Sentinel OsErrNotExist)) [] = Inr c"
    "TokenSecret (Security c) = replicate 32 CHR ''z''" "0 \<le> QueueSize (TCP c)"
    using sample_loads by blast
  have fl: "parse_flags config_flag [''-config=''] default_config = Inr []"
    by (simp add: parseOne_def flag_text_def config_flag_def string_flag_def set_value_def)
  obtain s0 :: "world Service" where s0: "Service.New (ref_env no_ext) (Inr ''/srv'') (mysql_store ref_db) c None None = Inr s0"
    by (cases "IsAbs (ProfilePictureDir (Upload c))")
      (simp_all add: Service.New_def c(2) sample_token_manager ProfilePictureDirAbs_def result_simps)
  from tcpd_start [OF s0, of sample_world] obtain svc w' where
    svc: "tcpd_service (ref_env no_ext) (Inr ''/srv'') ref_db redis_net c sample_world = (Inr svc, w')" by blast
  have "\<exists>db. Open (sql_Open sample_process) (Database c) sample_world = (Inr db, sample_world) \<and> db_conn db = ref_db \<and> db_Ping db = return_io ()"
    by (simp add: Open_def mysqlstore_Open_def sample_process_def)
  then obtain db where db: "Open (sql_Open sample_process) (Database c) sample_world = (Inr db, sample_world)" "db_conn db = ref_db"
    "db_Ping db = return_io ()" by blast
  obtain st where st: "bindE (NewTCPServer (TCP c) w') (start_workers (TCP c) (Inr ())) = Inr st"
    using c(3) by (simp add: NewTCPServer_def start_workers_def Let_def)
  have "tcpd_main sample_process [''-config=''] sample_world =
      (Inr (Serving \<lparr>td_config = c, td_service = svc, td_server = st\<rparr>), w')"
    unfolding tcpd_main_def with_flags_Serving fl
    using c db svc st by (simp add: sample_process_def)
  then show ?thesis by blast
qed


end
