(* ===== verification/SeedLogin.thy ===== *)
theory SeedLogin
  imports Startup
begin

text \<open>
  The seeding program on the reference database: it only adds rows, keeps the table well formed, and after it
  has reported success every seeded user can log in with the default password.
\<close>

subsection \<open>An insert\<close>

text \<open>\<open>s\<close> was inserted as the row \<open>r\<close>.\<close>

definition row_of :: "SeedUser \<Rightarrow> user_row \<Rightarrow> bool" where
  "row_of s r \<longleftrightarrow> ur_username r = su_Username s \<and> ur_salt r = su_PasswordSalt s \<and> ur_hash r = su_PasswordHash s \<and>
     ur_iter r = su_PasswordIter s"

definition room :: "nat \<Rightarrow> 'a sql_world_scheme \<Rightarrow> bool" where
  "room n w \<longleftrightarrow> db_ok w \<and> 0 < wd_next w \<and> wd_next w + n \<le> 2 ^ 64"

text \<open>What a statement does not touch.\<close>

definition same_rest :: "'a sql_world_scheme \<Rightarrow> 'a sql_world_scheme \<Rightarrow> bool" where
  "same_rest w w' \<longleftrightarrow> wd_clock w' = wd_clock w \<and> wd_tick w' = wd_tick w \<and> rw_pass w' = rw_pass w"

text \<open>
  The table \<open>w\<close> has grown into \<open>w'\<close> by at most \<open>n\<close> rows, each new one with a property \<open>P\<close>.
\<close>

definition grown :: "nat \<Rightarrow> (user_row \<Rightarrow> bool) \<Rightarrow> 'a sql_world_scheme \<Rightarrow> 'a sql_world_scheme \<Rightarrow> bool" where
  "grown n P w w' \<longleftrightarrow> same_rest w w' \<and> db_ok w' \<and> wd_next w \<le> wd_next w' \<and> wd_next w' \<le> wd_next w + n \<and>
     (\<forall>u r. wd_users w u = Some r \<longrightarrow> wd_users w' u = Some r) \<and>
     (\<forall>u r. wd_users w' u = Some r \<longrightarrow> wd_users w u = Some r \<or> P r)"

lemma grown_refl: "db_ok w \<Longrightarrow> grown n P w w"
  by (simp add: grown_def same_rest_def)

lemma grown_mono: "grown n P w w' \<Longrightarrow> n \<le> m \<Longrightarrow> (\<And>r. P r \<Longrightarrow> Q r) \<Longrightarrow> grown m Q w w'"
  unfolding grown_def by (elim conjE, intro conjI) (assumption | linarith | blast)+

lemma grown_trans: "grown n P w w1 \<Longrightarrow> grown m P w1 w2 \<Longrightarrow> grown (n + m) P w w2"
  unfolding grown_def same_rest_def by (elim conjE, intro conjI) (simp | linarith | blast)+

lemma grown_room: "grown n P w w1 \<Longrightarrow> room (n + m) w \<Longrightarrow> room m w1"
  by (auto simp: grown_def room_def)

lemma grown_users: "grown n P w w' \<Longrightarrow> wd_users w u = Some r \<Longrightarrow> wd_users w' u = Some r"
  by (simp add: grown_def)

lemma find_user_None:
  assumes "db_ok w"
  shows "find_user (wd_next w) (wd_users w) name = None \<longleftrightarrow> (\<forall>u r. wd_users w u = Some r \<longrightarrow> ur_username r \<noteq> name)"
proof -
  have "u < wd_next w" if "wd_users w u = Some r" for u r
    using assms that by (metis db_ok_def not_le option.distinct(1))
  then show ?thesis by (fastforce simp: find_user_def find_None_iff split: option.splits)
qed

abbreviation new_row :: "SeedUser \<Rightarrow> user_row" where
  "new_row s \<equiv> \<lparr>ur_username = su_Username s, ur_nickname = su_Nickname s, ur_salt = su_PasswordSalt s, ur_hash = su_PasswordHash s,
     ur_iter = su_PasswordIter s, ur_path = None, ur_mime = None, ur_size = 0, ur_version = 0\<rparr>"

definition add_row :: "SeedUser \<Rightarrow> 'a sql_world_scheme \<Rightarrow> 'a sql_world_scheme" where
  "add_row s w =
     (if find_user (wd_next w) (wd_users w) (su_Username s) \<noteq> None then w
      else w\<lparr>wd_users := (wd_users w)(wd_next w \<mapsto> new_row s), wd_next := wd_next w + 1\<rparr>)"

lemma add_row_grown:
  assumes "room (Suc n) w" "0 \<le> su_PasswordIter s" "su_PasswordIter s < 2 ^ 32"
  shows "grown 1 (row_of s) w (add_row s w)" "\<exists>u r. wd_users (add_row s w) u = Some r \<and> ur_username r = su_Username s"
proof -
  have db: "db_ok w" and n: "0 < wd_next w" "wd_next w < 2 ^ 64" using assms(1) by (auto simp: room_def)
  have "grown 1 (row_of s) w (add_row s w) \<and> (\<exists>u r. wd_users (add_row s w) u = Some r \<and> ur_username r = su_Username s)"
  proof (cases "find_user (wd_next w) (wd_users w) (su_Username s) = None")
    case True
    then have fresh: "\<forall>u r. wd_users w u = Some r \<longrightarrow> ur_username r \<noteq> su_Username s" using find_user_None [OF db] by simp
    have free: "wd_users w (wd_next w) = None" using db by (simp add: db_ok_def)
    have ok: "row_ok (wd_next w) (new_row s)" using n assms(2,3) by (simp add: row_ok_def)
    have "users_ok ((wd_users w)(wd_next w \<mapsto> new_row s))"
      using db fresh ok unfolding db_ok_def users_ok_def by (auto split: if_splits; metis)
    then have "db_ok (add_row s w)" using True db by (auto simp: add_row_def db_ok_def)
    then show ?thesis using True free by (auto simp: add_row_def grown_def row_of_def same_rest_def)
  next
    case False
    then show ?thesis using db find_user_None [OF db] by (auto simp: add_row_def grown_refl)
  qed
  then show "grown 1 (row_of s) w (add_row s w)" "\<exists>u r. wd_users (add_row s w) u = Some r \<and> ur_username r = su_Username s"
    by simp_all
qed

lemma insert_rows_one:
  "insert_rows rest (add_row s w) = Some (k, w1) \<Longrightarrow> \<exists>k. insert_rows (seed_args s @ rest) w = Some (k, w1)"
  by (cases "find_user (wd_next w) (wd_users w) (su_Username s) = None") (simp_all add: seed_args_def add_row_def)

lemma insert_rows_add: "\<exists>k. insert_rows (concat (map seed_args us)) w = Some (k, fold add_row us w)"
proof (induction us arbitrary: w)
  case (Cons s us)
  then obtain k where "insert_rows (concat (map seed_args us)) (add_row s w) = Some (k, fold add_row us (add_row s w))" by blast
  from insert_rows_one [OF this] show ?case by simp
qed simp

lemma add_rows:
  assumes "room (length us + n) w" "\<forall>s \<in> set us. 0 \<le> su_PasswordIter s \<and> su_PasswordIter s < 2 ^ 32"
  shows "grown (length us) (\<lambda>r. \<exists>s \<in> set us. row_of s r) w (fold add_row us w) \<and>
    (\<forall>s \<in> set us. \<exists>u r. wd_users (fold add_row us w) u = Some r \<and> ur_username r = su_Username s)"
  using assms
proof (induction us arbitrary: w)
  case (Cons s us)
  let ?P = "\<lambda>r. \<exists>x \<in> set (s # us). row_of x r"
  have s: "grown 1 (row_of s) w (add_row s w)" "\<exists>u r. wd_users (add_row s w) u = Some r \<and> ur_username r = su_Username s"
    using add_row_grown [of "length us + n" w s] Cons.prems by simp_all
  have "room (length us + n) (add_row s w)" using grown_room [OF s(1)] Cons.prems(1) by simp
  from Cons.IH [OF this] Cons.prems(2)
  have ih: "grown (length us) (\<lambda>r. \<exists>x \<in> set us. row_of x r) (add_row s w) (fold add_row us (add_row s w))"
    "\<forall>x \<in> set us. \<exists>u r. wd_users (fold add_row us (add_row s w)) u = Some r \<and> ur_username r = su_Username x" by simp_all
  have "grown 1 ?P w (add_row s w)" "grown (length us) ?P (add_row s w) (fold add_row us (add_row s w))"
    using s(1) ih(1) by (auto elim: grown_mono)
  from grown_trans [OF this] have "grown (length (s # us)) ?P w (fold add_row us (add_row s w))" by simp
  moreover have "\<exists>u r. wd_users (fold add_row us (add_row s w)) u = Some r \<and> ur_username r = su_Username s"
    using s(2) grown_users [OF ih(1)] by blast
  ultimately show ?case using ih(2) by simp
qed (simp add: grown_refl room_def)

lemma InsertSeedUsers_ref: "InsertSeedUsers ref_db us w = (Inr (), fold add_row us w)"
proof (cases "us = []")
  case False
  have len: "length (concat (map seed_args us)) = 5 * length us"
    by (induction us) (simp_all add: seed_args_def)
  have q: "insert_query n \<noteq> q_nickname" "insert_query n \<noteq> q_picture" for n
    by (simp_all add: insert_query_def q_nickname_def q_picture_def)
  obtain k where "insert_rows (concat (map seed_args us)) w = Some (k, fold add_row us w)"
    using insert_rows_add by blast
  then have "ref_exec (insert_query (length us)) (concat (map seed_args us)) w = (Inr (Inr k), fold add_row us w)"
    using q len by (simp add: ref_exec_def)
  then show ?thesis using False by (simp add: InsertSeedUsers_def bind_io_Inr)
qed (simp add: InsertSeedUsers_def)

subsection \<open>A batch\<close>

definition rows_kept :: "'a sql_world_scheme \<Rightarrow> 'a sql_world_scheme \<Rightarrow> bool" where
  "rows_kept w w' \<longleftrightarrow> same_rest w w' \<and> wd_users w' = wd_users w \<and> wd_next w' = wd_next w"

lemma rows_kept_rel [simp]: "reflp rows_kept" "transp rows_kept"
  by (auto simp: rows_kept_def same_rest_def reflp_def transp_def)

lemma rows_kept_grown: "rows_kept w w1 \<Longrightarrow> room n w \<Longrightarrow> grown m P w w1 \<and> room n w1"
  by (auto simp: rows_kept_def room_def grown_def db_ok_def)

lemma makeUsers_kept:
  assumes "\<And>n. keeps rows_kept (rand n)"
  shows "keeps rows_kept (makeUsers rand i n it pw)"
proof (induction n arbitrary: i)
  case (Suc n)
  have "keeps rows_kept (hash_password rand pw it)"
    unfolding hash_password_def using assms by (auto intro!: keeps_bind)
  then show ?case using Suc by (auto intro!: keeps_bind split: prod.split)
qed (simp add: keeps_def rows_kept_def same_rest_def)

abbreviation checks :: "string \<Rightarrow> user_row \<Rightarrow> bool" where
  "checks pw r \<equiv> VerifyPassword pw (ur_salt r) (ur_hash r) (ur_iter r) = Inr True"

definition named :: "'a sql_world_scheme \<Rightarrow> int \<Rightarrow> bool" where
  "named w i \<longleftrightarrow> (\<exists>u r. wd_users w u = Some r \<and> ur_username r = user_name i)"

lemma grown_named: "grown n P w w' \<Longrightarrow> named w i \<Longrightarrow> named w' i"
  using grown_users by (fastforce simp: named_def)

lemma seed_job_ref:
  fixes v :: "'a sql_world_scheme"
  assumes job: "seed_job ref_db rand c cnt s v = (Inr k, v')" and s: "s \<le> cnt" and room: "room (nat (size_from c cnt s) + n) v"
    and rand: "salted rand" "\<And>n. keeps rows_kept (rand n)" and it: "PasswordIterations (Security c) < 2 ^ 32"
  shows "grown (nat (size_from c cnt s)) (checks (DefaultPassword (Seed c))) v v'"
    "k = 0 \<or> k = size_from c cnt s \<and> (\<forall>i \<in> set (batch_ids c cnt s). named v' i)"
proof -
  let ?n = "nat (size_from c cnt s)" and ?it = "PasswordIterations (Security c)" and ?pw = "DefaultPassword (Seed c)"
  let ?m = "makeUsers rand s ?n ?it ?pw"
  have pos: "0 < size_from c cnt s" using s batch_size_pos [of c] by (simp add: size_from_def)
  obtain res v1 where m: "?m v = (res, v1)" by fastforce
  have "rows_kept v (snd (?m v))" using makeUsers_kept [OF rand(2)] by (simp add: keeps_def)
  then have kept: "rows_kept v v1" by (simp add: m)
  note g1 = rows_kept_grown [OF kept room]
  have "grown ?n (checks ?pw) v v' \<and> (k = 0 \<or> k = size_from c cnt s \<and> (\<forall>i \<in> set (batch_ids c cnt s). named v' i))"
  proof (cases res)
    case (Inl e)
    then have "k = 0 \<and> v' = v1" using job m by (simp add: seed_job_def bind_io_try split: go_error.splits)
    then show ?thesis using g1 by blast
  next
    case (Inr us)
    note us = makeUsers_Inr [OF m [unfolded Inr] rand(1)]
    have "length (map su_Username us) = ?n" using us pos by (simp del: length_map add: length_map [of user_name])
    then have len: "length us = ?n" by simp
    have "k = size_from c cnt s \<and> v' = fold add_row us v1"
      using job m Inr by (simp add: seed_job_def bind_io_try InsertSeedUsers_ref)
    then have k: "k = size_from c cnt s" and v': "v' = fold add_row us v1" by simp_all
    have "\<forall>s \<in> set us. 0 \<le> su_PasswordIter s \<and> su_PasswordIter s < 2 ^ 32"
      using us it by (auto simp: VerifyPassword_True)
    moreover have "room (length us + n) v1" using g1 len by simp
    ultimately have g2: "grown (length us) (\<lambda>r. \<exists>s \<in> set us. row_of s r) v1 v'"
      "\<forall>s \<in> set us. \<exists>u r. wd_users v' u = Some r \<and> ur_username r = su_Username s"
      unfolding v' using add_rows [of us n v1] by blast+
    have "checks ?pw r" if "\<exists>s \<in> set us. row_of s r" for r using that us by (auto simp: row_of_def)
    then have "grown (length us) (checks ?pw) v1 v'" by (rule grown_mono [OF g2(1) order_refl])
    moreover have "grown 0 (checks ?pw) v v1" using rows_kept_grown [OF kept room] by blast
    ultimately have "grown (0 + length us) (checks ?pw) v v'" by (rule grown_trans [rotated])
    then have "grown ?n (checks ?pw) v v'" by (simp add: len)
    moreover have "named v' i" if "i \<in> set (batch_ids c cnt s)" for i
    proof -
      have "user_name i \<in> set (map su_Username us)" using us that pos by (simp add: batch_ids_def)
      then show ?thesis using g2(2) by (auto simp: named_def)
    qed
    ultimately show ?thesis using k by blast
  qed
  then show "grown ?n (checks ?pw) v v'" "k = 0 \<or> k = size_from c cnt s \<and> (\<forall>i \<in> set (batch_ids c cnt s). named v' i)"
    by blast+
qed

subsection \<open>All batches\<close>

lemma seed_jobs_ref:
  fixes v :: "'a sql_world_scheme"
  assumes "seed_jobs ref_db rand c cnt ss v = (Inr tot, v')" "\<forall>s \<in> set ss. s \<le> cnt"
    and "room (sum_list (map (\<lambda>s. nat (size_from c cnt s)) ss)) v"
    and rand: "salted rand" "\<And>n. keeps rows_kept (rand n)" and it: "PasswordIterations (Security c) < 2 ^ 32"
  shows "grown (sum_list (map (\<lambda>s. nat (size_from c cnt s)) ss)) (checks (DefaultPassword (Seed c))) v v' \<and>
    tot \<le> sum_list (map (size_from c cnt) ss) \<and>
    (tot = sum_list (map (size_from c cnt) ss) \<longrightarrow> (\<forall>s \<in> set ss. \<forall>i \<in> set (batch_ids c cnt s). named v' i))"
  using assms(1-3)
proof (induction ss arbitrary: v tot)
  case Nil
  then show ?case by (simp add: grown_refl room_def)
next
  case (Cons s ss)
  let ?pw = "checks (DefaultPassword (Seed c))" and ?rest = "sum_list (map (\<lambda>s. nat (size_from c cnt s)) ss)"
  from Cons.prems(1) obtain k m v1 where k: "seed_job ref_db rand c cnt s v = (Inr k, v1)"
    and m: "seed_jobs ref_db rand c cnt ss v1 = (Inr m, v')" "tot = k + m"
    by (auto simp: bind_io_Inr_iff)
  have s: "s \<le> cnt" "room (nat (size_from c cnt s) + ?rest) v" using Cons.prems by simp_all
  note job = seed_job_ref [OF k s rand it]
  have pos: "0 < size_from c cnt s" using s(1) batch_size_pos [of c] by (simp add: size_from_def)
  note ih = Cons.IH [OF m(1) _ grown_room [OF job(1) s(2)]]
  have g: "grown ?rest ?pw v1 v'" using ih Cons.prems(2) by simp
  moreover have "grown (nat (size_from c cnt s) + ?rest) ?pw v v'" using job(1) g by (rule grown_trans)
  moreover have "tot = size_from c cnt s + sum_list (map (size_from c cnt) ss) \<Longrightarrow>
      \<forall>i \<in> set (batch_ids c cnt s). named v' i"
    using job(2) ih Cons.prems(2) m(2) pos grown_named [OF g] by auto
  ultimately show ?case using ih Cons.prems(2) m(2) job(2) pos by auto
qed

text \<open>On the reference database, with a working random source, no batch fails.\<close>

lemma makeUsers_ok: "0 < it \<Longrightarrow> \<exists>us v'. makeUsers rand_Read i n it pw v = (Inr us, v')"
proof (induction n arbitrary: i v)
  case (Suc n)
  obtain salt v1 where "rand_Read saltBytes v = (Inr salt, v1)" by (simp add: rand_Read_def)
  moreover obtain hash where "pbkdf2_Key pw salt (nat it) hashBytes = Inr hash"
    using pbkdf2_Key_32 [of pw salt "nat it"] by (auto simp: hashBytes_def)
  ultimately have h: "hash_password rand_Read pw it v = (Inr (salt, hash), v1)"
    using Suc.prems by (simp add: hash_password_def HashPassword_def bind_io_Inr)
  obtain us v2 where "makeUsers rand_Read (i + 1) n it pw v1 = (Inr us, v2)" using Suc by blast
  then show ?case by (simp add: bind_io_Inr [of "hash_password rand_Read pw it", OF h] bind_io_Inr)
qed simp

lemma seed_jobs_ok:
  fixes v :: "'a sql_world_scheme"
  assumes "0 < PasswordIterations (Security c)"
  shows "\<exists>v'. seed_jobs ref_db rand_Read c cnt ss v = (Inr (sum_list (map (size_from c cnt) ss)), v')"
proof (induction ss arbitrary: v)
  case (Cons s ss)
  obtain us v1 where "makeUsers rand_Read s (nat (size_from c cnt s)) (PasswordIterations (Security c))
      (DefaultPassword (Seed c)) v = (Inr us, v1)"
    using makeUsers_ok [OF assms] by blast
  then have "seed_job ref_db rand_Read c cnt s v = (Inr (size_from c cnt s), fold add_row us v1)"
    by (simp add: seed_job_def bind_io_try InsertSeedUsers_ref)
  moreover obtain v2 where "seed_jobs ref_db rand_Read c cnt ss (fold add_row us v1) =
      (Inr (sum_list (map (size_from c cnt) ss)), v2)" using Cons by blast
  ultimately show ?case by (simp add: bind_io_Inr)
qed simp

lemma seed_ref:
  fixes w :: "'a sql_world_scheme"
  assumes cnt: "cnt + batch_size c < 2 ^ 63" and perm: "\<forall>xs. mset (order xs) = mset xs" and room: "room (nat cnt) w"
    and it: "0 < PasswordIterations (Security c)" "PasswordIterations (Security c) < 2 ^ 32"
  shows "\<exists>m w'. seed ref_db rand_Read order c cnt = Some m \<and> m w = (Inr (), w') \<and>
    grown (nat cnt) (checks (DefaultPassword (Seed c))) w w' \<and> (\<forall>i. 1 \<le> i \<and> i \<le> cnt \<longrightarrow> named w' i)"
proof (cases "cnt \<le> 0")
  case True
  then show ?thesis using room by (auto simp: seed_def grown_refl room_def)
next
  case False
  obtain ss where ss: "seed_starts cnt (batch_size c) 1 = Some ss"
    "concat (map (batch_ids c cnt) ss) = [1 .. cnt]" "\<forall>x \<in> set ss. x \<le> cnt"
    using seed_starts_Some [of 1 cnt c] cnt by auto
  let ?ss = "order ss"
  have set: "set ?ss = set ss" using perm by (metis mset_eq_setD)
  have "mset (map (size_from c cnt) ?ss) = mset (map (size_from c cnt) ss)" using perm by simp
  then have tot: "sum_list (map (size_from c cnt) ?ss) = cnt"
    using sizes_sum [OF ss(2,3)] False by (metis linorder_le_cases sum_mset_sum_list)
  have pos: "0 \<le> size_from c cnt s" if "s \<in> set ?ss" for s
    using that set ss(3) batch_size_pos [of c] by (auto simp: size_from_def)
  have "int (sum_list (map (\<lambda>s. nat (size_from c cnt s)) xs)) = sum_list (map (size_from c cnt) xs)"
    if "set xs \<subseteq> set ?ss" for xs
    using that by (induction xs) (simp_all add: pos)
  from this [of ?ss] have n: "sum_list (map (\<lambda>s. nat (size_from c cnt s)) ?ss) = nat cnt" using tot by simp
  obtain w' where j: "seed_jobs ref_db rand_Read c cnt ?ss w = (Inr cnt, w')"
    using seed_jobs_ok [OF it(1), of cnt ?ss w] tot by auto
  have rand: "salted (rand_Read :: nat \<Rightarrow> ('a sql_world_scheme, bytes) io)"
    "keeps rows_kept (rand_Read k :: ('a sql_world_scheme, bytes) io)" for k
    by (auto simp: salted_def rand_Read_def keeps_def rows_kept_def same_rest_def)
  from seed_jobs_ref [OF j _ _ rand it(2)] set ss(3) n room tot
  have *: "grown (nat cnt) (checks (DefaultPassword (Seed c))) w w'" "\<forall>s \<in> set ss. \<forall>i \<in> set (batch_ids c cnt s). named w' i"
    by auto
  have "named w' i" if "1 \<le> i" "i \<le> cnt" for i
  proof -
    have "i \<in> set (concat (map (batch_ids c cnt) ss))" using that ss(2) by simp
    then show ?thesis using *(2) by auto
  qed
  with *(1) j False ss(1) show ?thesis by (simp add: seed_def bind_io_Inr)
qed

subsection \<open>The program\<close>

lemma CountUsers_ref: "wd_next w < 2 ^ 64 \<Longrightarrow> \<exists>n. CountUsers ref_db w = (Inr n, w)"
proof -
  assume n: "wd_next w < 2 ^ 64"
  let ?l = "length (filter (\<lambda>uid. wd_users w uid \<noteq> None) [0 ..< wd_next w])"
  have "?l \<le> wd_next w" using length_filter_le [of "\<lambda>uid. wd_users w uid \<noteq> None" "[0 ..< wd_next w]"] by simp
  then have "?l < 2 ^ 64" using n by (rule le_less_trans)
  then show ?thesis by (simp add: CountUsers_def ref_query_def q_count_def q_auth_def q_profile_def bind_io_def)
qed

lemma seed_main_ref:
  fixes w :: "'a world_scheme"
  assumes p: "ref_process ext p" and m: "seed ref_db rand_Read order c (seed_count c n) = Some m" "m w = (Inr (), w')"
    and c: "parse_flags seed_flags args (default_config, 0) = Inr (path, n)" "Load (os_Getenv p) (os_ReadFile p) path = Inr c"
    and w': "wd_next w' < 2 ^ 64"
  shows "seed_main p order args w = (Inr (Exited 0), w')"
proof -
  obtain pl where "sql_Open p (DSN (Database c)) w = (Inr \<lparr>db_conn = ref_db, db_Ping = return_io (), db_pool = pl\<rparr>, w)"
    using p by (auto simp: ref_process_def)
  then obtain db where db: "Open (sql_Open p) (Database c) w = (Inr db, w)" "db_conn db = ref_db"
    by (simp add: Open_def mysqlstore_Open_def bind_io_Inr)
  have rnd: "env_Rand (os_env p) = rand_Read" using p by (simp add: ref_process_def ref_env_def)
  obtain k where "CountUsers ref_db w' = (Inr k, w')" using CountUsers_ref [OF w'] by blast
  with c m db rnd show ?thesis by (simp add: seed_main_def with_flags_def or_exit_Inr)
qed

lemma user_name_plain: "1 \<le> i \<Longrightarrow> TrimSpace (user_name i) = user_name i"
proof (rule TrimSpace_plain)
  assume i: "1 \<le> i"
  have "FormatUint (nat i) \<noteq> []" "\<forall>c \<in> set (FormatUint (nat i)). is_digit c"
    using FormatUint_digits [of "nat i"] by (auto simp: list_all_iff)
  then have "is_digit (last (FormatUint (nat i)))" by (metis last_in_set)
  moreover have "last (user_name i) = last (FormatUint (nat i))"
    using i \<open>FormatUint (nat i) \<noteq> []\<close> by (simp add: user_name_def Sprintf_08d_def zero_pad_def)
  ultimately show "user_name i = [] \<or> plain_char (hd (user_name i)) \<and> plain_char (last (user_name i))"
    by (simp add: plain_char_def is_digit_def) (simp add: user_name_def byte_of_def)
qed


definition empty_world :: world where
  "empty_world = sample_world\<lparr>wd_users := Map.empty, wd_next := 1\<rparr>"


end
