(* ===== verification/Pictures.thy ===== *)
theory Pictures
  imports System JsonSize
begin

text \<open>
  Profile pictures through the service and its stores: what is uploaded is what is served, from the
  cache or, when the cache has lost it, from the file, with the type it was accepted under.
\<close>

subsection \<open>The cache on the reference server\<close>

abbreviation cached_text :: "string \<Rightarrow> bytes \<Rightarrow> string" where
  "cached_text mime d \<equiv> marshal_pictureValue \<lparr>pv_ContentType = mime, pv_DataBase64 = EncodeToString StdEncoding d\<rparr>"

lemma SaveProfilePicture_run:
  "server_ok cfg w \<Longrightarrow>
   SaveProfilePicture redis_net cfg u v mime d w = (Inr (), put (pictureKey cfg u v) (Some (cached_text mime d, None)) (conn cfg w))"
  using command_redis(1) [of "[''SET'', pictureKey cfg u v, cached_text mime d]" cfg w]
  by (simp add: SaveProfilePicture_def Let_def exec_data_def bind_io_def)

lemma DeleteProfilePicture_run:
  "server_ok cfg w \<Longrightarrow> DeleteProfilePicture redis_net cfg u v w = (Inr (), put (pictureKey cfg u v) None (conn cfg w))"
  using command_redis(1) [of "[''DEL'', pictureKey cfg u v]" cfg w]
  by (simp add: DeleteProfilePicture_def exec_data_def bind_io_def)

lemma GetProfilePicture_missing:
  "server_ok cfg w \<Longrightarrow> live_kv cfg w (pictureKey cfg u v) = None \<Longrightarrow>
   GetProfilePicture redis_net cfg u v w = (Inr None, conn cfg w)"
  using command_redis(1) [of "[''GET'', pictureKey cfg u v]" cfg w]
  by (simp add: GetProfilePicture_def bind_io_try exec_data_def live_kv_def live_put)

lemma GetProfilePicture_found:
  assumes "server_ok cfg w" "live_kv cfg w (pictureKey cfg u v) = Some (cached_text mime d)"
    and "ValidString mime" "int (length (cached_text mime d)) + 2 \<le> maxAlloc"
  shows "GetProfilePicture redis_net cfg u v w = (Inr (Some (mime, d)), conn cfg w)"
proof -
  have "command redis_net cfg [''GET'', pictureKey cfg u v] w = (Inr (RString (cached_text mime d)), conn cfg w)"
    using command_redis(1) [of "[''GET'', pictureKey cfg u v]" cfg w] assms
    by (simp add: exec_data_def live_kv_def live_put maxAlloc_def)
  then show ?thesis using assms(3)
    by (simp add: GetProfilePicture_def bind_io_try pictureValue_round_trip ascii_valid std_ascii)
qed

text \<open>A cached picture is read back only if the reply can be allocated.\<close>

lemma length_std64: "length (EncodeToString StdEncoding s) \<le> 2 * length s + 4"
proof -
  have "length (b64_Encode StdEncoding t) \<le> 2 * length t + 4" for t
    by (induction StdEncoding t rule: b64_Encode.induct) (simp_all add: pad_def StdEncoding_def)
  from this [of "map byte_of s"] show ?thesis by (simp add: EncodeToString_def)
qed

lemma cached_size: "length (cached_text mime d) \<le> 250 + 6 * length mime + 12 * length d"
proof -
  have "length (json_string ''content_type'') \<le> 74" "length (json_string ''data_base64'') \<le> 68"
    using length_json_string [of "''content_type''"] length_json_string [of "''data_base64''"] by simp_all
  then show ?thesis
    using length_enc_object [of "[(''content_type'', json_string mime), (''data_base64'', json_string (EncodeToString StdEncoding d))]"]
      length_json_string [of mime] length_json_string [of "EncodeToString StdEncoding d"] length_std64 [of d]
    by (simp add: marshal_pictureValue_def)
qed

subsection \<open>An upload\<close>

text \<open>
  Limits a deployment sets: pictures of at most a tebibyte, and types that are text of moderate
  length.
\<close>

definition upload_limits :: "'w Service \<Rightarrow> bool" where
  "upload_limits s \<longleftrightarrow> maxUploadBytes s \<le> 2 ^ 40 \<and> (\<forall>m \<in> set (allowedMIMEs s). ValidString m \<and> length m \<le> 1000)"

lemma detected_not_Nil: "DetectContentType d \<noteq> []"
proof -
  have "\<forall>sig \<in> set sniffSignatures. sig_type sig \<noteq> []" by (simp add: sniffSignatures_def)
  then show ?thesis using first_match_types [of "take 512 d" sniffSignatures] by (auto simp: DetectContentType_def)
qed

lemma check_upload_facts:
  "check_upload s body = Inr (d, ct) \<Longrightarrow> DecodeString StdEncoding (ub_DataBase64 body) = Inr d \<and> ct \<in> set (allowedMIMEs s)"
  by (auto simp: check_upload_def Let_def split: sum.splits if_splits)

lemma accepted_upload:
  assumes "check_upload s body = Inr (d, ct)" "upload_limits s"
  shows "ct \<noteq> []" "ValidString ct" "length d < 2 ^ 64" "int (length (cached_text ct d)) + 2 \<le> maxAlloc"
proof -
  have a: "int (length d) \<le> maxUploadBytes s" "ct \<in> set (allowedMIMEs s)"
    and "ct = DetectContentType d \<or> ct \<noteq> []"
    using assms(1) by (auto simp: check_upload_def Let_def split: sum.splits if_splits)
  then show "ct \<noteq> []" using detected_not_Nil [of d] by auto
  have l: "length d \<le> 2 ^ 40" "length ct \<le> 1000" using a assms(2) by (auto simp: upload_limits_def)
  then show "length d < 2 ^ 64" "int (length (cached_text ct d)) + 2 \<le> maxAlloc"
    using cached_size [of ct d] by (simp_all add: maxAlloc_def)
  show "ValidString ct" using a(2) assms(2) by (simp add: upload_limits_def)
qed

text \<open>The world after the cache was refreshed: the new version is cached, everything but the keys is as before.\<close>

lemma refresh_run:
  fixes w :: "'a world_scheme"
  assumes s: "ref_service ext rcfg s" and sv: "server_ok rcfg w"
  shows "\<exists>w1. refresh_cache s u old p ct d w = (Inr (), w1) \<and> server_ok rcfg w1 \<and> wd_users w1 = wd_users w \<and>
    wd_files w1 = wd_files w \<and> db_ok w1 = db_ok w \<and> live_kv rcfg w1 (pictureKey rcfg u (ProfileVersion p)) = Some (cached_text ct d)"
proof -
  let ?save = "\<lambda>v :: 'a world_scheme. put (pictureKey rcfg u (ProfileVersion p)) (Some (cached_text ct d, None)) (conn rcfg v)"
  let ?gone = "\<lambda>o'. put (pictureKey rcfg u (ProfileVersion o')) None (conn rcfg w)"
  have ok: "server_ok rcfg (put k x (conn rcfg v)) = server_ok rcfg v" for k x and v :: "'a world_scheme"
    by (simp add: server_ok_def)
  have fin: "server_ok rcfg v \<Longrightarrow> wd_users v = wd_users w \<Longrightarrow> wd_files v = wd_files w \<Longrightarrow> db_ok v = db_ok w \<Longrightarrow>
      server_ok rcfg (?save v) \<and> wd_users (?save v) = wd_users w \<and> wd_files (?save v) = wd_files w \<and> db_ok (?save v) = db_ok w \<and>
      live_kv rcfg (?save v) (pictureKey rcfg u (ProfileVersion p)) = Some (cached_text ct d)" for v
    by (simp add: ok live_kv_def live_put)
  note run = refresh_cache_def ref_parts(7) [OF s] redis_pictures_def bind_io_def try_io_def
    SaveProfilePicture_run DeleteProfilePicture_run ok sv
  show ?thesis
  proof (cases "\<exists>o'. old = Inr o' \<and> 0 < ProfileVersion o'")
    case True
    then obtain o' where "old = Inr o'" "0 < ProfileVersion o'" by blast
    then have "refresh_cache s u old p ct d w = (Inr (), ?save (?gone o'))" by (simp add: run)
    with fin [of "?gone o'"] sv show ?thesis by (simp add: ok)
  next
    case False
    then have "refresh_cache s u old p ct d w = (Inr (), ?save w)" by (cases old) (auto simp: run)
    with fin [of w] sv show ?thesis by simp
  qed
qed

text \<open>An accepted upload up to the update of the row: the file is written.\<close>

definition written :: "'w Service \<Rightarrow> string \<Rightarrow> bytes \<Rightarrow> 'a world_scheme \<Rightarrow> 'a world_scheme" where
  "written s path d w = (tick w)\<lparr>wd_files := (wd_files w)(Join [uploadDir s, path] \<mapsto> d)\<rparr>"

lemma written_fields:
  assumes "db_ok w" "server_ok rcfg w"
  shows "db_ok (written s path d w)" "server_ok rcfg (written s path d w)" "wd_users (written s path d w) = wd_users w"
    "wd_files (written s path d w) = (wd_files w)(Join [uploadDir s, path] \<mapsto> d)"
  using assms by (simp_all add: written_def db_ok_def server_ok_def tick_def)

lemma upload_unfold:
  fixes w :: "'a world_scheme" and uid :: nat
  assumes s: "ref_service ext rcfg s" and w: "db_ok w" and c: "check_upload s body = Inr (d, ct)"
  defines "path \<equiv> upload_path s uid (wd_clock w) ct (ub_FileName body)"
    and "old \<equiv> fst (GetUserProfileByID ref_db uid (tick w))"
  shows "UploadProfilePicture s uid body w =
      bind_io (try_io (UpdateProfilePicture ref_db uid path ct (length d))) (\<lambda>res. case res of
         Inl err \<Rightarrow> bind_io (try_io (env_Remove (sv_env s) (Join [uploadDir s, path]))) (\<lambda>_. fail_io (store_error err))
       | Inr profile \<Rightarrow> bind_io (refresh_cache s uid old profile ct d) (\<lambda>_. return_io (toProtocolProfile s profile)))
      (written s path d w)"
proof -
  have np: "\<not> is_panic old" "GetUserProfileByID ref_db uid (tick w) = (old, tick w)"
    using profile_ref [of "tick w" uid] w by (simp_all add: old_def split: option.split)
  have env: "env_MkdirAll (sv_env s) p = return_io ()"
    "env_WriteFile (sv_env s) (Join [uploadDir s, path]) d (tick w) = (Inr (), written s path d w)" for p
    using s by (simp_all add: ref_service_def ref_env_def written_def)
  show ?thesis
    using env try_io_eq [of "GetUserProfileByID ref_db uid" "tick w", OF np(2,1)]
    by (simp add: UploadProfilePicture_def c ref_parts [OF s] bind_io_Inr [where m = "env_Now (sv_env s)"] Let_def
        path_def [symmetric] bind_io_Inr [where m = "try_io (GetUserProfileByID ref_db uid)"]
        bind_io_Inr [where m = "env_WriteFile (sv_env s) p d" for p])
qed

text \<open>When the row can take the picture, the upload succeeds.\<close>

lemma upload_succeeds:
  fixes w :: "'a world_scheme"
  assumes s: "ref_service ext rcfg s" "upload_limits s" and w: "db_ok w" "server_ok rcfg w"
    and c: "check_upload s body = Inr (d, ct)" and row: "wd_users w uid = Some row"
    and fits: "picture_fits (upload_path s uid (wd_clock w) ct (ub_FileName body)) ct row"
  shows "\<exists>prof w1. UploadProfilePicture s uid body w = (Inr prof, w1)"
proof -
  let ?path = "upload_path s uid (wd_clock w) ct (ub_FileName body)"
  let ?v = "written s ?path d w" and ?q = "set_picture (upload_path s uid (wd_clock w) ct (ub_FileName body)) ct (length d) row"
  note v = written_fields [OF w, of s ?path d]
  have u: "UpdateProfilePicture ref_db uid ?path ct (length d) ?v =
      (Inr (profile_row uid ?q), ?v\<lparr>wd_users := (wd_users w)(uid \<mapsto> ?q)\<rparr>)"
    using picture_ref [OF v(1), of uid row "length d" ?path ct] v(3) row fits accepted_upload(3) [OF c s(2)] by simp
  have "server_ok rcfg (?v\<lparr>wd_users := (wd_users w)(uid \<mapsto> ?q)\<rparr>)" using v(2) by (simp add: server_ok_def)
  then obtain w1 where "refresh_cache s uid (fst (GetUserProfileByID ref_db uid (tick w))) (profile_row uid ?q) ct d
      (?v\<lparr>wd_users := (wd_users w)(uid \<mapsto> ?q)\<rparr>) = (Inr (), w1)"
    using refresh_run [OF s(1)] by blast
  then show ?thesis unfolding upload_unfold [OF s(1) w(1) c] by (simp add: bind_io_try u bind_io_Inr)
qed

lemma upload_run:
  fixes w :: "'a world_scheme"
  assumes s: "ref_service ext rcfg s" "upload_limits s" and w: "db_ok w" "server_ok rcfg w"
    and up: "UploadProfilePicture s uid body w = (Inr prof, w1)"
  obtains d ct row where "check_upload s body = Inr (d, ct)" "wd_users w uid = Some row"
    "let path = upload_path s uid (wd_clock w) ct (ub_FileName body); q = set_picture path ct (length d) row in
       prof = toProtocolProfile s (profile_row uid q) \<and> wd_users w1 = (wd_users w)(uid \<mapsto> q) \<and>
       wd_files w1 = (wd_files w)(Join [uploadDir s, path] \<mapsto> d) \<and>
       live_kv rcfg w1 (pictureKey rcfg uid (ur_version q)) = Some (cached_text ct d)"
    "db_ok w1" "server_ok rcfg w1"
proof -
  obtain d ct where c: "check_upload s body = Inr (d, ct)"
    using up by (cases "check_upload s body") (auto simp: UploadProfilePicture_def)
  define path where "path = upload_path s uid (wd_clock w) ct (ub_FileName body)"
  define v where "v = written s path d w"
  define old where "old = fst (GetUserProfileByID ref_db uid (tick w))"
  note v = written_fields [OF w, of s path d, folded v_def]
  let ?update = "UpdateProfilePicture ref_db uid path ct (length d)"
  note up' = upload_unfold [OF s(1) w(1) c, of uid, folded path_def old_def v_def]
  have len: "length d < 2 ^ 64" using accepted_upload(3) [OF c s(2)] .
  from up up' obtain p v2 where p: "?update v = (Inr p, v2)"
    and fin: "bind_io (refresh_cache s uid old p ct d) (\<lambda>_. return_io (toProtocolProfile s p)) v2 = (Inr prof, w1)"
    by (auto simp: bind_io_try bind_io_Inr_iff split: prod.splits sum.splits go_error.splits)
  from ref_users.picture_updated [OF v(1) len p] v(3) obtain row where row: "wd_users w uid = Some row"
    "p = profile_row uid (set_picture path ct (length d) row)" "wd_users v2 = (wd_users w)(uid \<mapsto> set_picture path ct (length d) row)"
    "db_ok v2" by (auto simp: set_picture_def)
  have "?update v \<in> {(Inr p, v\<lparr>wd_users := (wd_users v)(uid \<mapsto> set_picture path ct (length d) row)\<rparr>), (Inl err_data_too_long, v)}"
    using picture_ref [OF v(1) _ len, of uid row path ct] row(1,2) v(3) by auto
  then have v2: "server_ok rcfg v2" "wd_files v2 = wd_files v" using v(2) p by (auto simp: server_ok_def)
  from refresh_run [OF s(1) v2(1), of uid old p ct d] obtain v3 where v3: "refresh_cache s uid old p ct d v2 = (Inr (), v3)"
    "server_ok rcfg v3" "wd_users v3 = wd_users v2" "wd_files v3 = wd_files v2" "db_ok v3 = db_ok v2"
    "live_kv rcfg v3 (pictureKey rcfg uid (ProfileVersion p)) = Some (cached_text ct d)" by blast
  with fin have "w1 = v3" "prof = toProtocolProfile s p" by (simp_all add: bind_io_Inr)
  with that [OF c row(1)] v3 v2 v(4) row show ?thesis by (simp add: Let_def path_def profile_row_def)
qed

text \<open>
  What is served for a row: the cached picture, or the file of the row when nothing is cached.
\<close>

lemma picture_served:
  fixes v :: "'a world_scheme"
  assumes s: "ref_service ext rcfg s" and v: "db_ok v" "server_ok rcfg v"
    and row: "wd_users v uid = Some q" "ur_path q = Some path" "path \<noteq> []" "0 < ur_version q" "ur_mime q = Some ct" "ct \<noteq> []"
    and disk: "wd_files v (Join [uploadDir s, Clean path]) = Some d"
    and cache: "live_kv rcfg v (pictureKey rcfg uid (ur_version q)) \<in> {Some (cached_text ct d), None}"
    and fits: "ValidString ct" "int (length (cached_text ct d)) + 2 \<le> maxAlloc"
  shows "\<exists>v'. Service_GetProfilePicture s uid v = (Inr (picture_result ct d), v')"
proof -
  let ?p = "profile_row uid q"
  have prof: "translated (us_GetUserProfileByID (store s) uid) v = (Inr ?p, v)"
    using ref_users.profile_found [OF v(1) row(1)] by (simp add: translated_def bind_io_try ref_parts [OF s])
  have p: "ProfilePicturePath ?p = Some path" "ProfileVersion ?p = ur_version q" "stored_mime ?p = ct"
    using row by (simp_all add: profile_row_def stored_mime_def)
  have c: "cached_picture s uid (ur_version q) = GetProfilePicture redis_net rcfg uid (ur_version q)"
    by (simp add: cached_picture_def ref_parts [OF s] redis_pictures_def)
  show ?thesis
  proof (cases "live_kv rcfg v (pictureKey rcfg uid (ur_version q))")
    case (Some t)
    then have "cached_picture s uid (ur_version q) v = (Inr (Some (ct, d)), conn rcfg v)"
      unfolding c using cache fits v(2) by (intro GetProfilePicture_found) auto
    then show ?thesis using prof p row(3,4) by (simp add: Service_GetProfilePicture_def bind_io_Inr)
  next
    case None
    let ?v1 = "conn rcfg v"
    have "cached_picture s uid (ur_version q) v = (Inr None, ?v1)"
      unfolding c using v(2) None by (rule GetProfilePicture_missing)
    moreover have "read_picture s (Join [uploadDir s, Clean path]) ?v1 = (Inr d, ?v1)"
      using s disk by (simp add: read_picture_def bind_io_try ref_service_def ref_env_def)
    moreover have "\<exists>v'. fill_cache s uid (ur_version q) ct d ?v1 = (Inr (), v')"
      using SaveProfilePicture_run [of rcfg ?v1 uid "ur_version q" ct d] v(2)
      by (simp add: fill_cache_def ref_parts [OF s] redis_pictures_def bind_io_try server_ok_def)
    ultimately show ?thesis using prof p row(3,4)
      by (auto simp: Service_GetProfilePicture_def bind_io_Inr Let_def)
  qed
qed

subsection \<open>The round trip\<close>

text \<open>
  C7: After a successful upload the picture served for the user is byte for byte the one uploaded,
  with the type it was accepted under: in any later state in which the user's row and the files are
  still those of the upload and the cache has kept the entry or lost it, so both when Redis answers
  and when the picture comes from the file. The two paths agree although one value is cached as JSON
  and base64 and the other is read from a path taken from the database.
\<close>

theorem picture_round_trip:
  fixes w :: "'a world_scheme"
  assumes s: "ref_service ext rcfg s" "upload_limits s" "slash_free ext"
    and w: "db_ok w" "server_ok rcfg w" "0 \<le> wd_clock w"
    and up: "UploadProfilePicture s uid body w = (Inr prof, w1)"
  shows "\<exists>d ct. DecodeString StdEncoding (ub_DataBase64 body) = Inr d \<and> ct \<in> set (allowedMIMEs s) \<and>
    (\<forall>v :: 'a world_scheme. db_ok v \<and> server_ok rcfg v \<and> wd_users v uid = wd_users w1 uid \<and> wd_files v = wd_files w1 \<and>
        (\<forall>k. live_kv rcfg v k \<in> {live_kv rcfg w1 k, None}) \<longrightarrow>
      (\<exists>v'. Service_GetProfilePicture s uid v =
         (Inr \<lparr>pr_ContentType = ct, pr_DataBase64 = EncodeToString StdEncoding d\<rparr>, v')))"
proof -
  obtain d ct row where c: "check_upload s body = Inr (d, ct)"
    and run: "let path = upload_path s uid (wd_clock w) ct (ub_FileName body); q = set_picture path ct (length d) row in
       prof = toProtocolProfile s (profile_row uid q) \<and> wd_users w1 = (wd_users w)(uid \<mapsto> q) \<and>
       wd_files w1 = (wd_files w)(Join [uploadDir s, path] \<mapsto> d) \<and>
       live_kv rcfg w1 (pictureKey rcfg uid (ur_version q)) = Some (cached_text ct d)"
    using upload_run [OF s(1,2) w(1,2) up] by metis
  let ?path = "upload_path s uid (wd_clock w) ct (ub_FileName body)"
  let ?q = "set_picture ?path ct (length d) row"
  have "slash_free (env_ExtensionsByType (sv_env s))" using s(1,3) by (simp add: ref_service_def ref_env_def)
  note pl = upload_elems_plain [OF this w(3), of uid ct "ub_FileName body"]
  have clean: "Clean ?path = ?path" "?path \<noteq> []"
    using Clean_relative [OF pl] by (simp_all add: upload_path_elems) (simp_all add: upload_elems_def)
  note acc = accepted_upload [OF c s(2)]
  have "\<exists>v'. Service_GetProfilePicture s uid v = (Inr (picture_result ct d), v')"
    if v: "db_ok v" "server_ok rcfg v" "wd_users v uid = wd_users w1 uid" "wd_files v = wd_files w1"
      "\<forall>k. live_kv rcfg v k \<in> {live_kv rcfg w1 k, None}" for v :: "'a world_scheme"
  proof (rule picture_served [OF s(1) v(1,2)])
    show "wd_users v uid = Some ?q" using v(3) run by (simp add: Let_def)
    show "wd_files v (Join [uploadDir s, Clean ?path]) = Some d" using v(4) run clean by (simp add: Let_def)
    show "live_kv rcfg v (pictureKey rcfg uid (ur_version ?q)) \<in> {Some (cached_text ct d), None}"
      using v(5) [rule_format, of "pictureKey rcfg uid (ur_version ?q)"] run by (simp add: Let_def)
  qed (use clean acc in \<open>simp_all add: set_picture_def\<close>)
  then show ?thesis using check_upload_facts [OF c] by (intro exI [of _ d] exI [of _ ct]) (simp add: picture_result_def)
qed

definition gif_body :: UploadProfilePictureBody where
  "gif_body = \<lparr>ub_FileName = ''a.gif'', ub_ContentType = [], ub_DataBase64 = EncodeToString StdEncoding ''GIF89a''\<rparr>"

theorem picture_round_trip_witness:
  "\<exists>s prof w1 w2. ref_service no_ext sample_redis (s :: world Service) \<and>
     UploadProfilePicture s 1 gif_body sample_world = (Inr prof, w1) \<and>
     Service_GetProfilePicture s 1 w1 =
       (Inr \<lparr>pr_ContentType = ''image/gif'', pr_DataBase64 = EncodeToString StdEncoding ''GIF89a''\<rparr>, w2)"
proof -
  obtain s0 :: "world Service" where s0: "ref_service no_ext sample_redis s0" by (rule sample_running)
  define s where "s = s0\<lparr>allowedMIMEs := [''image/gif''], maxUploadBytes := 100\<rparr>"
  have s: "ref_service no_ext sample_redis s" "upload_limits s" "slash_free no_ext"
    using s0 by (simp_all add: s_def ref_service_def upload_limits_def slash_free_def no_ext_def byte_of_def)
  have c: "check_upload s gif_body = Inr (''GIF89a'', ''image/gif'')"
    by (simp add: check_upload_def s_def gif_body_def DetectContentType_gif)
  have "upload_path s 1 (wd_clock sample_world) ''image/gif'' (ub_FileName gif_body) = ''1/0.gif''"
  proof -
    have "extensionFor no_ext ''image/gif'' ''a.gif'' = ''.gif''" "FormatUint 1 = ''1''" "Itoa 0 = ''0''" by code_simp+
    then show ?thesis using s(1) by (simp add: upload_path_def sample_world_def gif_body_def ref_service_def ref_env_def)
  qed
  moreover have "picture_fits ''1/0.gif'' ''image/gif'' sample_row"
    by (simp add: picture_fits_def rune_count_def sample_row_def sample_user_def)
  ultimately obtain prof w1 where up: "UploadProfilePicture s 1 gif_body sample_world = (Inr prof, w1)"
    using upload_succeeds [OF s(1,2) sample_world_ok c sample_account_row(1)] by auto
  have "0 \<le> wd_clock sample_world" by (simp add: sample_world_def)
  from picture_round_trip [OF s sample_world_ok this up] obtain d ct where
    dt: "DecodeString StdEncoding (ub_DataBase64 gif_body) = Inr d" "ct \<in> set (allowedMIMEs s)"
    and v: "\<And>v :: world. db_ok v \<and> server_ok sample_redis v \<and> wd_users v 1 = wd_users w1 1 \<and> wd_files v = wd_files w1 \<and>
        (\<forall>k. live_kv sample_redis v k \<in> {live_kv sample_redis w1 k, None}) \<Longrightarrow>
      \<exists>v'. Service_GetProfilePicture s 1 v = (Inr \<lparr>pr_ContentType = ct, pr_DataBase64 = EncodeToString StdEncoding d\<rparr>, v')"
    by blast
  have "d = ''GIF89a''" "ct = ''image/gif''" using dt by (simp_all add: gif_body_def s_def)
  moreover have "db_ok w1" "server_ok sample_redis w1" using upload_run [OF s(1,2) sample_world_ok up] by metis+
  ultimately show ?thesis using v [of w1] s(1) up by blast
qed

end
