(* ===== verification/OperatorSync.thy ===== *)
theory OperatorSync
  imports KubeReference
begin

text \<open>
  The full synchronisation of the operator: \<^verbatim>\<open>SetupWithManager\<close> starts a goroutine that lists all resources at
  every tick and sends an event for each, which controller-runtime turns into a call of \<^verbatim>\<open>Reconcile\<close>. Resources do
  not disturb each other, so that after a synchronisation all of them are in their desired state at once.
\<close>

subsection \<open>SetupWithManager\<close>

text \<open>One tick: the objects sent on the channel of events. A listing that fails sends none.\<close>

definition sync_tick :: "('w, DbcpEntryService list) io \<Rightarrow> ('w, DbcpEntryService list) io" where
  "sync_tick list =
     bind_io (try_io list) (\<lambda>res.
       return_io (case res of Inl _ \<Rightarrow> [] | Inr items \<Rightarrow> items))"

text \<open>
  Building the controller and watching the channel are calls of controller-runtime; \<open>go\<close> starts the goroutine
  that runs its argument at every tick of \<^const>\<open>defaultSyncInterval\<close>. It is started only when the controller could
  be built.
\<close>

definition SetupWithManager ::
    "('w, unit) io \<Rightarrow> (int \<Rightarrow> ('w, DbcpEntryService list) io \<Rightarrow> ('w, unit) io) \<Rightarrow> ('w, unit) io \<Rightarrow>
     ('w, DbcpEntryService list) io \<Rightarrow> ('w, unit) io" where
  "SetupWithManager build go watch list =
     bind_io build (\<lambda>_.
     bind_io (go defaultSyncInterval (sync_tick list)) (\<lambda>_.
     watch))"

text \<open>
  A run over a sequence of requests, each a namespace and a name that is handed to \<^const>\<open>Reconcile\<close>. How the
  queue of controller-runtime orders and repeats the requests is not fixed: the theorem below is about every sequence.
\<close>

fun work_through :: "'w client \<Rightarrow> (string \<times> string) list \<Rightarrow> ('w, Result result list) io" where
  "work_through r [] = return_io []"
| "work_through r ((ns, n) # ks) =
     bind_io (try_io (Reconcile r ns n)) (\<lambda>res.
     bind_io (work_through r ks) (\<lambda>rest.
     return_io (res # rest)))"

subsection \<open>Resources side by side\<close>

definition reconciled :: "'w client \<Rightarrow> ('w \<Rightarrow> cluster) \<Rightarrow> DbcpEntryService \<Rightarrow> 'w \<Rightarrow> bool" where
  "reconciled r view e w \<longleftrightarrow>
     (\<exists>cm. c_configmaps (view w) (Namespace (entry_meta e), configMapName (Name (entry_meta e))) = Some cm \<and>
        cm_Data cm = desiredConfigData e) \<and>
     (\<exists>svc. c_services (view w) (entry_key e) = Some svc \<and> Selector (svc_Spec svc) = managedLabels (Name (entry_meta e)) \<and>
        Ports (svc_Spec svc) = Ports (service_spec e)) \<and>
     (\<exists>h. calculateSpecHash r e = Inr h \<and> (\<forall>p \<in> managed (\<lambda>w. c_pods (view w)) e w. fresh h p)) \<and>
     int (card (managed (\<lambda>w. c_pods (view w)) e w)) = sint (es_Replicas (spec_Service (entry_Spec e)))"

definition to_reconcile :: "DbcpEntryService \<Rightarrow> bool" where
  "to_reconcile e \<longleftrightarrow> DeletionTimestamp (entry_meta e) = None \<and> finalizer \<in> set (Finalizers (entry_meta e)) \<and>
     0 \<le> sint (es_Replicas (spec_Service (entry_Spec e)))"

lemma selects_one: "selects (managedSet n) ls \<Longrightarrow> selects (managedSet m) ls \<Longrightarrow> m = n"
  by (simp add: managedSet_selects)

context operator_api
begin

text \<open>The pods of another resource are neither deleted nor joined by new ones.\<close>

lemma managed_other:
  assumes run: "reconcilePods r a h w = (Inr (), w')"
    and other: "Namespace (entry_meta b) \<noteq> Namespace (entry_meta a) \<or> Name (entry_meta b) \<noteq> Name (entry_meta a)"
  shows "managed active b w' = managed active b w"
proof (cases "Namespace (entry_meta b) = Namespace (entry_meta a)")
  case False
  then have "active w' (Namespace (entry_meta b), n) = active w (Namespace (entry_meta b), n)" for n
    using pods_frame [OF run] by blast
  then show ?thesis by (simp add: managed_def)
next
  case True
  let ?ns = "Namespace (entry_meta a)"
  have names: "Name (entry_meta b) \<noteq> Name (entry_meta a)" using True other by simp
  show ?thesis
    using run
  proof (rule reconcilePods_run)
    fix S qs d w3
    assume w3: "active w3 = active w |` (- ({?ns} \<times> pod_name ` ({p \<in> managed active a w. stale h p} \<union> set (drop d S))))"
      and qs: "\<forall>q \<in> set qs. active w3 (?ns, pod_name q) = None \<and>
         pod_labels q = map_put labelSpecHash h (managedLabels (Name (entry_meta a))) \<and> \<not> terminated q"
      and w': "active w' = active w3 ++ map_of (map (\<lambda>q. ((?ns, pod_name q), q)) qs)"
    have "managed active b w' \<subseteq> managed active b w"
    proof
      fix p assume "p \<in> managed active b w'"
      then obtain n where p: "active w' (?ns, n) = Some p" "selects (managedSet (Name (entry_meta b))) (pod_labels p)"
        using True by (auto simp: managed_def)
      have "p \<notin> set qs" using p(2) qs new_pod_labels(1) selects_one names by metis
      then have "active w3 (?ns, n) = Some p" using p(1) w' by (auto dest!: map_of_SomeD split: option.splits simp: map_add_def)
      then have "active w (?ns, n) = Some p" by (simp add: w3 restrict_map_def split: if_splits)
      then show "p \<in> managed active b w" using p(2) True by (auto simp: managed_def)
    qed
    moreover have "managed active b w \<subseteq> managed active b w'"
    proof
      fix p assume "p \<in> managed active b w"
      then obtain n where p: "active w (?ns, n) = Some p" "selects (managedSet (Name (entry_meta b))) (pod_labels p)"
        using True by (auto simp: managed_def)
      then have "p \<notin> managed active a w" using names selects_one by (auto simp: managed_def)
      then have "active w' (?ns, n) = Some p" using pods_frame [OF run] p(1) by metis
      then show "p \<in> managed active b w'" using p(2) True by (auto simp: managed_def)
    qed
    ultimately show ?thesis by blast
  qed
qed

end

context kube_cluster
begin

lemma managed_same: "pods_of w1 = pods_of w \<Longrightarrow> managed pods_of e w1 = managed pods_of e w"
  by (simp add: managed_def)

lemma Reconcile_reconciles:
  assumes "c_entries (view w) (ns, n) = Some e" "to_reconcile e" "Reconcile r ns n w = (Inr res, w')"
  shows "reconciled r view e w'" "c_entries (view w') = c_entries (view w)"
    "reconciled r view b w \<Longrightarrow> entry_key b \<noteq> (ns, n) \<Longrightarrow> reconciled r view b w'"
proof -
  have l: "IsZero (DeletionTimestamp (entry_meta e))" "finalizer \<in> set (Finalizers (entry_meta e))"
    using assms(2) by (simp_all add: to_reconcile_def IsZero_def)
  have "reconciled r view e w' \<and> c_entries (view w') = c_entries (view w) \<and>
      (reconciled r view b w \<longrightarrow> entry_key b \<noteq> (ns, n) \<longrightarrow> reconciled r view b w')"
    using assms(1) l assms(3)
  proof (rule reconcile_live)
    fix h w1 cm svc
    assume h: "calculateSpecHash r e = Inr h"
      and cm: "c_configmaps (view w') (ns, configMapName n) = Some cm" "cm_Data cm = desiredConfigData e"
      and svc: "c_services (view w') (ns, n) = Some svc" "Selector (svc_Spec svc) = managedLabels n"
        "Ports (svc_Spec svc) = Ports (service_spec e)"
      and pods: "pods_of w1 = pods_of w" "reconcilePods r e h w1 = (Inr (), w')"
      and es: "c_entries (view w') = c_entries (view w)"
      and cms: "\<And>k. k \<noteq> (ns, configMapName n) \<Longrightarrow> c_configmaps (view w') k = c_configmaps (view w) k"
      and svcs: "\<And>k. k \<noteq> (ns, n) \<Longrightarrow> c_services (view w') k = c_services (view w) k"
      and key: "entry_key e = (ns, n)"
    have one: "reconciled r view e w'"
      using h cm svc key pods_converge [OF pods(2)] unfolding reconciled_def by auto
    have "reconciled r view b w'" if b: "reconciled r view b w" "entry_key b \<noteq> (ns, n)"
    proof -
      have "managed pods_of b w' = managed pods_of b w"
        using managed_other [OF pods(2), of b] b(2) key managed_same [OF pods(1)] by auto
      moreover have "c_configmaps (view w') (Namespace (entry_meta b), configMapName (Name (entry_meta b))) =
          c_configmaps (view w) (Namespace (entry_meta b), configMapName (Name (entry_meta b)))"
        using b(2) by (intro cms) (auto simp: configMapName_def)
      moreover have "c_services (view w') (entry_key b) = c_services (view w) (entry_key b)" using b(2) by (intro svcs)
      ultimately show ?thesis using b(1) by (simp add: reconciled_def)
    qed
    then show ?thesis using one es by blast
  qed
  then show "reconciled r view e w'" "c_entries (view w') = c_entries (view w)"
    "reconciled r view b w \<Longrightarrow> entry_key b \<noteq> (ns, n) \<Longrightarrow> reconciled r view b w'" by blast+
qed

text \<open>
  Working through requests that all succeed leaves the resources of the requests reconciled, and the others
  that were reconciled before.
\<close>

lemma work_through_reconciles:
  assumes "\<And>ns n e w. c_entries (view w) (ns, n) = Some e \<Longrightarrow> to_reconcile e \<Longrightarrow> \<exists>res w'. Reconcile r ns n w = (Inr res, w')"
    and "\<forall>k \<in> set ks. \<exists>e. c_entries (view w) k = Some e \<and> to_reconcile e"
    and "\<And>k e w. c_entries (view w) k = Some e \<Longrightarrow> entry_key e = k"
  shows "\<exists>rs w'. work_through r ks w = (Inr rs, w') \<and> length rs = length ks \<and> c_entries (view w') = c_entries (view w) \<and>
    (\<forall>k e. c_entries (view w) k = Some e \<longrightarrow> (k \<in> set ks \<or> reconciled r view e w) \<longrightarrow> reconciled r view e w')"
  using assms(2)
proof (induction ks arbitrary: w)
  case (Cons k ks)
  obtain ns n where k: "k = (ns, n)" by fastforce
  obtain e where e: "c_entries (view w) (ns, n) = Some e" "to_reconcile e" using Cons.prems k by auto
  obtain res w1 where run: "Reconcile r ns n w = (Inr res, w1)" using assms(1) [OF e] by blast
  note one = Reconcile_reconciles [OF e run]
  have "\<forall>k \<in> set ks. \<exists>e. c_entries (view w1) k = Some e \<and> to_reconcile e" using Cons.prems one(2) by simp
  from Cons.IH [OF this] obtain rs w' where rest: "work_through r ks w1 = (Inr rs, w')" "length rs = length ks"
    "c_entries (view w') = c_entries (view w1)"
    "\<And>k e. c_entries (view w1) k = Some e \<Longrightarrow> k \<in> set ks \<or> reconciled r view e w1 \<Longrightarrow> reconciled r view e w'"
    by blast
  have "work_through r (k # ks) w = (Inr (Inr res # rs), w')" using run rest(1) by (simp add: k bind_io_try bind_io_Inr)
  moreover have "reconciled r view b w'" if "c_entries (view w) j = Some b" "j \<in> set (k # ks) \<or> reconciled r view b w" for j b
  proof (cases "j = (ns, n)")
    case True
    then show ?thesis using that(1) e(1) one(1) rest(4) [of j b] one(2) by simp
  next
    case False
    then show ?thesis using that assms(3) [OF that(1)] one(2) one(3) [of b] rest(4) [of j b] k by auto
  qed
  ultimately show ?case using rest(2,3) one(2) by (intro exI [of _ "Inr res # rs"] exI [of _ w']) auto
qed simp

end

subsection \<open>On the reference cluster\<close>

definition mem_list_entries :: "(kube_world, DbcpEntryService list) io" where
  "mem_list_entries w =
     (Inr (map (\<lambda>k. named_entry k (the (map_of (kw_entries w) k))) (remdups (map fst (kw_entries w)))), w)"

lemma named_key: "entry_key (named_entry k e) = k"
  by (simp add: named_entry_def)

lemma view_entries: "c_entries (view_of w) k = map_option (named_entry k) (map_of (kw_entries w) k)"
  by (simp add: view_of_def)

lemma ref_succeeds:
  assumes "c_entries (view_of w) (ns, n) = Some e" "to_reconcile e"
  shows "\<exists>res w'. Reconcile ref_client ns n w = (Inr res, w')"
proof -
  have "mem_get_entry ns n w = (Inr e, w)"
    using assms(1) by (auto simp: view_entries mem_get_entry_def split: option.split)
  then show ?thesis using ref_Reconcile [of ns n w e] assms(2) by (auto simp: to_reconcile_def)
qed

lemma mem_list_keys:
  assumes "mem_list_entries w = (Inr es, w1)"
  shows "w1 = w" "k \<in> set (map entry_key es) \<longleftrightarrow> c_entries (view_of w) k \<noteq> None"
proof -
  have "es = map (\<lambda>k. named_entry k (the (map_of (kw_entries w) k))) (remdups (map fst (kw_entries w)))"
    using assms by (auto simp: mem_list_entries_def)
  then have "map entry_key es = remdups (map fst (kw_entries w))" by (auto simp: named_key intro: map_idI)
  then show "k \<in> set (map entry_key es) \<longleftrightarrow> c_entries (view_of w) k \<noteq> None"
    by (simp only: set_remdups view_entries) (force simp: map_of_eq_None_iff)
qed (use assms in \<open>simp add: mem_list_entries_def\<close>)


definition api_entry :: DbcpEntryService where
  "api_entry = (entry_sample None 2)\<lparr>entry_meta := (meta ''prod'' ''web-api'')\<lparr>UID := ''u2'', Finalizers := [finalizer]\<rparr>\<rparr>"


end
