(* ===== verification/DeepCopy.thy ===== *)
theory DeepCopy
  imports Operator
begin

text \<open>
  The generated deep copies (\<^verbatim>\<open>operator/api/v1alpha1/zz_generated.deepcopy.go\<close>), over an explicit memory. The rest of the
  development treats resources as values; this theory shows why it may: a copy has the value of the
  original and shares no memory with it. The locale \<open>deep_copy\<close> is the contract of a copying function, which the
  library's own copiers of metadata and resource lists are assumed to meet and each function of the file is shown
  to meet.
\<close>

subsection \<open>Memory\<close>

text \<open>
  Memory is a list of cells, an address a position in it; allocation appends. A cell holds a variable of one of
  the struct types of the API, the array behind a slice of resources, or what the library's types refer to
  (\<open>Ext\<close>). The types \<open>'m\<close>, \<open>'r\<close> and \<open>'l\<close> of object metadata, resource requirements and list metadata are the
  library's: structs with maps, slices and pointers.
\<close>

record 'r EntryService_obj =
  so_Image :: string
  so_Replicas :: "32 word"
  so_Resources :: 'r

record 'r Spec_obj =
  po_Config :: EntryConfig
  po_Service :: "'r EntryService_obj"

text \<open>The status has no fields.\<close>

record ('m, 'r) Entry_obj =
  eo_TypeMeta :: "string \<times> string"
  eo_ObjectMeta :: 'm
  eo_Spec :: "'r Spec_obj"
  eo_Status :: unit

text \<open>A slice is nil or the address of its array with an offset and a length.\<close>

record 'l List_obj =
  lo_TypeMeta :: "string \<times> string"
  lo_ListMeta :: 'l
  lo_Items :: "(nat \<times> nat \<times> nat) option"

datatype ('m, 'r, 'l, 'c) cell =
    Ext 'c
  | EntryCell "('m, 'r) Entry_obj"
  | ListCell "'l List_obj"
  | ItemsCell "('m, 'r) Entry_obj list"
  | SpecCell "'r Spec_obj"
  | StatusCell unit
  | ConfigCell EntryConfig
  | ServiceCell "'r EntryService_obj"

text \<open>
  A \<^verbatim>\<open>DeepCopyInto\<close> takes the struct \<^verbatim>\<open>*in\<close> and the memory and gives the struct to store in \<^verbatim>\<open>*out\<close> and the memory
  with what it has allocated.
\<close>

type_synonym ('c, 'x) copier = "'x \<Rightarrow> 'c list \<Rightarrow> 'x \<times> 'c list"

subsection \<open>The functions\<close>

definition EntryConfig_DeepCopyInto :: "('c, EntryConfig) copier" where
  "EntryConfig_DeepCopyInto x w = (x, w)"

definition DbcpEntryServiceStatus_DeepCopyInto :: "('c, unit) copier" where
  "DbcpEntryServiceStatus_DeepCopyInto x w = (x, w)"

definition EntryService_DeepCopyInto :: "('c, 'r) copier \<Rightarrow> ('c, 'r EntryService_obj) copier" where
  "EntryService_DeepCopyInto rc x w =
     (case rc (so_Resources x) w of (r, w1) \<Rightarrow> (x\<lparr>so_Resources := r\<rparr>, w1))"

definition DbcpEntryServiceSpec_DeepCopyInto :: "('c, 'r) copier \<Rightarrow> ('c, 'r Spec_obj) copier" where
  "DbcpEntryServiceSpec_DeepCopyInto rc x w =
     (case EntryService_DeepCopyInto rc (po_Service x) w of (s, w1) \<Rightarrow>
        (x\<lparr>po_Config := po_Config x, po_Service := s\<rparr>, w1))"

definition DbcpEntryService_DeepCopyInto ::
    "('c, 'm) copier \<Rightarrow> ('c, 'r) copier \<Rightarrow> ('c, ('m, 'r) Entry_obj) copier" where
  "DbcpEntryService_DeepCopyInto mc rc x w =
     (case mc (eo_ObjectMeta x) w of (m, w1) \<Rightarrow>
      case DbcpEntryServiceSpec_DeepCopyInto rc (eo_Spec x) w1 of (s, w2) \<Rightarrow>
        (x\<lparr>eo_TypeMeta := eo_TypeMeta x, eo_ObjectMeta := m, eo_Spec := s, eo_Status := eo_Status x\<rparr>, w2))"

text \<open>The loop over the items.\<close>

fun copy_all :: "('c, 'x) copier \<Rightarrow> ('c, 'x list) copier" where
  "copy_all copy [] w = ([], w)"
| "copy_all copy (x # xs) w =
     (case copy x w of (y, w1) \<Rightarrow> case copy_all copy xs w1 of (ys, w2) \<Rightarrow> (y # ys, w2))"

definition slice_items :: "('m, 'r, 'l, 'c) cell list \<Rightarrow> nat \<times> nat \<times> nat \<Rightarrow> ('m, 'r) Entry_obj list" where
  "slice_items w s =
     (case s of (a, off, n) \<Rightarrow> case w ! a of ItemsCell xs \<Rightarrow> take n (drop off xs) | _ \<Rightarrow> [])"

text \<open>
  \<^verbatim>\<open>make\<close> allocates the new array, whose elements the first assignment of each \<^verbatim>\<open>DeepCopyInto\<close> makes shallow copies; the
  rest of each call then replaces what they share.
\<close>

definition copy_items ::
    "(('m, 'r, 'l, 'c) cell, 'm) copier \<Rightarrow> (('m, 'r, 'l, 'c) cell, 'r) copier \<Rightarrow>
     (('m, 'r, 'l, 'c) cell, (nat \<times> nat \<times> nat) option) copier" where
  "copy_items mc rc s w =
     (case s of
        None \<Rightarrow> (None, w)
      | Some sl \<Rightarrow>
          let items = slice_items w sl in
          case copy_all (DbcpEntryService_DeepCopyInto mc rc) items (w @ [ItemsCell items]) of (ys, w1) \<Rightarrow>
            (Some (length w, 0, length items), w1[length w := ItemsCell ys]))"

definition DbcpEntryServiceList_DeepCopyInto ::
    "(('m, 'r, 'l, 'c) cell, 'm) copier \<Rightarrow> (('m, 'r, 'l, 'c) cell, 'r) copier \<Rightarrow> (('m, 'r, 'l, 'c) cell, 'l) copier \<Rightarrow>
     (('m, 'r, 'l, 'c) cell, 'l List_obj) copier" where
  "DbcpEntryServiceList_DeepCopyInto mc rc lc x w =
     (case lc (lo_ListMeta x) w of (l, w1) \<Rightarrow>
      case copy_items mc rc (lo_Items x) w1 of (s, w2) \<Rightarrow>
        (x\<lparr>lo_TypeMeta := lo_TypeMeta x, lo_ListMeta := l, lo_Items := s\<rparr>, w2))"

text \<open>
  The six \<^verbatim>\<open>DeepCopy\<close> functions have one body: nil for nil, otherwise a new variable that \<^verbatim>\<open>DeepCopyInto\<close> fills. \<open>get\<close> and
  \<open>put\<close> say which kind of cell the pointer's type is about.
\<close>

definition new_copy :: "('c \<Rightarrow> 'x option) \<Rightarrow> ('x \<Rightarrow> 'c) \<Rightarrow> ('c, 'x) copier \<Rightarrow> ('c, nat option) copier" where
  "new_copy get put into p w =
     (case p of
        None \<Rightarrow> (None, w)
      | Some a \<Rightarrow>
          (case get (w ! a) of
             None \<Rightarrow> (None, w)
           | Some x \<Rightarrow>
               (case into x (w @ [put x]) of (y, w1) \<Rightarrow> (Some (length w), w1[length w := put y]))))"

fun as_entry :: "('m, 'r, 'l, 'c) cell \<Rightarrow> ('m, 'r) Entry_obj option" where
  "as_entry (EntryCell x) = Some x" | "as_entry _ = None"

fun as_list :: "('m, 'r, 'l, 'c) cell \<Rightarrow> 'l List_obj option" where
  "as_list (ListCell x) = Some x" | "as_list _ = None"

fun as_spec :: "('m, 'r, 'l, 'c) cell \<Rightarrow> 'r Spec_obj option" where
  "as_spec (SpecCell x) = Some x" | "as_spec _ = None"

fun as_status :: "('m, 'r, 'l, 'c) cell \<Rightarrow> unit option" where
  "as_status (StatusCell x) = Some x" | "as_status _ = None"

fun as_config :: "('m, 'r, 'l, 'c) cell \<Rightarrow> EntryConfig option" where
  "as_config (ConfigCell x) = Some x" | "as_config _ = None"

fun as_service :: "('m, 'r, 'l, 'c) cell \<Rightarrow> 'r EntryService_obj option" where
  "as_service (ServiceCell x) = Some x" | "as_service _ = None"

definition DbcpEntryService_DeepCopy ::
    "(('m, 'r, 'l, 'c) cell, 'm) copier \<Rightarrow> (('m, 'r, 'l, 'c) cell, 'r) copier \<Rightarrow> (('m, 'r, 'l, 'c) cell, nat option) copier" where
  "DbcpEntryService_DeepCopy mc rc = new_copy as_entry EntryCell (DbcpEntryService_DeepCopyInto mc rc)"

definition DbcpEntryServiceList_DeepCopy ::
    "(('m, 'r, 'l, 'c) cell, 'm) copier \<Rightarrow> (('m, 'r, 'l, 'c) cell, 'r) copier \<Rightarrow> (('m, 'r, 'l, 'c) cell, 'l) copier \<Rightarrow>
     (('m, 'r, 'l, 'c) cell, nat option) copier" where
  "DbcpEntryServiceList_DeepCopy mc rc lc = new_copy as_list ListCell (DbcpEntryServiceList_DeepCopyInto mc rc lc)"

definition DbcpEntryServiceSpec_DeepCopy :: "(('m, 'r, 'l, 'c) cell, 'r) copier \<Rightarrow> (('m, 'r, 'l, 'c) cell, nat option) copier" where
  "DbcpEntryServiceSpec_DeepCopy rc = new_copy as_spec SpecCell (DbcpEntryServiceSpec_DeepCopyInto rc)"

definition DbcpEntryServiceStatus_DeepCopy :: "(('m, 'r, 'l, 'c) cell, nat option) copier" where
  "DbcpEntryServiceStatus_DeepCopy = new_copy as_status StatusCell DbcpEntryServiceStatus_DeepCopyInto"

definition EntryConfig_DeepCopy :: "(('m, 'r, 'l, 'c) cell, nat option) copier" where
  "EntryConfig_DeepCopy = new_copy as_config ConfigCell EntryConfig_DeepCopyInto"

definition EntryService_DeepCopy :: "(('m, 'r, 'l, 'c) cell, 'r) copier \<Rightarrow> (('m, 'r, 'l, 'c) cell, nat option) copier" where
  "EntryService_DeepCopy rc = new_copy as_service ServiceCell (EntryService_DeepCopyInto rc)"

text \<open>\<^verbatim>\<open>DeepCopyObject\<close>: the pointer as an interface value, where a nil pointer becomes a nil interface.\<close>

definition DbcpEntryService_DeepCopyObject ::
    "(('m, 'r, 'l, 'c) cell, 'm) copier \<Rightarrow> (('m, 'r, 'l, 'c) cell, 'r) copier \<Rightarrow> (('m, 'r, 'l, 'c) cell, nat option) copier" where
  "DbcpEntryService_DeepCopyObject mc rc p w =
     (case DbcpEntryService_DeepCopy mc rc p w of (Some c, w1) \<Rightarrow> (Some c, w1) | (None, w1) \<Rightarrow> (None, w1))"

definition DbcpEntryServiceList_DeepCopyObject ::
    "(('m, 'r, 'l, 'c) cell, 'm) copier \<Rightarrow> (('m, 'r, 'l, 'c) cell, 'r) copier \<Rightarrow> (('m, 'r, 'l, 'c) cell, 'l) copier \<Rightarrow>
     (('m, 'r, 'l, 'c) cell, nat option) copier" where
  "DbcpEntryServiceList_DeepCopyObject mc rc lc p w =
     (case DbcpEntryServiceList_DeepCopy mc rc lc p w of (Some c, w1) \<Rightarrow> (Some c, w1) | (None, w1) \<Rightarrow> (None, w1))"

subsection \<open>The contract\<close>

text \<open>Two memories that hold the same at the addresses \<open>A\<close>.\<close>

definition agree :: "nat set \<Rightarrow> 'c list \<Rightarrow> 'c list \<Rightarrow> bool" where
  "agree A w w' \<longleftrightarrow> (\<forall>a \<in> A. a < length w \<and> a < length w' \<and> w' ! a = w ! a)"

lemma agree_prefix: "A \<subseteq> {..<length w} \<Longrightarrow> prefix w w' \<Longrightarrow> agree A w w'"
  by (auto simp: agree_def prefix_def nth_append subset_iff)

lemma agree_mono: "agree A w w' \<Longrightarrow> B \<subseteq> A \<Longrightarrow> agree B w w'"
  by (auto simp: agree_def)

lemma agree_trans: "agree A w w1 \<Longrightarrow> agree A w1 w2 \<Longrightarrow> agree A w w2"
  by (auto simp: agree_def)

lemma agree_update: "A \<subseteq> {..<length w} \<Longrightarrow> a \<notin> A \<Longrightarrow> agree A w (w[a := c])"
  by (auto simp: agree_def subset_iff) (metis nth_list_update_neq)

text \<open>
  A copier with what the copied struct means in a memory (\<open>val\<close>) and the addresses that depends on (\<open>refs\<close>). A copy
  of a struct whose references are allocated only allocates, has the same value, and refers to new addresses only.
\<close>

locale deep_copy =
  fixes copy :: "('c, 'x) copier"
    and val :: "'c list \<Rightarrow> 'x \<Rightarrow> 'v"
    and refs :: "'c list \<Rightarrow> 'x \<Rightarrow> nat set"
  assumes dc_local: "agree (refs w x) w w' \<Longrightarrow> val w' x = val w x \<and> refs w' x = refs w x"
    and dc_grows: "refs w x \<subseteq> {..<length w} \<Longrightarrow> copy x w = (y, w') \<Longrightarrow> prefix w w'"
    and dc_same: "refs w x \<subseteq> {..<length w} \<Longrightarrow> copy x w = (y, w') \<Longrightarrow> val w' y = val w x"
    and dc_fresh: "refs w x \<subseteq> {..<length w} \<Longrightarrow> copy x w = (y, w') \<Longrightarrow> refs w' y \<subseteq> {length w..<length w'}"
begin

lemma dc_later:
  assumes "refs w x \<subseteq> {..<length w}" "prefix w w'"
  shows "val w' x = val w x" "refs w' x = refs w x"
  using dc_local [OF agree_prefix [OF assms]] by simp_all

text \<open>
  Original and copy are independent: whatever happens later to memory the copy does not refer to leaves the copy as
  it is, and whatever happens to memory allocated by the copying leaves the original.
\<close>

lemma independent:
  assumes "refs w x \<subseteq> {..<length w}" "copy x w = (y, w')"
  shows "agree {length w..<length w'} w' w2 \<Longrightarrow> val w2 y = val w x" "agree {..<length w} w' w2 \<Longrightarrow> val w2 x = val w x"
proof -
  show "val w2 y = val w x" if "agree {length w..<length w'} w' w2"
    using dc_local [OF agree_mono [OF that dc_fresh [OF assms]]] dc_same [OF assms] by simp
  show "val w2 x = val w x" if "agree {..<length w} w' w2"
  proof -
    have p: "prefix w w'" by (rule dc_grows [OF assms])
    have "agree (refs w' x) w' w2" using agree_mono [OF that] assms(1) dc_later(2) [OF assms(1) p] by simp
    then show ?thesis using dc_local dc_later(1) [OF assms(1) p] by simp
  qed
qed


text \<open>A loop over copies.\<close>

lemma all_local:
  assumes "agree (\<Union>x \<in> set xs. refs w x) w w'"
  shows "map (val w') xs = map (val w) xs \<and> (\<Union>x \<in> set xs. refs w' x) = (\<Union>x \<in> set xs. refs w x)"
proof -
  have "val w' x = val w x \<and> refs w' x = refs w x" if "x \<in> set xs" for x
    using that by (intro dc_local agree_mono [OF assms]) blast
  then show ?thesis by simp
qed

lemma all_copy:
  "(\<Union>x \<in> set xs. refs w x) \<subseteq> {..<length w} \<Longrightarrow> copy_all copy xs w = (ys, w') \<Longrightarrow>
     prefix w w' \<and> map (val w') ys = map (val w) xs \<and> (\<Union>y \<in> set ys. refs w' y) \<subseteq> {length w..<length w'}"
proof (induction xs arbitrary: w ys)
  case (Cons x xs)
  obtain y w1 where one: "copy x w = (y, w1)" by fastforce
  obtain zs where rest: "copy_all copy xs w1 = (zs, w')" "ys = y # zs"
    using Cons.prems(2) one by (auto split: prod.splits)
  have x: "refs w x \<subseteq> {..<length w}" and xs: "(\<Union>x \<in> set xs. refs w x) \<subseteq> {..<length w}" using Cons.prems(1) by auto
  have p1: "prefix w w1" by (rule dc_grows [OF x one])
  then have len: "length w \<le> length w1" by (rule prefix_length_le)
  note l = all_local [OF agree_prefix [OF xs p1]]
  have "(\<Union>x \<in> set xs. refs w1 x) \<subseteq> {..<length w1}" using l xs len by auto
  note ih = Cons.IH [OF this rest(1)]
  have f: "refs w1 y \<subseteq> {length w..<length w1}" by (rule dc_fresh [OF x one])
  then have "refs w1 y \<subseteq> {..<length w1}" by auto
  note y = dc_later [OF this conjunct1 [OF ih]]
  have "length w1 \<le> length w'" by (rule prefix_length_le [OF conjunct1 [OF ih]])
  then have "refs w' y \<subseteq> {length w..<length w'}" using f y(2) by auto
  moreover have "(\<Union>y \<in> set zs. refs w' y) \<subseteq> {length w..<length w'}"
    by (rule order_trans [of _ "{length w1..<length w'}"]) (use ih len in auto)
  ultimately have "(\<Union>y \<in> set ys. refs w' y) \<subseteq> {length w..<length w'}" using rest(2) by simp
  moreover have "map (val w') ys = map (val w) (x # xs)" using ih l y(1) dc_same [OF x one] rest(2) by simp
  ultimately show ?case using prefix_order.trans [OF p1 conjunct1 [OF ih]] by simp
qed simp

lemma all_deep: "deep_copy (copy_all copy) (\<lambda>w. map (val w)) (\<lambda>w xs. \<Union>x \<in> set xs. refs w x)"
proof
  show "map (val w') xs = map (val w) xs \<and> (\<Union>x \<in> set xs. refs w' x) = (\<Union>x \<in> set xs. refs w x)"
    if "agree (\<Union>x \<in> set xs. refs w x) w w'" for w w' xs
    using that by (rule all_local)
qed (use all_copy in simp_all)

text \<open>A copy that goes into a cell allocated for it.\<close>

lemma into_cell:
  assumes x: "refs w x \<subseteq> {..<length w}" and c: "copy x (w @ [c0]) = (y, w1)" and w': "w' = w1[length w := c1]"
  shows "prefix w w'" "val w' y = val w x" "refs w' y \<subseteq> {length w..<length w'}" "length w < length w'" "w' ! length w = c1"
proof -
  have p: "prefix w (w @ [c0])" by simp
  have x1: "refs (w @ [c0]) x = refs w x" "val (w @ [c0]) x = val w x" using dc_later [OF x p] by simp_all
  then have x2: "refs (w @ [c0]) x \<subseteq> {..<length (w @ [c0])}" using x by auto
  obtain zs where g: "w1 = (w @ [c0]) @ zs" using dc_grows [OF x2 c] by (auto simp: prefix_def)
  have f: "refs w1 y \<subseteq> {Suc (length w)..<length w1}" using dc_fresh [OF x2 c] by simp
  have w2: "w' = w @ c1 # zs" using w' g by simp
  show "prefix w w'" "length w < length w'" "w' ! length w = c1" by (simp_all add: w2)
  have "agree (refs w1 y) w1 w'" unfolding w' using f by (intro agree_update) auto
  from dc_local [OF this] show "val w' y = val w x" "refs w' y \<subseteq> {length w..<length w'}"
    using dc_same [OF x2 c] x1(2) f w' by auto
qed

end

definition ptr_val :: "('c \<Rightarrow> 'x option) \<Rightarrow> ('c list \<Rightarrow> 'x \<Rightarrow> 'v) \<Rightarrow> 'c list \<Rightarrow> nat option \<Rightarrow> 'v option" where
  "ptr_val get val w p = (case p of None \<Rightarrow> None | Some a \<Rightarrow> map_option (val w) (get (w ! a)))"

definition ptr_refs :: "('c \<Rightarrow> 'x option) \<Rightarrow> ('c list \<Rightarrow> 'x \<Rightarrow> nat set) \<Rightarrow> 'c list \<Rightarrow> nat option \<Rightarrow> nat set" where
  "ptr_refs get refs w p =
     (case p of None \<Rightarrow> {} | Some a \<Rightarrow> insert a (case get (w ! a) of None \<Rightarrow> {} | Some x \<Rightarrow> refs w x))"

context deep_copy
begin

lemma ptr_local:
  assumes "agree (ptr_refs get refs w p) w w'"
  shows "ptr_val get val w' p = ptr_val get val w p \<and> ptr_refs get refs w' p = ptr_refs get refs w p"
proof (cases p)
  case (Some a)
  have a: "w' ! a = w ! a" using assms by (simp add: Some ptr_refs_def agree_def)
  show ?thesis
  proof (cases "get (w ! a)")
    case (Some x)
    then have "agree (refs w x) w w'" using assms \<open>p = Some a\<close> by (auto simp: ptr_refs_def intro: agree_mono)
    from dc_local [OF this] show ?thesis using a Some \<open>p = Some a\<close> by (simp add: ptr_val_def ptr_refs_def)
  qed (use a \<open>p = Some a\<close> in \<open>simp add: ptr_val_def ptr_refs_def\<close>)
qed (simp add: ptr_val_def ptr_refs_def)

lemma ptr_copy:
  assumes gp: "\<And>x. get (put x) = Some x"
    and r: "ptr_refs get refs w p \<subseteq> {..<length w}" and c: "new_copy get put copy p w = (q, w')"
  shows "prefix w w' \<and> ptr_val get val w' q = ptr_val get val w p \<and> ptr_refs get refs w' q \<subseteq> {length w..<length w'}"
proof (cases "\<exists>a x. p = Some a \<and> get (w ! a) = Some x")
  case True
  then obtain a x where p: "p = Some a" "get (w ! a) = Some x" by blast
  obtain y w1 where y: "copy x (w @ [put x]) = (y, w1)" by fastforce
  then have q: "q = Some (length w)" "w' = w1[length w := put y]" using c p by (simp_all add: new_copy_def)
  have "refs w x \<subseteq> {..<length w}" using r p by (simp add: ptr_refs_def)
  note i = into_cell [OF this y q(2)]
  show ?thesis using i p q(1) gp by (auto simp: ptr_val_def ptr_refs_def)
qed (use c in \<open>auto simp: new_copy_def ptr_val_def ptr_refs_def split: option.splits\<close>)

lemma ptr_deep:
  assumes "\<And>x. get (put x) = Some x"
  shows "deep_copy (new_copy get put copy) (ptr_val get val) (ptr_refs get refs)"
  by (unfold_locales; (drule ptr_local | drule (1) ptr_copy [OF assms]); simp)

text \<open>A struct that is copied by copying one part of it: \<open>part\<close> reads it, \<open>upd\<close> replaces it.\<close>

lemma part_deep:
  assumes "\<And>s x. part (upd s x) = x" and "\<And>s x v. whole (upd s x) v = whole s v"
  shows "deep_copy (\<lambda>s w. case copy (part s) w of (y, w1) \<Rightarrow> (upd s y, w1)) (\<lambda>w s. whole s (val w (part s))) (\<lambda>w s. refs w (part s))"
proof
  fix w s s' w'
  assume r: "refs w (part s) \<subseteq> {..<length w}" and c: "(case copy (part s) w of (y, w1) \<Rightarrow> (upd s y, w1)) = (s', w')"
  obtain y where y: "copy (part s) w = (y, w')" "s' = upd s y" using c by (auto split: prod.splits)
  show "prefix w w'" "whole s' (val w' (part s')) = whole s (val w (part s))" "refs w' (part s') \<subseteq> {length w..<length w'}"
    using dc_grows [OF r y(1)] dc_same [OF r y(1)] dc_fresh [OF r y(1)] assms by (simp_all add: y(2))
qed (simp add: dc_local)

end

text \<open>Two parts copied one after the other.\<close>

definition both :: "('c, 'x) copier \<Rightarrow> ('c, 'y) copier \<Rightarrow> ('c, 'x \<times> 'y) copier" where
  "both c d p w = (case c (fst p) w of (x, w1) \<Rightarrow> case d (snd p) w1 of (y, w2) \<Rightarrow> ((x, y), w2))"

locale two_copies = one: deep_copy c u q + two: deep_copy d v r
  for c :: "('c, 'x) copier" and u :: "'c list \<Rightarrow> 'x \<Rightarrow> 'u" and q
    and d :: "('c, 'y) copier" and v :: "'c list \<Rightarrow> 'y \<Rightarrow> 'v" and r
begin

lemma both_local:
  "agree (q w x \<union> r w y) w w' \<Longrightarrow> (u w' x, v w' y) = (u w x, v w y) \<and> q w' x \<union> r w' y = q w x \<union> r w y"
  using one.dc_local [of w x w'] two.dc_local [of w y w'] by (auto simp: agree_def)

lemma both_copy:
  assumes s: "q w (fst p) \<union> r w (snd p) \<subseteq> {..<length w}" and c: "both c d p w = (p', w')"
  shows "prefix w w' \<and> (u w' (fst p'), v w' (snd p')) = (u w (fst p), v w (snd p)) \<and>
    q w' (fst p') \<union> r w' (snd p') \<subseteq> {length w..<length w'}"
proof -
  obtain x w1 y where run: "c (fst p) w = (x, w1)" "d (snd p) w1 = (y, w')" "p' = (x, y)"
    using c by (auto simp: both_def split: prod.splits)
  have s1: "q w (fst p) \<subseteq> {..<length w}" and s2: "r w (snd p) \<subseteq> {..<length w}" using s by auto
  have p1: "prefix w w1" by (rule one.dc_grows [OF s1 run(1)])
  then have len: "length w \<le> length w1" by (rule prefix_length_le)
  note l = two.dc_later [OF s2 p1]
  have s3: "r w1 (snd p) \<subseteq> {..<length w1}" using s2 l(2) len by auto
  have p2: "prefix w1 w'" by (rule two.dc_grows [OF s3 run(2)])
  then have len2: "length w1 \<le> length w'" by (rule prefix_length_le)
  have f: "q w1 x \<subseteq> {length w..<length w1}" by (rule one.dc_fresh [OF s1 run(1)])
  then have "q w1 x \<subseteq> {..<length w1}" by auto
  note k = one.dc_later [OF this p2]
  have "q w' x \<union> r w' y \<subseteq> {length w..<length w'}" using f k(2) two.dc_fresh [OF s3 run(2)] len len2 by fastforce
  then show ?thesis
    using prefix_order.trans [OF p1 p2] k(1) l(1) one.dc_same [OF s1 run(1)] two.dc_same [OF s3 run(2)] by (simp add: run(3))
qed

end

sublocale two_copies \<subseteq> pair: deep_copy "both c d" "\<lambda>w p. (u w (fst p), v w (snd p))" "\<lambda>w p. q w (fst p) \<union> r w (snd p)"
  by (unfold_locales; (drule both_local | drule (1) both_copy); simp)

subsection \<open>Every function of the file meets it\<close>

definition service_val :: "('c list \<Rightarrow> 'r \<Rightarrow> ResourceRequirements) \<Rightarrow> 'c list \<Rightarrow> 'r EntryService_obj \<Rightarrow> EntryService" where
  "service_val rval w s = \<lparr>es_Image = so_Image s, es_Replicas = so_Replicas s, es_Resources = rval w (so_Resources s)\<rparr>"

definition spec_val :: "('c list \<Rightarrow> 'r \<Rightarrow> ResourceRequirements) \<Rightarrow> 'c list \<Rightarrow> 'r Spec_obj \<Rightarrow> DbcpEntryServiceSpec" where
  "spec_val rval w s = \<lparr>spec_Config = po_Config s, spec_Service = service_val rval w (po_Service s)\<rparr>"

definition entry_val ::
    "('c list \<Rightarrow> 'm \<Rightarrow> ObjectMeta) \<Rightarrow> ('c list \<Rightarrow> 'r \<Rightarrow> ResourceRequirements) \<Rightarrow> 'c list \<Rightarrow> ('m, 'r) Entry_obj \<Rightarrow>
     (string \<times> string) \<times> DbcpEntryService" where
  "entry_val mval rval w e =
     (eo_TypeMeta e, \<lparr>entry_meta = mval w (eo_ObjectMeta e), entry_Spec = spec_val rval w (eo_Spec e)\<rparr>)"

definition entry_refs :: "('c list \<Rightarrow> 'm \<Rightarrow> nat set) \<Rightarrow> ('c list \<Rightarrow> 'r \<Rightarrow> nat set) \<Rightarrow> 'c list \<Rightarrow> ('m, 'r) Entry_obj \<Rightarrow> nat set" where
  "entry_refs mrefs rrefs w e = mrefs w (eo_ObjectMeta e) \<union> rrefs w (so_Resources (po_Service (eo_Spec e)))"

lemma EntryConfig_deep: "deep_copy EntryConfig_DeepCopyInto (\<lambda>w x. x) (\<lambda>w x. {})"
  by unfold_locales (simp_all add: EntryConfig_DeepCopyInto_def)

lemma Status_deep: "deep_copy DbcpEntryServiceStatus_DeepCopyInto (\<lambda>w x. x) (\<lambda>w x. {})"
  by unfold_locales (simp_all add: DbcpEntryServiceStatus_DeepCopyInto_def)

interpretation config: deep_copy EntryConfig_DeepCopyInto "\<lambda>w x. x" "\<lambda>w x. {}"
  by (rule EntryConfig_deep)

interpretation status: deep_copy DbcpEntryServiceStatus_DeepCopyInto "\<lambda>w x. x" "\<lambda>w x. {}"
  by (rule Status_deep)

text \<open>What the library promises of its own copiers.\<close>

locale api_copies = meta: deep_copy mc mval mrefs + res: deep_copy rc rval rrefs
  for mc :: "('c, 'm) copier" and mval :: "'c list \<Rightarrow> 'm \<Rightarrow> ObjectMeta" and mrefs
    and rc :: "('c, 'r) copier" and rval :: "'c list \<Rightarrow> 'r \<Rightarrow> ResourceRequirements" and rrefs

sublocale api_copies \<subseteq> service: deep_copy "EntryService_DeepCopyInto rc" "service_val rval" "\<lambda>w s. rrefs w (so_Resources s)"
proof -
  have "EntryService_DeepCopyInto rc = (\<lambda>s w. case rc (so_Resources s) w of (y, w1) \<Rightarrow> (s\<lparr>so_Resources := y\<rparr>, w1))"
    by (simp add: fun_eq_iff EntryService_DeepCopyInto_def)
  then show "deep_copy (EntryService_DeepCopyInto rc) (service_val rval) (\<lambda>w s. rrefs w (so_Resources s))"
    using res.part_deep [of so_Resources "\<lambda>s y. s\<lparr>so_Resources := y\<rparr>"
        "\<lambda>s v. \<lparr>es_Image = so_Image s, es_Replicas = so_Replicas s, es_Resources = v\<rparr>"]
    by (simp add: service_val_def [abs_def])
qed

sublocale api_copies \<subseteq> spec: deep_copy "DbcpEntryServiceSpec_DeepCopyInto rc" "spec_val rval"
    "\<lambda>w s. rrefs w (so_Resources (po_Service s))"
proof -
  have "DbcpEntryServiceSpec_DeepCopyInto rc =
      (\<lambda>s w. case EntryService_DeepCopyInto rc (po_Service s) w of (y, w1) \<Rightarrow> (s\<lparr>po_Service := y\<rparr>, w1))"
    by (simp add: fun_eq_iff DbcpEntryServiceSpec_DeepCopyInto_def)
  then show "deep_copy (DbcpEntryServiceSpec_DeepCopyInto rc) (spec_val rval) (\<lambda>w s. rrefs w (so_Resources (po_Service s)))"
    using service.part_deep [of po_Service "\<lambda>s y. s\<lparr>po_Service := y\<rparr>" "\<lambda>s v. \<lparr>spec_Config = po_Config s, spec_Service = v\<rparr>"]
    by (simp add: spec_val_def [abs_def])
qed

sublocale api_copies \<subseteq> parts: two_copies mc mval mrefs "DbcpEntryServiceSpec_DeepCopyInto rc" "spec_val rval"
    "\<lambda>w s. rrefs w (so_Resources (po_Service s))"
  by unfold_locales

sublocale api_copies \<subseteq> entry: deep_copy "DbcpEntryService_DeepCopyInto mc rc" "entry_val mval rval" "entry_refs mrefs rrefs"
proof -
  have "DbcpEntryService_DeepCopyInto mc rc =
      (\<lambda>s w. case both mc (DbcpEntryServiceSpec_DeepCopyInto rc) (eo_ObjectMeta s, eo_Spec s) w of
         (y, w1) \<Rightarrow> (s\<lparr>eo_ObjectMeta := fst y, eo_Spec := snd y\<rparr>, w1))"
    by (simp add: fun_eq_iff DbcpEntryService_DeepCopyInto_def both_def split: prod.split)
  then show "deep_copy (DbcpEntryService_DeepCopyInto mc rc) (entry_val mval rval) (entry_refs mrefs rrefs)"
    using parts.pair.part_deep [of "\<lambda>s. (eo_ObjectMeta s, eo_Spec s)" "\<lambda>s y. s\<lparr>eo_ObjectMeta := fst y, eo_Spec := snd y\<rparr>"
        "\<lambda>s v. (eo_TypeMeta s, \<lparr>entry_meta = fst v, entry_Spec = snd v\<rparr>)"]
    by (simp add: entry_val_def [abs_def] entry_refs_def [abs_def])
qed

text \<open>Slices of resources, and lists.\<close>

definition items_val ::
    "(('m, 'r, 'l, 'c) cell list \<Rightarrow> 'm \<Rightarrow> ObjectMeta) \<Rightarrow> (('m, 'r, 'l, 'c) cell list \<Rightarrow> 'r \<Rightarrow> ResourceRequirements) \<Rightarrow>
     ('m, 'r, 'l, 'c) cell list \<Rightarrow> (nat \<times> nat \<times> nat) option \<Rightarrow> ((string \<times> string) \<times> DbcpEntryService) list option" where
  "items_val mval rval w s = map_option (\<lambda>sl. map (entry_val mval rval w) (slice_items w sl)) s"

definition items_refs ::
    "(('m, 'r, 'l, 'c) cell list \<Rightarrow> 'm \<Rightarrow> nat set) \<Rightarrow> (('m, 'r, 'l, 'c) cell list \<Rightarrow> 'r \<Rightarrow> nat set) \<Rightarrow>
     ('m, 'r, 'l, 'c) cell list \<Rightarrow> (nat \<times> nat \<times> nat) option \<Rightarrow> nat set" where
  "items_refs mrefs rrefs w s =
     (case s of None \<Rightarrow> {} | Some sl \<Rightarrow> insert (fst sl) (\<Union>e \<in> set (slice_items w sl). entry_refs mrefs rrefs w e))"

definition list_val ::
    "(('m, 'r, 'l, 'c) cell list \<Rightarrow> 'm \<Rightarrow> ObjectMeta) \<Rightarrow> (('m, 'r, 'l, 'c) cell list \<Rightarrow> 'r \<Rightarrow> ResourceRequirements) \<Rightarrow>
     (('m, 'r, 'l, 'c) cell list \<Rightarrow> 'l \<Rightarrow> 'lv) \<Rightarrow> ('m, 'r, 'l, 'c) cell list \<Rightarrow> 'l List_obj \<Rightarrow>
     (string \<times> string) \<times> 'lv \<times> ((string \<times> string) \<times> DbcpEntryService) list option" where
  "list_val mval rval lval w x = (lo_TypeMeta x, lval w (lo_ListMeta x), items_val mval rval w (lo_Items x))"

definition list_refs ::
    "(('m, 'r, 'l, 'c) cell list \<Rightarrow> 'm \<Rightarrow> nat set) \<Rightarrow> (('m, 'r, 'l, 'c) cell list \<Rightarrow> 'r \<Rightarrow> nat set) \<Rightarrow>
     (('m, 'r, 'l, 'c) cell list \<Rightarrow> 'l \<Rightarrow> nat set) \<Rightarrow> ('m, 'r, 'l, 'c) cell list \<Rightarrow> 'l List_obj \<Rightarrow> nat set" where
  "list_refs mrefs rrefs lrefs w x = lrefs w (lo_ListMeta x) \<union> items_refs mrefs rrefs w (lo_Items x)"

lemma slice_items_cong: "w' ! fst sl = w ! fst sl \<Longrightarrow> slice_items w' sl = slice_items w sl"
  by (cases sl) (simp add: slice_items_def)

locale list_copies = api_copies mc mval mrefs rc rval rrefs + lmeta: deep_copy lc lval lrefs
  for mc :: "(('m, 'r, 'l, 'c) cell, 'm) copier" and mval mrefs
    and rc :: "(('m, 'r, 'l, 'c) cell, 'r) copier" and rval rrefs
    and lc :: "(('m, 'r, 'l, 'c) cell, 'l) copier" and lval :: "('m, 'r, 'l, 'c) cell list \<Rightarrow> 'l \<Rightarrow> 'lv" and lrefs
begin

lemma items_local:
  assumes "agree (items_refs mrefs rrefs w s) w w'"
  shows "items_val mval rval w' s = items_val mval rval w s \<and> items_refs mrefs rrefs w' s = items_refs mrefs rrefs w s"
proof (cases s)
  case (Some sl)
  have "slice_items w' sl = slice_items w sl"
    using assms by (intro slice_items_cong) (simp add: Some items_refs_def agree_def)
  moreover have "agree (\<Union>e \<in> set (slice_items w sl). entry_refs mrefs rrefs w e) w w'"
    using assms by (auto simp: Some items_refs_def agree_def)
  ultimately show ?thesis using entry.all_local by (simp add: Some items_val_def items_refs_def)
qed (simp add: items_val_def items_refs_def)

lemma items_copy:
  assumes r: "items_refs mrefs rrefs w s \<subseteq> {..<length w}" and c: "copy_items mc rc s w = (t, w')"
  shows "prefix w w' \<and> items_val mval rval w' t = items_val mval rval w s \<and> items_refs mrefs rrefs w' t \<subseteq> {length w..<length w'}"
proof (cases s)
  case (Some sl)
  let ?xs = "slice_items w sl"
  obtain ys w1 where run: "copy_all (DbcpEntryService_DeepCopyInto mc rc) ?xs (w @ [ItemsCell ?xs]) = (ys, w1)" by fastforce
  have t: "t = Some (length w, 0, length ?xs)" "w' = w1[length w := ItemsCell ys]"
    using c run by (simp_all add: Some copy_items_def Let_def)
  have "(\<Union>e \<in> set ?xs. entry_refs mrefs rrefs w e) \<subseteq> {..<length w}" using r by (simp add: Some items_refs_def)
  note i = deep_copy.into_cell [OF entry.all_deep this run t(2)]
  have "length ys = length ?xs" using i(2) by (metis length_map)
  then have "slice_items w' (length w, 0, length ?xs) = ys" using i(5) by (simp add: slice_items_def)
  then show ?thesis using i by (simp add: Some t(1) items_val_def items_refs_def)
qed (use c in \<open>simp add: copy_items_def items_val_def items_refs_def\<close>)

end

sublocale list_copies \<subseteq> items: deep_copy "copy_items mc rc" "items_val mval rval" "items_refs mrefs rrefs"
  by (unfold_locales; (drule items_local | drule (1) items_copy); simp)

sublocale list_copies \<subseteq> lparts: two_copies lc lval lrefs "copy_items mc rc" "items_val mval rval" "items_refs mrefs rrefs"
  by unfold_locales

sublocale list_copies \<subseteq> lists: deep_copy "DbcpEntryServiceList_DeepCopyInto mc rc lc" "list_val mval rval lval"
    "list_refs mrefs rrefs lrefs"
proof -
  have "DbcpEntryServiceList_DeepCopyInto mc rc lc =
      (\<lambda>s w. case both lc (copy_items mc rc) (lo_ListMeta s, lo_Items s) w of
         (y, w1) \<Rightarrow> (s\<lparr>lo_ListMeta := fst y, lo_Items := snd y\<rparr>, w1))"
    by (simp add: fun_eq_iff DbcpEntryServiceList_DeepCopyInto_def both_def split: prod.split)
  then show "deep_copy (DbcpEntryServiceList_DeepCopyInto mc rc lc) (list_val mval rval lval) (list_refs mrefs rrefs lrefs)"
    using lparts.pair.part_deep [of "\<lambda>s. (lo_ListMeta s, lo_Items s)" "\<lambda>s y. s\<lparr>lo_ListMeta := fst y, lo_Items := snd y\<rparr>"
        "\<lambda>s v. (lo_TypeMeta s, fst v, snd v)"]
    by (simp add: list_val_def [abs_def] list_refs_def [abs_def])
qed

sublocale list_copies \<subseteq> entry_ptr: deep_copy "DbcpEntryService_DeepCopy mc rc" "ptr_val as_entry (entry_val mval rval)"
    "ptr_refs as_entry (entry_refs mrefs rrefs)"
  unfolding DbcpEntryService_DeepCopy_def by (rule entry.ptr_deep) simp

sublocale list_copies \<subseteq> list_ptr: deep_copy "DbcpEntryServiceList_DeepCopy mc rc lc" "ptr_val as_list (list_val mval rval lval)"
    "ptr_refs as_list (list_refs mrefs rrefs lrefs)"
  unfolding DbcpEntryServiceList_DeepCopy_def by (rule lists.ptr_deep) simp

sublocale list_copies \<subseteq> spec_ptr: deep_copy "DbcpEntryServiceSpec_DeepCopy rc" "ptr_val as_spec (spec_val rval)"
    "ptr_refs as_spec (\<lambda>w s. rrefs w (so_Resources (po_Service s)))"
  unfolding DbcpEntryServiceSpec_DeepCopy_def by (rule spec.ptr_deep) simp

sublocale list_copies \<subseteq> service_ptr: deep_copy "EntryService_DeepCopy rc" "ptr_val as_service (service_val rval)"
    "ptr_refs as_service (\<lambda>w s. rrefs w (so_Resources s))"
  unfolding EntryService_DeepCopy_def by (rule service.ptr_deep) simp

context list_copies
begin

lemma list_ptr_deep:
  "deep_copy (DbcpEntryServiceList_DeepCopy mc rc lc) (ptr_val as_list (list_val mval rval lval))
     (ptr_refs as_list (list_refs mrefs rrefs lrefs))"
  by (rule list_ptr.deep_copy_axioms)

end

interpretation config_ptr: deep_copy EntryConfig_DeepCopy "ptr_val as_config (\<lambda>w x. x)" "ptr_refs as_config (\<lambda>w x. {})"
  unfolding EntryConfig_DeepCopy_def by (rule config.ptr_deep) simp

interpretation status_ptr: deep_copy DbcpEntryServiceStatus_DeepCopy "ptr_val as_status (\<lambda>w x. x)" "ptr_refs as_status (\<lambda>w x. {})"
  unfolding DbcpEntryServiceStatus_DeepCopy_def by (rule status.ptr_deep) simp

subsection \<open>A library\<close>

text \<open>
  Copiers that meet the contract: the metadata with its maps of labels and list of finalizers and the resource
  requirements with their two maps, each behind a reference that is copied by allocating what it refers to anew.
\<close>

datatype ext = MapCell gomap | StrsCell "string list"

record meta_obj =
  mo_Namespace :: string
  mo_Name :: string
  mo_Refs :: "nat option \<times> nat option"   \<comment> \<open>labels and finalizers\<close>

type_synonym res_obj = "nat option \<times> nat option"   \<comment> \<open>requests and limits\<close>

type_synonym lib_cell = "(meta_obj, res_obj, string, ext) cell"

definition copy_ref :: "('c, nat option) copier" where
  "copy_ref = new_copy Some (\<lambda>x. x) (\<lambda>x w. (x, w))"

definition meta_copy :: "(lib_cell, meta_obj) copier" where
  "meta_copy s w = (case both copy_ref copy_ref (mo_Refs s) w of (y, w1) \<Rightarrow> (s\<lparr>mo_Refs := y\<rparr>, w1))"

definition map_at :: "lib_cell option \<Rightarrow> gomap" where
  "map_at c = (case c of Some (Ext (MapCell m)) \<Rightarrow> m | _ \<Rightarrow> [])"

definition strs_at :: "lib_cell option \<Rightarrow> string list" where
  "strs_at c = (case c of Some (Ext (StrsCell m)) \<Rightarrow> m | _ \<Rightarrow> [])"

definition refs_val :: "'c list \<Rightarrow> nat option \<times> nat option \<Rightarrow> 'c option \<times> 'c option" where
  "refs_val w p = (ptr_val Some (\<lambda>w x. x) w (fst p), ptr_val Some (\<lambda>w x. x) w (snd p))"

definition refs_of :: "'c list \<Rightarrow> nat option \<times> nat option \<Rightarrow> nat set" where
  "refs_of w p = ptr_refs Some (\<lambda>w x. {}) w (fst p) \<union> ptr_refs Some (\<lambda>w x. {}) w (snd p)"

definition meta_val :: "lib_cell list \<Rightarrow> meta_obj \<Rightarrow> ObjectMeta" where
  "meta_val w s = (meta (mo_Namespace s) (mo_Name s))
     \<lparr>Labels := map_at (fst (refs_val w (mo_Refs s))), Finalizers := strs_at (snd (refs_val w (mo_Refs s)))\<rparr>"

definition res_val :: "lib_cell list \<Rightarrow> res_obj \<Rightarrow> ResourceRequirements" where
  "res_val w s = \<lparr>rr_Requests = map_at (fst (refs_val w s)), rr_Limits = map_at (snd (refs_val w s)), rr_Claims = []\<rparr>"

lemma plain_deep: "deep_copy (\<lambda>x w. (x, w)) (\<lambda>w x. x) (\<lambda>w x. {})"
  by unfold_locales simp_all

lemma copy_ref_deep: "deep_copy copy_ref (ptr_val Some (\<lambda>w x. x)) (ptr_refs Some (\<lambda>w x. {}))"
  unfolding copy_ref_def by (rule deep_copy.ptr_deep [OF plain_deep]) simp

interpretation refs2: two_copies copy_ref "ptr_val Some (\<lambda>w x. x)" "ptr_refs Some (\<lambda>w x. {})"
    copy_ref "ptr_val Some (\<lambda>w x. x)" "ptr_refs Some (\<lambda>w x. {})"
  by (intro two_copies.intro copy_ref_deep)

lemma meta_copy_deep: "deep_copy meta_copy meta_val (\<lambda>w s. refs_of w (mo_Refs s))"
  using refs2.pair.part_deep [of mo_Refs "\<lambda>s y. s\<lparr>mo_Refs := y\<rparr>"
      "\<lambda>s v. (meta (mo_Namespace s) (mo_Name s))\<lparr>Labels := map_at (fst v), Finalizers := strs_at (snd v)\<rparr>"]
  by (simp add: meta_copy_def [abs_def] meta_val_def [abs_def] refs_val_def refs_of_def)

lemma res_copy_deep: "deep_copy (both copy_ref copy_ref) res_val refs_of"
  using refs2.pair.part_deep [of "\<lambda>s. s" "\<lambda>s y. y"
      "\<lambda>s v. \<lparr>rr_Requests = map_at (fst v), rr_Limits = map_at (snd v), rr_Claims = []\<rparr>"]
  by (simp add: res_val_def [abs_def] refs_val_def refs_of_def [abs_def])

interpretation lib: list_copies meta_copy meta_val "\<lambda>w s. refs_of w (mo_Refs s)" "both copy_ref copy_ref" res_val refs_of
    "\<lambda>x w. (x, w)" "\<lambda>w x. x" "\<lambda>w x. {}"
  by (intro list_copies.intro api_copies.intro meta_copy_deep res_copy_deep plain_deep)

subsection \<open>A copied list\<close>

text \<open>
  C18: A deep copy of a list of resources is a new object with the same value, and original and copy are
  independent: whatever is later written to memory that was there before (the original with all it refers to, say
  an object in a cache) leaves the copy's value as it was, and whatever is written to what the copying allocated
  leaves the original's, as long as the library's own copiers keep to this contract.
\<close>

theorem DeepCopy_independent:
  assumes "deep_copy mc mval mrefs" and "deep_copy rc rval rrefs" and "deep_copy lc lval lrefs"
    and "as_list (w ! a) = Some x"
    and "insert a (list_refs mrefs rrefs lrefs w x) \<subseteq> {..<length w}"
    and "DbcpEntryServiceList_DeepCopyObject mc rc lc (Some a) w = (p, w')"
  shows "p = Some (length w) \<and> prefix w w' \<and>
    (\<forall>w2. agree {length w..<length w'} w' w2 \<longrightarrow> ptr_val as_list (list_val mval rval lval) w2 p = Some (list_val mval rval lval w x)) \<and>
    (\<forall>w2. agree {..<length w} w' w2 \<longrightarrow> ptr_val as_list (list_val mval rval lval) w2 (Some a) = Some (list_val mval rval lval w x))"
proof -
  have l: "list_copies mc mval mrefs rc rval rrefs lc lval lrefs"
    using assms(1-3) by (intro list_copies.intro api_copies.intro)
  note d = list_copies.list_ptr_deep [OF l]
  have run: "DbcpEntryServiceList_DeepCopy mc rc lc (Some a) w = (p, w')"
    using assms(6) by (auto simp: DbcpEntryServiceList_DeepCopyObject_def split: prod.splits option.splits)
  have r: "ptr_refs as_list (list_refs mrefs rrefs lrefs) w (Some a) \<subseteq> {..<length w}"
    using assms(4,5) by (simp add: ptr_refs_def)
  have v: "ptr_val as_list (list_val mval rval lval) w (Some a) = Some (list_val mval rval lval w x)"
    using assms(4) by (simp add: ptr_val_def)
  have "p = Some (length w)"
    using run assms(4) by (simp add: DbcpEntryServiceList_DeepCopy_def new_copy_def split: prod.splits)
  then show ?thesis using deep_copy.dc_grows [OF d r run] deep_copy.independent [OF d r run] v by auto
qed

definition cached_list :: "lib_cell list" where
  "cached_list =
     [ListCell \<lparr>lo_TypeMeta = (''DbcpEntryServiceList'', GroupVersion), lo_ListMeta = ''7'', lo_Items = Some (1, 0, 1)\<rparr>,
      ItemsCell [\<lparr>eo_TypeMeta = (''DbcpEntryService'', GroupVersion),
        eo_ObjectMeta = \<lparr>mo_Namespace = ''prod'', mo_Name = ''web'', mo_Refs = (Some 2, Some 3)\<rparr>,
        eo_Spec = \<lparr>po_Config = \<lparr>ec_TargetDB = ''db'', ec_TargetRedis = ''redis:6379'', ec_ServiceExportPort = 80\<rparr>,
          po_Service = \<lparr>so_Image = ''web:1'', so_Replicas = 2, so_Resources = (None, Some 4)\<rparr>\<rparr>, eo_Status = ()\<rparr>],
      Ext (MapCell [(''a'', ''b'')]), Ext (StrsCell [''f'']), Ext (MapCell [(''cpu'', ''1'')])]"

text \<open>The labels of the original are changed in place; the copy keeps its own.\<close>

theorem DeepCopy_independent_witness:
  "case DbcpEntryServiceList_DeepCopyObject meta_copy (both copy_ref copy_ref) (\<lambda>x w. (x, w)) (Some 0) cached_list of (p, w') \<Rightarrow>
     p = Some 5 \<and> ptr_val as_list (list_val meta_val res_val (\<lambda>w x. x)) (w'[2 := Ext (MapCell [])]) p =
       ptr_val as_list (list_val meta_val res_val (\<lambda>w x. x)) cached_list (Some 0)"
proof -
  obtain p w' where run: "DbcpEntryServiceList_DeepCopyObject meta_copy (both copy_ref copy_ref) (\<lambda>x w. (x, w)) (Some 0) cached_list = (p, w')"
    by fastforce
  obtain x where x: "as_list (cached_list ! 0) = Some x" by (simp add: cached_list_def)
  have r: "insert 0 (list_refs (\<lambda>w s. refs_of w (mo_Refs s)) refs_of (\<lambda>w x. {}) cached_list x) \<subseteq> {..<length cached_list}"
    using x by (auto simp: cached_list_def list_refs_def items_refs_def slice_items_def entry_refs_def refs_of_def ptr_refs_def)
  note i = DeepCopy_independent [OF meta_copy_deep res_copy_deep plain_deep x r run]
  have "agree {length cached_list..<length w'} w' (w'[2 := Ext (MapCell [])])"
    by (intro agree_update) (auto simp: cached_list_def)
  then have "ptr_val as_list (list_val meta_val res_val (\<lambda>w x. x)) (w'[2 := Ext (MapCell [])]) p =
      ptr_val as_list (list_val meta_val res_val (\<lambda>w x. x)) cached_list (Some 0)"
    using conjunct1 [OF conjunct2 [OF conjunct2 [OF i]]] x by (subst (2) ptr_val_def) simp
  moreover have "p = Some 5" using i by (simp add: cached_list_def)
  ultimately show ?thesis by (simp add: run)
qed

end
