(* ===== verification/TestUtils.thy ===== *)
theory TestUtils
  imports GoIO GoPath
begin

text \<open>
  The helpers of the end-to-end tests (\<^verbatim>\<open>operator/test/utils/utils.go\<close>): commands run in the project's directory,
  what is installed on the cluster, and \<^verbatim>\<open>UncommentCode\<close>, which edits a file. Shell, file system and environment
  are parameters; what \<^verbatim>\<open>strings\<close> and \<^verbatim>\<open>bufio.Scanner\<close> do is defined.
\<close>

subsection \<open>strings and bufio\<close>

abbreviation newline :: char where
  "newline \<equiv> CHR 0x0A"

fun strings_Index :: "string \<Rightarrow> string \<Rightarrow> nat option" where
  "strings_Index s t =
     (if prefix t s then Some 0
      else case s of [] \<Rightarrow> None | _ # s' \<Rightarrow> map_option Suc (strings_Index s' t))"

declare strings_Index.simps [simp del]

definition strings_Contains :: "string \<Rightarrow> string \<Rightarrow> bool" where
  "strings_Contains s t \<longleftrightarrow> strings_Index s t \<noteq> None"

text \<open>\<^verbatim>\<open>strings.ReplaceAll(s, old, "")\<close> for an \<open>old\<close> that is not empty.\<close>

function remove_all :: "string \<Rightarrow> string \<Rightarrow> string" where
  "remove_all old s =
     (case s of
        [] \<Rightarrow> []
      | c # s' \<Rightarrow>
          if old \<noteq> [] \<and> prefix old s then remove_all old (drop (length old) s) else c # remove_all old s')"
  by pat_completeness auto
termination by (relation "measure (length \<circ> snd)") auto

declare remove_all.simps [simp del]

definition TrimPrefix :: "string \<Rightarrow> string \<Rightarrow> string" where
  "TrimPrefix s p = (if prefix p s then drop (length p) s else s)"

text \<open>
  The tokens a \<^verbatim>\<open>bufio.Scanner\<close> gives before \<^verbatim>\<open>Scan\<close> returns false: the lines without their end (LF or CR LF); an
  empty rest after the last line end is no line. A line that does not fit the buffer of 64 KiB together with its
  end stops the scanner, and with it all that follows.
\<close>

definition MaxScanTokenSize :: nat where
  "MaxScanTokenSize = 64 * 1024"

definition dropCR :: "string \<Rightarrow> string" where
  "dropCR s = (if s \<noteq> [] \<and> last s = CHR 0x0D then butlast s else s)"

definition raw_lines :: "string \<Rightarrow> string list" where
  "raw_lines s = (let ls = split_on newline s in if last ls = [] then butlast ls else ls)"

definition scan_lines :: "string \<Rightarrow> string list" where
  "scan_lines s = map dropCR (takeWhile (\<lambda>l. length l < MaxScanTokenSize) (raw_lines s))"

subsection \<open>Commands\<close>

text \<open>
  The machine the tests run on. \<^verbatim>\<open>CombinedOutput\<close> takes the arguments with the program's name first, the
  directory and the environment, and gives output and error both. What is only written to the test log is left
  out, and of an error's text the quoted names.
\<close>

record 'w machine =
  m_Getwd :: "('w, string) io"
  m_Chdir :: "string \<Rightarrow> ('w, unit) io"
  m_Environ :: "('w, string list) io"
  m_LookupEnv :: "string \<Rightarrow> ('w, string option) io"
  m_CombinedOutput :: "string list \<Rightarrow> string \<Rightarrow> string list \<Rightarrow> ('w, string \<times> go_error option) io"
  m_ReadFile :: "string \<Rightarrow> ('w, bytes) io"
  m_WriteFile :: "string \<Rightarrow> bytes \<Rightarrow> ('w, unit) io"

definition GetProjectDir :: "'w machine \<Rightarrow> ('w, string \<times> go_error option) io" where
  "GetProjectDir m =
     bind_io (try_io (m_Getwd m)) (\<lambda>res.
       return_io (case res of
           Inl e \<Rightarrow> ([], Some (Wrapped ''failed to get current working directory'' e))
         | Inr wd \<Rightarrow> (remove_all ''/test/e2e'' wd, None)))"

definition Run :: "'w machine \<Rightarrow> string list \<Rightarrow> ('w, string \<times> go_error option) io" where
  "Run m args =
     bind_io (GetProjectDir m) (\<lambda>(dir, _).
     bind_io (try_io (m_Chdir m dir)) (\<lambda>_.
     bind_io (m_Environ m) (\<lambda>env.
     bind_io (m_CombinedOutput m args dir (env @ [''GO111MODULE=on''])) (\<lambda>(output, err).
     return_io (output,
       map_option (Wrapped (join_with (CHR '' '') args @ '' failed with error '' @ output)) err)))))"

definition prometheusOperatorVersion :: string where
  "prometheusOperatorVersion = ''v0.77.1''"

definition prometheusOperatorURL :: string where
  "prometheusOperatorURL =
     ''https://github.com/prometheus-operator/prometheus-operator/'' @ ''releases/download/'' @
     prometheusOperatorVersion @ ''/bundle.yaml''"

definition certmanagerVersion :: string where
  "certmanagerVersion = ''v1.16.3''"

definition certmanagerURL :: string where
  "certmanagerURL =
     ''https://github.com/cert-manager/cert-manager/releases/download/'' @ certmanagerVersion @ ''/cert-manager.yaml''"

definition InstallPrometheusOperator :: "'w machine \<Rightarrow> ('w, go_error option) io" where
  "InstallPrometheusOperator m =
     bind_io (Run m [''kubectl'', ''create'', ''-f'', prometheusOperatorURL]) (\<lambda>(_, err). return_io err)"

definition UninstallPrometheusOperator :: "'w machine \<Rightarrow> ('w, unit) io" where
  "UninstallPrometheusOperator m =
     bind_io (Run m [''kubectl'', ''delete'', ''-f'', prometheusOperatorURL]) (\<lambda>_. return_io ())"

definition UninstallCertManager :: "'w machine \<Rightarrow> ('w, unit) io" where
  "UninstallCertManager m =
     bind_io (Run m [''kubectl'', ''delete'', ''-f'', certmanagerURL]) (\<lambda>_. return_io ())"

definition InstallCertManager :: "'w machine \<Rightarrow> ('w, go_error option) io" where
  "InstallCertManager m =
     bind_io (Run m [''kubectl'', ''apply'', ''-f'', certmanagerURL]) (\<lambda>(_, err).
       case err of
         Some e \<Rightarrow> return_io (Some e)
       | None \<Rightarrow>
           bind_io (Run m [''kubectl'', ''wait'', ''deployment.apps/cert-manager-webhook'',
             ''--for'', ''condition=Available'', ''--namespace'', ''cert-manager'', ''--timeout'', ''5m'']) (\<lambda>(_, err).
           return_io err))"

definition GetNonEmptyLines :: "string \<Rightarrow> string list" where
  "GetNonEmptyLines output = filter (\<lambda>element. element \<noteq> []) (split_on newline output)"

text \<open>The two nested loops both searches end with.\<close>

definition any_crd :: "string list \<Rightarrow> string list \<Rightarrow> bool" where
  "any_crd crds crdList \<longleftrightarrow> list_ex (\<lambda>crd. list_ex (\<lambda>line. strings_Contains line crd) crdList) crds"

definition crds_installed :: "'w machine \<Rightarrow> string list \<Rightarrow> string list \<Rightarrow> ('w, bool) io" where
  "crds_installed m args crds =
     bind_io (Run m args) (\<lambda>(output, err).
       return_io (err = None \<and> any_crd crds (GetNonEmptyLines output)))"

definition prometheusCRDs :: "string list" where
  "prometheusCRDs = [''prometheuses.monitoring.coreos.com'', ''prometheusrules.monitoring.coreos.com'',
     ''prometheusagents.monitoring.coreos.com'']"

definition IsPrometheusCRDsInstalled :: "'w machine \<Rightarrow> ('w, bool) io" where
  "IsPrometheusCRDsInstalled m =
     crds_installed m [''kubectl'', ''get'', ''crds'', ''-o'', ''custom-columns=NAME:.metadata.name''] prometheusCRDs"

definition certManagerCRDs :: "string list" where
  "certManagerCRDs = [''certificates.cert-manager.io'', ''issuers.cert-manager.io'', ''clusterissuers.cert-manager.io'',
     ''certificaterequests.cert-manager.io'', ''orders.acme.cert-manager.io'', ''challenges.acme.cert-manager.io'']"

definition IsCertManagerCRDsInstalled :: "'w machine \<Rightarrow> ('w, bool) io" where
  "IsCertManagerCRDsInstalled m = crds_installed m [''kubectl'', ''get'', ''crds''] certManagerCRDs"

definition LoadImageToKindClusterWithName :: "'w machine \<Rightarrow> string \<Rightarrow> ('w, go_error option) io" where
  "LoadImageToKindClusterWithName m name =
     bind_io (m_LookupEnv m ''KIND_CLUSTER'') (\<lambda>v.
     bind_io (Run m [''kind'', ''load'', ''docker-image'', name, ''--name'', (case v of Some c \<Rightarrow> c | None \<Rightarrow> ''kind'')])
       (\<lambda>(_, err). return_io err))"

subsection \<open>UncommentCode\<close>

text \<open>The loop over the scanner: a line end between two lines, none after the last.\<close>

fun uncomment_lines :: "string \<Rightarrow> string list \<Rightarrow> string" where
  "uncomment_lines p [] = []"
| "uncomment_lines p [t] = TrimPrefix t p"
| "uncomment_lines p (t # ts) = TrimPrefix t p @ newline # uncomment_lines p ts"

definition UncommentCode :: "'w machine \<Rightarrow> string \<Rightarrow> string \<Rightarrow> string \<Rightarrow> ('w, unit) io" where
  "UncommentCode m filename target p =
     bind_io (try_io (m_ReadFile m filename)) (\<lambda>res.
       case res of
         Inl e \<Rightarrow> fail_io (Wrapped ''failed to read file'' e)
       | Inr content \<Rightarrow>
           (case strings_Index content target of
              None \<Rightarrow> fail_io (Errorf ''unable to find the code to be uncomment'')
            | Some idx \<Rightarrow>
                if scan_lines target = [] then return_io ()
                else
                  let out = take idx content @ uncomment_lines p (scan_lines target) @
                            drop (idx + length target) content in
                  bind_io (try_io (m_WriteFile m filename out)) (\<lambda>res.
                    case res of
                      Inl e \<Rightarrow> fail_io (Wrapped ''failed to write file'' e)
                    | Inr _ \<Rightarrow> return_io ())))"

subsection \<open>What the editing does\<close>

definition commented :: "string \<Rightarrow> string list \<Rightarrow> string" where
  "commented p ls = join_with newline (map (\<lambda>l. p @ l) ls)"

text \<open>A line the scanner gives back as it is.\<close>

definition plain_line :: "string \<Rightarrow> bool" where
  "plain_line l \<longleftrightarrow> newline \<notin> set l \<and> (l = [] \<or> last l \<noteq> CHR 0x0D) \<and> length l < MaxScanTokenSize"

lemma split_on_join_end: "ls \<noteq> [] \<Longrightarrow> \<forall>l \<in> set ls. c \<notin> set l \<Longrightarrow> split_on c (join_with c ls @ [c]) = ls @ [[]]"
  by (induction c ls rule: join_with.induct) auto

lemma dropCR_plain: "plain_line l \<Longrightarrow> dropCR l = l"
  by (auto simp: dropCR_def plain_line_def)

lemma scan_plain:
  assumes "ls \<noteq> []" "\<forall>l \<in> set ls. plain_line l"
  shows "last ls \<noteq> [] \<Longrightarrow> scan_lines (join_with newline ls) = ls" "scan_lines (join_with newline ls @ [newline]) = ls"
proof -
  have "\<forall>l \<in> set ls. newline \<notin> set l" using assms(2) by (simp add: plain_line_def)
  note s = split_join [OF assms(1) this] split_on_join_end [OF assms(1) this]
  have t: "takeWhile (\<lambda>l. length l < MaxScanTokenSize) ls = ls" "map dropCR ls = ls"
    using assms(2) by (auto simp: takeWhile_eq_all_conv plain_line_def dropCR_plain intro: map_idI)
  show "last ls \<noteq> [] \<Longrightarrow> scan_lines (join_with newline ls) = ls" "scan_lines (join_with newline ls @ [newline]) = ls"
    by (simp_all add: scan_lines_def raw_lines_def s t del: takeWhile_eq_all_conv)
qed

lemma TrimPrefix_append [simp]: "TrimPrefix (p @ l) p = l"
  by (simp add: TrimPrefix_def)

lemma uncomment_commented: "uncomment_lines p (map (\<lambda>l. p @ l) ls) = join_with newline ls"
  by (induction p ls rule: uncomment_lines.induct) simp_all

lemma UncommentCode_run:
  assumes "m_ReadFile m f w = (Inr (pre @ target @ post), w1)"
    and "strings_Index (pre @ target @ post) target = Some (length pre)"
    and "scan_lines target = map (\<lambda>l. p @ l) ls" and "ls \<noteq> []"
    and "m_WriteFile m f (pre @ join_with newline ls @ post) w1 = (Inr (), w')"
  shows "UncommentCode m f target p w = (Inr (), w')"
  using assms by (simp add: UncommentCode_def bind_io_try uncomment_commented)

text \<open>
  C40: \<^verbatim>\<open>UncommentCode\<close> undoes the commenting of a block of lines. When the block, each line behind the prefix, stands in
  the file (at its first occurrence there), the file is written back with the lines without the prefix and with
  all that is before and after the block unchanged, for lines of less than 64 KiB that do not end in a carriage
  return. A target that is not in the file is an error, and nothing is written.
\<close>

theorem UncommentCode_restores:
  assumes "ls \<noteq> []" and "p \<noteq> []" and "\<forall>l \<in> set ls. plain_line (p @ l)"
    and "strings_Index (pre @ commented p ls @ post) (commented p ls) = Some (length pre)"
    and "m_ReadFile m f w = (Inr (pre @ commented p ls @ post), w1)"
    and "m_WriteFile m f (pre @ join_with newline ls @ post) w1 = (Inr (), w')"
  shows "UncommentCode m f (commented p ls) p w = (Inr (), w') \<and>
    (\<forall>t. \<not> strings_Contains (pre @ commented p ls @ post) t \<longrightarrow> (\<exists>e. UncommentCode m f t p w = (Inl e, w1)))"
proof
  have "scan_lines (commented p ls) = map (\<lambda>l. p @ l) ls"
    unfolding commented_def using assms(1-3) by (intro scan_plain(1)) (auto simp: last_map)
  then show "UncommentCode m f (commented p ls) p w = (Inr (), w')" by (rule UncommentCode_run [OF assms(5,4) _ assms(1,6)])
  show "\<forall>t. \<not> strings_Contains (pre @ commented p ls @ post) t \<longrightarrow> (\<exists>e. UncommentCode m f t p w = (Inl e, w1))"
    using assms(5) by (simp add: UncommentCode_def bind_io_try strings_Contains_def)
qed

text \<open>
  The line end of a target that ends with one is not written back: the last line is joined with what follows the
  block in the file.
\<close>

theorem UncommentCode_joins_lines:
  assumes "ls \<noteq> []" and "\<forall>l \<in> set ls. plain_line (p @ l)"
    and "strings_Index (pre @ (commented p ls @ [newline]) @ post) (commented p ls @ [newline]) = Some (length pre)"
    and "m_ReadFile m f w = (Inr (pre @ (commented p ls @ [newline]) @ post), w1)"
    and "m_WriteFile m f (pre @ join_with newline ls @ post) w1 = (Inr (), w')"
  shows "UncommentCode m f (commented p ls @ [newline]) p w = (Inr (), w')"
proof -
  have "scan_lines (commented p ls @ [newline]) = map (\<lambda>l. p @ l) ls"
    unfolding commented_def using assms(1,2) by (intro scan_plain(2)) auto
  then show ?thesis by (rule UncommentCode_run [OF assms(4,3) _ assms(1,5)])
qed

subsection \<open>A machine with files only\<close>

definition disk_machine :: "(string \<Rightarrow> bytes option) machine" where
  "disk_machine = \<lparr>m_Getwd = return_io ''/op/test/e2e'', m_Chdir = (\<lambda>_. return_io ()), m_Environ = return_io [],
     m_LookupEnv = (\<lambda>_. return_io None), m_CombinedOutput = (\<lambda>_ _ _. return_io ([], None)),
     m_ReadFile = (\<lambda>f w. (of_option (Sentinel OsErrNotExist) (w f), w)),
     m_WriteFile = (\<lambda>f d w. (Inr (), w(f \<mapsto> d)))\<rparr>"

theorem UncommentCode_restores_witness:
  "UncommentCode disk_machine ''k.yaml'' (commented ''#'' [''- a'', ''- b'']) ''#''
       [''k.yaml'' \<mapsto> ''x:'' @ [newline] @ commented ''#'' [''- a'', ''- b''] @ [newline] @ ''y''] =
     (Inr (), [''k.yaml'' \<mapsto> ''x:'' @ [newline] @ join_with newline [''- a'', ''- b''] @ [newline] @ ''y''])"
proof -
  let ?c = "(''x:'' @ [newline]) @ commented ''#'' [''- a'', ''- b''] @ ([newline] @ ''y'')"
  have i: "strings_Index ?c (commented ''#'' [''- a'', ''- b'']) = Some (length (''x:'' @ [newline]))"
    by (simp add: strings_Index.simps commented_def)
  have l: "\<forall>l \<in> set [''- a'', ''- b'']. plain_line (''#'' @ l)"
    by (simp add: plain_line_def MaxScanTokenSize_def)
  have "UncommentCode disk_machine ''k.yaml'' (commented ''#'' [''- a'', ''- b'']) ''#'' [''k.yaml'' \<mapsto> ?c] =
     (Inr (), [''k.yaml'' \<mapsto> (''x:'' @ [newline]) @ join_with newline [''- a'', ''- b''] @ ([newline] @ ''y'')])"
    by (rule conjunct1 [OF UncommentCode_restores [OF _ _ l i, where ?w1.0 = "[''k.yaml'' \<mapsto> ?c]"]]) (simp_all add: disk_machine_def of_option_def)
  then show ?thesis by simp
qed

end
