(* ===== verification/Spec2Isabelle.thy ===== *)
theory Spec2Isabelle
  imports Gateway HttpSpec Launch SeedLogin Pictures OperatorSync DeepCopy TestUtils
begin

text \<open>
  Verification of the cloud-native entry task: a user service and the Kubernetes controllers that
  deploy it.

  \<^bold>\<open>The program.\<close> A browser talks HTTP to the gateway (\<^verbatim>\<open>internal/httpapi\<close>). The gateway keeps no users:
  for every request it dials the TCP backend, sends one length-prefixed JSON request and reads one
  response (\<^verbatim>\<open>internal/protocol\<close>). The backend (\<^verbatim>\<open>internal/service/tcp_server.go\<close>) reads requests on many
  connections, queues them for a pool of workers and answers each on its own channel. A worker calls
  the service (\<^verbatim>\<open>internal/service/service.go\<close>): login with salted PBKDF2 hashes, signed tokens with an
  expiry, profiles, nicknames and pictures. Users live in MySQL (\<^verbatim>\<open>internal/store/mysqlstore\<close>), sessions
  and cached pictures in Redis (\<^verbatim>\<open>internal/store/redisstore\<close>), pictures in files. \<^verbatim>\<open>cmd/seed\<close> fills the
  table. A pod of this program is deployed for each custom resource by an operator
  (\<^verbatim>\<open>operator/internal/controller\<close>), and in an older variant by a polling controller
  (\<^verbatim>\<open>cloud_native_entry_task/controllers\<close>).

  \<^bold>\<open>Conventions.\<close> Go strings and byte slices are lists of bytes; \<^verbatim>\<open>uint32\<close> lengths are 32-bit words; 64-bit
  integers are \<open>int\<close> or \<open>nat\<close> with their bounds or wrap-around written out where they can be reached.
  Errors are values of \<open>go_error\<close>, a fallible function gives \<open>go_error + 'a\<close>; a panic is the value \<open>Panic\<close>
  that no code catches. Calls with effects are functions from a world to a result and a world (theory
  \<open>GoIO\<close>); what lies outside of the program (network, database, operating system, API server, multipart
  parser) is an argument, a record of calls.

  \<^bold>\<open>Theories.\<close>
  \<^item> Ground: \<open>Prelude\<close>, \<open>GoErrors\<close>, \<open>GoStrings\<close>, \<open>GoBinary\<close>, \<open>GoText\<close>, \<open>GoIO\<close>, \<open>GoPath\<close>, \<open>GoMime\<close>, \<open>GoDuration\<close>, \<open>GoFlag\<close>,
    \<open>Base64\<close>, \<open>Crypto\<close> (SHA-256, HMAC, PBKDF2), \<open>JsonText\<close>, \<open>JsonScan\<close>, \<open>JsonObject\<close>, \<open>JsonRaw\<close>, \<open>JsonSize\<close>: what the program
    uses of Go's standard library, executable. The locale \<open>byte_codec\<close> states a round trip once; numbers,
    hex, base64, token claims, cached pictures and every message body are interpretations of it.
  \<^item> \<open>Frame\<close>, \<open>Protocol\<close>: the wire format. Frames and messages are read back as written, reading is bounded by
    the frame limit.
  \<^item> \<open>Token\<close>, \<open>Password\<close>, \<open>ServiceErrors\<close>: tokens are accepted for their user until they expire and only with
    this server's signature; stored hashes verify exactly their password.
  \<^item> \<open>Config\<close>: defaults, file, environment and validation of \<^verbatim>\<open>config.go\<close>.
  \<^item> \<open>RedisStore\<close>: the RESP client. \<open>RedisServer\<close> states as locales what a session store, a picture cache and a
    Redis server promise and derives the first two from the third; \<open>RedisReference\<close> is an executable server
    that keeps the promise, reached by real command bytes.
  \<^item> \<open>MysqlStore\<close>, \<open>MysqlReference\<close>: queries, scans and error mapping, the contract \<open>user_store\<close> and a reference
    database that keeps it.
  \<^item> \<open>Service\<close>, \<open>ServiceCalm\<close>: all operations, who gets through, what an upload may do, and that no request
    makes a handler panic.
  \<^item> \<open>System\<close>: the service on the reference stores, as \<^verbatim>\<open>cmd/tcpd\<close> puts it together; the life of a session.
  \<^item> \<open>Isolation\<close>, \<open>Pictures\<close>: the locale \<open>isolated\<close> says which part of a world an operation leaves alone; a request
    changes no row but its own user's. An uploaded picture is served back byte for byte, from cache or file.
  \<^item> \<open>TcpServer\<close>, \<open>TcpLive\<close>: the concurrent server as a step relation with its reachable states. Every
    connection gets its answers in order; every waiting request can be answered; the only panic of its
    own is the send to the closed queue at shutdown.
  \<^item> \<open>HttpCookie\<close>, \<open>TcpClient\<close>, \<open>HttpApi\<close>, \<open>HttpSpec\<close>: the gateway, with routing, cookies, body limits and error
    mapping, over an arbitrary network.
  \<^item> \<open>Backend\<close>, \<open>Gateway\<close>: one exchange with the backend, that the step relation refines it, and a whole session
    over HTTP through all parts.
  \<^item> \<open>Seed\<close>: the batches of \<^verbatim>\<open>cmd/seed\<close> cover all users, in any order of the workers.
  \<^item> \<open>Startup\<close>, \<open>SeedLogin\<close>: the \<^verbatim>\<open>main\<close> functions of \<^verbatim>\<open>cmd/tcpd\<close>, \<^verbatim>\<open>cmd/httpd\<close>, \<^verbatim>\<open>cmd/migrate\<close> and \<^verbatim>\<open>cmd/seed\<close>, from the
    command line to an exit code or to the serving state. What holds of every state a tcpd process reaches; every
    seeded user can log in.
  \<^item> \<open>Kube\<close>, \<open>Operator\<close>, \<open>OperatorPods\<close>, \<open>OperatorCluster\<close>, \<open>KubeReference\<close>: the operator's reconciliation over an API
    given by the locales \<open>pod_store\<close>, \<open>operator_api\<close>, \<open>kube_cluster\<close> and \<open>operator_up\<close>, and an in-memory cluster that
    interprets them: convergence of the pods, safe deletion, the reconciled state.
  \<^item> \<open>OperatorSync\<close>: \<^verbatim>\<open>SetupWithManager\<close> and its periodic full synchronisation, after which all resources are in their
    desired state at once.
  \<^item> \<open>DeepCopy\<close>: the generated deep copies over an explicit memory. The locale \<open>deep_copy\<close> is what a copier promises (the
    same value, new addresses only); it is carried from the library's copiers to every function of the file.
  \<^item> \<open>TestUtils\<close>: the helpers of the end-to-end tests; uncommenting a block of a file restores it.
  \<^item> \<open>Deployment\<close>: what the operator writes is what the program reads: a pod's environment loads, the
    service reaches the pods, signing keys are per resource.
  \<^item> \<open>Controllers\<close>, \<open>ControllersSpec\<close>: the polling controller, that over the pods it is the same program as the
    operator, that the desired state is steady, and where it panics.
  \<^item> \<open>Launch\<close>: the \<^verbatim>\<open>main\<close> functions of the operator (flags, TLS options, certificate watchers, options of the manager) and
    of the polling controller (choice of the cluster configuration, the loop until the signal).

  \<^bold>\<open>Bounds and granularity.\<close> Recursions over data are total by structure or by a measure; the loop over
  the seeding batches, whose counter may wrap around, is a partial function that is proved to return. JSON
  nesting is limited to Go's 10000 levels. In the server's step relation a step is what a goroutine does
  between two points where it can be held up; a handler runs in one step, and so do a reconciliation of
  one resource and a batch of the seeding.

  \<^bold>\<open>Not modelled.\<close> Logging. Signals are a step of the server or the end of a given number of ticks; \<^verbatim>\<open>net/http\<close>, TLS,
  controller-runtime, client-go and the certificate watchers are parameters; timeouts are only errors that end a
  connection or a query. The test cases themselves are not modelled. Two requests of the same user that run at the same
  time on different workers are not interleaved inside their handlers, and neither are two batches of the seeding
  or two reconciliations.
\<close>

end
